(* ===== verification/Upf_Prelude.thy ===== *)
theory Upf_Prelude
  imports Main "HOL-Library.Word" "HOL-Library.While_Combinator"
begin

text \<open>
  Shared vocabulary of the development: the machine integers of Go, the results of Go
  functions (a value, a returned error, a panic), loops over slices, and Go maps.

  A Go function that may fail and that works on shared state is an operation
  \<open>'s \<Rightarrow> 'a res \<times> 's\<close>: it takes the state and gives back its result and the new
  state, also when the result is an error, because Go code keeps whatever it changed
  before an early return. \<open>for_range\<close> is a \<open>for _, x := range xs\<close> loop whose body may
  return early, and \<open>seq_ops\<close> is a block of such loops.

  A Go map is a HOL map. The order in which \<open>range\<close> visits a map is unspecified in Go:
  loops over maps take the visiting order from a function of the environment, and
  \<open>enumerates\<close> says what the language promises of it (every entry exactly once).
\<close>

section \<open>Machine integers, results and errors\<close>

type_synonym u8 = "8 word"
type_synonym u16 = "16 word"
type_synonym u32 = "32 word"
type_synonym u64 = "64 word"
type_synonym bytes = "u8 list"

text \<open>\<open>net.IP\<close> and \<open>net.IPMask\<close> are byte slices; \<^term>\<open>None\<close> is the nil slice.\<close>

type_synonym IP = "bytes option"

text \<open>
  Errors are values. \<open>ErrLibrary\<close> is an error that a called library returned (its text is
  only logged), \<open>ErrText\<close> is an error made by \<open>fmt.Errorf\<close> or \<open>errors.New\<close>, and the
  two named errors are the variables of \<open>pfcp_session_handlers.go\<close>.
\<close>

datatype goerror =
    ErrLibrary
  | ErrText string
  | ErrMandatoryIeMissing
  | ErrNoEstablishedAssociation

datatype panic = NilDereference | IndexOutOfRange | NilMapWrite

datatype 'a res = Val 'a | Err goerror | Panic panic

type_synonym ('s, 'a) op = "'s \<Rightarrow> 'a res \<times> 's"

fun is_panic :: "'a res \<Rightarrow> bool" where
  "is_panic (Panic p) = True"
| "is_panic (Val a) = False"
| "is_panic (Err e) = False"

fun is_val :: "'a res \<Rightarrow> bool" where
  "is_val (Val a) = True"
| "is_val (Err e) = False"
| "is_val (Panic p) = False"

text \<open>A call without state whose result is used only when there is no error.\<close>

fun bind_res :: "'a res \<Rightarrow> ('a \<Rightarrow> 'b res) \<Rightarrow> 'b res" where
  "bind_res (Val a) f = f a"
| "bind_res (Err e) f = Err e"
| "bind_res (Panic p) f = Panic p"

text \<open>No panic, and every returned value has the property.\<close>

fun res_all :: "('a \<Rightarrow> bool) \<Rightarrow> 'a res \<Rightarrow> bool" where
  "res_all P (Val a) = P a"
| "res_all P (Err e) = True"
| "res_all P (Panic p) = False"

section \<open>Blocks and loops that may return early\<close>

definition bind_op :: "('s, 'a) op \<Rightarrow> ('a \<Rightarrow> ('s, 'b) op) \<Rightarrow> ('s, 'b) op" where
  "bind_op f g s =
     (case f s of
        (Val a, s') \<Rightarrow> g a s'
      | (Err e, s') \<Rightarrow> (Err e, s')
      | (Panic p, s') \<Rightarrow> (Panic p, s'))"

primrec for_range :: "('x \<Rightarrow> ('s, unit) op) \<Rightarrow> 'x list \<Rightarrow> ('s, unit) op" where
  "for_range body [] s = (Val (), s)"
| "for_range body (x # xs) s = bind_op (body x) (\<lambda>_. for_range body xs) s"

primrec seq_ops :: "('s, unit) op list \<Rightarrow> ('s, unit) op" where
  "seq_ops [] s = (Val (), s)"
| "seq_ops (f # fs) s = bind_op f (\<lambda>_. seq_ops fs) s"

section \<open>Go maps\<close>

definition map_get :: "('k \<rightharpoonup> 'v) \<Rightarrow> 'k \<Rightarrow> 'v \<Rightarrow> 'v" where
  "map_get m k zero = (case m k of None \<Rightarrow> zero | Some v \<Rightarrow> v)"

definition enumerates :: "('k \<times> 'v) list \<Rightarrow> ('k \<rightharpoonup> 'v) \<Rightarrow> bool" where
  "enumerates xs m \<longleftrightarrow> distinct (map fst xs) \<and> map_of xs = m"

text \<open>One order a \<open>range\<close> loop may take: by ascending key.\<close>

definition ascending :: "('k::linorder \<rightharpoonup> 'v) \<Rightarrow> ('k \<times> 'v) list" where
  "ascending m = map (\<lambda>k. (k, the (m k))) (sorted_list_of_set (dom m))"

section \<open>Collections of facts\<close>

named_theorems go_simps \<open>unfolding rules for the Go combinators\<close>

section \<open>Lemmas on results, blocks and loops\<close>

lemma res_all_bind:
  "res_all P r \<Longrightarrow> (\<And>a. P a \<Longrightarrow> res_all Q (f a)) \<Longrightarrow> res_all Q (bind_res r f)"
  by (cases r) auto

lemma bind_res_eq_Err:
  "bind_res r f = Err e \<longleftrightarrow> r = Err e \<or> (\<exists>a. r = Val a \<and> f a = Err e)"
  by (cases r) auto

lemma bind_op_Val [simp]: "f s = (Val a, s') \<Longrightarrow> bind_op f g s = g a s'"
  by (simp add: bind_op_def)

lemma bind_op_Err [simp]: "f s = (Err e, s') \<Longrightarrow> bind_op f g s = (Err e, s')"
  by (simp add: bind_op_def)

lemma bind_op_Panic [simp]: "f s = (Panic p, s') \<Longrightarrow> bind_op f g s = (Panic p, s')"
  by (simp add: bind_op_def)

lemma bind_op_cases:
  obtains (val) a s' where "f s = (Val a, s')" "bind_op f g s = g a s'"
  | (err) e s' where "f s = (Err e, s')" "bind_op f g s = (Err e, s')"
  | (panic) p s' where "f s = (Panic p, s')" "bind_op f g s = (Panic p, s')"
proof (cases "f s")
  case (Pair r s')
  then show ?thesis using val err panic by (cases r) (auto simp: bind_op_def)
qed

lemma bind_op_eq_Val:
  "bind_op f g s = (Val b, t) \<longleftrightarrow> (\<exists>a s'. f s = (Val a, s') \<and> g a s' = (Val b, t))"
  by (rule bind_op_cases [of f s g]) auto

text \<open>
  A property of the state that the body keeps, whatever it returns, is kept by the loop;
  a property that only the non-panicking runs keep is covered by taking it as \<open>I\<close> of
  states reached so far.
\<close>

lemma for_range_keeps:
  assumes "\<And>x s. x \<in> set xs \<Longrightarrow> I s \<Longrightarrow> I (snd (body x s))" and "I s"
  shows "I (snd (for_range body xs s))"
  using assms
proof (induction xs arbitrary: s)
  case Nil
  then show ?case by simp
next
  case (Cons x xs)
  have step: "I (snd (body x s))" using Cons.prems by simp
  show ?case
  proof (cases rule: bind_op_cases [of "body x" s "\<lambda>_. for_range body xs"])
    case (val a s')
    with step have "I s'" by simp
    with Cons.IH [of s'] Cons.prems(1) have "I (snd (for_range body xs s'))" by simp
    with val show ?thesis by simp
  qed (use step in simp_all)
qed

lemma seq_ops_keeps:
  assumes "\<And>f s. f \<in> set fs \<Longrightarrow> I s \<Longrightarrow> I (snd (f s))" and "I s"
  shows "I (snd (seq_ops fs s))"
  using assms
proof (induction fs arbitrary: s)
  case Nil
  then show ?case by simp
next
  case (Cons f fs)
  have step: "I (snd (f s))" using Cons.prems by simp
  show ?case
  proof (cases rule: bind_op_cases [of f s "\<lambda>_. seq_ops fs"])
    case (val a s')
    with step have "I s'" by simp
    with Cons.IH [of s'] Cons.prems(1) have "I (snd (seq_ops fs s'))" by simp
    with val show ?thesis by simp
  qed (use step in simp_all)
qed

lemma for_range_Val_Cons:
  "for_range body (x # xs) s = (Val (), t) \<longleftrightarrow>
     (\<exists>s'. body x s = (Val (), s') \<and> for_range body xs s' = (Val (), t))"
  by (simp add: bind_op_eq_Val)

section \<open>Lemmas on machine integers\<close>

lemma unat32_of_nat: "k < 2 ^ 32 \<Longrightarrow> unat (of_nat k :: u32) = k"
  by (simp add: unat_of_nat)

lemma unat32_lt: "unat (w :: u32) < 2 ^ 32"
  using unsigned_less [of w] by simp

lemma inj_on_of_nat32: "inj_on (of_nat :: nat \<Rightarrow> u32) {..< 2 ^ 32}"
  by (rule inj_onI) (metis lessThan_iff unat32_of_nat)

section \<open>Lemmas on Go maps\<close>

lemma map_get_Some [simp]: "m k = Some v \<Longrightarrow> map_get m k z = v"
  by (simp add: map_get_def)

lemma map_get_None [simp]: "m k = None \<Longrightarrow> map_get m k z = z"
  by (simp add: map_get_def)

lemma enumerates_finite: "enumerates xs m \<Longrightarrow> finite (dom m)"
  by (auto simp: enumerates_def finite_dom_map_of)

lemma enumerates_mem: "enumerates xs m \<Longrightarrow> (k, v) \<in> set xs \<longleftrightarrow> m k = Some v"
  by (auto simp: enumerates_def)

lemma enumerates_keys: "enumerates xs m \<Longrightarrow> fst ` set xs = dom m"
  unfolding enumerates_def by (metis dom_map_of_conv_image_fst)

lemma enumerates_values: "enumerates xs m \<Longrightarrow> set (map snd xs) = ran m"
  unfolding enumerates_def by (metis ran_distinct set_map)

lemma enumerates_length: "enumerates xs m \<Longrightarrow> length xs = card (dom m)"
proof -
  assume e: "enumerates xs m"
  then have "card (set (map fst xs)) = length (map fst xs)"
    unfolding enumerates_def by (intro distinct_card) simp
  with enumerates_keys [OF e] show ?thesis by simp
qed

lemma enumerates_ascending: "finite (dom m) \<Longrightarrow> enumerates (ascending m) m"
proof -
  assume fin: "finite (dom m)"
  have "map fst (ascending m) = sorted_list_of_set (dom m)"
    by (simp add: ascending_def comp_def)
  moreover have "map_of (ascending m) k = m k" for k
    using fin by (cases "m k") (auto simp: ascending_def map_of_map_restrict restrict_map_def)
  ultimately show ?thesis using fin by (simp add: enumerates_def fun_eq_iff)
qed

lemma enumerates_empty: "enumerates xs Map.empty \<longleftrightarrow> xs = []"
  by (auto simp: enumerates_def)

end
