(* ===== verification/Resource_Manager.thy ===== *)
theory Resource_Manager
  imports Upf_Prelude
begin

text \<open>
  The resource manager of \<open>cmd/core/service/resource_manager.go\<close>: the pool of tunnel
  identifiers (\<open>FTEIDM\<close>) and the pool of UE addresses (\<open>IPAM\<close>).

  A Go map that was never made is nil: reading it gives nothing and writing it panics.
  The two busy maps are nil when their feature is off, so they are options here. The
  address generator \<open>ipnetgen\<close> is a third-party package: \<open>ipnetgen_New\<close> gives the
  addresses its \<open>Next\<close> yields, or nothing when \<open>New\<close> returns an error. \<open>rangeTEIDs\<close> is
  the order in which Go visits a map of TEIDs. The mutexes make every operation atomic,
  so an operation is one step.

  The interface \<open>pool\<close> says what an allocator promises; both pools (and the identifier
  tracker of the eBPF objects) are interpretations of it.
\<close>

section \<open>State\<close>

record rm_env =
  ipnetgen_New :: "string \<Rightarrow> bytes list option"
  rangeTEIDs :: "(u32 \<rightharpoonup> u32) \<Rightarrow> (u32 \<times> u32) list"

record FTEIDM =
  freeTEIDs :: "u32 list"
  busyTEIDs :: "(u64 \<rightharpoonup> (u32 \<rightharpoonup> u32)) option"

record IPAM =
  freeIPs :: "IP list"
  busyIPs :: "(u64 \<rightharpoonup> IP) option"

record ResourceManager =
  rm_IPAM :: "IPAM option"
  rm_FTEIDM :: "FTEIDM option"

section \<open>Operations\<close>

text \<open>
  \<open>for teid = 1; teid <= teidRange; teid++\<close> over \<open>uint32\<close>: \<^term>\<open>None\<close> when the loop
  does not end.
\<close>

definition teid_loop :: "u32 \<Rightarrow> (u32 \<times> u32 list) option" where
  "teid_loop teidRange =
     while_option (\<lambda>(teid, fs). teid \<le> teidRange) (\<lambda>(teid, fs). (teid + 1, fs @ [teid])) (1, [])"

definition NewResourceManager ::
  "('z) rm_env_scheme \<Rightarrow> string \<Rightarrow> u32 \<Rightarrow> ResourceManager res option" where
  "NewResourceManager E ipRange teidRange =
     (let fteidm =
        (if teidRange \<noteq> 0
         then map_option (\<lambda>(_, fs). \<lparr>freeTEIDs = fs, busyTEIDs = Some Map.empty\<rparr>) (teid_loop teidRange)
         else Some \<lparr>freeTEIDs = [], busyTEIDs = None\<rparr>)
      in if ipRange \<noteq> []
         then (case ipnetgen_New E ipRange of
             None \<Rightarrow> Some (Err ErrLibrary)
           | Some ips \<Rightarrow>
               map_option (\<lambda>f. Val \<lparr>rm_IPAM = Some \<lparr>freeIPs = map Some (tl ips), busyIPs = Some Map.empty\<rparr>,
                                    rm_FTEIDM = Some f\<rparr>) fteidm)
         else map_option (\<lambda>f. Val \<lparr>rm_IPAM = Some \<lparr>freeIPs = [], busyIPs = None\<rparr>,
                                   rm_FTEIDM = Some f\<rparr>) fteidm)"

definition AllocateIP :: "u64 \<Rightarrow> (IPAM, IP) op" where
  "AllocateIP key ipam =
     (case freeIPs ipam of
        ip # rest \<Rightarrow>
          (case busyIPs ipam of
             None \<Rightarrow> (Panic NilMapWrite, ipam\<lparr>freeIPs := rest\<rparr>)
           | Some busy \<Rightarrow> (Val ip, ipam\<lparr>freeIPs := rest, busyIPs := Some (busy(key \<mapsto> ip))\<rparr>))
      | [] \<Rightarrow> (Err (ErrText ''no free ip available''), ipam))"

definition AllocateTEID :: "u64 \<Rightarrow> u32 \<Rightarrow> (FTEIDM, u32) op" where
  "AllocateTEID seID pdrID ipam =
     (case freeTEIDs ipam of
        teid # rest \<Rightarrow>
          (case busyTEIDs ipam of
             None \<Rightarrow> (Panic NilMapWrite, ipam\<lparr>freeTEIDs := rest\<rparr>)
           | Some busy \<Rightarrow>
               (Val teid,
                ipam\<lparr>freeTEIDs := rest,
                     busyTEIDs := Some (case busy seID of
                        None \<Rightarrow> busy(seID \<mapsto> [pdrID \<mapsto> teid])
                      | Some pdr \<Rightarrow> busy(seID \<mapsto> pdr(pdrID \<mapsto> teid)))\<rparr>))
      | [] \<Rightarrow> (Err (ErrText ''no free TEID available''), ipam))"

definition ReleaseIP :: "u64 \<Rightarrow> IPAM \<Rightarrow> IPAM" where
  "ReleaseIP seID ipam =
     (case busyIPs ipam of
        None \<Rightarrow> ipam
      | Some busy \<Rightarrow>
          (case busy seID of
             None \<Rightarrow> ipam
           | Some ip \<Rightarrow> ipam\<lparr>freeIPs := freeIPs ipam @ [ip], busyIPs := Some (busy(seID := None))\<rparr>))"

definition ReleaseTEID :: "('z) rm_env_scheme \<Rightarrow> u64 \<Rightarrow> FTEIDM \<Rightarrow> FTEIDM" where
  "ReleaseTEID E seID fteidm =
     (case busyTEIDs fteidm of
        None \<Rightarrow> fteidm
      | Some busy \<Rightarrow>
          (case busy seID of
             None \<Rightarrow> fteidm
           | Some teid \<Rightarrow>
               fteidm\<lparr>freeTEIDs := freeTEIDs fteidm @ map snd (rangeTEIDs E teid),
                      busyTEIDs := Some (busy(seID := None))\<rparr>))"

section \<open>What the pools promise\<close>

text \<open>The TEID that a session and PDR hold, and the address that a session holds.\<close>

definition busyTEID :: "FTEIDM \<Rightarrow> u64 \<Rightarrow> u32 \<Rightarrow> u32 option" where
  "busyTEID f seID pdrID = Option.bind (Option.bind (busyTEIDs f) (\<lambda>b. b seID)) (\<lambda>m. m pdrID)"

definition busyIP :: "IPAM \<Rightarrow> u64 \<Rightarrow> IP option" where
  "busyIP p seID = Option.bind (busyIPs p) (\<lambda>b. b seID)"

text \<open>
  No TEID is free and held, or held twice; everything handed out or free comes from the
  initial range \<open>U\<close>.
\<close>

definition fteid_ok :: "u32 set \<Rightarrow> FTEIDM \<Rightarrow> bool" where
  "fteid_ok U f \<longleftrightarrow>
     distinct (freeTEIDs f) \<and> set (freeTEIDs f) \<subseteq> U \<and>
     (freeTEIDs f \<noteq> [] \<longrightarrow> busyTEIDs f \<noteq> None) \<and>
     (\<forall>s p t. busyTEID f s p = Some t \<longrightarrow> t \<in> U \<and> t \<notin> set (freeTEIDs f)) \<and>
     (\<forall>s p s' p' t. busyTEID f s p = Some t \<longrightarrow> busyTEID f s' p' = Some t \<longrightarrow> s = s' \<and> p = p')"

definition ipam_ok :: "IP set \<Rightarrow> IPAM \<Rightarrow> bool" where
  "ipam_ok U p \<longleftrightarrow>
     distinct (freeIPs p) \<and> set (freeIPs p) \<subseteq> U \<and>
     (freeIPs p \<noteq> [] \<longrightarrow> busyIPs p \<noteq> None) \<and>
     (\<forall>s a. busyIP p s = Some a \<longrightarrow> a \<in> U \<and> a \<notin> set (freeIPs p)) \<and>
     (\<forall>s s' a. busyIP p s = Some a \<longrightarrow> busyIP p s' = Some a \<longrightarrow> s = s')"

text \<open>The language's promise on \<open>range\<close> over a map of TEIDs.\<close>

definition rangeTEIDs_ok :: "('z) rm_env_scheme \<Rightarrow> bool" where
  "rangeTEIDs_ok E \<longleftrightarrow> (\<forall>m. finite (dom m) \<longrightarrow> enumerates (rangeTEIDs E m) m)"

definition fteid_finite :: "FTEIDM \<Rightarrow> bool" where
  "fteid_finite f \<longleftrightarrow> (\<forall>b s m. busyTEIDs f = Some b \<longrightarrow> b s = Some m \<longrightarrow> finite (dom m))"

text \<open>The states of the TEID pool that calls of its two operations reach.\<close>

inductive fteid_reach :: "('z) rm_env_scheme \<Rightarrow> FTEIDM \<Rightarrow> FTEIDM \<Rightarrow> bool"
  for E :: "('z) rm_env_scheme" and f0 :: FTEIDM where
  start: "fteid_reach E f0 f0"
| allocate: "fteid_reach E f0 f \<Longrightarrow> fteid_reach E f0 (snd (AllocateTEID s p f))"
| release: "fteid_reach E f0 f \<Longrightarrow> fteid_reach E f0 (ReleaseTEID E s f)"

text \<open>Allocations for the owners \<open>ks\<close> in turn, stopping at the first failure.\<close>

primrec allocs :: "('k \<Rightarrow> ('s, 'i) op) \<Rightarrow> 'k list \<Rightarrow> 's \<Rightarrow> 'i list \<times> 's" where
  "allocs alloc [] s = ([], s)"
| "allocs alloc (k # ks) s =
     (case alloc k s of
        (Val i, s') \<Rightarrow> (case allocs alloc ks s' of (is, t) \<Rightarrow> (i # is, t))
      | (_, s') \<Rightarrow> ([], s'))"

text \<open>A concrete environment: no address generator, maps visited by ascending key.\<close>

definition ascending_rm_env :: rm_env where
  "ascending_rm_env = \<lparr>ipnetgen_New = (\<lambda>_. None), rangeTEIDs = ascending\<rparr>"

section \<open>The interface of an allocator\<close>

locale pool =
  fixes alloc :: "'k \<Rightarrow> ('s, 'i) op"
    and free :: "'s \<Rightarrow> 'i set"
    and inv :: "'s \<Rightarrow> bool"
  assumes alloc_Val: "inv s \<Longrightarrow> alloc k s = (Val i, s') \<Longrightarrow> i \<in> free s \<and> free s' = free s - {i} \<and> inv s'"
    and alloc_Err: "inv s \<Longrightarrow> alloc k s = (Err e, s') \<Longrightarrow> free s = {} \<and> s' = s"
    and alloc_no_panic: "inv s \<Longrightarrow> alloc k s \<noteq> (Panic p, s')"
    and free_finite: "inv s \<Longrightarrow> finite (free s)"
begin

lemma alloc_cases:
  fixes k :: 'k
  assumes "inv s"
  obtains (val) i s' where "alloc k s = (Val i, s')" "i \<in> free s" "free s' = free s - {i}" "inv s'"
  | (err) e where "alloc k s = (Err e, s)" "free s = {}"
proof -
  obtain r s' where eq: "alloc k s = (r, s')" by fastforce
  show ?thesis
  proof (cases r)
    case (Val i)
    with eq have v: "alloc k s = (Val i, s')" by simp
    with alloc_Val [OF assms v] show ?thesis by (intro val) auto
  next
    case (Err e)
    with eq have v: "alloc k s = (Err e, s')" by simp
    with alloc_Err [OF assms v] show ?thesis by (intro err [of e]) auto
  next
    case (Panic p)
    with eq alloc_no_panic [OF assms, of k] show ?thesis by blast
  qed
qed

lemma alloc_succeeds_iff: "inv s \<Longrightarrow> is_val (fst (alloc k s)) \<longleftrightarrow> free s \<noteq> {}"
  by (cases rule: alloc_cases [of s k]) auto

lemma allocs_spec:
  assumes "inv s" and "allocs alloc ks s = (is, t)"
  shows "distinct is \<and> set is \<subseteq> free s \<and> free t = free s - set is \<and> inv t
    \<and> length is = min (length ks) (card (free s))"
  using assms
proof (induction ks arbitrary: s "is" t)
  case Nil
  then show ?case by simp
next
  case (Cons k ks)
  from Cons.prems(1) show ?case
  proof (cases rule: alloc_cases [where k = k])
    case (val i s')
    obtain js u where js: "allocs alloc ks s' = (js, u)" by fastforce
    with Cons.prems(2) val(1) have eq: "is = i # js" "t = u" by auto
    have IH: "distinct js \<and> set js \<subseteq> free s' \<and> free u = free s' - set js \<and> inv u
      \<and> length js = min (length ks) (card (free s'))"
      by (rule Cons.IH [OF val(4) js])
    have "card (free s) = Suc (card (free s'))"
      using card_Suc_Diff1 [OF free_finite [OF Cons.prems(1)] val(2)] val(3) by simp
    then have "length is = min (length (k # ks)) (card (free s))" using IH eq(1) by simp
    moreover have "set js \<subseteq> free s - {i}" "free u = free s - {i} - set js"
      using IH unfolding val(3) by simp_all
    ultimately show ?thesis
      using IH val(2) unfolding eq by auto
  next
    case (err e)
    with Cons.prems have "is = []" "t = s" by simp_all
    with err(2) Cons.prems(1) show ?thesis by simp
  qed
qed

end

section \<open>Lemmas on the TEID pool\<close>

lemma fteid_okD:
  assumes "fteid_ok U f"
  shows "distinct (freeTEIDs f)" "set (freeTEIDs f) \<subseteq> U"
    and "busyTEID f s p = Some t \<Longrightarrow> t \<in> U"
    and "busyTEID f s p = Some t \<Longrightarrow> t \<notin> set (freeTEIDs f)"
    and "busyTEID f s p = Some t \<Longrightarrow> busyTEID f s' p' = Some t \<Longrightarrow> s = s' \<and> p = p'"
  using assms unfolding fteid_ok_def by blast+

lemma busyTEID_allocate:
  assumes "AllocateTEID s p f = (Val t, f')"
  shows "busyTEID f' s' p' = (if s' = s \<and> p' = p then Some t else busyTEID f s' p')"
  using assms
  by (auto simp: AllocateTEID_def busyTEID_def split: list.splits option.splits)

lemma busyTEID_release:
  "busyTEID (ReleaseTEID E s f) s' p' = (if s' = s then None else busyTEID f s' p')"
  by (auto simp: ReleaseTEID_def busyTEID_def split: option.splits)

lemma AllocateTEID_Val_iff:
  "AllocateTEID s p f = (Val t, f') \<Longrightarrow> freeTEIDs f = t # freeTEIDs f'"
  by (auto simp: AllocateTEID_def split: list.splits option.splits)

lemma fteid_ok_allocate:
  assumes ok: "fteid_ok U f"
  shows "fteid_ok U (snd (AllocateTEID s p f))"
proof (cases "AllocateTEID s p f")
  case (Pair r f')
  show ?thesis
  proof (cases r)
    case (Val t)
    with Pair have eq: "AllocateTEID s p f = (Val t, f')" by simp
    from AllocateTEID_Val_iff [OF eq] have fr: "freeTEIDs f = t # freeTEIDs f'" .
    from eq have "busyTEIDs f' \<noteq> None"
      by (auto simp: AllocateTEID_def split: list.splits option.splits)
    with ok fr show ?thesis
      unfolding Pair snd_conv fteid_ok_def busyTEID_allocate [OF eq] by (auto split: if_splits)
  next
    case (Err e)
    with Pair ok show ?thesis
      by (auto simp: AllocateTEID_def split: list.splits option.splits)
  next
    case (Panic q)
    with Pair ok show ?thesis
      by (auto simp: AllocateTEID_def fteid_ok_def split: list.splits option.splits)
  qed
qed

lemma ReleaseTEID_free:
  assumes "rangeTEIDs_ok E" and "fteid_finite f"
  shows "set (freeTEIDs (ReleaseTEID E s f)) = set (freeTEIDs f) \<union> {t. \<exists>p. busyTEID f s p = Some t}"
proof (cases "Option.bind (busyTEIDs f) (\<lambda>b. b s)")
  case None
  then show ?thesis
    by (auto simp: ReleaseTEID_def busyTEID_def split: option.splits)
next
  case (Some m)
  then obtain b where b: "busyTEIDs f = Some b" "b s = Some m"
    by (cases "busyTEIDs f") auto
  with assms have "enumerates (rangeTEIDs E m) m"
    by (auto simp: rangeTEIDs_ok_def fteid_finite_def)
  then have "set (map snd (rangeTEIDs E m)) = ran m" by (rule enumerates_values)
  with b show ?thesis by (auto simp: ReleaseTEID_def busyTEID_def ran_def)
qed

lemma fteid_ok_release:
  assumes E: "rangeTEIDs_ok E" and fin: "fteid_finite f" and ok: "fteid_ok U f"
  shows "fteid_ok U (ReleaseTEID E s f)"
proof (cases "Option.bind (busyTEIDs f) (\<lambda>b. b s)")
  case None
  then have "ReleaseTEID E s f = f"
    by (auto simp: ReleaseTEID_def split: option.splits)
  with ok show ?thesis by simp
next
  case (Some m)
  then obtain b where b: "busyTEIDs f = Some b" "b s = Some m"
    by (cases "busyTEIDs f") auto
  let ?g = "ReleaseTEID E s f"
  have held: "busyTEID f s p = m p" for p using b by (simp add: busyTEID_def)
  from E fin b have en: "enumerates (rangeTEIDs E m) m"
    by (auto simp: rangeTEIDs_ok_def fteid_finite_def)
  have "inj_on snd (set (rangeTEIDs E m))"
  proof (rule inj_onI, clarsimp simp: enumerates_mem [OF en])
    fix p p' t
    assume "m p = Some t" "m p' = Some t"
    with fteid_okD(5) [OF ok, of s p t s p'] held show "p = p'" by simp
  qed
  moreover have "distinct (rangeTEIDs E m)"
    using en by (simp add: enumerates_def distinct_map)
  ultimately have dist: "distinct (map snd (rangeTEIDs E m))"
    by (simp add: distinct_map)
  have vals: "set (map snd (rangeTEIDs E m)) = ran m" by (rule enumerates_values [OF en])
  have free: "freeTEIDs ?g = freeTEIDs f @ map snd (rangeTEIDs E m)"
    using b by (simp add: ReleaseTEID_def)
  have disj: "set (freeTEIDs f) \<inter> ran m = {}"
    using fteid_okD(4) [OF ok, of s] held by (auto simp: ran_def)
  have "distinct (freeTEIDs ?g)"
    using ok dist disj vals unfolding free fteid_ok_def by (simp only: distinct_append)
  moreover have setfree: "set (freeTEIDs ?g) = set (freeTEIDs f) \<union> ran m"
    unfolding free set_append vals ..
  moreover have "ran m \<subseteq> U"
    using fteid_okD(3) [OF ok, of s] held by (auto simp: ran_def)
  moreover have "busyTEIDs ?g \<noteq> None" using b by (simp add: ReleaseTEID_def)
  moreover have "t \<notin> ran m" if "busyTEID f s' p' = Some t" "s' \<noteq> s" for s' p' t
    using fteid_okD(5) [OF ok that(1), of s] held that(2) by (auto simp: ran_def)
  ultimately show ?thesis
    using fteid_okD [OF ok] unfolding fteid_ok_def busyTEID_release setfree
    by (auto split: if_splits; blast)
qed

lemma fteid_finite_allocate: "fteid_finite f \<Longrightarrow> fteid_finite (snd (AllocateTEID s p f))"
  by (auto simp: fteid_finite_def AllocateTEID_def split: list.splits option.splits if_splits)

lemma fteid_finite_release: "fteid_finite f \<Longrightarrow> fteid_finite (ReleaseTEID E s f)"
  by (auto simp: fteid_finite_def ReleaseTEID_def split: option.splits if_splits)

lemma fteid_reach_ok:
  assumes "fteid_reach E f0 f" and "rangeTEIDs_ok E" and "fteid_ok U f0" and "fteid_finite f0"
  shows "fteid_ok U f \<and> fteid_finite f"
  using assms
  by (induction rule: fteid_reach.induct)
    (auto intro: fteid_ok_allocate fteid_ok_release fteid_finite_allocate fteid_finite_release)

lemma AllocateTEID_pool_laws:
  assumes ok: "fteid_ok U f"
  shows "AllocateTEID s p f = (Val t, f') \<Longrightarrow>
      t \<in> set (freeTEIDs f) \<and> set (freeTEIDs f') = set (freeTEIDs f) - {t} \<and> fteid_ok U f'"
    and "AllocateTEID s p f = (Err e, f') \<Longrightarrow> set (freeTEIDs f) = {} \<and> f' = f"
    and "AllocateTEID s p f \<noteq> (Panic q, f')"
proof -
  assume eq: "AllocateTEID s p f = (Val t, f')"
  from AllocateTEID_Val_iff [OF eq] fteid_okD(1) [OF ok] fteid_ok_allocate [OF ok, of s p] eq
  show "t \<in> set (freeTEIDs f) \<and> set (freeTEIDs f') = set (freeTEIDs f) - {t} \<and> fteid_ok U f'"
    by auto
qed (use ok in \<open>auto simp: AllocateTEID_def fteid_ok_def split: list.splits option.splits\<close>)

interpretation teid_pool: pool "\<lambda>(s, p). AllocateTEID s p" "\<lambda>f. set (freeTEIDs f)" "fteid_ok U" for U
  by unfold_locales (auto dest: AllocateTEID_pool_laws(1,2) simp: AllocateTEID_pool_laws(3))

section \<open>Lemmas on the address pool\<close>

lemma AllocateIP_Val:
  "AllocateIP k q = (Val a, q') \<Longrightarrow>
     freeIPs q = a # freeIPs q' \<and> busyIPs q' \<noteq> None \<and> busyIP q' k' = (if k' = k then Some a else busyIP q k')"
  by (auto simp: AllocateIP_def busyIP_def split: list.splits option.splits)

lemma ipam_ok_allocate:
  assumes "ipam_ok U q"
  shows "ipam_ok U (snd (AllocateIP k q))"
proof (cases "AllocateIP k q")
  case (Pair r q')
  show ?thesis
  proof (cases r)
    case (Val a)
    with Pair AllocateIP_Val [of k q a q'] assms show ?thesis
      unfolding ipam_ok_def by (auto split: if_splits)
  qed (use Pair assms in \<open>auto simp: AllocateIP_def ipam_ok_def split: list.splits option.splits\<close>)
qed

lemma ipam_ok_release:
  assumes "ipam_ok U q"
  shows "ipam_ok U (ReleaseIP k q)"
proof (cases "busyIP q k")
  case None
  then have "ReleaseIP k q = q" by (auto simp: ReleaseIP_def busyIP_def split: option.splits)
  with assms show ?thesis by simp
next
  case (Some a)
  then obtain b where b: "busyIPs q = Some b" "b k = Some a"
    by (cases "busyIPs q") (auto simp: busyIP_def)
  have held: "busyIP (ReleaseIP k q) k' = (if k' = k then None else busyIP q k')" for k'
    using b by (simp add: ReleaseIP_def busyIP_def)
  have fr: "freeIPs (ReleaseIP k q) = freeIPs q @ [a]" "busyIPs (ReleaseIP k q) \<noteq> None"
    using b by (simp_all add: ReleaseIP_def)
  show ?thesis
    using assms Some unfolding ipam_ok_def held fr(1) using fr(2)
    by (auto split: if_splits)
qed

lemma AllocateIP_pool_laws:
  assumes ok: "ipam_ok U q"
  shows "AllocateIP k q = (Val a, q') \<Longrightarrow>
      a \<in> set (freeIPs q) \<and> set (freeIPs q') = set (freeIPs q) - {a} \<and> ipam_ok U q'"
    and "AllocateIP k q = (Err e, q') \<Longrightarrow> set (freeIPs q) = {} \<and> q' = q"
    and "AllocateIP k q \<noteq> (Panic p, q')"
proof -
  assume eq: "AllocateIP k q = (Val a, q')"
  from ok have "distinct (freeIPs q)" by (simp add: ipam_ok_def)
  with AllocateIP_Val [OF eq, of k] ipam_ok_allocate [OF ok, of k] eq
  show "a \<in> set (freeIPs q) \<and> set (freeIPs q') = set (freeIPs q) - {a} \<and> ipam_ok U q'"
    by auto
qed (use ok in \<open>auto simp: AllocateIP_def ipam_ok_def split: list.splits option.splits\<close>)

interpretation ip_pool: pool AllocateIP "\<lambda>q. set (freeIPs q)" "ipam_ok U" for U
  by unfold_locales (auto dest: AllocateIP_pool_laws(1,2) simp: AllocateIP_pool_laws(3))

section \<open>The loop that fills the TEID pool\<close>

abbreviation teids_upto :: "nat \<Rightarrow> u32 list" where
  "teids_upto n \<equiv> map of_nat [1..<Suc n]"

lemma teid_loop_Some:
  assumes "teidRange \<noteq> - 1"
  shows "\<exists>t. teid_loop teidRange = Some (t, teids_upto (unat teidRange))"
proof -
  let ?n = "unat teidRange"
  let ?b = "\<lambda>(teid :: u32, fs :: u32 list). teid \<le> teidRange"
  let ?c = "\<lambda>(teid :: u32, fs :: u32 list). (teid + 1, fs @ [teid])"
  let ?P = "\<lambda>(teid :: u32, fs). \<exists>k \<le> ?n. teid = of_nat (Suc k) \<and> fs = teids_upto k"
  have "teidRange < - 1" using assms by (simp add: order_less_le)
  then have lt: "Suc ?n < 2 ^ 32"
    by (simp add: word_less_nat_alt unsigned_minus_1_eq_mask mask_eq_exp_minus_1)
  then have un: "unat (of_nat (Suc k) :: u32) = Suc k" if "k \<le> ?n" for k
    using that lt by (intro unat32_of_nat) simp
  have step: "?P (?c x)" and le: "fst x = of_nat (Suc k) \<Longrightarrow> k < ?n"
    if P: "?P x" and b: "?b x" and k: "k \<le> ?n" for x k
  proof -
    obtain teid fs where x: "x = (teid, fs)" by fastforce
    with P obtain j where j: "j \<le> ?n" "teid = of_nat (Suc j)" "fs = teids_upto j" by auto
    from b x j un [of j] have "j < ?n" by (simp add: word_le_nat_alt)
    with x j show "?P (?c x)"
      by (auto intro!: exI [of _ "Suc j"] simp: add.commute)
    assume "fst x = of_nat (Suc k)"
    with x j un [of j] un [OF k] have "k = j" by (metis fst_conv nat.inject)
    with \<open>j < ?n\<close> show "k < ?n" by simp
  qed
  have "\<exists>t. while_option ?b ?c (1, []) = Some t"
  proof (rule measure_while_option_Some [where P = ?P and f = "\<lambda>x. 2 ^ 32 - unat (fst x)"])
    show "?P (1, [])" by (auto intro!: exI [of _ 0])
    fix x
    assume P: "?P x" and b: "?b x"
    obtain k where k: "k \<le> ?n" "fst x = of_nat (Suc k)" using P by (cases x) auto
    have "k < ?n" by (rule le [OF P b k])
    then have "unat (fst (?c x)) = Suc (Suc k)"
      using un [of "Suc k"] k by (cases x) (simp add: add.commute)
    moreover have "unat (fst x) = Suc k" using un [OF k(1)] k(2) by simp
    ultimately show "?P (?c x) \<and> 2 ^ 32 - unat (fst (?c x)) < 2 ^ 32 - unat (fst x)"
      using step [OF P b k(1)] lt \<open>k < ?n\<close> by simp
  qed
  then obtain t fs where w: "while_option ?b ?c (1, []) = Some (t, fs)" by fastforce
  have "?P (t, fs)"
  proof (rule while_option_rule [OF _ w, where P = ?P])
    show "?P (1, [])" by (auto intro!: exI [of _ 0])
    show "?P (?c x)" if "?P x" "?b x" for x by (rule step [OF that, of 0]) simp
  qed
  then obtain k where k: "k \<le> ?n" "t = of_nat (Suc k)" "fs = teids_upto k" by auto
  have "\<not> t \<le> teidRange" using while_option_stop [OF w] by simp
  with k un [of k] have "k = ?n" by (simp add: word_le_nat_alt)
  with w k show ?thesis unfolding teid_loop_def by simp
qed

lemma teid_loop_max: "teid_loop r = None" if "r = - 1"
  unfolding teid_loop_def while_option_def that by (simp add: case_prod_beta)

lemma teids_upto_range: "set (teids_upto (unat n)) = {t. 1 \<le> t \<and> t \<le> (n :: u32)}"
proof (intro set_eqI iffI)
  fix t :: u32
  assume "t \<in> {t. 1 \<le> t \<and> t \<le> n}"
  then have "unat t \<in> set [1..<Suc (unat n)]" by (auto simp: word_le_nat_alt)
  then have "of_nat (unat t) \<in> set (teids_upto (unat n))" by (metis imageI set_map)
  then show "t \<in> set (teids_upto (unat n))" by simp
next
  fix t :: u32
  assume "t \<in> set (teids_upto (unat n))"
  then obtain k where k: "1 \<le> k" "k \<le> unat n" "t = of_nat k" by auto
  have "k < 2 ^ 32" using k(2) unat32_lt [of n] by simp
  with k have "unat t = k" by (simp add: unat32_of_nat)
  with k show "t \<in> {t. 1 \<le> t \<and> t \<le> n}" by (simp add: word_le_nat_alt)
qed

lemma teids_upto_distinct: "distinct (teids_upto (unat (n :: u32)))"
proof -
  have "set [1..<Suc (unat n)] \<subseteq> {..< 2 ^ 32}"
    using unat32_lt [of n] by auto
  with inj_on_of_nat32 show ?thesis by (simp add: distinct_map inj_on_subset)
qed

lemma NewResourceManager_fteidm:
  assumes "NewResourceManager E ipRange teidRange = Some (Val rm)" and "rm_FTEIDM rm = Some f"
  shows "freeTEIDs f = teids_upto (unat teidRange)"
    and "fteid_ok {t. 1 \<le> t \<and> t \<le> teidRange} f" and "fteid_finite f"
    and "busyTEID f s p = None"
proof -
  have "freeTEIDs f = teids_upto (unat teidRange) \<and>
      (busyTEIDs f = Some Map.empty \<or> freeTEIDs f = [] \<and> busyTEIDs f = None)"
  proof (cases "teidRange = 0 \<or> teidRange = - 1")
    case True
    then show ?thesis
      using assms teid_loop_max
      by (auto simp: NewResourceManager_def Let_def split: if_splits option.splits)
  next
    case False
    then show ?thesis
      using assms teid_loop_Some [of teidRange]
      by (auto simp: NewResourceManager_def Let_def split: if_splits option.splits)
  qed
  note f = this
  then show "freeTEIDs f = teids_upto (unat teidRange)" by simp
  from f show none: "busyTEID f s p = None" for s p by (auto simp: busyTEID_def)
  from f show "fteid_finite f" by (auto simp: fteid_finite_def)
  from f teids_upto_distinct [of teidRange] teids_upto_range [of teidRange] none
  show "fteid_ok {t. 1 \<le> t \<and> t \<le> teidRange} f"
    unfolding fteid_ok_def by auto
qed

lemma rangeTEIDs_ok_ascending [simp]: "rangeTEIDs_ok ascending_rm_env"
  by (simp add: rangeTEIDs_ok_def ascending_rm_env_def enumerates_ascending)

section \<open>Properties\<close>

text \<open>
  C30. Whatever sequence of \<open>AllocateTEID\<close> and \<open>ReleaseTEID\<close> calls ran since the resource
  manager was created, a TEID that a session and PDR hold lies in the configured range
  (so it is never 0), is not in the free list, and is held by no other session or PDR.
\<close>

theorem teid_assignment_unique:
  assumes "rangeTEIDs_ok E"
    and "NewResourceManager E ipRange teidRange = Some (Val rm)" and "rm_FTEIDM rm = Some f0"
    and "fteid_reach E f0 f" and "busyTEID f s p = Some t"
  shows "1 \<le> t \<and> t \<le> teidRange \<and> t \<notin> set (freeTEIDs f) \<and>
    (\<forall>s' p'. busyTEID f s' p' = Some t \<longrightarrow> s' = s \<and> p' = p)"
proof -
  have ok: "fteid_ok {t. 1 \<le> t \<and> t \<le> teidRange} f"
    using fteid_reach_ok [OF assms(4,1)] NewResourceManager_fteidm [OF assms(2,3)] by blast
  from fteid_okD(3,4) [OF ok assms(5)] fteid_okD(5) [OF ok _ assms(5)] show ?thesis by auto
qed

theorem teid_assignment_unique_witness:
  "busyTEID (snd (AllocateTEID 7 1 \<lparr>freeTEIDs = [1, 2], busyTEIDs = Some Map.empty\<rparr>)) 7 1 = Some 1 \<and>
   (1 :: u32) \<notin> set (freeTEIDs (snd (AllocateTEID 7 1 \<lparr>freeTEIDs = [1, 2], busyTEIDs = Some Map.empty\<rparr>)))"
proof -
  let ?f0 = "\<lparr>freeTEIDs = [1, 2], busyTEIDs = Some Map.empty\<rparr>"
  have new: "NewResourceManager ascending_rm_env [] 2 = Some (Val
      \<lparr>rm_IPAM = Some \<lparr>freeIPs = [], busyIPs = None\<rparr>, rm_FTEIDM = Some ?f0\<rparr>)"
    by (simp add: NewResourceManager_def teid_loop_def while_option_unfold)
  have reach: "fteid_reach ascending_rm_env ?f0 (snd (AllocateTEID 7 1 ?f0))"
    by (intro fteid_reach.intros)
  have held: "busyTEID (snd (AllocateTEID 7 1 ?f0)) 7 1 = Some 1"
    by (simp add: AllocateTEID_def busyTEID_def)
  show ?thesis
    using held teid_assignment_unique [OF rangeTEIDs_ok_ascending new _ reach held] by simp
qed

text \<open>
  C34. Creating the resource manager returns for every TEID range below the largest
  \<open>uint32\<close>: with an error exactly when the address range is rejected by the generator, and
  otherwise with the TEIDs 1, 2, \<open>\<dots>\<close>, range in this order as the free list.
\<close>

theorem NewResourceManager_returns:
  assumes "teidRange \<noteq> - 1"
  shows "\<exists>r. NewResourceManager E ipRange teidRange = Some r \<and>
    (case r of
       Val rm \<Rightarrow> \<exists>f. rm_FTEIDM rm = Some f \<and> freeTEIDs f = map of_nat [1..<Suc (unat teidRange)]
     | Err e \<Rightarrow> ipRange \<noteq> [] \<and> ipnetgen_New E ipRange = None
     | Panic p \<Rightarrow> False)"
proof -
  obtain t where "teid_loop teidRange = Some (t, teids_upto (unat teidRange))"
    using teid_loop_Some [OF assms] by blast
  then show ?thesis
    by (cases "teidRange = 0"; cases "ipRange = []"; cases "ipnetgen_New E ipRange")
      (auto simp: NewResourceManager_def)
qed

theorem NewResourceManager_returns_witness:
  "\<exists>r. NewResourceManager ascending_rm_env [] 3 = Some r \<and>
    (case r of
       Val rm \<Rightarrow> \<exists>f. rm_FTEIDM rm = Some f \<and> freeTEIDs f = map of_nat [1..<Suc (unat (3 :: u32))]
     | Err e \<Rightarrow> [] \<noteq> ([] :: string) \<and> ipnetgen_New ascending_rm_env [] = None
     | Panic p \<Rightarrow> False)"
  by (rule NewResourceManager_returns) simp

text \<open>
  With the largest \<open>uint32\<close> as TEID range, creating the resource manager never
  returns, as soon as the address range is accepted: the counter of the filling loop
  wraps around to 0 and its guard is always true.
\<close>

theorem NewResourceManager_full_range_hangs:
  assumes "ipRange \<noteq> [] \<longrightarrow> ipnetgen_New E ipRange \<noteq> None"
  shows "NewResourceManager E ipRange 0xFFFFFFFF = None"
proof -
  have "teid_loop 0xFFFFFFFF = None" by (rule teid_loop_max) simp
  with assms show ?thesis by (auto simp: NewResourceManager_def Let_def split: option.splits)
qed

theorem NewResourceManager_full_range_hangs_witness:
  "NewResourceManager ascending_rm_env [] 0xFFFFFFFF = None"
  by (rule NewResourceManager_full_range_hangs) simp

text \<open>
  The pool of a resource manager created with TEID range \<open>N\<close> serves exactly \<open>N\<close>
  allocations, for whatever sessions and PDRs, with pairwise different TEIDs between 1
  and \<open>N\<close>, and fails from then on.
\<close>

theorem teid_pool_capacity:
  assumes "NewResourceManager E ipRange N = Some (Val rm)" and "rm_FTEIDM rm = Some f0"
    and "allocs (\<lambda>(s, p). AllocateTEID s p) ks f0 = (ts, f)"
  shows "distinct ts \<and> length ts = min (length ks) (unat N) \<and> (\<forall>t \<in> set ts. 1 \<le> t \<and> t \<le> N)"
proof -
  note f0 = NewResourceManager_fteidm [OF assms(1,2)]
  have "card (set (freeTEIDs f0)) = unat N"
    using distinct_card [OF teids_upto_distinct, of N] f0(1) by simp
  with teid_pool.allocs_spec [OF f0(2) assms(3)] f0(1) teids_upto_range [of N]
  show ?thesis by auto
qed

theorem teid_pool_capacity_witness:
  "allocs (\<lambda>(s, p). AllocateTEID s p) [(7, 1), (7, 2), (8, 1)]
     \<lparr>freeTEIDs = [1, 2], busyTEIDs = Some Map.empty\<rparr> =
   ([1, 2], snd (allocs (\<lambda>(s, p). AllocateTEID s p) [(7, 1), (7, 2), (8, 1)]
     \<lparr>freeTEIDs = [1, 2], busyTEIDs = Some Map.empty\<rparr>))
   \<and> length ([1, 2] :: u32 list) = min 3 (unat (2 :: u32))"
proof -
  let ?f0 = "\<lparr>freeTEIDs = [1, 2], busyTEIDs = Some Map.empty\<rparr>"
  have new: "NewResourceManager ascending_rm_env [] 2 = Some (Val
      \<lparr>rm_IPAM = Some \<lparr>freeIPs = [], busyIPs = None\<rparr>, rm_FTEIDM = Some ?f0\<rparr>)"
    by (simp add: NewResourceManager_def teid_loop_def while_option_unfold)
  have run: "allocs (\<lambda>(s, p). AllocateTEID s p) [(7, 1), (7, 2), (8, 1)] ?f0 =
      ([1, 2], snd (allocs (\<lambda>(s, p). AllocateTEID s p) [(7, 1), (7, 2), (8, 1)] ?f0))"
    by (simp add: AllocateTEID_def)
  show ?thesis using run teid_pool_capacity [OF new _ run] by simp
qed

text \<open>
  Releasing is the inverse of allocating: when a session that holds no TEID is given
  one and then releases its TEIDs, the same TEIDs are free as before and every session
  holds what it held before.
\<close>

theorem teid_release_roundtrip:
  assumes "rangeTEIDs_ok E" and "fteid_ok U f" and "fteid_finite f"
    and "\<forall>p. busyTEID f s p = None" and "AllocateTEID s p f = (Val t, f')"
  shows "set (freeTEIDs (ReleaseTEID E s f')) = set (freeTEIDs f) \<and>
    (\<forall>s' p'. busyTEID (ReleaseTEID E s f') s' p' = busyTEID f s' p')"
proof -
  have fin: "fteid_finite f'" using fteid_finite_allocate [OF assms(3), of s p] assms(5) by simp
  have "{t'. \<exists>q. busyTEID f' s q = Some t'} = {t}"
    using assms(4) by (auto simp: busyTEID_allocate [OF assms(5)] split: if_splits)
  with ReleaseTEID_free [OF assms(1) fin, of s] AllocateTEID_Val_iff [OF assms(5)]
  have "set (freeTEIDs (ReleaseTEID E s f')) = set (freeTEIDs f)" by auto
  moreover have "busyTEID (ReleaseTEID E s f') s' p' = busyTEID f s' p'" for s' p'
    using assms(4) by (simp add: busyTEID_release busyTEID_allocate [OF assms(5)])
  ultimately show ?thesis by blast
qed

theorem teid_release_roundtrip_witness:
  "set (freeTEIDs (ReleaseTEID ascending_rm_env 7
     (snd (AllocateTEID 7 1 \<lparr>freeTEIDs = [1, 2], busyTEIDs = Some Map.empty\<rparr>)))) = {1, 2}"
proof -
  let ?f = "\<lparr>freeTEIDs = [1, 2], busyTEIDs = Some Map.empty\<rparr>"
  have ok: "fteid_ok {1, 2} ?f" "fteid_finite ?f" "\<forall>p. busyTEID ?f 7 p = None"
    by (auto simp: fteid_ok_def busyTEID_def fteid_finite_def)
  have al: "AllocateTEID 7 1 ?f = (Val 1, snd (AllocateTEID 7 1 ?f))"
    by (simp add: AllocateTEID_def)
  show ?thesis
    using teid_release_roundtrip [OF rangeTEIDs_ok_ascending ok al] by simp
qed

text \<open>
  An address pool keeps one address per session key. A second \<open>AllocateIP\<close> under the
  same key overwrites the first: after \<open>ReleaseIP\<close> the first address is neither free nor
  held by anyone, so it is lost to the pool.
\<close>

theorem ip_overwrite_leaks:
  assumes "ipam_ok U q" and "AllocateIP k q = (Val a, q1)" and "AllocateIP k q1 = (Val b, q2)"
  shows "a \<notin> set (freeIPs (ReleaseIP k q2)) \<and> (\<forall>s. busyIP (ReleaseIP k q2) s \<noteq> Some a)"
proof -
  note q1 = AllocateIP_Val [OF assms(2)] and q2 = AllocateIP_Val [OF assms(3)]
  have ok: "distinct (freeIPs q)" "busyIP q s = Some a \<Longrightarrow> a \<notin> set (freeIPs q)" for s
    using assms(1) unfolding ipam_ok_def by auto
  have "a \<noteq> b" "a \<notin> set (freeIPs q2)" using q1 [of k] q2 [of k] ok(1) by auto
  moreover have "busyIP q2 s \<noteq> Some a" if "s \<noteq> k" for s
    using q1 [of s] q2 [of s] ok(2) [of s] that by auto
  moreover have "busyIP q2 k = Some b" using q2 [of k] by simp
  ultimately show ?thesis
    by (auto simp: ReleaseIP_def busyIP_def split: option.splits)
qed

theorem ip_overwrite_leaks_witness:
  "Some [10, 0, 0, 1] \<notin> set (freeIPs (ReleaseIP 7 (snd (AllocateIP 7 (snd (AllocateIP 7
     \<lparr>freeIPs = [Some [10, 0, 0, 1], Some [10, 0, 0, 2]], busyIPs = Some Map.empty\<rparr>))))))"
proof -
  let ?q = "\<lparr>freeIPs = [Some [10, 0, 0, 1], Some [10, 0, 0, 2]], busyIPs = Some Map.empty\<rparr>"
  have ok: "ipam_ok {Some [10, 0, 0, 1], Some [10, 0, 0, 2]} ?q"
    by (auto simp: ipam_ok_def busyIP_def)
  have a: "AllocateIP 7 ?q = (Val (Some [10, 0, 0, 1]), snd (AllocateIP 7 ?q))"
    and b: "AllocateIP 7 (snd (AllocateIP 7 ?q)) =
      (Val (Some [10, 0, 0, 2]), snd (AllocateIP 7 (snd (AllocateIP 7 ?q))))"
    by (simp_all add: AllocateIP_def)
  show ?thesis using ip_overwrite_leaks [OF ok a b] by blast
qed

end
