(* ===== verification/Ebpf_Maps.thy ===== *)
theory Ebpf_Maps
  imports Resource_Manager
begin

text \<open>
  The data of the forwarding plane (\<open>cmd/ebpf/pdr.go\<close> and the structures of
  \<open>cmd/ebpf/xdp\<close> from which the Go types of map values are generated) and the two
  third-party packages that hold it.

  An eBPF map (cilium/ebpf) is an abstract value with the operations \<open>Put\<close>, \<open>Update\<close>
  with \<open>UpdateExist\<close>, \<open>Lookup\<close> and \<open>Delete\<close>, one typed view per table; a roaring
  bitmap is an abstract value with the operations that the identifier tracker calls. Both
  are parameters of the model, fields of the record \<open>bpf_env\<close>. \<open>map_ops_ok\<close>,
  \<open>array_ops_ok\<close> and \<open>bitmap_ok\<close> state what their documentation promises; the
  environment \<open>sim_bpf_env\<close> of simple maps and lists keeps these promises, so the
  theorems that assume them are not empty.
\<close>

section \<open>Data\<close>

record IpWMask =
  wm_Type :: u8
  wm_Ip :: IP
  wm_Mask :: IP

record PortRange =
  LowerBound :: u16
  UpperBound :: u16

record SdfFilter =
  sf_Protocol :: u8
  sf_SrcAddress :: IpWMask
  sf_SrcPortRange :: PortRange
  sf_DstAddress :: IpWMask
  sf_DstPortRange :: PortRange

record PdrInfo =
  pi_OuterHeaderRemoval :: u8
  pi_FarId :: u32
  pi_QerId :: u32
  pi_Urr1Id :: u32
  pi_Urr2Id :: u32
  pi_SdfFilter :: "SdfFilter option"

record FarInfo =
  fi_Action :: u8
  fi_OuterHeaderCreation :: u8
  fi_Teid :: u32
  fi_RemoteIP :: u32
  fi_TransportLevelMarking :: u16

record QerInfo =
  qi_GateStatusUL :: u8
  qi_GateStatusDL :: u8
  qi_Qfi :: u8
  qi_MaxBitrateUL :: u32
  qi_MaxBitrateDL :: u32
  qi_StartUL :: u64
  qi_StartDL :: u64

record UrrInfo =
  ui_UplinkVolume :: u64
  ui_DownlinkVolume :: u64

text \<open>
  The values that the PDR maps hold: the structures \<open>ip_subnet\<close>, \<open>port_range\<close>,
  \<open>sdf_filter\<close>, \<open>sdf_rules\<close> and \<open>pdr_info\<close> of the XDP program, from which the Go types
  are generated.
\<close>

record ip_subnet =
  sn_type :: u8
  sn_ip :: bytes
  sn_mask :: bytes

record port_range =
  lower_bound :: u16
  upper_bound :: u16

record sdf_filter =
  protocol :: u8
  src_addr :: ip_subnet
  src_port :: port_range
  dst_addr :: ip_subnet
  dst_port :: port_range

record sdf_rules =
  sr_sdf_filter :: sdf_filter
  sr_outer_header_removal :: u8
  sr_far_id :: u32
  sr_qer_id :: u32
  sr_urr1_id :: u32
  sr_urr2_id :: u32

record IpEntrypointPdrInfo =
  ep_far_id :: u32
  ep_qer_id :: u32
  ep_urr1_id :: u32
  ep_urr2_id :: u32
  ep_outer_header_removal :: u8
  ep_sdf_mode :: u8
  ep_sdf_rules :: sdf_rules

definition zero_FarInfo :: FarInfo where
  "zero_FarInfo = \<lparr>fi_Action = 0, fi_OuterHeaderCreation = 0, fi_Teid = 0, fi_RemoteIP = 0,
     fi_TransportLevelMarking = 0\<rparr>"

definition zero_QerInfo :: QerInfo where
  "zero_QerInfo = \<lparr>qi_GateStatusUL = 0, qi_GateStatusDL = 0, qi_Qfi = 0, qi_MaxBitrateUL = 0,
     qi_MaxBitrateDL = 0, qi_StartUL = 0, qi_StartDL = 0\<rparr>"

definition zero_UrrInfo :: UrrInfo where
  "zero_UrrInfo = \<lparr>ui_UplinkVolume = 0, ui_DownlinkVolume = 0\<rparr>"

definition zero_PdrInfo :: PdrInfo where
  "zero_PdrInfo = \<lparr>pi_OuterHeaderRemoval = 0, pi_FarId = 0, pi_QerId = 0, pi_Urr1Id = 0,
     pi_Urr2Id = 0, pi_SdfFilter = None\<rparr>"

definition zero_subnet :: ip_subnet where
  "zero_subnet = \<lparr>sn_type = 0, sn_ip = replicate 16 0, sn_mask = replicate 16 0\<rparr>"

definition zero_sdf_rules :: sdf_rules where
  "zero_sdf_rules = \<lparr>sr_sdf_filter = \<lparr>protocol = 0, src_addr = zero_subnet,
       src_port = \<lparr>lower_bound = 0, upper_bound = 0\<rparr>, dst_addr = zero_subnet,
       dst_port = \<lparr>lower_bound = 0, upper_bound = 0\<rparr>\<rparr>,
     sr_outer_header_removal = 0, sr_far_id = 0, sr_qer_id = 0, sr_urr1_id = 0, sr_urr2_id = 0\<rparr>"

definition zero_IpEntrypointPdrInfo :: IpEntrypointPdrInfo where
  "zero_IpEntrypointPdrInfo = \<lparr>ep_far_id = 0, ep_qer_id = 0, ep_urr1_id = 0, ep_urr2_id = 0,
     ep_outer_header_removal = 0, ep_sdf_mode = 0, ep_sdf_rules = zero_sdf_rules\<rparr>"

section \<open>The packages the code calls\<close>

record ('m, 'k, 'v) map_ops =
  Map_Put :: "'m \<Rightarrow> 'k \<Rightarrow> 'v \<Rightarrow> goerror option \<times> 'm"
  Map_UpdateExist :: "'m \<Rightarrow> 'k \<Rightarrow> 'v \<Rightarrow> goerror option \<times> 'm"
  Map_Lookup :: "'m \<Rightarrow> 'k \<Rightarrow> 'v option"
  Map_Delete :: "'m \<Rightarrow> 'k \<Rightarrow> goerror option \<times> 'm"

record ('m, 'b) bpf_env = rm_env +
  far_ops :: "('m, u32, FarInfo) map_ops"
  qer_ops :: "('m, u32, QerInfo) map_ops"
  urr_ops :: "('m, u32, UrrInfo) map_ops"
  teid_ops :: "('m, u32, IpEntrypointPdrInfo) map_ops"
  ip4_ops :: "('m, IP, IpEntrypointPdrInfo) map_ops"
  ip6_ops :: "('m, IP, IpEntrypointPdrInfo) map_ops"
  Map_isArray :: "'m \<Rightarrow> bool"
  Map_MaxEntries :: "'m \<Rightarrow> u32 option"
  NewBitmap :: 'b
  Bitmap_Flip :: "'b \<Rightarrow> u64 \<Rightarrow> u64 \<Rightarrow> 'b"
  Bitmap_Iterator :: "'b \<Rightarrow> u32 list"
  Bitmap_Remove :: "'b \<Rightarrow> u32 \<Rightarrow> 'b"
  Bitmap_Add :: "'b \<Rightarrow> u32 \<Rightarrow> 'b"

text \<open>
  A successful write is seen by later lookups of that key and of no other; a failed call
  changes nothing that lookups see.
\<close>

definition map_ops_ok :: "('m, 'k, 'v) map_ops \<Rightarrow> bool" where
  "map_ops_ok ops \<longleftrightarrow>
     (\<forall>m k v m'. Map_Put ops m k v = (None, m') \<longrightarrow> Map_Lookup ops m' = (Map_Lookup ops m)(k \<mapsto> v)) \<and>
     (\<forall>m k v e m'. Map_Put ops m k v = (Some e, m') \<longrightarrow> Map_Lookup ops m' = Map_Lookup ops m) \<and>
     (\<forall>m k v m'. Map_UpdateExist ops m k v = (None, m') \<longrightarrow>
        Map_Lookup ops m' = (Map_Lookup ops m)(k \<mapsto> v)) \<and>
     (\<forall>m k v e m'. Map_UpdateExist ops m k v = (Some e, m') \<longrightarrow> Map_Lookup ops m' = Map_Lookup ops m) \<and>
     (\<forall>m k m'. Map_Delete ops m k = (None, m') \<longrightarrow> Map_Lookup ops m' = (Map_Lookup ops m)(k := None)) \<and>
     (\<forall>m k e m'. Map_Delete ops m k = (Some e, m') \<longrightarrow> Map_Lookup ops m' = Map_Lookup ops m)"

text \<open>
  In a \<open>BPF_MAP_TYPE_ARRAY\<close> map every index below \<open>max_entries\<close> exists, so writing and
  reading it succeeds; no write changes the kind or the size of a map.
\<close>

definition array_ops_ok :: "('m \<Rightarrow> bool) \<Rightarrow> ('m \<Rightarrow> u32 option) \<Rightarrow> ('m, u32, 'v) map_ops \<Rightarrow> bool" where
  "array_ops_ok isArray maxEntries ops \<longleftrightarrow>
     (\<forall>m n k v. isArray m \<longrightarrow> maxEntries m = Some n \<longrightarrow> k < n \<longrightarrow>
        fst (Map_Put ops m k v) = None \<and> fst (Map_UpdateExist ops m k v) = None \<and>
        Map_Lookup ops m k \<noteq> None) \<and>
     (\<forall>m k v. isArray (snd (Map_Put ops m k v)) = isArray m \<and>
        isArray (snd (Map_UpdateExist ops m k v)) = isArray m \<and>
        maxEntries (snd (Map_Put ops m k v)) = maxEntries m \<and>
        maxEntries (snd (Map_UpdateExist ops m k v)) = maxEntries m)"

text \<open>A roaring bitmap is a set of \<open>uint32\<close>; its iterator yields the set in ascending order.\<close>

definition bitmap_ok :: "('m, 'b, 'z) bpf_env_scheme \<Rightarrow> bool" where
  "bitmap_ok E \<longleftrightarrow>
     Bitmap_Iterator E (NewBitmap E) = [] \<and>
     (\<forall>b. sorted (Bitmap_Iterator E b) \<and> distinct (Bitmap_Iterator E b)) \<and>
     (\<forall>b lo hi. set (Bitmap_Iterator E (Bitmap_Flip E b lo hi)) =
        {x. (x \<in> set (Bitmap_Iterator E b)) \<noteq> (lo \<le> ucast x \<and> ucast x < hi)}) \<and>
     (\<forall>b x. set (Bitmap_Iterator E (Bitmap_Remove E b x)) = set (Bitmap_Iterator E b) - {x}) \<and>
     (\<forall>b x. set (Bitmap_Iterator E (Bitmap_Add E b x)) = insert x (set (Bitmap_Iterator E b)))"

definition bpf_env_ok :: "('m, 'b, 'z) bpf_env_scheme \<Rightarrow> bool" where
  "bpf_env_ok E \<longleftrightarrow>
     bitmap_ok E \<and>
     map_ops_ok (far_ops E) \<and> array_ops_ok (Map_isArray E) (Map_MaxEntries E) (far_ops E) \<and>
     map_ops_ok (qer_ops E) \<and> array_ops_ok (Map_isArray E) (Map_MaxEntries E) (qer_ops E) \<and>
     map_ops_ok (urr_ops E) \<and> array_ops_ok (Map_isArray E) (Map_MaxEntries E) (urr_ops E) \<and>
     map_ops_ok (teid_ops E) \<and> map_ops_ok (ip4_ops E) \<and> map_ops_ok (ip6_ops E)"

section \<open>A concrete environment\<close>

text \<open>A simulated kernel map, with one content per kind of value.\<close>

record kmap =
  km_array :: bool
  km_size :: u32
  km_far :: "u32 \<rightharpoonup> FarInfo"
  km_qer :: "u32 \<rightharpoonup> QerInfo"
  km_urr :: "u32 \<rightharpoonup> UrrInfo"
  km_teid :: "u32 \<rightharpoonup> IpEntrypointPdrInfo"
  km_ip :: "IP \<rightharpoonup> IpEntrypointPdrInfo"

definition sim_array ::
  "(kmap \<Rightarrow> u32 \<rightharpoonup> 'v) \<Rightarrow> ((u32 \<rightharpoonup> 'v) \<Rightarrow> kmap \<Rightarrow> kmap) \<Rightarrow> 'v \<Rightarrow> (kmap, u32, 'v) map_ops" where
  "sim_array get put zero =
     \<lparr>Map_Put = (\<lambda>m k v. if k < km_size m then (None, put ((get m)(k \<mapsto> v)) m) else (Some ErrLibrary, m)),
      Map_UpdateExist =
        (\<lambda>m k v. if k < km_size m then (None, put ((get m)(k \<mapsto> v)) m) else (Some ErrLibrary, m)),
      Map_Lookup = (\<lambda>m k. case get m k of Some v \<Rightarrow> Some v | None \<Rightarrow> if k < km_size m then Some zero else None),
      Map_Delete = (\<lambda>m k. (Some ErrLibrary, m))\<rparr>"

definition sim_hash ::
  "(kmap \<Rightarrow> 'k \<rightharpoonup> 'v) \<Rightarrow> (('k \<rightharpoonup> 'v) \<Rightarrow> kmap \<Rightarrow> kmap) \<Rightarrow> (kmap, 'k, 'v) map_ops" where
  "sim_hash get put =
     \<lparr>Map_Put = (\<lambda>m k v. (None, put ((get m)(k \<mapsto> v)) m)),
      Map_UpdateExist =
        (\<lambda>m k v. if get m k = None then (Some ErrLibrary, m) else (None, put ((get m)(k \<mapsto> v)) m)),
      Map_Lookup = get,
      Map_Delete =
        (\<lambda>m k. if get m k = None then (Some ErrLibrary, m) else (None, put ((get m)(k := None)) m))\<rparr>"

definition sim_bpf_env :: "(kmap, u32 list) bpf_env" where
  "sim_bpf_env =
     \<lparr>ipnetgen_New = (\<lambda>_. None), rangeTEIDs = ascending,
      far_ops = sim_array km_far (\<lambda>c. km_far_update (\<lambda>_. c)) zero_FarInfo,
      qer_ops = sim_array km_qer (\<lambda>c. km_qer_update (\<lambda>_. c)) zero_QerInfo,
      urr_ops = sim_array km_urr (\<lambda>c. km_urr_update (\<lambda>_. c)) zero_UrrInfo,
      teid_ops = sim_hash km_teid (\<lambda>c. km_teid_update (\<lambda>_. c)),
      ip4_ops = sim_hash km_ip (\<lambda>c. km_ip_update (\<lambda>_. c)),
      ip6_ops = sim_hash km_ip (\<lambda>c. km_ip_update (\<lambda>_. c)),
      Map_isArray = km_array,
      Map_MaxEntries = (\<lambda>m. Some (km_size m)),
      NewBitmap = [],
      Bitmap_Flip = (\<lambda>b lo hi.
        filter (\<lambda>x. x \<notin> set b \<and> lo \<le> ucast x \<and> ucast x < hi) (map of_nat [unat lo..<min (2 ^ 32) (unat hi)])
        @ filter (\<lambda>x. \<not> (lo \<le> ucast x \<and> ucast x < hi)) b),
      Bitmap_Iterator = (\<lambda>b. sort (remdups b)),
      Bitmap_Remove = (\<lambda>b x. removeAll x b),
      Bitmap_Add = (\<lambda>b x. x # b)\<rparr>"

section \<open>Consequences of the promises\<close>

lemma bitmap_okD:
  assumes "bitmap_ok E"
  shows "set (Bitmap_Iterator E (Bitmap_Remove E b x)) = set (Bitmap_Iterator E b) - {x}"
    and "set (Bitmap_Iterator E (Bitmap_Add E b x)) = insert x (set (Bitmap_Iterator E b))"
    and "sorted (Bitmap_Iterator E b)"
    and "distinct (Bitmap_Iterator E b)"
    and "set (Bitmap_Iterator E (Bitmap_Flip E (NewBitmap E) lo hi)) = {x. lo \<le> ucast x \<and> ucast x < hi}"
  using assms unfolding bitmap_ok_def by auto

lemma map_ops_okD:
  assumes "map_ops_ok ops"
  shows "Map_Put ops m k v = (None, m') \<Longrightarrow> Map_Lookup ops m' = (Map_Lookup ops m)(k \<mapsto> v)"
    and "Map_Put ops m k v = (Some e, m') \<Longrightarrow> Map_Lookup ops m' = Map_Lookup ops m"
    and "Map_UpdateExist ops m k v = (None, m') \<Longrightarrow> Map_Lookup ops m' = (Map_Lookup ops m)(k \<mapsto> v)"
    and "Map_UpdateExist ops m k v = (Some e, m') \<Longrightarrow> Map_Lookup ops m' = Map_Lookup ops m"
    and "Map_Delete ops m k = (None, m') \<Longrightarrow> Map_Lookup ops m' = (Map_Lookup ops m)(k := None)"
    and "Map_Delete ops m k = (Some e, m') \<Longrightarrow> Map_Lookup ops m' = Map_Lookup ops m"
  using assms unfolding map_ops_ok_def by metis+

lemma array_put:
  assumes "map_ops_ok ops" and "array_ops_ok A M ops" and "A m" and "M m = Some n" and "k < n"
  obtains m' where "Map_Put ops m k v = (None, m')" "Map_Lookup ops m' = (Map_Lookup ops m)(k \<mapsto> v)"
    "A m'" "M m' = Some n"
proof (cases "Map_Put ops m k v")
  case (Pair e m')
  with assms have e: "e = None" and "A m'" "M m' = Some n"
    unfolding array_ops_ok_def by (metis fst_conv, metis snd_conv, metis snd_conv)
  with Pair map_ops_okD(1) [OF assms(1), of m k v m'] that show ?thesis by simp
qed

lemma array_update:
  assumes "map_ops_ok ops" and "array_ops_ok A M ops" and "A m" and "M m = Some n" and "k < n"
  obtains m' where "Map_UpdateExist ops m k v = (None, m')"
    "Map_Lookup ops m' = (Map_Lookup ops m)(k \<mapsto> v)" "A m'" "M m' = Some n"
proof (cases "Map_UpdateExist ops m k v")
  case (Pair e m')
  with assms have e: "e = None" and "A m'" "M m' = Some n"
    unfolding array_ops_ok_def by (metis fst_conv, metis snd_conv, metis snd_conv)
  with Pair map_ops_okD(3) [OF assms(1), of m k v m'] that show ?thesis by simp
qed

lemma array_lookup:
  assumes "array_ops_ok A M ops" and "A m" and "M m = Some n" and "k < n"
  obtains v where "Map_Lookup ops m k = Some v"
  using assms unfolding array_ops_ok_def by blast

lemma bpf_env_okD:
  assumes "bpf_env_ok E"
  shows "bitmap_ok E"
    and "map_ops_ok (far_ops E)" "array_ops_ok (Map_isArray E) (Map_MaxEntries E) (far_ops E)"
    and "map_ops_ok (qer_ops E)" "array_ops_ok (Map_isArray E) (Map_MaxEntries E) (qer_ops E)"
    and "map_ops_ok (urr_ops E)" "array_ops_ok (Map_isArray E) (Map_MaxEntries E) (urr_ops E)"
    and "map_ops_ok (teid_ops E)" "map_ops_ok (ip4_ops E)" "map_ops_ok (ip6_ops E)"
  using assms unfolding bpf_env_ok_def by blast+

section \<open>The concrete environment keeps the promises\<close>

lemma sim_bpf_env_sel [simp]:
  "rangeTEIDs sim_bpf_env = ascending"
  "far_ops sim_bpf_env = sim_array km_far (\<lambda>c. km_far_update (\<lambda>_. c)) zero_FarInfo"
  "qer_ops sim_bpf_env = sim_array km_qer (\<lambda>c. km_qer_update (\<lambda>_. c)) zero_QerInfo"
  "urr_ops sim_bpf_env = sim_array km_urr (\<lambda>c. km_urr_update (\<lambda>_. c)) zero_UrrInfo"
  "teid_ops sim_bpf_env = sim_hash km_teid (\<lambda>c. km_teid_update (\<lambda>_. c))"
  "ip4_ops sim_bpf_env = sim_hash km_ip (\<lambda>c. km_ip_update (\<lambda>_. c))"
  "ip6_ops sim_bpf_env = sim_hash km_ip (\<lambda>c. km_ip_update (\<lambda>_. c))"
  "Map_isArray sim_bpf_env = km_array"
  "Map_MaxEntries sim_bpf_env m = Some (km_size m)"
  "NewBitmap sim_bpf_env = []"
  "Bitmap_Iterator sim_bpf_env bm = sort (remdups bm)"
  "Bitmap_Remove sim_bpf_env bm x = removeAll x bm"
  "Bitmap_Add sim_bpf_env bm x = x # bm"
  by (simp_all add: sim_bpf_env_def)

lemma sim_array_ok:
  assumes "\<And>c m. get (put c m) = c" "\<And>c m. km_size (put c m) = km_size m"
    "\<And>c m. km_array (put c m) = km_array m"
  shows "map_ops_ok (sim_array get put zero)"
    and "array_ops_ok km_array (\<lambda>m. Some (km_size m)) (sim_array get put zero)"
  using assms
  by (auto simp: map_ops_ok_def array_ops_ok_def sim_array_def fun_eq_iff split: option.splits if_splits)

lemma sim_hash_ok:
  assumes "\<And>c m. get (put c m) = c"
  shows "map_ops_ok (sim_hash get put)"
  using assms by (auto simp: map_ops_ok_def sim_hash_def split: if_splits)

lemma sim_bitmap_ok: "bitmap_ok sim_bpf_env"
proof -
  have flip: "x \<in> set (map of_nat [unat lo..<min 4294967296 (unat hi)])"
    if "lo \<le> ucast x" "ucast x < hi" for x :: u32 and lo hi :: u64
  proof -
    have "unat (ucast x :: u64) = unat x"
      by (simp add: unsigned_ucast_eq take_bit_nat_eq_self order_less_trans [OF unat32_lt])
    with that unat32_lt [of x] have "unat x \<in> set [unat lo..<min 4294967296 (unat hi)]"
      by (simp add: word_le_nat_alt word_less_nat_alt)
    then have "of_nat (unat x) \<in> set (map (of_nat :: nat \<Rightarrow> u32) [unat lo..<min 4294967296 (unat hi)])"
      by (metis imageI set_map)
    then show ?thesis by simp
  qed
  show ?thesis
    unfolding bitmap_ok_def sim_bpf_env_def
    by (auto simp del: set_map intro: flip)
qed

lemma sim_bpf_env_ok: "bpf_env_ok sim_bpf_env"
proof -
  have "map_ops_ok (far_ops sim_bpf_env)" "map_ops_ok (qer_ops sim_bpf_env)"
    "map_ops_ok (urr_ops sim_bpf_env)" "map_ops_ok (teid_ops sim_bpf_env)"
    "map_ops_ok (ip4_ops sim_bpf_env)" "map_ops_ok (ip6_ops sim_bpf_env)"
    by (simp_all add: sim_bpf_env_def sim_array_ok sim_hash_ok)
  moreover have "array_ops_ok (Map_isArray sim_bpf_env) (Map_MaxEntries sim_bpf_env) (far_ops sim_bpf_env)"
    "array_ops_ok (Map_isArray sim_bpf_env) (Map_MaxEntries sim_bpf_env) (qer_ops sim_bpf_env)"
    "array_ops_ok (Map_isArray sim_bpf_env) (Map_MaxEntries sim_bpf_env) (urr_ops sim_bpf_env)"
    by (simp_all add: sim_bpf_env_def sim_array_ok)
  ultimately show ?thesis using sim_bitmap_ok by (simp add: bpf_env_ok_def)
qed

end
