(* ===== verification/Ebpf_Objects.thy ===== *)
theory Ebpf_Objects
  imports Ebpf_Maps
begin

text \<open>
  The eBPF objects of \<open>cmd/ebpf/objects.go\<close> and \<open>cmd/ebpf/pdr.go\<close>: the identifier
  trackers, the FAR, QER and URR tables, and the PDR tables with their SDF rules. This is
  the forwarding plane controller that the PFCP handlers call.

  The interface \<open>rule_table\<close> is the part of \<open>ForwardingPlaneController\<close> that deals with
  rules held under allocated identifiers; the FAR, QER and URR tables are
  interpretations of it. The mutexes make the calls on a tracker atomic.
\<close>

section \<open>The identifier tracker\<close>

record 'b IdTracker =
  bitmap :: 'b
  maxSize :: u32

definition NewIdTracker :: "('m, 'b, 'z) bpf_env_scheme \<Rightarrow> u32 \<Rightarrow> 'b IdTracker" where
  "NewIdTracker E sz = \<lparr>bitmap = Bitmap_Flip E (NewBitmap E) 0 (ucast sz), maxSize = sz\<rparr>"

definition GetNext :: "('m, 'b, 'z) bpf_env_scheme \<Rightarrow> ('b IdTracker, u32) op" where
  "GetNext E t =
     (case Bitmap_Iterator E (bitmap t) of
        next # _ \<Rightarrow> (Val next, t\<lparr>bitmap := Bitmap_Remove E (bitmap t) next\<rparr>)
      | [] \<Rightarrow> (Err (ErrText ''pool is empty''), t))"

definition Release :: "('m, 'b, 'z) bpf_env_scheme \<Rightarrow> u32 \<Rightarrow> 'b IdTracker \<Rightarrow> 'b IdTracker" where
  "Release E i t = (if maxSize t \<le> i then t else t\<lparr>bitmap := Bitmap_Add E (bitmap t) i\<rparr>)"

section \<open>The eBPF objects\<close>

record ('m, 'b) BpfObjects =
  FarMap :: 'm
  QerMap :: 'm
  UrrMap :: 'm
  PdrMapTeidIp4 :: 'm
  PdrMapDownlinkIp4 :: 'm
  PdrMapDownlinkIp6 :: 'm
  farIdTracker :: "'b IdTracker"
  qerIdTracker :: "'b IdTracker"
  urrIdTracker :: "'b IdTracker"

text \<open>The end of \<open>Load\<close>: the trackers get the sizes of the loaded maps.\<close>

definition Load_trackers :: "('m, 'b, 'z) bpf_env_scheme \<Rightarrow> (('m, 'b) BpfObjects, unit) op" where
  "Load_trackers E b =
     (case Map_MaxEntries E (FarMap b) of
        None \<Rightarrow> (Err ErrLibrary, b)
      | Some nf \<Rightarrow>
         (let b = b\<lparr>farIdTracker := NewIdTracker E nf\<rparr>
          in case Map_MaxEntries E (QerMap b) of
               None \<Rightarrow> (Err ErrLibrary, b)
             | Some nq \<Rightarrow>
                (let b = b\<lparr>qerIdTracker := NewIdTracker E nq\<rparr>
                 in case Map_MaxEntries E (UrrMap b) of
                      None \<Rightarrow> (Err ErrLibrary, b)
                    | Some nu \<Rightarrow> (Val (), b\<lparr>urrIdTracker := NewIdTracker E nu\<rparr>))))"

definition GetNextFAR :: "('m, 'b, 'z) bpf_env_scheme \<Rightarrow> (('m, 'b) BpfObjects, u32) op" where
  "GetNextFAR E b = (case GetNext E (farIdTracker b) of (r, t) \<Rightarrow> (r, b\<lparr>farIdTracker := t\<rparr>))"

definition GetNextQER :: "('m, 'b, 'z) bpf_env_scheme \<Rightarrow> (('m, 'b) BpfObjects, u32) op" where
  "GetNextQER E b = (case GetNext E (qerIdTracker b) of (r, t) \<Rightarrow> (r, b\<lparr>qerIdTracker := t\<rparr>))"

definition GetNextURR :: "('m, 'b, 'z) bpf_env_scheme \<Rightarrow> (('m, 'b) BpfObjects, u32) op" where
  "GetNextURR E b = (case GetNext E (urrIdTracker b) of (r, t) \<Rightarrow> (r, b\<lparr>urrIdTracker := t\<rparr>))"

definition ReleaseFAR ::
  "('m, 'b, 'z) bpf_env_scheme \<Rightarrow> u32 \<Rightarrow> ('m, 'b) BpfObjects \<Rightarrow> ('m, 'b) BpfObjects" where
  "ReleaseFAR E farId b = b\<lparr>farIdTracker := Release E farId (farIdTracker b)\<rparr>"

definition ReleaseQER ::
  "('m, 'b, 'z) bpf_env_scheme \<Rightarrow> u32 \<Rightarrow> ('m, 'b) BpfObjects \<Rightarrow> ('m, 'b) BpfObjects" where
  "ReleaseQER E qerId b = b\<lparr>qerIdTracker := Release E qerId (qerIdTracker b)\<rparr>"

definition ReleaseURR ::
  "('m, 'b, 'z) bpf_env_scheme \<Rightarrow> u32 \<Rightarrow> ('m, 'b) BpfObjects \<Rightarrow> ('m, 'b) BpfObjects" where
  "ReleaseURR E urrId b = b\<lparr>urrIdTracker := Release E urrId (urrIdTracker b)\<rparr>"

text \<open>The error that a call returned becomes the result of the operation.\<close>

definition err_res :: "goerror option \<Rightarrow> 'a \<Rightarrow> 'a res" where
  "err_res e a = (case e of None \<Rightarrow> Val a | Some e \<Rightarrow> Err e)"

subsection \<open>FAR, QER and URR tables\<close>

definition NewFar ::
  "('m, 'b, 'z) bpf_env_scheme \<Rightarrow> FarInfo \<Rightarrow> (('m, 'b) BpfObjects, u32) op" where
  "NewFar E farInfo =
     bind_op (GetNextFAR E) (\<lambda>internalId b.
       case Map_Put (far_ops E) (FarMap b) internalId farInfo of
         (e, m) \<Rightarrow> (err_res e internalId, b\<lparr>FarMap := m\<rparr>))"

definition UpdateFar ::
  "('m, 'b, 'z) bpf_env_scheme \<Rightarrow> u32 \<Rightarrow> FarInfo \<Rightarrow> (('m, 'b) BpfObjects, unit) op" where
  "UpdateFar E internalId farInfo b =
     (case Map_UpdateExist (far_ops E) (FarMap b) internalId farInfo of
        (e, m) \<Rightarrow> (err_res e (), b\<lparr>FarMap := m\<rparr>))"

definition DeleteFar :: "('m, 'b, 'z) bpf_env_scheme \<Rightarrow> u32 \<Rightarrow> (('m, 'b) BpfObjects, unit) op" where
  "DeleteFar E internalId b =
     (let b = ReleaseFAR E internalId b
      in case Map_UpdateExist (far_ops E) (FarMap b) internalId zero_FarInfo of
           (e, m) \<Rightarrow> (err_res e (), b\<lparr>FarMap := m\<rparr>))"

definition NewQer ::
  "('m, 'b, 'z) bpf_env_scheme \<Rightarrow> QerInfo \<Rightarrow> (('m, 'b) BpfObjects, u32) op" where
  "NewQer E qerInfo =
     bind_op (GetNextQER E) (\<lambda>internalId b.
       case Map_Put (qer_ops E) (QerMap b) internalId qerInfo of
         (e, m) \<Rightarrow> (err_res e internalId, b\<lparr>QerMap := m\<rparr>))"

definition UpdateQer ::
  "('m, 'b, 'z) bpf_env_scheme \<Rightarrow> u32 \<Rightarrow> QerInfo \<Rightarrow> (('m, 'b) BpfObjects, unit) op" where
  "UpdateQer E internalId qerInfo b =
     (case Map_UpdateExist (qer_ops E) (QerMap b) internalId qerInfo of
        (e, m) \<Rightarrow> (err_res e (), b\<lparr>QerMap := m\<rparr>))"

definition DeleteQer :: "('m, 'b, 'z) bpf_env_scheme \<Rightarrow> u32 \<Rightarrow> (('m, 'b) BpfObjects, unit) op" where
  "DeleteQer E internalId b =
     (let b = ReleaseQER E internalId b
      in case Map_UpdateExist (qer_ops E) (QerMap b) internalId zero_QerInfo of
           (e, m) \<Rightarrow> (err_res e (), b\<lparr>QerMap := m\<rparr>))"

definition NewUrr ::
  "('m, 'b, 'z) bpf_env_scheme \<Rightarrow> UrrInfo \<Rightarrow> (('m, 'b) BpfObjects, u32) op" where
  "NewUrr E urrInfo =
     bind_op (GetNextURR E) (\<lambda>internalId b.
       case Map_Put (urr_ops E) (UrrMap b) internalId urrInfo of
         (e, m) \<Rightarrow> (err_res e internalId, b\<lparr>UrrMap := m\<rparr>))"

definition UpdateUrr ::
  "('m, 'b, 'z) bpf_env_scheme \<Rightarrow> u32 \<Rightarrow> UrrInfo \<Rightarrow> (('m, 'b) BpfObjects, unit) op" where
  "UpdateUrr E internalId urrInfo b =
     (case Map_UpdateExist (urr_ops E) (UrrMap b) internalId urrInfo of
        (e, m) \<Rightarrow> (err_res e (), b\<lparr>UrrMap := m\<rparr>))"

definition DeleteUrr :: "('m, 'b, 'z) bpf_env_scheme \<Rightarrow> u32 \<Rightarrow> (('m, 'b) BpfObjects, UrrInfo) op" where
  "DeleteUrr E internalId b =
     (case Map_Lookup (urr_ops E) (UrrMap b) internalId of
        None \<Rightarrow> (Err ErrLibrary, b)
      | Some urrInfo \<Rightarrow>
         (let b = ReleaseURR E internalId b
          in case Map_UpdateExist (urr_ops E) (UrrMap b) internalId zero_UrrInfo of
               (e, m) \<Rightarrow> (err_res e urrInfo, b\<lparr>UrrMap := m\<rparr>)))"

subsection \<open>PDR tables\<close>

text \<open>
  \<open>Copy16Ip\<close>: the bytes of an address or mask of 4 or 16 bytes in reverse order, in an
  array of 16 bytes.
\<close>

definition Copy16Ip :: "IP \<Rightarrow> bytes" where
  "Copy16Ip arr =
     (let bs = (case arr of None \<Rightarrow> [] | Some bs \<Rightarrow> bs);
          arrLen = (if length bs = 4 then 4 else if length bs = 16 then 16 else 0)
      in fold (\<lambda>i c. c[i := bs ! (arrLen - 1 - i)]) [0..<arrLen] (replicate 16 0))"

definition CombinePdrWithSdf :: "IpEntrypointPdrInfo option \<Rightarrow> PdrInfo \<Rightarrow> IpEntrypointPdrInfo res" where
  "CombinePdrWithSdf defaultPdr sdfPdr =
     (let pdrToStore =
        (case defaultPdr of
           Some d \<Rightarrow> zero_IpEntrypointPdrInfo
             \<lparr>ep_outer_header_removal := ep_outer_header_removal d, ep_far_id := ep_far_id d,
              ep_qer_id := ep_qer_id d, ep_sdf_mode := 2\<rparr>
         | None \<Rightarrow> zero_IpEntrypointPdrInfo\<lparr>ep_sdf_mode := 1\<rparr>)
      in case pi_SdfFilter sdfPdr of
           None \<Rightarrow> Panic NilDereference
         | Some f \<Rightarrow>
             Val (pdrToStore\<lparr>ep_sdf_rules := zero_sdf_rules
               \<lparr>sr_sdf_filter :=
                 \<lparr>protocol = sf_Protocol f,
                  src_addr = \<lparr>sn_type = wm_Type (sf_SrcAddress f),
                     sn_ip = Copy16Ip (wm_Ip (sf_SrcAddress f)),
                     sn_mask = Copy16Ip (wm_Mask (sf_SrcAddress f))\<rparr>,
                  src_port = \<lparr>lower_bound = LowerBound (sf_SrcPortRange f),
                     upper_bound = UpperBound (sf_SrcPortRange f)\<rparr>,
                  dst_addr = \<lparr>sn_type = wm_Type (sf_DstAddress f),
                     sn_ip = Copy16Ip (wm_Ip (sf_DstAddress f)),
                     sn_mask = Copy16Ip (wm_Mask (sf_DstAddress f))\<rparr>,
                  dst_port = \<lparr>lower_bound = LowerBound (sf_DstPortRange f),
                     upper_bound = UpperBound (sf_DstPortRange f)\<rparr>\<rparr>,
                sr_outer_header_removal := pi_OuterHeaderRemoval sdfPdr,
                sr_far_id := pi_FarId sdfPdr,
                sr_qer_id := pi_QerId sdfPdr\<rparr>\<rparr>))"

definition ToIpEntrypointPdrInfo :: "PdrInfo \<Rightarrow> IpEntrypointPdrInfo" where
  "ToIpEntrypointPdrInfo defaultPdr =
     zero_IpEntrypointPdrInfo
       \<lparr>ep_outer_header_removal := pi_OuterHeaderRemoval defaultPdr,
        ep_far_id := pi_FarId defaultPdr, ep_qer_id := pi_QerId defaultPdr\<rparr>"

definition PreprocessPdrWithSdf ::
  "('k \<Rightarrow> IpEntrypointPdrInfo option) \<Rightarrow> 'k \<Rightarrow> PdrInfo \<Rightarrow> IpEntrypointPdrInfo res" where
  "PreprocessPdrWithSdf lookup key pdrInfo = CombinePdrWithSdf (lookup key) pdrInfo"

text \<open>The value that the \<open>Put\<close> and \<open>Update\<close> functions of the PDR maps compute first.\<close>

definition pdrToStore ::
  "('m, 'k, IpEntrypointPdrInfo) map_ops \<Rightarrow> 'm \<Rightarrow> 'k \<Rightarrow> PdrInfo \<Rightarrow> IpEntrypointPdrInfo res" where
  "pdrToStore ops m key pdrInfo =
     (if pi_SdfFilter pdrInfo \<noteq> None then PreprocessPdrWithSdf (Map_Lookup ops m) key pdrInfo
      else Val (ToIpEntrypointPdrInfo pdrInfo))"

definition PutPdrUplink ::
  "('m, 'b, 'z) bpf_env_scheme \<Rightarrow> u32 \<Rightarrow> PdrInfo \<Rightarrow> (('m, 'b) BpfObjects, unit) op" where
  "PutPdrUplink E teid pdrInfo b =
     (case pdrToStore (teid_ops E) (PdrMapTeidIp4 b) teid pdrInfo of
        Val v \<Rightarrow> (case Map_Put (teid_ops E) (PdrMapTeidIp4 b) teid v of
            (e, m) \<Rightarrow> (err_res e (), b\<lparr>PdrMapTeidIp4 := m\<rparr>))
      | Err e \<Rightarrow> (Err e, b)
      | Panic p \<Rightarrow> (Panic p, b))"

definition UpdatePdrUplink ::
  "('m, 'b, 'z) bpf_env_scheme \<Rightarrow> u32 \<Rightarrow> PdrInfo \<Rightarrow> (('m, 'b) BpfObjects, unit) op" where
  "UpdatePdrUplink E teid pdrInfo b =
     (case pdrToStore (teid_ops E) (PdrMapTeidIp4 b) teid pdrInfo of
        Val v \<Rightarrow> (case Map_UpdateExist (teid_ops E) (PdrMapTeidIp4 b) teid v of
            (e, m) \<Rightarrow> (err_res e (), b\<lparr>PdrMapTeidIp4 := m\<rparr>))
      | Err e \<Rightarrow> (Err e, b)
      | Panic p \<Rightarrow> (Panic p, b))"

definition DeletePdrUplink :: "('m, 'b, 'z) bpf_env_scheme \<Rightarrow> u32 \<Rightarrow> (('m, 'b) BpfObjects, unit) op" where
  "DeletePdrUplink E teid b =
     (case Map_Delete (teid_ops E) (PdrMapTeidIp4 b) teid of
        (e, m) \<Rightarrow> (err_res e (), b\<lparr>PdrMapTeidIp4 := m\<rparr>))"

definition PutPdrDownlink ::
  "('m, 'b, 'z) bpf_env_scheme \<Rightarrow> IP \<Rightarrow> PdrInfo \<Rightarrow> (('m, 'b) BpfObjects, unit) op" where
  "PutPdrDownlink E ipv4 pdrInfo b =
     (case pdrToStore (ip4_ops E) (PdrMapDownlinkIp4 b) ipv4 pdrInfo of
        Val v \<Rightarrow> (case Map_Put (ip4_ops E) (PdrMapDownlinkIp4 b) ipv4 v of
            (e, m) \<Rightarrow> (err_res e (), b\<lparr>PdrMapDownlinkIp4 := m\<rparr>))
      | Err e \<Rightarrow> (Err e, b)
      | Panic p \<Rightarrow> (Panic p, b))"

definition UpdatePdrDownlink ::
  "('m, 'b, 'z) bpf_env_scheme \<Rightarrow> IP \<Rightarrow> PdrInfo \<Rightarrow> (('m, 'b) BpfObjects, unit) op" where
  "UpdatePdrDownlink E ipv4 pdrInfo b =
     (case pdrToStore (ip4_ops E) (PdrMapDownlinkIp4 b) ipv4 pdrInfo of
        Val v \<Rightarrow> (case Map_UpdateExist (ip4_ops E) (PdrMapDownlinkIp4 b) ipv4 v of
            (e, m) \<Rightarrow> (err_res e (), b\<lparr>PdrMapDownlinkIp4 := m\<rparr>))
      | Err e \<Rightarrow> (Err e, b)
      | Panic p \<Rightarrow> (Panic p, b))"

definition DeletePdrDownlink :: "('m, 'b, 'z) bpf_env_scheme \<Rightarrow> IP \<Rightarrow> (('m, 'b) BpfObjects, unit) op" where
  "DeletePdrDownlink E ipv4 b =
     (case Map_Delete (ip4_ops E) (PdrMapDownlinkIp4 b) ipv4 of
        (e, m) \<Rightarrow> (err_res e (), b\<lparr>PdrMapDownlinkIp4 := m\<rparr>))"

definition PutDownlinkPdrIp6 ::
  "('m, 'b, 'z) bpf_env_scheme \<Rightarrow> IP \<Rightarrow> PdrInfo \<Rightarrow> (('m, 'b) BpfObjects, unit) op" where
  "PutDownlinkPdrIp6 E ipv6 pdrInfo b =
     (case pdrToStore (ip6_ops E) (PdrMapDownlinkIp6 b) ipv6 pdrInfo of
        Val v \<Rightarrow> (case Map_Put (ip6_ops E) (PdrMapDownlinkIp6 b) ipv6 v of
            (e, m) \<Rightarrow> (err_res e (), b\<lparr>PdrMapDownlinkIp6 := m\<rparr>))
      | Err e \<Rightarrow> (Err e, b)
      | Panic p \<Rightarrow> (Panic p, b))"

definition UpdateDownlinkPdrIp6 ::
  "('m, 'b, 'z) bpf_env_scheme \<Rightarrow> IP \<Rightarrow> PdrInfo \<Rightarrow> (('m, 'b) BpfObjects, unit) op" where
  "UpdateDownlinkPdrIp6 E ipv6 pdrInfo b =
     (case pdrToStore (ip6_ops E) (PdrMapDownlinkIp6 b) ipv6 pdrInfo of
        Val v \<Rightarrow> (case Map_UpdateExist (ip6_ops E) (PdrMapDownlinkIp6 b) ipv6 v of
            (e, m) \<Rightarrow> (err_res e (), b\<lparr>PdrMapDownlinkIp6 := m\<rparr>))
      | Err e \<Rightarrow> (Err e, b)
      | Panic p \<Rightarrow> (Panic p, b))"

definition DeleteDownlinkPdrIp6 :: "('m, 'b, 'z) bpf_env_scheme \<Rightarrow> IP \<Rightarrow> (('m, 'b) BpfObjects, unit) op" where
  "DeleteDownlinkPdrIp6 E ipv6 b =
     (case Map_Delete (ip6_ops E) (PdrMapDownlinkIp6 b) ipv6 of
        (e, m) \<Rightarrow> (err_res e (), b\<lparr>PdrMapDownlinkIp6 := m\<rparr>))"

section \<open>What the tables promise\<close>

definition tracker_free :: "('m, 'b, 'z) bpf_env_scheme \<Rightarrow> 'b IdTracker \<Rightarrow> u32 set" where
  "tracker_free E t = set (Bitmap_Iterator E (bitmap t))"

text \<open>The tracker hands out only identifiers below its size.\<close>

definition tracker_ok :: "('m, 'b, 'z) bpf_env_scheme \<Rightarrow> 'b IdTracker \<Rightarrow> bool" where
  "tracker_ok E t \<longleftrightarrow> bitmap_ok E \<and> (\<forall>i \<in> tracker_free E t. i < maxSize t)"

text \<open>The kernel array has as many entries as its tracker has identifiers.\<close>

definition table_ok :: "('m, 'b, 'z) bpf_env_scheme \<Rightarrow> 'm \<Rightarrow> 'b IdTracker \<Rightarrow> bool" where
  "table_ok E m t \<longleftrightarrow>
     bpf_env_ok E \<and> tracker_ok E t \<and> Map_isArray E m \<and> Map_MaxEntries E m = Some (maxSize t)"

definition far_ok :: "('m, 'b, 'z) bpf_env_scheme \<Rightarrow> ('m, 'b) BpfObjects \<Rightarrow> bool" where
  "far_ok E b \<longleftrightarrow> table_ok E (FarMap b) (farIdTracker b)"

definition qer_ok :: "('m, 'b, 'z) bpf_env_scheme \<Rightarrow> ('m, 'b) BpfObjects \<Rightarrow> bool" where
  "qer_ok E b \<longleftrightarrow> table_ok E (QerMap b) (qerIdTracker b)"

definition urr_ok :: "('m, 'b, 'z) bpf_env_scheme \<Rightarrow> ('m, 'b) BpfObjects \<Rightarrow> bool" where
  "urr_ok E b \<longleftrightarrow> table_ok E (UrrMap b) (urrIdTracker b)"

abbreviation far_lookup :: "('m, 'b, 'z) bpf_env_scheme \<Rightarrow> ('m, 'b) BpfObjects \<Rightarrow> u32 \<rightharpoonup> FarInfo" where
  "far_lookup E b \<equiv> Map_Lookup (far_ops E) (FarMap b)"

abbreviation qer_lookup :: "('m, 'b, 'z) bpf_env_scheme \<Rightarrow> ('m, 'b) BpfObjects \<Rightarrow> u32 \<rightharpoonup> QerInfo" where
  "qer_lookup E b \<equiv> Map_Lookup (qer_ops E) (QerMap b)"

abbreviation urr_lookup :: "('m, 'b, 'z) bpf_env_scheme \<Rightarrow> ('m, 'b) BpfObjects \<Rightarrow> u32 \<rightharpoonup> UrrInfo" where
  "urr_lookup E b \<equiv> Map_Lookup (urr_ops E) (UrrMap b)"

abbreviation uplink_lookup ::
  "('m, 'b, 'z) bpf_env_scheme \<Rightarrow> ('m, 'b) BpfObjects \<Rightarrow> u32 \<rightharpoonup> IpEntrypointPdrInfo" where
  "uplink_lookup E b \<equiv> Map_Lookup (teid_ops E) (PdrMapTeidIp4 b)"

text \<open>
  The three tables work alike: an array map and a tracker of its indices. \<open>tbl_new\<close>,
  \<open>tbl_update\<close> and \<open>tbl_delete\<close> are that common core.
\<close>

definition tbl_new ::
  "('m, 'b, 'z) bpf_env_scheme \<Rightarrow> ('m, u32, 'v) map_ops \<Rightarrow> 'v \<Rightarrow> ('m \<times> 'b IdTracker, u32) op" where
  "tbl_new E ops v mt =
     (case GetNext E (snd mt) of
        (Val i, t) \<Rightarrow> (case Map_Put ops (fst mt) i v of (e, m) \<Rightarrow> (err_res e i, (m, t)))
      | (Err e, t) \<Rightarrow> (Err e, (fst mt, t))
      | (Panic p, t) \<Rightarrow> (Panic p, (fst mt, t)))"

definition tbl_update ::
  "('m, u32, 'v) map_ops \<Rightarrow> u32 \<Rightarrow> 'v \<Rightarrow> ('m \<times> 'b IdTracker, unit) op" where
  "tbl_update ops i v mt =
     (case Map_UpdateExist ops (fst mt) i v of (e, m) \<Rightarrow> (err_res e (), (m, snd mt)))"

definition tbl_delete ::
  "('m, 'b, 'z) bpf_env_scheme \<Rightarrow> ('m, u32, 'v) map_ops \<Rightarrow> 'v \<Rightarrow> u32 \<Rightarrow> ('m \<times> 'b IdTracker, unit) op" where
  "tbl_delete E ops z i mt =
     (case Map_UpdateExist ops (fst mt) i z of (e, m) \<Rightarrow> (err_res e (), (m, Release E i (snd mt))))"

text \<open>A small concrete state: tables of four entries, identifier 0 of each in use.\<close>

definition sim_array_map :: kmap where
  "sim_array_map = \<lparr>km_array = True, km_size = 4, km_far = Map.empty, km_qer = Map.empty,
     km_urr = Map.empty, km_teid = Map.empty, km_ip = Map.empty\<rparr>"

definition sim_hash_map :: kmap where
  "sim_hash_map = sim_array_map\<lparr>km_array := False\<rparr>"

definition sim_objects :: "(kmap, u32 list) BpfObjects" where
  "sim_objects = \<lparr>FarMap = sim_array_map, QerMap = sim_array_map, UrrMap = sim_array_map,
     PdrMapTeidIp4 = sim_hash_map, PdrMapDownlinkIp4 = sim_hash_map, PdrMapDownlinkIp6 = sim_hash_map,
     farIdTracker = \<lparr>bitmap = [1, 2, 3], maxSize = 4\<rparr>,
     qerIdTracker = \<lparr>bitmap = [1, 2, 3], maxSize = 4\<rparr>,
     urrIdTracker = \<lparr>bitmap = [1, 2, 3], maxSize = 4\<rparr>\<rparr>"

text \<open>The filter \<open>permit out ip from any to any\<close>.\<close>

definition any_filter :: SdfFilter where
  "any_filter = \<lparr>sf_Protocol = 1, sf_SrcAddress = \<lparr>wm_Type = 0, wm_Ip = None, wm_Mask = None\<rparr>,
     sf_SrcPortRange = \<lparr>LowerBound = 0, UpperBound = 65535\<rparr>,
     sf_DstAddress = \<lparr>wm_Type = 0, wm_Ip = None, wm_Mask = None\<rparr>,
     sf_DstPortRange = \<lparr>LowerBound = 0, UpperBound = 65535\<rparr>\<rparr>"

section \<open>The interface of a rule table\<close>

locale rule_table =
  fixes new :: "'v \<Rightarrow> ('s, u32) op"
    and update :: "u32 \<Rightarrow> 'v \<Rightarrow> ('s, unit) op"
    and delete :: "u32 \<Rightarrow> ('s, 'r) op"
    and lookup :: "'s \<Rightarrow> u32 \<rightharpoonup> 'v"
    and free :: "'s \<Rightarrow> u32 set"
    and size_of :: "'s \<Rightarrow> u32"
    and zero :: 'v
    and inv :: "'s \<Rightarrow> bool"
  assumes new_Val: "inv s \<Longrightarrow> new v s = (Val i, s') \<Longrightarrow>
      i \<in> free s \<and> free s' = free s - {i} \<and> lookup s' = (lookup s)(i \<mapsto> v) \<and>
      size_of s' = size_of s \<and> inv s'"
    and new_Err: "inv s \<Longrightarrow> new v s = (Err e, s') \<Longrightarrow> free s = {} \<and> s' = s"
    and new_no_panic: "inv s \<Longrightarrow> new v s \<noteq> (Panic p, s')"
    and update_ok: "inv s \<Longrightarrow> i < size_of s \<Longrightarrow> \<exists>s'. update i v s = (Val (), s') \<and>
      free s' = free s \<and> lookup s' = (lookup s)(i \<mapsto> v) \<and> size_of s' = size_of s \<and> inv s'"
    and delete_ok: "inv s \<Longrightarrow> i < size_of s \<Longrightarrow> \<exists>r s'. delete i s = (Val r, s') \<and>
      free s' = insert i (free s) \<and> lookup s' = (lookup s)(i \<mapsto> zero) \<and>
      size_of s' = size_of s \<and> inv s'"
    and free_below: "inv s \<Longrightarrow> i \<in> free s \<Longrightarrow> i < size_of s"
    and free_fin: "inv s \<Longrightarrow> finite (free s)"
begin

text \<open>A rule table is an allocator, whatever rule each allocation stores.\<close>

sublocale ids: pool new free inv
  using new_Val new_Err new_no_panic free_fin by unfold_locales blast+

text \<open>A new rule is stored under an identifier that no rule in use has.\<close>

lemma new_fresh:
  assumes "inv s" and "new v s = (Val i, s')" and "used \<inter> free s = {}"
  shows "i \<notin> used" and "lookup s' i = Some v" and "\<And>j. j \<in> used \<Longrightarrow> lookup s' j = lookup s j"
    and "insert i used \<inter> free s' = {}"
  using new_Val [OF assms(1,2)] assms(3) by auto

lemma new_delete_roundtrip:
  assumes "inv s" and "new v s = (Val i, s')"
  shows "\<exists>r t. delete i s' = (Val r, t) \<and> free t = free s \<and>
    (\<forall>j. j \<noteq> i \<longrightarrow> lookup t j = lookup s j) \<and> inv t"
proof -
  note n = new_Val [OF assms]
  then have lt: "i < size_of s'" and inv: "inv s'" using free_below [OF assms(1), of i] by simp_all
  obtain r t where d: "delete i s' = (Val r, t)" "free t = insert i (free s')"
    "lookup t = (lookup s')(i \<mapsto> zero)" "inv t"
    using delete_ok [OF inv lt] by blast
  have "i \<in> free s" "free s' = free s - {i}" using n by blast+
  then have "insert i (free s') = free s" by blast
  with d(2) have "free t = free s" by (rule trans)
  moreover have "lookup t j = lookup s j" if "j \<noteq> i" for j using n d(3) that by simp
  ultimately show ?thesis using d by blast
qed

end

section \<open>Lemmas on the identifier tracker\<close>

lemma GetNext_Val:
  assumes "tracker_ok E t" and "GetNext E t = (Val i, t')"
  shows "i \<in> tracker_free E t \<and> tracker_free E t' = tracker_free E t - {i} \<and>
    maxSize t' = maxSize t \<and> tracker_ok E t'"
  using assms
  by (auto simp: GetNext_def tracker_ok_def tracker_free_def bitmap_okD(1) split: list.splits)

lemma GetNext_Err: "GetNext E t = (Err e, t') \<Longrightarrow> tracker_free E t = {} \<and> t' = t"
  by (auto simp: GetNext_def tracker_free_def split: list.splits)

lemma GetNext_no_panic: "GetNext E t \<noteq> (Panic p, t')"
  by (auto simp: GetNext_def split: list.splits)

lemma tracker_free_finite: "finite (tracker_free E t)"
  by (simp add: tracker_free_def)

lemma Release_free:
  assumes "tracker_ok E t" and "i < maxSize t"
  shows "tracker_free E (Release E i t) = insert i (tracker_free E t) \<and>
    maxSize (Release E i t) = maxSize t \<and> tracker_ok E (Release E i t)"
  using assms
  by (auto simp: Release_def tracker_ok_def tracker_free_def bitmap_okD(2))

interpretation id_tracker: pool "\<lambda>_ :: unit. GetNext E" "tracker_free E" "tracker_ok E" for E
  by unfold_locales (auto dest: GetNext_Val GetNext_Err simp: GetNext_no_panic tracker_free_finite)

lemma less_ucast64: "ucast x < (ucast y :: u64) \<longleftrightarrow> x < (y :: u32)"
  by (simp add: word_less_nat_alt unsigned_ucast_eq take_bit_nat_eq_self
      order_less_trans [OF unat32_lt])

lemma NewIdTracker_free:
  assumes "bitmap_ok E"
  shows "tracker_free E (NewIdTracker E n) = {i. i < n}" and "tracker_ok E (NewIdTracker E n)"
  using assms bitmap_okD(5) [OF assms, of 0 "ucast n"]
  by (auto simp: NewIdTracker_def tracker_free_def tracker_ok_def less_ucast64)

lemma table_okD:
  assumes "table_ok E m t"
  shows "bpf_env_ok E" "tracker_ok E t" "Map_isArray E m" "Map_MaxEntries E m = Some (maxSize t)"
  using assms unfolding table_ok_def by blast+

section \<open>The tables implement the interface\<close>

lemma tbl_new_Val:
  assumes "table_ok E m t" and ops: "map_ops_ok ops" "array_ops_ok (Map_isArray E) (Map_MaxEntries E) ops"
    and "tbl_new E ops v (m, t) = (Val i, (m', t'))"
  shows "i \<in> tracker_free E t \<and> tracker_free E t' = tracker_free E t - {i} \<and>
    Map_Lookup ops m' = (Map_Lookup ops m)(i \<mapsto> v) \<and> maxSize t' = maxSize t \<and> table_ok E m' t'"
proof -
  note T = table_okD [OF assms(1)]
  obtain t1 where n: "GetNext E t = (Val i, t1)" and t1: "t1 = t'" and
    p: "\<exists>e. Map_Put ops m i v = (e, m')"
    using assms(4) by (auto simp: tbl_new_def err_res_def split: prod.splits res.splits option.splits)
  from GetNext_Val [OF T(2) n] have g: "i \<in> tracker_free E t"
    "tracker_free E t' = tracker_free E t - {i}" "maxSize t' = maxSize t" "tracker_ok E t'"
    by (simp_all add: t1)
  with T(2) have "i < maxSize t" by (simp add: tracker_ok_def)
  then obtain m1 where "Map_Put ops m i v = (None, m1)"
    "Map_Lookup ops m1 = (Map_Lookup ops m)(i \<mapsto> v)" "Map_isArray E m1"
    "Map_MaxEntries E m1 = Some (maxSize t)"
    by (rule array_put [OF ops T(3,4)])
  with p g T(1) show ?thesis by (auto simp: table_ok_def)
qed

lemma tbl_new_Err:
  assumes "table_ok E m t" and ops: "map_ops_ok ops" "array_ops_ok (Map_isArray E) (Map_MaxEntries E) ops"
  shows "tbl_new E ops v (m, t) = (Err e, (m', t')) \<Longrightarrow> tracker_free E t = {} \<and> m' = m \<and> t' = t"
    and "tbl_new E ops v (m, t) \<noteq> (Panic p, (m', t'))"
proof -
  note T = table_okD [OF assms(1)]
  have ok: "tbl_new E ops v (m, t) \<noteq> (Err e, x)" if n: "GetNext E t = (Val i, t1)" for i t1 e x
  proof -
    have "i < maxSize t" using GetNext_Val [OF T(2) n] T(2) by (simp add: tracker_ok_def)
    then obtain m1 where "Map_Put ops m i v = (None, m1)"
      by (rule array_put [OF ops T(3,4)])
    with n show ?thesis by (simp add: tbl_new_def err_res_def)
  qed
  show "tracker_free E t = {} \<and> m' = m \<and> t' = t" if "tbl_new E ops v (m, t) = (Err e, (m', t'))"
  proof (cases "GetNext E t")
    case (Pair r t1)
    with that ok [of _ t1] GetNext_Err [of E t _ t1] show ?thesis
      by (cases r) (auto simp: tbl_new_def)
  qed
  show "tbl_new E ops v (m, t) \<noteq> (Panic p, (m', t'))"
    using GetNext_no_panic [of E t]
    by (auto simp: tbl_new_def err_res_def split: prod.splits res.splits option.splits)
qed

lemma tbl_update_ok:
  assumes "table_ok E m t" and ops: "map_ops_ok ops" "array_ops_ok (Map_isArray E) (Map_MaxEntries E) ops"
    and "i < maxSize t"
  shows "\<exists>m'. tbl_update ops i v (m, t) = (Val (), (m', t)) \<and>
    Map_Lookup ops m' = (Map_Lookup ops m)(i \<mapsto> v) \<and> table_ok E m' t"
proof -
  note T = table_okD [OF assms(1)]
  obtain m1 where "Map_UpdateExist ops m i v = (None, m1)"
    "Map_Lookup ops m1 = (Map_Lookup ops m)(i \<mapsto> v)" "Map_isArray E m1"
    "Map_MaxEntries E m1 = Some (maxSize t)"
    using array_update [OF ops T(3,4) assms(4)] .
  with T show ?thesis by (auto simp: tbl_update_def table_ok_def err_res_def)
qed

lemma tbl_delete_ok:
  assumes "table_ok E m t" and ops: "map_ops_ok ops" "array_ops_ok (Map_isArray E) (Map_MaxEntries E) ops"
    and "i < maxSize t"
  shows "\<exists>m' t'. tbl_delete E ops z i (m, t) = (Val (), (m', t')) \<and>
    tracker_free E t' = insert i (tracker_free E t) \<and>
    Map_Lookup ops m' = (Map_Lookup ops m)(i \<mapsto> z) \<and> maxSize t' = maxSize t \<and> table_ok E m' t'"
proof -
  note T = table_okD [OF assms(1)]
  obtain m1 where "Map_UpdateExist ops m i z = (None, m1)"
    "Map_Lookup ops m1 = (Map_Lookup ops m)(i \<mapsto> z)" "Map_isArray E m1"
    "Map_MaxEntries E m1 = Some (maxSize t)"
    using array_update [OF ops T(3,4) assms(4)] .
  with T Release_free [OF T(2) assms(4)] show ?thesis
    by (auto simp: tbl_delete_def table_ok_def err_res_def)
qed

lemmas bpf_op_defs =
  tbl_new_def tbl_update_def tbl_delete_def bind_op_def
  GetNextFAR_def GetNextQER_def GetNextURR_def ReleaseFAR_def ReleaseQER_def ReleaseURR_def
  NewFar_def UpdateFar_def DeleteFar_def NewQer_def UpdateQer_def DeleteQer_def
  NewUrr_def UpdateUrr_def DeleteUrr_def

lemma Far_as_table:
  "NewFar E v b = (case tbl_new E (far_ops E) v (FarMap b, farIdTracker b) of
     (r, (m, t)) \<Rightarrow> (r, b\<lparr>FarMap := m, farIdTracker := t\<rparr>))"
  "UpdateFar E i v b = (case tbl_update (far_ops E) i v (FarMap b, farIdTracker b) of
     (r, (m, t)) \<Rightarrow> (r, b\<lparr>FarMap := m, farIdTracker := t\<rparr>))"
  "DeleteFar E i b = (case tbl_delete E (far_ops E) zero_FarInfo i (FarMap b, farIdTracker b) of
     (r, (m, t)) \<Rightarrow> (r, b\<lparr>FarMap := m, farIdTracker := t\<rparr>))"
  by (auto simp: bpf_op_defs Let_def split: prod.splits res.splits)

lemma Qer_as_table:
  "NewQer E v b = (case tbl_new E (qer_ops E) v (QerMap b, qerIdTracker b) of
     (r, (m, t)) \<Rightarrow> (r, b\<lparr>QerMap := m, qerIdTracker := t\<rparr>))"
  "UpdateQer E i v b = (case tbl_update (qer_ops E) i v (QerMap b, qerIdTracker b) of
     (r, (m, t)) \<Rightarrow> (r, b\<lparr>QerMap := m, qerIdTracker := t\<rparr>))"
  "DeleteQer E i b = (case tbl_delete E (qer_ops E) zero_QerInfo i (QerMap b, qerIdTracker b) of
     (r, (m, t)) \<Rightarrow> (r, b\<lparr>QerMap := m, qerIdTracker := t\<rparr>))"
  by (auto simp: bpf_op_defs Let_def split: prod.splits res.splits)

lemma Urr_as_table:
  "NewUrr E v b = (case tbl_new E (urr_ops E) v (UrrMap b, urrIdTracker b) of
     (r, (m, t)) \<Rightarrow> (r, b\<lparr>UrrMap := m, urrIdTracker := t\<rparr>))"
  "UpdateUrr E i v b = (case tbl_update (urr_ops E) i v (UrrMap b, urrIdTracker b) of
     (r, (m, t)) \<Rightarrow> (r, b\<lparr>UrrMap := m, urrIdTracker := t\<rparr>))"
  "urr_lookup E b i = Some u \<Longrightarrow>
   DeleteUrr E i b = (case tbl_delete E (urr_ops E) zero_UrrInfo i (UrrMap b, urrIdTracker b) of
     (r, (m, t)) \<Rightarrow> (case r of Val _ \<Rightarrow> Val u | Err e \<Rightarrow> Err e | Panic p \<Rightarrow> Panic p,
        b\<lparr>UrrMap := m, urrIdTracker := t\<rparr>))"
  by (auto simp: bpf_op_defs Let_def err_res_def split: prod.splits res.splits option.splits)

abbreviation far_free :: "('m, 'b, 'z) bpf_env_scheme \<Rightarrow> ('m, 'b) BpfObjects \<Rightarrow> u32 set" where
  "far_free E b \<equiv> tracker_free E (farIdTracker b)"

abbreviation qer_free :: "('m, 'b, 'z) bpf_env_scheme \<Rightarrow> ('m, 'b) BpfObjects \<Rightarrow> u32 set" where
  "qer_free E b \<equiv> tracker_free E (qerIdTracker b)"

abbreviation urr_free :: "('m, 'b, 'z) bpf_env_scheme \<Rightarrow> ('m, 'b) BpfObjects \<Rightarrow> u32 set" where
  "urr_free E b \<equiv> tracker_free E (urrIdTracker b)"

text \<open>The common core is a rule table on pairs of a map and a tracker.\<close>

definition tbl_inv ::
  "('m, 'b, 'z) bpf_env_scheme \<Rightarrow> ('m, u32, 'v) map_ops \<Rightarrow> 'm \<times> 'b IdTracker \<Rightarrow> bool" where
  "tbl_inv E ops mt \<longleftrightarrow> table_ok E (fst mt) (snd mt) \<and> map_ops_ok ops \<and>
     array_ops_ok (Map_isArray E) (Map_MaxEntries E) ops"

lemma tbl_rule_table:
  "rule_table (tbl_new E ops) (tbl_update ops) (tbl_delete E ops z) (\<lambda>mt. Map_Lookup ops (fst mt))
     (\<lambda>mt. tracker_free E (snd mt)) (\<lambda>mt. maxSize (snd mt)) z (tbl_inv E ops)"
proof (unfold_locales, goal_cases)
  case (1 s v i s')
  then show ?case
    using tbl_new_Val [of E "fst s" "snd s" ops v i "fst s'" "snd s'"] by (simp add: tbl_inv_def)
next
  case (2 s v e s')
  then show ?case
    using tbl_new_Err(1) [of E "fst s" "snd s" ops v e "fst s'" "snd s'"]
    by (simp add: tbl_inv_def prod_eq_iff)
next
  case (3 s v p s')
  then show ?case
    using tbl_new_Err(2) [of E "fst s" "snd s" ops v p "fst s'" "snd s'"] by (simp add: tbl_inv_def)
next
  case (4 s i v)
  then show ?case
    using tbl_update_ok [of E "fst s" "snd s" ops i v] by (auto simp: tbl_inv_def)
next
  case (5 s i)
  then show ?case
    using tbl_delete_ok [of E "fst s" "snd s" ops i z] by (auto simp: tbl_inv_def)
next
  case (6 s i)
  then show ?case by (auto simp: tbl_inv_def table_ok_def tracker_ok_def)
next
  case (7 s)
  show ?case by (rule tracker_free_finite)
qed

text \<open>A rule table that is a part of a larger state is a rule table of that state.\<close>

lemma rule_table_lift:
  fixes get :: "'t \<Rightarrow> 's" and put :: "'s \<Rightarrow> 't \<Rightarrow> 't"
  assumes "rule_table new update delete lookup free size_of zero I"
    and put: "\<And>x s. get (put x s) = x" "\<And>s. put (get s) s = s"
    and new': "\<And>v s. new' v s = (case new v (get s) of (r, x) \<Rightarrow> (r, put x s))"
    and update': "\<And>i v s. update' i v s = (case update i v (get s) of (r, x) \<Rightarrow> (r, put x s))"
    and delete': "\<And>i s. I (get s) \<Longrightarrow> i < size_of (get s) \<Longrightarrow>
       \<exists>r. delete' i s = (Val r, put (snd (delete i (get s))) s)"
    and parts: "\<And>s. lookup' s = lookup (get s)" "\<And>s. free' s = free (get s)"
      "\<And>s. size_of' s = size_of (get s)" "\<And>s. I' s = I (get s)"
  shows "rule_table new' update' delete' lookup' free' size_of' zero I'"
proof (unfold_locales, goal_cases)
  case (1 s v i s')
  obtain x where x: "new v (get s) = (Val i, x)" "s' = put x s"
    using 1(2) by (auto simp: new' split: prod.splits)
  have inv: "I (get s)" using 1(1) by (simp add: parts)
  show ?case using rule_table.new_Val [OF assms(1) inv x(1)] by (simp add: parts put x(2))
next
  case (2 s v e s')
  then show ?case
    using rule_table.new_Err [OF assms(1), of "get s" v e] by (auto simp: parts new' put split: prod.splits)
next
  case (3 s v p s')
  then show ?case
    using rule_table.new_no_panic [OF assms(1), of "get s" v p] by (auto simp: parts new' split: prod.splits)
next
  case (4 s i v)
  then have "I (get s)" "i < size_of (get s)" by (simp_all add: parts)
  from rule_table.update_ok [OF assms(1) this, of v] obtain x where
    "update i v (get s) = (Val (), x)" "free x = free (get s)" "lookup x = (lookup (get s))(i \<mapsto> v)"
    "size_of x = size_of (get s)" "I x"
    by blast
  then show ?case by (intro exI [of _ "put x s"]) (simp add: parts update' put)
next
  case (5 s i)
  then have "I (get s)" "i < size_of (get s)" by (simp_all add: parts)
  from rule_table.delete_ok [OF assms(1) this] delete' [OF this] obtain r x where
    "delete' i s = (Val r, put x s)" "free x = insert i (free (get s))"
    "lookup x = (lookup (get s))(i \<mapsto> zero)" "size_of x = size_of (get s)" "I x"
    by auto
  then show ?case by (intro exI [of _ r] exI [of _ "put x s"]) (simp add: parts put)
next
  case (6 s i)
  then show ?case using rule_table.free_below [OF assms(1)] by (simp add: parts)
next
  case (7 s)
  then show ?case using rule_table.free_fin [OF assms(1)] by (simp add: parts)
qed

lemma tbl_inv_env:
  "table_ok E m t \<Longrightarrow> tbl_inv E (far_ops E) (m, t)"
  "table_ok E m t \<Longrightarrow> tbl_inv E (qer_ops E) (m, t)"
  "table_ok E m t \<Longrightarrow> tbl_inv E (urr_ops E) (m, t)"
  by (auto simp: tbl_inv_def dest!: table_okD(1) intro: bpf_env_okD)

lemma tbl_delete_Val:
  assumes "tbl_inv E ops (m, t)" and "i < maxSize t"
  shows "fst (tbl_delete E ops z i (m, t)) = Val ()"
  using tbl_delete_ok [of E m t ops i z] assms by (auto simp: tbl_inv_def)

interpretation far: rule_table "NewFar E" "UpdateFar E" "DeleteFar E" "far_lookup E" "far_free E"
  "\<lambda>b. maxSize (farIdTracker b)" zero_FarInfo "far_ok E" for E
proof (rule rule_table_lift [OF tbl_rule_table [of E "far_ops E" zero_FarInfo],
      where get = "\<lambda>b. (FarMap b, farIdTracker b)" and put = "\<lambda>(m, t) b. b\<lparr>FarMap := m, farIdTracker := t\<rparr>"],
    goal_cases)
  case (5 i s)
  then show ?case using tbl_delete_Val [of E "far_ops E" "FarMap s" "farIdTracker s" i zero_FarInfo]
    by (auto simp: Far_as_table(3) split: prod.splits)
qed (auto simp: Far_as_table(1,2) far_ok_def tbl_inv_env split: prod.splits, auto simp: tbl_inv_def)

interpretation qer: rule_table "NewQer E" "UpdateQer E" "DeleteQer E" "qer_lookup E" "qer_free E"
  "\<lambda>b. maxSize (qerIdTracker b)" zero_QerInfo "qer_ok E" for E
proof (rule rule_table_lift [OF tbl_rule_table [of E "qer_ops E" zero_QerInfo],
      where get = "\<lambda>b. (QerMap b, qerIdTracker b)" and put = "\<lambda>(m, t) b. b\<lparr>QerMap := m, qerIdTracker := t\<rparr>"],
    goal_cases)
  case (5 i s)
  then show ?case using tbl_delete_Val [of E "qer_ops E" "QerMap s" "qerIdTracker s" i zero_QerInfo]
    by (auto simp: Qer_as_table(3) split: prod.splits)
qed (auto simp: Qer_as_table(1,2) qer_ok_def tbl_inv_env split: prod.splits, auto simp: tbl_inv_def)

interpretation urr: rule_table "NewUrr E" "UpdateUrr E" "DeleteUrr E" "urr_lookup E" "urr_free E"
  "\<lambda>b. maxSize (urrIdTracker b)" zero_UrrInfo "urr_ok E" for E
proof (rule rule_table_lift [OF tbl_rule_table [of E "urr_ops E" zero_UrrInfo],
      where get = "\<lambda>b. (UrrMap b, urrIdTracker b)" and put = "\<lambda>(m, t) b. b\<lparr>UrrMap := m, urrIdTracker := t\<rparr>"],
    goal_cases)
  case (5 i s)
  then have inv: "tbl_inv E (urr_ops E) (UrrMap s, urrIdTracker s)" and i: "i < maxSize (urrIdTracker s)"
    by simp_all
  then obtain u where "urr_lookup E s i = Some u"
    unfolding tbl_inv_def by (auto dest: table_okD elim: array_lookup)
  with tbl_delete_Val [OF inv i, of zero_UrrInfo] show ?case
    by (auto simp: Urr_as_table(3) split: prod.splits)
qed (auto simp: Urr_as_table(1,2) urr_ok_def tbl_inv_env split: prod.splits, auto simp: tbl_inv_def)

section \<open>Lemmas on the PDR tables\<close>

lemma fold_update_nth:
  assumes "n \<le> length c"
  shows "fold (\<lambda>i c. c[i := f i]) [0..<n] c = map f [0..<n] @ drop n c"
  using assms
proof (induction n)
  case 0
  then show ?case by simp
next
  case (Suc n)
  then have "fold (\<lambda>i c. c[i := f i]) [0..<n] c = map f [0..<n] @ c ! n # drop (Suc n) c"
    by (simp add: Cons_nth_drop_Suc)
  then show ?case by (simp add: list_update_append)
qed

lemma map_rev_nth: "map (\<lambda>i. xs ! (length xs - 1 - i)) [0..<length xs] = rev xs"
  by (rule nth_equalityI) (simp_all add: rev_nth)

lemma Copy16Ip_eq:
  "Copy16Ip (Some bs) =
     (if length bs = 4 \<or> length bs = 16 then rev bs @ replicate (16 - length bs) 0 else replicate 16 0)"
  using fold_update_nth [of "length bs" "replicate 16 0" "\<lambda>i. bs ! (length bs - 1 - i)"] map_rev_nth [of bs]
  by (auto simp: Copy16Ip_def)

lemma pdrToStore_cases:
  assumes "pdrToStore ops m k pdr = r"
  obtains (default) "pi_SdfFilter pdr = None" "r = Val (ToIpEntrypointPdrInfo pdr)"
  | (sdf) f v where "pi_SdfFilter pdr = Some f" "CombinePdrWithSdf (Map_Lookup ops m k) pdr = Val v" "r = Val v"
  using assms
  by (cases "pi_SdfFilter pdr") (auto simp: pdrToStore_def PreprocessPdrWithSdf_def CombinePdrWithSdf_def)

lemma PutPdrUplink_Val:
  assumes "bpf_env_ok E" and "PutPdrUplink E teid pdr b = (Val (), b')"
  obtains v where "pdrToStore (teid_ops E) (PdrMapTeidIp4 b) teid pdr = Val v"
    and "uplink_lookup E b' = (uplink_lookup E b)(teid \<mapsto> v)" and "b' = b\<lparr>PdrMapTeidIp4 := PdrMapTeidIp4 b'\<rparr>"
proof -
  obtain v m where v: "pdrToStore (teid_ops E) (PdrMapTeidIp4 b) teid pdr = Val v"
    and m: "Map_Put (teid_ops E) (PdrMapTeidIp4 b) teid v = (None, m)" "b' = b\<lparr>PdrMapTeidIp4 := m\<rparr>"
    using assms(2)
    by (auto simp: PutPdrUplink_def err_res_def split: res.splits prod.splits option.splits)
  from that [OF v] map_ops_okD(1) [OF bpf_env_okD(8) [OF assms(1)] m(1)] m(2) show ?thesis by simp
qed

lemma card_below32: "card {i :: u32. i < n} = unat n"
proof -
  have "{i :: u32. i < n} = of_nat ` {..< unat n}"
  proof (intro set_eqI iffI)
    fix i
    assume "i \<in> {i :: u32. i < n}"
    then have "unat i \<in> {..< unat n}" by (simp add: word_less_nat_alt)
    then have "(of_nat (unat i) :: u32) \<in> of_nat ` {..< unat n}" by (rule imageI)
    then show "i \<in> of_nat ` {..< unat n}" by simp
  next
    fix i :: u32
    assume "i \<in> of_nat ` {..< unat n}"
    then obtain k where "k < unat n" "i = of_nat k" by auto
    with unat32_lt [of n] show "i \<in> {i. i < n}"
      by (simp add: word_less_nat_alt unat32_of_nat)
  qed
  moreover have "inj_on (of_nat :: nat \<Rightarrow> u32) {..< unat n}"
    using inj_on_of_nat32 unat32_lt [of n] by (auto intro: inj_on_subset)
  ultimately show ?thesis by (simp add: card_image)
qed

lemma Load_trackers_ok:
  assumes "bpf_env_ok E" and "Load_trackers E b = (Val (), b')"
    and "Map_isArray E (FarMap b)" "Map_isArray E (QerMap b)" "Map_isArray E (UrrMap b)"
  shows "far_ok E b'" "qer_ok E b'" "urr_ok E b'"
    "far_free E b' = {i. i < maxSize (farIdTracker b')}"
    "qer_free E b' = {i. i < maxSize (qerIdTracker b')}"
    "urr_free E b' = {i. i < maxSize (urrIdTracker b')}"
proof -
  obtain nf nq nu where n: "Map_MaxEntries E (FarMap b) = Some nf" "Map_MaxEntries E (QerMap b) = Some nq"
    "Map_MaxEntries E (UrrMap b) = Some nu"
    "b' = b\<lparr>farIdTracker := NewIdTracker E nf, qerIdTracker := NewIdTracker E nq,
       urrIdTracker := NewIdTracker E nu\<rparr>"
    using assms(2) by (auto simp: Load_trackers_def Let_def split: option.splits)
  note new = NewIdTracker_free [OF bpf_env_okD(1) [OF assms(1)]]
  have size: "maxSize (NewIdTracker E k) = k" for k by (simp add: NewIdTracker_def)
  show "far_ok E b'" "qer_ok E b'" "urr_ok E b'"
    using assms n new(2) size by (simp_all add: far_ok_def qer_ok_def urr_ok_def table_ok_def)
  show "far_free E b' = {i. i < maxSize (farIdTracker b')}"
    "qer_free E b' = {i. i < maxSize (qerIdTracker b')}"
    "urr_free E b' = {i. i < maxSize (urrIdTracker b')}"
    using n(4) new(1) size by simp_all
qed

lemma sim_objects_ok: "far_ok sim_bpf_env sim_objects" "qer_ok sim_bpf_env sim_objects"
  "urr_ok sim_bpf_env sim_objects"
  using sim_bpf_env_ok sim_bitmap_ok
  by (auto simp: far_ok_def qer_ok_def urr_ok_def table_ok_def tracker_ok_def tracker_free_def
      sim_objects_def sim_array_map_def)

lemmas sim_eval =
  sim_objects_def sim_array_map_def sim_hash_map_def sim_array_def sim_hash_def
  bpf_op_defs GetNext_def Release_def err_res_def

section \<open>Properties\<close>

text \<open>
  An identifier tracker made for a table of \<open>n\<close> entries hands out exactly \<open>n\<close>
  identifiers, pairwise different and all below \<open>n\<close>, and then reports that the pool is
  empty.
\<close>

theorem id_tracker_capacity:
  assumes "bitmap_ok E" and "allocs (\<lambda>_ :: unit. GetNext E) ks (NewIdTracker E n) = (is, t)"
  shows "distinct is \<and> length is = min (length ks) (unat n) \<and> (\<forall>i \<in> set is. i < n)"
  using id_tracker.allocs_spec [OF NewIdTracker_free(2) [OF assms(1)] assms(2)]
  by (auto simp: NewIdTracker_free(1) [OF assms(1)] card_below32)

theorem id_tracker_capacity_witness:
  "fst (allocs (\<lambda>_ :: unit. GetNext sim_bpf_env) [(), (), ()] (NewIdTracker sim_bpf_env 2)) = [0, 1] \<and>
   length ([0, 1] :: u32 list) = min 3 (unat (2 :: u32))"
proof -
  let ?r = "allocs (\<lambda>_ :: unit. GetNext sim_bpf_env) [(), (), ()] (NewIdTracker sim_bpf_env 2)"
  have "[0..<2] = [0, 1 :: nat]" by (simp add: numeral_2_eq_2)
  then have "NewIdTracker sim_bpf_env 2 = \<lparr>bitmap = [0, 1], maxSize = 2\<rparr>"
    by (simp add: NewIdTracker_def sim_bpf_env_def)
  then have eq: "fst ?r = [0, 1]" by (simp add: GetNext_def)
  have "?r = ([0, 1], snd ?r)" using eq by (metis prod.collapse)
  from id_tracker_capacity [OF sim_bitmap_ok this] eq show ?thesis by simp
qed

text \<open>
  C31. \<open>NewFar\<close> stores the rule under an identifier that was free and is not free
  afterwards; every other entry of the FAR table, the other tables and the other
  trackers stay as they are. It fails only when no identifier is free, and then nothing
  changes.
\<close>

theorem NewFar_effect:
  assumes "far_ok E b"
  shows "case NewFar E farInfo b of
      (Val i, b') \<Rightarrow> i \<in> far_free E b \<and> far_free E b' = far_free E b - {i} \<and>
        far_lookup E b' = (far_lookup E b)(i \<mapsto> farInfo) \<and>
        b' = b\<lparr>FarMap := FarMap b', farIdTracker := farIdTracker b'\<rparr> \<and> far_ok E b'
    | (Err e, b') \<Rightarrow> far_free E b = {} \<and> b' = b
    | (Panic p, b') \<Rightarrow> False"
proof -
  obtain r b' where eq: "NewFar E farInfo b = (r, b')" by fastforce
  have "b' = b\<lparr>FarMap := FarMap b', farIdTracker := farIdTracker b'\<rparr>"
    using eq by (auto simp: Far_as_table(1) split: prod.splits)
  with eq show ?thesis
    using far.new_Val [OF assms, of farInfo _ b'] far.new_Err [OF assms, of farInfo _ b']
      far.new_no_panic [OF assms, of farInfo _ b']
    by (cases r) simp_all
qed

theorem NewFar_effect_witness:
  "far_lookup sim_bpf_env (snd (NewFar sim_bpf_env (zero_FarInfo\<lparr>fi_Teid := 9\<rparr>) sim_objects)) 1 =
     Some (zero_FarInfo\<lparr>fi_Teid := 9\<rparr>)"
proof -
  let ?v = "zero_FarInfo\<lparr>fi_Teid := 9\<rparr>"
  have "fst (NewFar sim_bpf_env ?v sim_objects) = Val 1"
    by (simp add: sim_eval)
  then obtain b' where eq: "NewFar sim_bpf_env ?v sim_objects = (Val 1, b')"
    by (cases "NewFar sim_bpf_env ?v sim_objects") simp
  show ?thesis using NewFar_effect [OF sim_objects_ok(1), of ?v] unfolding eq by simp
qed

text \<open>
  Deleting a FAR undoes its creation: after \<open>NewFar\<close> and \<open>DeleteFar\<close> of the
  identifier it returned, \<open>DeleteFar\<close> reports success, the free identifiers are those of
  the start, and every other entry of the table is as it was.
\<close>

theorem far_new_delete_roundtrip:
  assumes "far_ok E b" and "NewFar E farInfo b = (Val i, b')"
  shows "\<exists>b''. DeleteFar E i b' = (Val (), b'') \<and> far_free E b'' = far_free E b \<and>
    (\<forall>j. j \<noteq> i \<longrightarrow> far_lookup E b'' j = far_lookup E b j) \<and> far_ok E b''"
  using far.new_delete_roundtrip [OF assms] by auto

theorem far_new_delete_roundtrip_witness:
  "\<exists>b''. DeleteFar sim_bpf_env 1 (snd (NewFar sim_bpf_env zero_FarInfo sim_objects)) = (Val (), b'') \<and>
     far_free sim_bpf_env b'' = {1, 2, 3}"
proof -
  have "fst (NewFar sim_bpf_env zero_FarInfo sim_objects) = Val 1"
    by (simp add: sim_eval)
  then have eq: "NewFar sim_bpf_env zero_FarInfo sim_objects =
      (Val 1, snd (NewFar sim_bpf_env zero_FarInfo sim_objects))"
    by (metis prod.collapse)
  have "far_free sim_bpf_env sim_objects = {1, 2, 3}"
    by (auto simp: tracker_free_def sim_eval)
  with far_new_delete_roundtrip [OF sim_objects_ok(1) eq] show ?thesis by auto
qed

text \<open>
  How the datapath has a filter: addresses and masks of 4 or 16 bytes, or none, from the last byte to the first and filled
  up with zeros to 16 bytes.
\<close>

definition address_bytes :: "IP \<Rightarrow> bytes" where
  "address_bytes ip = (case ip of None \<Rightarrow> [] | Some bs \<Rightarrow> bs)"

definition stored_address :: "IP \<Rightarrow> bytes \<Rightarrow> bool" where
  "stored_address ip bs \<longleftrightarrow> (length (address_bytes ip) \<in> {0, 4, 16} \<longrightarrow>
     bs = rev (address_bytes ip) @ replicate (16 - length (address_bytes ip)) 0)"

definition stored_filter :: "SdfFilter \<Rightarrow> sdf_filter \<Rightarrow> bool" where
  "stored_filter f s \<longleftrightarrow> protocol s = sf_Protocol f \<and>
     sn_type (src_addr s) = wm_Type (sf_SrcAddress f) \<and> stored_address (wm_Ip (sf_SrcAddress f)) (sn_ip (src_addr s)) \<and>
     stored_address (wm_Mask (sf_SrcAddress f)) (sn_mask (src_addr s)) \<and>
     sn_type (dst_addr s) = wm_Type (sf_DstAddress f) \<and> stored_address (wm_Ip (sf_DstAddress f)) (sn_ip (dst_addr s)) \<and>
     stored_address (wm_Mask (sf_DstAddress f)) (sn_mask (dst_addr s)) \<and>
     lower_bound (src_port s) = LowerBound (sf_SrcPortRange f) \<and> upper_bound (src_port s) = UpperBound (sf_SrcPortRange f) \<and>
     lower_bound (dst_port s) = LowerBound (sf_DstPortRange f) \<and> upper_bound (dst_port s) = UpperBound (sf_DstPortRange f)"

lemma Copy16Ip_stored: "stored_address ip (Copy16Ip ip)"
  by (cases ip) (auto simp: stored_address_def address_bytes_def Copy16Ip_eq, simp add: Copy16Ip_def numeral_eq_Suc)

text \<open>
  C32. What a successful \<open>PutPdrUplink\<close> makes the datapath see under its TEID. A PDR
  without SDF filter is the default rule, with the FAR, the QER and the header removal of the PDR (mode 0). A PDR with
  SDF filter keeps the default rule that was stored there (mode 2), or stands alone, with zeros for the default rule
  (mode 1), when there was no entry; in both cases the SDF rule carries the FAR, the QER and the header removal of the PDR,
  and protocol, addresses, masks and ports of its filter. Entries of other TEIDs are unchanged.
\<close>

theorem PutPdrUplink_effect:
  assumes "bpf_env_ok E" and "PutPdrUplink E teid pdr b = (Val (), b')"
  shows "\<exists>v. uplink_lookup E b' = (uplink_lookup E b)(teid \<mapsto> v) \<and>
    (case pi_SdfFilter pdr of
       None \<Rightarrow> ep_sdf_mode v = 0 \<and> ep_far_id v = pi_FarId pdr \<and> ep_qer_id v = pi_QerId pdr \<and>
         ep_outer_header_removal v = pi_OuterHeaderRemoval pdr
     | Some f \<Rightarrow>
         sr_far_id (ep_sdf_rules v) = pi_FarId pdr \<and> sr_qer_id (ep_sdf_rules v) = pi_QerId pdr \<and>
         sr_outer_header_removal (ep_sdf_rules v) = pi_OuterHeaderRemoval pdr \<and>
         stored_filter f (sr_sdf_filter (ep_sdf_rules v)) \<and>
         (case uplink_lookup E b teid of
            None \<Rightarrow> ep_sdf_mode v = 1 \<and> ep_far_id v = 0 \<and> ep_qer_id v = 0 \<and> ep_outer_header_removal v = 0
          | Some d \<Rightarrow> ep_sdf_mode v = 2 \<and> ep_far_id v = ep_far_id d \<and> ep_qer_id v = ep_qer_id d \<and>
              ep_outer_header_removal v = ep_outer_header_removal d))"
proof -
  obtain v where v: "pdrToStore (teid_ops E) (PdrMapTeidIp4 b) teid pdr = Val v"
    and l: "uplink_lookup E b' = (uplink_lookup E b)(teid \<mapsto> v)"
    using PutPdrUplink_Val [OF assms] by metis
  show ?thesis
    by (rule exI [of _ v], rule conjI [OF l], rule pdrToStore_cases [OF v])
      (auto simp: ToIpEntrypointPdrInfo_def CombinePdrWithSdf_def zero_IpEntrypointPdrInfo_def stored_filter_def Copy16Ip_stored
        split: option.splits)
qed

theorem PutPdrUplink_effect_witness:
  "\<exists>v. uplink_lookup sim_bpf_env (snd (PutPdrUplink sim_bpf_env 5 (zero_PdrInfo\<lparr>pi_FarId := 3, pi_QerId := 2\<rparr>) sim_objects)) =
       (uplink_lookup sim_bpf_env sim_objects)(5 \<mapsto> v) \<and> ep_far_id v = 3 \<and> ep_qer_id v = 2"
proof -
  let ?p = "zero_PdrInfo\<lparr>pi_FarId := 3, pi_QerId := 2\<rparr>"
  have "fst (PutPdrUplink sim_bpf_env 5 ?p sim_objects) = Val ()"
    by (simp add: PutPdrUplink_def pdrToStore_def zero_PdrInfo_def sim_eval)
  then have "PutPdrUplink sim_bpf_env 5 ?p sim_objects = (Val (), snd (PutPdrUplink sim_bpf_env 5 ?p sim_objects))"
    by (metis prod.collapse)
  from PutPdrUplink_effect [OF sim_bpf_env_ok this] show ?thesis
    by (auto simp: zero_PdrInfo_def)
qed

text \<open>
  The URR identifiers of a PDR never reach the datapath: whatever \<open>PutPdrUplink\<close>
  stores has URR identifiers 0 in the default rule and in the SDF rule, also when the
  PDR refers to other URRs.
\<close>

theorem PutPdrUplink_drops_urr_ids:
  assumes "bpf_env_ok E" and "PutPdrUplink E teid pdr b = (Val (), b')"
    and "uplink_lookup E b' teid = Some v"
  shows "ep_urr1_id v = 0 \<and> ep_urr2_id v = 0 \<and>
    sr_urr1_id (ep_sdf_rules v) = 0 \<and> sr_urr2_id (ep_sdf_rules v) = 0"
proof -
  obtain w where w: "pdrToStore (teid_ops E) (PdrMapTeidIp4 b) teid pdr = Val w"
    and "uplink_lookup E b' = (uplink_lookup E b)(teid \<mapsto> w)"
    using PutPdrUplink_Val [OF assms(1,2)] by metis
  with assms(3) have "v = w" by simp
  with w show ?thesis
    by - (erule pdrToStore_cases, auto simp: ToIpEntrypointPdrInfo_def CombinePdrWithSdf_def
        zero_IpEntrypointPdrInfo_def zero_sdf_rules_def split: option.splits)
qed

theorem PutPdrUplink_drops_urr_ids_witness:
  "ep_urr1_id (the (uplink_lookup sim_bpf_env
     (snd (PutPdrUplink sim_bpf_env 5 (zero_PdrInfo\<lparr>pi_Urr1Id := 7\<rparr>) sim_objects)) 5)) = 0"
proof -
  let ?p = "zero_PdrInfo\<lparr>pi_Urr1Id := 7\<rparr>"
  have "fst (PutPdrUplink sim_bpf_env 5 ?p sim_objects) = Val ()"
    and lk: "uplink_lookup sim_bpf_env (snd (PutPdrUplink sim_bpf_env 5 ?p sim_objects)) 5 =
      Some (ToIpEntrypointPdrInfo ?p)"
    by (simp_all add: PutPdrUplink_def pdrToStore_def zero_PdrInfo_def sim_eval)
  then have "PutPdrUplink sim_bpf_env 5 ?p sim_objects = (Val (), snd (PutPdrUplink sim_bpf_env 5 ?p sim_objects))"
    by (metis prod.collapse)
  from PutPdrUplink_drops_urr_ids [OF sim_bpf_env_ok this lk] lk show ?thesis by simp
qed

text \<open>
  C40. Two SDF PDRs under one TEID: the second one replaces the SDF rule of the first,
  and the entry changes from mode 1 (SDF only) to mode 2 (SDF and default) with FAR 0 and
  QER 0 as the default rule, although no default rule was ever installed.
\<close>

theorem second_sdf_pdr_opens_default:
  assumes "bpf_env_ok E" and "uplink_lookup E b teid = None"
    and "pi_SdfFilter pdr1 \<noteq> None" and "PutPdrUplink E teid pdr1 b = (Val (), b1)"
    and "pi_SdfFilter pdr2 \<noteq> None" and "PutPdrUplink E teid pdr2 b1 = (Val (), b2)"
  shows "\<exists>v. uplink_lookup E b2 teid = Some v \<and> ep_sdf_mode v = 2 \<and> ep_far_id v = 0 \<and> ep_qer_id v = 0 \<and>
    sr_far_id (ep_sdf_rules v) = pi_FarId pdr2"
proof -
  obtain v1 where v1: "pdrToStore (teid_ops E) (PdrMapTeidIp4 b) teid pdr1 = Val v1"
    "uplink_lookup E b1 teid = Some v1"
    using PutPdrUplink_Val [OF assms(1,4)] by (metis fun_upd_same)
  obtain v2 where v2: "pdrToStore (teid_ops E) (PdrMapTeidIp4 b1) teid pdr2 = Val v2"
    "uplink_lookup E b2 teid = Some v2"
    using PutPdrUplink_Val [OF assms(1,6)] by (metis fun_upd_same)
  have "ep_far_id v1 = 0 \<and> ep_qer_id v1 = 0"
    using assms(2,3) v1(1)
    by (auto simp: pdrToStore_def PreprocessPdrWithSdf_def CombinePdrWithSdf_def zero_IpEntrypointPdrInfo_def)
  then show ?thesis
    using assms(5) v1(2) v2
    by (auto simp: pdrToStore_def PreprocessPdrWithSdf_def CombinePdrWithSdf_def)
qed

theorem second_sdf_pdr_opens_default_witness:
  "let p = zero_PdrInfo\<lparr>pi_FarId := 3, pi_SdfFilter := Some any_filter\<rparr>;
       b1 = snd (PutPdrUplink sim_bpf_env 5 p sim_objects);
       b2 = snd (PutPdrUplink sim_bpf_env 5 p b1)
   in \<exists>v. uplink_lookup sim_bpf_env b2 5 = Some v \<and> ep_sdf_mode v = 2 \<and> ep_far_id v = 0"
proof -
  let ?p = "zero_PdrInfo\<lparr>pi_FarId := 3, pi_SdfFilter := Some any_filter\<rparr>"
  let ?b1 = "snd (PutPdrUplink sim_bpf_env 5 ?p sim_objects)"
  let ?b2 = "snd (PutPdrUplink sim_bpf_env 5 ?p ?b1)"
  have put: "PutPdrUplink sim_bpf_env 5 ?p b = (Val (), snd (PutPdrUplink sim_bpf_env 5 ?p b))" for b
    by (simp add: prod_eq_iff PutPdrUplink_def pdrToStore_def PreprocessPdrWithSdf_def
        CombinePdrWithSdf_def zero_PdrInfo_def sim_eval)
  have none: "uplink_lookup sim_bpf_env sim_objects 5 = None"
    by (simp add: sim_eval)
  show ?thesis
    using second_sdf_pdr_opens_default [OF sim_bpf_env_ok none _ put _ put]
    by (auto simp: Let_def)
qed

text \<open>
  \<open>Copy16Ip\<close> stores an address or mask of 4 or 16 bytes least significant byte
  first and pads it with zeros to 16 bytes, so its bytes can be read back; a slice of any
  other length, nil included, becomes 16 zero bytes.
\<close>

theorem Copy16Ip_layout:
  "length (Copy16Ip ip) = 16 \<and>
   (\<forall>bs. ip = Some bs \<longrightarrow> length bs \<in> {4, 16} \<longrightarrow>
      rev (take (length bs) (Copy16Ip ip)) = bs \<and> set (drop (length bs) (Copy16Ip ip)) \<subseteq> {0}) \<and>
   (ip = None \<or> (\<exists>bs. ip = Some bs \<and> length bs \<notin> {4, 16}) \<longrightarrow> Copy16Ip ip = replicate 16 0)"
  by (cases ip) (auto simp: Copy16Ip_eq, simp_all add: Copy16Ip_def)

theorem Copy16Ip_layout_witness:
  "rev (take 4 (Copy16Ip (Some [10, 0, 0, 1]))) = [10, 0, 0, 1]"
proof -
  have "length [10, 0, 0, 1 :: u8] \<in> {4, 16}" by simp
  with Copy16Ip_layout [of "Some [10, 0, 0, 1]"] show ?thesis by fastforce
qed

end
