(* ===== verification/Pfcp_Session.thy ===== *)
theory Pfcp_Session
  imports Ebpf_Objects
begin

text \<open>
  The session objects of \<open>cmd/core/session.go\<close>: what the control plane asked for, under
  the identifiers of the control plane, together with the global identifier under which
  each rule stands in the tables of the forwarding plane. Reading a Go map at an absent
  key gives the zero value; the operations keep this behaviour.

  The interface \<open>rule_store\<close> states what the four operations on one kind of rule promise;
  it is interpreted on the FAR, QER and URR maps of a session.
\<close>

section \<open>Data\<close>

record SPDRInfo =
  sp_PdrID :: u32
  sp_PdrInfo :: PdrInfo
  sp_Teid :: u32
  sp_Ipv4 :: IP
  sp_Ipv6 :: IP
  sp_Allocated :: bool

record SFarInfo =
  sfar_FarInfo :: FarInfo
  sfar_GlobalId :: u32

record SQerInfo =
  sqer_QerInfo :: QerInfo
  sqer_GlobalId :: u32

record SUrrInfo =
  surr_UrrInfo :: UrrInfo
  surr_GlobalId :: u32
  surr_ReportSeqNumber :: u32

record Session =
  LocalSEID :: u64
  RemoteSEID :: u64
  PDRs :: "u32 \<rightharpoonup> SPDRInfo"
  FARs :: "u32 \<rightharpoonup> SFarInfo"
  QERs :: "u32 \<rightharpoonup> SQerInfo"
  URRs :: "u32 \<rightharpoonup> SUrrInfo"

definition zero_SPDRInfo :: SPDRInfo where
  "zero_SPDRInfo = \<lparr>sp_PdrID = 0, sp_PdrInfo = zero_PdrInfo, sp_Teid = 0, sp_Ipv4 = None,
     sp_Ipv6 = None, sp_Allocated = False\<rparr>"

definition zero_SFarInfo :: SFarInfo where
  "zero_SFarInfo = \<lparr>sfar_FarInfo = zero_FarInfo, sfar_GlobalId = 0\<rparr>"

definition zero_SQerInfo :: SQerInfo where
  "zero_SQerInfo = \<lparr>sqer_QerInfo = zero_QerInfo, sqer_GlobalId = 0\<rparr>"

definition zero_SUrrInfo :: SUrrInfo where
  "zero_SUrrInfo = \<lparr>surr_UrrInfo = zero_UrrInfo, surr_GlobalId = 0, surr_ReportSeqNumber = 0\<rparr>"

section \<open>Operations\<close>

definition NewSession :: "u64 \<Rightarrow> u64 \<Rightarrow> Session" where
  "NewSession localSEID remoteSEID =
     \<lparr>LocalSEID = localSEID, RemoteSEID = remoteSEID, PDRs = Map.empty, FARs = Map.empty,
      QERs = Map.empty, URRs = Map.empty\<rparr>"

definition Session_NewFar :: "u32 \<Rightarrow> u32 \<Rightarrow> FarInfo \<Rightarrow> Session \<Rightarrow> Session" where
  "Session_NewFar ruleId internalId farInfo s =
     s\<lparr>FARs := (FARs s)(ruleId \<mapsto> \<lparr>sfar_FarInfo = farInfo, sfar_GlobalId = internalId\<rparr>)\<rparr>"

definition Session_UpdateFar :: "u32 \<Rightarrow> FarInfo \<Rightarrow> Session \<Rightarrow> Session" where
  "Session_UpdateFar ruleId farInfo s =
     (let sFarInfo = map_get (FARs s) ruleId zero_SFarInfo
      in s\<lparr>FARs := (FARs s)(ruleId \<mapsto> sFarInfo\<lparr>sfar_FarInfo := farInfo\<rparr>)\<rparr>)"

definition Session_GetFar :: "u32 \<Rightarrow> Session \<Rightarrow> SFarInfo" where
  "Session_GetFar ruleId s = map_get (FARs s) ruleId zero_SFarInfo"

definition Session_RemoveFar :: "u32 \<Rightarrow> Session \<Rightarrow> SFarInfo \<times> Session" where
  "Session_RemoveFar ruleId s =
     (map_get (FARs s) ruleId zero_SFarInfo, s\<lparr>FARs := (FARs s)(ruleId := None)\<rparr>)"

definition Session_NewQer :: "u32 \<Rightarrow> u32 \<Rightarrow> QerInfo \<Rightarrow> Session \<Rightarrow> Session" where
  "Session_NewQer ruleId internalId qerInfo s =
     s\<lparr>QERs := (QERs s)(ruleId \<mapsto> \<lparr>sqer_QerInfo = qerInfo, sqer_GlobalId = internalId\<rparr>)\<rparr>"

definition Session_UpdateQer :: "u32 \<Rightarrow> QerInfo \<Rightarrow> Session \<Rightarrow> Session" where
  "Session_UpdateQer ruleId qerInfo s =
     (let sQerInfo = map_get (QERs s) ruleId zero_SQerInfo
      in s\<lparr>QERs := (QERs s)(ruleId \<mapsto> sQerInfo\<lparr>sqer_QerInfo := qerInfo\<rparr>)\<rparr>)"

definition Session_GetQer :: "u32 \<Rightarrow> Session \<Rightarrow> SQerInfo" where
  "Session_GetQer ruleId s = map_get (QERs s) ruleId zero_SQerInfo"

definition Session_RemoveQer :: "u32 \<Rightarrow> Session \<Rightarrow> SQerInfo \<times> Session" where
  "Session_RemoveQer ruleId s =
     (map_get (QERs s) ruleId zero_SQerInfo, s\<lparr>QERs := (QERs s)(ruleId := None)\<rparr>)"

definition Session_NewUrr :: "u32 \<Rightarrow> u32 \<Rightarrow> UrrInfo \<Rightarrow> Session \<Rightarrow> Session" where
  "Session_NewUrr ruleId internalId urrInfo s =
     s\<lparr>URRs := (URRs s)(ruleId \<mapsto>
        \<lparr>surr_UrrInfo = urrInfo, surr_GlobalId = internalId, surr_ReportSeqNumber = 0\<rparr>)\<rparr>"

definition Session_UpdateUrr :: "u32 \<Rightarrow> UrrInfo \<Rightarrow> Session \<Rightarrow> Session" where
  "Session_UpdateUrr ruleId urrInfo s =
     (let sUrrInfo = map_get (URRs s) ruleId zero_SUrrInfo
      in s\<lparr>URRs := (URRs s)(ruleId \<mapsto> sUrrInfo\<lparr>surr_UrrInfo := urrInfo\<rparr>)\<rparr>)"

definition Session_GetUrr :: "u32 \<Rightarrow> Session \<Rightarrow> SUrrInfo" where
  "Session_GetUrr ruleId s = map_get (URRs s) ruleId zero_SUrrInfo"

definition Session_RemoveUrr :: "u32 \<Rightarrow> Session \<Rightarrow> SUrrInfo \<times> Session" where
  "Session_RemoveUrr ruleId s =
     (map_get (URRs s) ruleId zero_SUrrInfo, s\<lparr>URRs := (URRs s)(ruleId := None)\<rparr>)"

definition PutPDR :: "u32 \<Rightarrow> SPDRInfo \<Rightarrow> Session \<Rightarrow> Session" where
  "PutPDR ruleId info s = s\<lparr>PDRs := (PDRs s)(ruleId \<mapsto> info)\<rparr>"

definition GetPDR :: "u16 \<Rightarrow> Session \<Rightarrow> SPDRInfo" where
  "GetPDR ruleId s = map_get (PDRs s) (ucast ruleId) zero_SPDRInfo"

definition RemovePDR :: "u32 \<Rightarrow> Session \<Rightarrow> SPDRInfo \<times> Session" where
  "RemovePDR ruleId s = (map_get (PDRs s) ruleId zero_SPDRInfo, s\<lparr>PDRs := (PDRs s)(ruleId := None)\<rparr>)"

section \<open>The global identifiers a session holds\<close>

definition far_entry :: "SFarInfo \<Rightarrow> u32 \<times> FarInfo" where
  "far_entry f = (sfar_GlobalId f, sfar_FarInfo f)"

definition qer_entry :: "SQerInfo \<Rightarrow> u32 \<times> QerInfo" where
  "qer_entry q = (sqer_GlobalId q, sqer_QerInfo q)"

definition urr_entry :: "SUrrInfo \<Rightarrow> u32 \<times> UrrInfo" where
  "urr_entry u = (surr_GlobalId u, surr_UrrInfo u)"

definition session_fars :: "Session \<Rightarrow> u32 \<rightharpoonup> u32 \<times> FarInfo" where
  "session_fars s i = map_option far_entry (FARs s i)"

definition session_qers :: "Session \<Rightarrow> u32 \<rightharpoonup> u32 \<times> QerInfo" where
  "session_qers s i = map_option qer_entry (QERs s i)"

definition session_urrs :: "Session \<Rightarrow> u32 \<rightharpoonup> u32 \<times> UrrInfo" where
  "session_urrs s i = map_option urr_entry (URRs s i)"

section \<open>The interface of a rule map\<close>

locale rule_store =
  fixes new :: "u32 \<Rightarrow> u32 \<Rightarrow> 'v \<Rightarrow> 's \<Rightarrow> 's"
    and update :: "u32 \<Rightarrow> 'v \<Rightarrow> 's \<Rightarrow> 's"
    and get :: "u32 \<Rightarrow> 's \<Rightarrow> 'e"
    and remove :: "u32 \<Rightarrow> 's \<Rightarrow> 'e \<times> 's"
    and entry :: "'e \<Rightarrow> u32 \<times> 'v"
    and entries :: "'s \<Rightarrow> u32 \<rightharpoonup> u32 \<times> 'v"
    and zero :: 'v
  assumes entries_new: "entries (new i g v s) = (entries s)(i \<mapsto> (g, v))"
    and entries_update: "entries (update i v s) = (entries s)(i \<mapsto> (fst (map_get (entries s) i (0, zero)), v))"
    and entry_get: "entry (get i s) = map_get (entries s) i (0, zero)"
    and remove_get: "fst (remove i s) = get i s"
    and entries_remove: "entries (snd (remove i s)) = (entries s)(i := None)"
begin

lemma get_new: "entry (get j (new i g v s)) = (if j = i then (g, v) else entry (get j s))"
  by (simp add: entry_get entries_new map_get_def)

lemma get_update: "entry (get j (update i v s)) = (if j = i then (fst (entry (get i s)), v) else entry (get j s))"
  by (simp add: entry_get entries_update map_get_def)

lemma get_remove: "entry (get j (snd (remove i s))) = (if j = i then (0, zero) else entry (get j s))"
  by (simp add: entry_get entries_remove map_get_def)

lemma new_remove: "entries s i = None \<Longrightarrow> entries (snd (remove i (new i g v s))) = entries s"
  by (auto simp: entries_remove entries_new fun_eq_iff)

lemma update_known: "entries s i = Some (g, w) \<Longrightarrow> entries (update i v s) = (entries s)(i \<mapsto> (g, v))"
  by (simp add: entries_update)

end

lemmas session_far_defs = Session_NewFar_def Session_UpdateFar_def Session_GetFar_def
  Session_RemoveFar_def session_fars_def far_entry_def zero_SFarInfo_def
lemmas session_qer_defs = Session_NewQer_def Session_UpdateQer_def Session_GetQer_def
  Session_RemoveQer_def session_qers_def qer_entry_def zero_SQerInfo_def
lemmas session_urr_defs = Session_NewUrr_def Session_UpdateUrr_def Session_GetUrr_def
  Session_RemoveUrr_def session_urrs_def urr_entry_def zero_SUrrInfo_def

interpretation session_far: rule_store Session_NewFar Session_UpdateFar Session_GetFar
  Session_RemoveFar far_entry session_fars zero_FarInfo
  by unfold_locales (auto simp: session_far_defs Let_def map_get_def fun_eq_iff split: option.split)

interpretation session_qer: rule_store Session_NewQer Session_UpdateQer Session_GetQer
  Session_RemoveQer qer_entry session_qers zero_QerInfo
  by unfold_locales (auto simp: session_qer_defs Let_def map_get_def fun_eq_iff split: option.split)

interpretation session_urr: rule_store Session_NewUrr Session_UpdateUrr Session_GetUrr
  Session_RemoveUrr urr_entry session_urrs zero_UrrInfo
  by unfold_locales (auto simp: session_urr_defs Let_def map_get_def fun_eq_iff split: option.split)

text \<open>The operations on one kind of rule leave the others, the PDRs and the SEIDs alone.\<close>

lemma session_ops_other [simp]:
  "session_qers (Session_NewFar i g f s) = session_qers s"
  "session_urrs (Session_NewFar i g f s) = session_urrs s"
  "session_qers (Session_UpdateFar i f s) = session_qers s"
  "session_urrs (Session_UpdateFar i f s) = session_urrs s"
  "session_qers (snd (Session_RemoveFar i s)) = session_qers s"
  "session_urrs (snd (Session_RemoveFar i s)) = session_urrs s"
  "session_fars (Session_NewQer i g q s) = session_fars s"
  "session_urrs (Session_NewQer i g q s) = session_urrs s"
  "session_fars (Session_UpdateQer i q s) = session_fars s"
  "session_urrs (Session_UpdateQer i q s) = session_urrs s"
  "session_fars (snd (Session_RemoveQer i s)) = session_fars s"
  "session_urrs (snd (Session_RemoveQer i s)) = session_urrs s"
  "session_fars (Session_NewUrr i g u s) = session_fars s"
  "session_qers (Session_NewUrr i g u s) = session_qers s"
  "session_fars (Session_UpdateUrr i u s) = session_fars s"
  "session_qers (Session_UpdateUrr i u s) = session_qers s"
  "session_fars (snd (Session_RemoveUrr i s)) = session_fars s"
  "session_qers (snd (Session_RemoveUrr i s)) = session_qers s"
  "session_fars (PutPDR p x s) = session_fars s"
  "session_qers (PutPDR p x s) = session_qers s"
  "session_urrs (PutPDR p x s) = session_urrs s"
  "session_fars (snd (RemovePDR p s)) = session_fars s"
  "session_qers (snd (RemovePDR p s)) = session_qers s"
  "session_urrs (snd (RemovePDR p s)) = session_urrs s"
  by (simp_all add: session_far_defs session_qer_defs session_urr_defs PutPDR_def RemovePDR_def
      Let_def fun_eq_iff)

lemma NewSession_entries [simp]:
  "session_fars (NewSession l r) = Map.empty"
  "session_qers (NewSession l r) = Map.empty"
  "session_urrs (NewSession l r) = Map.empty"
  by (simp_all add: NewSession_def session_fars_def session_qers_def session_urrs_def fun_eq_iff)

end
