(* ===== verification/Go_Net.thy ===== *)
theory Go_Net
  imports Upf_Prelude
begin

text \<open>
  What the program uses of Go's standard library on addresses, numbers and patterns:
  \<open>net.ParseIP\<close> (through \<open>netip.ParseAddr\<close>), \<open>IP.To4\<close>, \<open>IP.Mask\<close>, \<open>IP.Equal\<close>,
  \<open>net.CIDRMask\<close>, \<open>strconv.ParseUint\<close>, and anchored regular expressions with
  submatches (\<open>regexp\<close>, leftmost-first: alternatives are tried in order and repetition
  is greedy). All definitions compute.
\<close>

unbundle bit_operations_syntax

section \<open>Digits and numbers\<close>

definition char_code :: "char \<Rightarrow> nat" where
  "char_code c = of_char c"

definition is_digit :: "char \<Rightarrow> bool" where
  "is_digit c \<longleftrightarrow> 48 \<le> char_code c \<and> char_code c \<le> 57"

definition digit_val :: "char \<Rightarrow> nat" where
  "digit_val c = char_code c - 48"

definition hex_val :: "char \<Rightarrow> nat option" where
  "hex_val c =
     (if is_digit c then Some (digit_val c)
      else if 97 \<le> char_code c \<and> char_code c \<le> 102 then Some (char_code c - 97 + 10)
      else if 65 \<le> char_code c \<and> char_code c \<le> 70 then Some (char_code c - 65 + 10)
      else None)"

definition dec_val :: "string \<Rightarrow> nat" where
  "dec_val s = foldl (\<lambda>n c. n * 10 + digit_val c) 0 s"

text \<open>\<open>strconv.ParseUint(s, 10, 64)\<close>: nothing for a syntax error or a value out of range.\<close>

definition ParseUint :: "string \<Rightarrow> nat option" where
  "ParseUint s =
     (if s \<noteq> [] \<and> list_all is_digit s \<and> dec_val s < 2 ^ 64 then Some (dec_val s) else None)"

section \<open>Addresses\<close>

fun parseIPv4_loop :: "bool \<Rightarrow> bool \<Rightarrow> nat \<Rightarrow> nat \<Rightarrow> bytes \<Rightarrow> string \<Rightarrow> bytes option" where
  "parseIPv4_loop start dot val digLen fields [] =
     (if length fields < 3 then None else Some (fields @ [of_nat val]))"
| "parseIPv4_loop start dot val digLen fields (c # cs) =
     (if is_digit c then
        (if digLen = 1 \<and> val = 0 then None
         else if val * 10 + digit_val c > 255 then None
         else parseIPv4_loop False False (val * 10 + digit_val c) (Suc digLen) fields cs)
      else if c = CHR ''.'' then
        (if start \<or> cs = [] \<or> dot then None
         else if length fields = 3 then None
         else parseIPv4_loop False True 0 0 (fields @ [of_nat val]) cs)
      else None)"

definition parseIPv4 :: "string \<Rightarrow> bytes option" where
  "parseIPv4 s = parseIPv4_loop True False 0 0 [] s"

text \<open>The hexadecimal number at the start: its digits, its value and what follows.\<close>

fun hex_run :: "nat \<Rightarrow> nat \<Rightarrow> string \<Rightarrow> (nat \<times> nat \<times> string) option" where
  "hex_run off acc [] = Some (off, acc, [])"
| "hex_run off acc (c # cs) =
     (case hex_val c of
        None \<Rightarrow> Some (off, acc, c # cs)
      | Some d \<Rightarrow>
          (if off > 3 then None
           else if acc * 16 + d > 65535 then None
           else hex_run (Suc off) (acc * 16 + d) cs))"

text \<open>
  The loop of \<open>parseIPv6\<close>; the first argument counts the groups that still fit, the
  second holds the bytes read so far, the third the position of the ellipsis.
\<close>

fun parseIPv6_loop ::
  "nat \<Rightarrow> bytes \<Rightarrow> nat option \<Rightarrow> string \<Rightarrow> (bytes \<times> nat option \<times> string) option" where
  "parseIPv6_loop 0 acc e s = Some (acc, e, s)"
| "parseIPv6_loop (Suc n) acc e s =
     (case hex_run 0 0 s of
        None \<Rightarrow> None
      | Some (off, v, rest) \<Rightarrow>
          if off = 0 then None
          else if rest \<noteq> [] \<and> hd rest = CHR ''.'' then
            (if e = None \<and> length acc \<noteq> 12 then None
             else if length acc + 4 > 16 then None
             else (case parseIPv4 s of None \<Rightarrow> None | Some v4 \<Rightarrow> Some (acc @ v4, e, [])))
          else
            (let acc' = acc @ [of_nat (v div 256), of_nat v]
             in case rest of
                  [] \<Rightarrow> Some (acc', e, [])
                | c # r1 \<Rightarrow>
                    if c \<noteq> CHR '':'' then None
                    else (case r1 of
                        [] \<Rightarrow> None
                      | c2 # r2 \<Rightarrow>
                          if c2 = CHR '':'' then
                            (if e \<noteq> None then None
                             else if r2 = [] then Some (acc', Some (length acc'), [])
                             else parseIPv6_loop n acc' (Some (length acc')) r2)
                          else parseIPv6_loop n acc' e r1)))"

definition parseIPv6 :: "string \<Rightarrow> bytes option" where
  "parseIPv6 s =
     (let (e, s) = (if take 2 s = ''::'' then (Some 0, drop 2 s) else (None, s))
      in if e \<noteq> None \<and> s = [] then Some (replicate 16 0)
         else (case parseIPv6_loop 8 [] e s of
             None \<Rightarrow> None
           | Some (acc, e, rest) \<Rightarrow>
               if rest \<noteq> [] then None
               else if length acc < 16 then
                 (case e of
                    None \<Rightarrow> None
                  | Some p \<Rightarrow> Some (take p acc @ replicate (16 - length acc) 0 @ drop p acc))
               else if e \<noteq> None then None
               else Some acc))"

definition v4InV6Prefix :: bytes where
  "v4InV6Prefix = replicate 10 0 @ [255, 255]"

text \<open>
  \<open>net.ParseIP\<close>: the first of \<open>.\<close>, \<open>:\<close>, \<open>%\<close> in the text decides the notation. An
  address with a zone is refused, so a text with \<open>%\<close> is never an address. The result
  has 16 bytes.
\<close>

definition ParseIP :: "string \<Rightarrow> IP" where
  "ParseIP s =
     (if CHR ''%'' \<in> set s then None
      else (case filter (\<lambda>c. c = CHR ''.'' \<or> c = CHR '':'') s of
          [] \<Rightarrow> None
        | c # _ \<Rightarrow>
            if c = CHR ''.'' then map_option (\<lambda>b. v4InV6Prefix @ b) (parseIPv4 s)
            else parseIPv6 s))"

definition To4 :: "IP \<Rightarrow> IP" where
  "To4 ip =
     (case ip of
        None \<Rightarrow> None
      | Some b \<Rightarrow>
          if length b = 4 then Some b
          else if length b = 16 \<and> take 12 b = v4InV6Prefix then Some (drop 12 b)
          else None)"

text \<open>The mask bytes for \<open>n\<close> leading ones in \<open>l\<close> bytes.\<close>

fun mask_bytes :: "nat \<Rightarrow> nat \<Rightarrow> bytes" where
  "mask_bytes 0 n = []"
| "mask_bytes (Suc l) n =
     (if 8 \<le> n then 255 # mask_bytes l (n - 8) else NOT (drop_bit n 255) # mask_bytes l 0)"

definition CIDRMask :: "int \<Rightarrow> nat \<Rightarrow> IP" where
  "CIDRMask ones bits =
     (if bits \<noteq> 32 \<and> bits \<noteq> 128 then None
      else if ones < 0 \<or> int bits < ones then None
      else Some (mask_bytes (bits div 8) (nat ones)))"

definition ip_bytes :: "IP \<Rightarrow> bytes" where
  "ip_bytes ip = (case ip of None \<Rightarrow> [] | Some b \<Rightarrow> b)"

definition IP_Mask :: "IP \<Rightarrow> IP \<Rightarrow> IP" where
  "IP_Mask ip msk =
     (let i = ip_bytes ip; m = ip_bytes msk;
          m = (if length m = 16 \<and> length i = 4 \<and> take 12 m = replicate 12 255 then drop 12 m else m);
          i = (if length m = 4 \<and> length i = 16 \<and> take 12 i = v4InV6Prefix then drop 12 i else i)
      in if length i \<noteq> length m then None else Some (map2 (AND) i m))"

definition IP_Equal :: "IP \<Rightarrow> IP \<Rightarrow> bool" where
  "IP_Equal ip x =
     (let a = ip_bytes ip; b = ip_bytes x
      in if length a = length b then a = b
         else if length a = 4 \<and> length b = 16 then take 12 b = v4InV6Prefix \<and> a = drop 12 b
         else if length a = 16 \<and> length b = 4 then take 12 a = v4InV6Prefix \<and> drop 12 a = b
         else False)"

section \<open>Addresses as text\<close>

fun show_base :: "nat \<Rightarrow> nat \<Rightarrow> string" where
  "show_base b n =
     (let d = (\<lambda>k. if k < 10 then char_of (k + 48) else char_of (k + 87))
      in if b < 2 \<or> n < b then [d n] else show_base b (n div b) @ [d (n mod b)])"

declare show_base.simps [simp del]

definition show_nat :: "nat \<Rightarrow> string" where
  "show_nat n = show_base 10 n"

text \<open>The 16-bit groups of an address, and the first longest run of at least two zero groups.\<close>

fun groups16 :: "bytes \<Rightarrow> nat list" where
  "groups16 (a # b # r) = (unat a * 256 + unat b) # groups16 r"
| "groups16 r = []"

definition zero_run :: "nat list \<Rightarrow> nat \<Rightarrow> nat" where
  "zero_run g i = length (takeWhile (\<lambda>x. x = 0) (drop i g))"

definition longest_zero_run :: "nat list \<Rightarrow> nat \<times> nat" where
  "longest_zero_run g =
     fold (\<lambda>i (s, e). if zero_run g i \<ge> 2 \<and> zero_run g i > e - s then (i, i + zero_run g i) else (s, e))
       [0..<length g] (255, 255)"

fun join_colon :: "string list \<Rightarrow> string" where
  "join_colon [] = []"
| "join_colon [s] = s"
| "join_colon (s # t # r) = s @ '':'' @ join_colon (t # r)"

definition ip6_string :: "bytes \<Rightarrow> string" where
  "ip6_string b =
     (let g = groups16 b; (s, e) = longest_zero_run g; h = map (show_base 16)
      in if s = 255 then join_colon (h g)
         else join_colon (h (take s g)) @ ''::'' @ join_colon (h (drop e g)))"

definition ip4_string :: "bytes \<Rightarrow> string" where
  "ip4_string b =
     show_nat (unat (b ! 0)) @ ''.'' @ show_nat (unat (b ! 1)) @ ''.'' @
     show_nat (unat (b ! 2)) @ ''.'' @ show_nat (unat (b ! 3))"

text \<open>\<open>IP.String\<close>.\<close>

definition IP_String :: "IP \<Rightarrow> string" where
  "IP_String ip =
     (if ip_bytes ip = [] then ''<nil>''
      else if length (ip_bytes ip) \<noteq> 4 \<and> length (ip_bytes ip) \<noteq> 16
      then ''?'' @ concat (map (\<lambda>x. show_base 16 (unat x div 16) @ show_base 16 (unat x mod 16)) (ip_bytes ip))
      else (case To4 ip of Some b4 \<Rightarrow> ip4_string b4 | None \<Rightarrow> ip6_string (ip_bytes ip)))"

section \<open>Anchored regular expressions\<close>

datatype rx =
    Str string
  | Plus "char \<Rightarrow> bool"
  | Cat rx rx
  | Alt rx rx
  | Opt rx
  | Grp nat rx

type_synonym captures = "nat \<Rightarrow> string"

fun strip_prefix :: "string \<Rightarrow> string \<Rightarrow> string option" where
  "strip_prefix [] s = Some s"
| "strip_prefix (p # ps) [] = None"
| "strip_prefix (p # ps) (c # cs) = (if p = c then strip_prefix ps cs else None)"

text \<open>
  All ways to match a prefix of the text, in the order in which the engine prefers them:
  the submatches so far and the rest of the text.
\<close>

fun runs :: "rx \<Rightarrow> captures \<times> string \<Rightarrow> (captures \<times> string) list" where
  "runs (Str p) (m, s) = (case strip_prefix p s of None \<Rightarrow> [] | Some r \<Rightarrow> [(m, r)])"
| "runs (Plus p) (m, s) = map (\<lambda>n. (m, drop n s)) (rev [1..<Suc (length (takeWhile p s))])"
| "runs (Cat a b) x = concat (map (runs b) (runs a x))"
| "runs (Alt a b) x = runs a x @ runs b x"
| "runs (Opt a) x = runs a x @ [x]"
| "runs (Grp i a) (m, s) =
     map (\<lambda>(m', r). (m'(i := take (length s - length r) s), r)) (runs a (m, s))"

text \<open>\<open>FindStringSubmatch\<close> of \<open>^r$\<close>; a group that took no part is the empty string.\<close>

definition full_match :: "rx \<Rightarrow> string \<Rightarrow> captures option" where
  "full_match r s =
     (case filter (\<lambda>(m, rest). rest = []) (runs r (\<lambda>_. [], s)) of
        [] \<Rightarrow> None
      | (m, _) # _ \<Rightarrow> Some m)"

text \<open>The texts that an expression matches.\<close>

inductive matches :: "rx \<Rightarrow> string \<Rightarrow> bool" where
  m_Str: "matches (Str p) p"
| m_Plus: "s \<noteq> [] \<Longrightarrow> list_all p s \<Longrightarrow> matches (Plus p) s"
| m_Cat: "matches a s \<Longrightarrow> matches b t \<Longrightarrow> matches (Cat a b) (s @ t)"
| m_Alt1: "matches a s \<Longrightarrow> matches (Alt a b) s"
| m_Alt2: "matches b s \<Longrightarrow> matches (Alt a b) s"
| m_Opt: "matches a s \<Longrightarrow> matches (Opt a) s"
| m_OptNo: "matches (Opt a) []"
| m_Grp: "matches a s \<Longrightarrow> matches (Grp i a) s"

inductive_cases matches_StrE: "matches (Str p) s"
inductive_cases matches_PlusE: "matches (Plus p) s"
inductive_cases matches_CatE: "matches (Cat a b) s"
inductive_cases matches_AltE: "matches (Alt a b) s"
inductive_cases matches_OptE: "matches (Opt a) s"
inductive_cases matches_GrpE: "matches (Grp i a) s"

lemmas matches_elims = matches_StrE matches_PlusE matches_CatE matches_AltE matches_OptE matches_GrpE

section \<open>Lemmas on regular expressions\<close>

lemma strip_prefix_Some: "strip_prefix p s = Some r \<longleftrightarrow> s = p @ r"
  by (induction p s rule: strip_prefix.induct) auto

text \<open>Every way to match consumes a text that the expression matches.\<close>

lemma runs_sound:
  "(m', r) \<in> set (runs e (m, s)) \<Longrightarrow> \<exists>t. s = t @ r \<and> matches e t"
proof (induction e arbitrary: m s m' r)
  case (Str p)
  then have "strip_prefix p s = Some r" by (auto split: option.splits)
  then show ?case by (auto simp: strip_prefix_Some intro: matches.intros)
next
  case (Plus p)
  then obtain n where n: "1 \<le> n" "n \<le> length (takeWhile p s)" "r = drop n s" by auto
  have "take n s = take n (takeWhile p s)"
    using n(2) by (metis takeWhile_dropWhile_id take_append append_Nil2 diff_is_0_eq take_0)
  then have "list_all p (take n s)"
    by (simp add: list_all_iff) (meson in_set_takeD set_takeWhileD)
  moreover have "take n s \<noteq> []"
    using n(1,2) length_takeWhile_le [of p s] by auto
  ultimately show ?case
    using n(3) by (intro exI [of _ "take n s"]) (auto intro: matches.intros)
next
  case (Cat a b)
  then obtain m1 r1 where "(m1, r1) \<in> set (runs a (m, s))" "(m', r) \<in> set (runs b (m1, r1))"
    by auto
  with Cat.IH obtain t u where "s = t @ r1" "matches a t" "r1 = u @ r" "matches b u" by blast
  then show ?case by (intro exI [of _ "t @ u"]) (auto intro: matches.intros)
next
  case (Alt a b)
  then show ?case by (fastforce intro: matches.intros)
next
  case (Opt a)
  then show ?case by (fastforce intro: matches.intros)
next
  case (Grp i a)
  then show ?case by (fastforce intro: matches.intros)
qed

lemma runs_complete: "matches e t \<Longrightarrow> \<exists>m'. (m', r) \<in> set (runs e (m, t @ r))"
proof (induction t arbitrary: m r rule: matches.induct)
  case (m_Str p)
  have "strip_prefix p (p @ r) = Some r" by (simp add: strip_prefix_Some)
  then show ?case by auto
next
  case (m_Plus s p)
  then have "length s \<in> set [1..<Suc (length (takeWhile p (s @ r)))]"
    by (auto simp: takeWhile_append2 list_all_iff Suc_le_eq)
  then show ?case by (force simp: image_iff)
next
  case (m_Cat a s b t)
  from m_Cat.IH(1) [of "t @ r" m] obtain m1 where "(m1, t @ r) \<in> set (runs a (m, s @ t @ r))" by auto
  moreover from m_Cat.IH(2) [of r m1] obtain m2 where "(m2, r) \<in> set (runs b (m1, t @ r))" by auto
  ultimately show ?case by auto
next
  case (m_Grp a s i)
  then obtain m1 where "(m1, r) \<in> set (runs a (m, s @ r))" by blast
  then show ?case by force
qed fastforce+

lemma full_match_iff: "full_match e s \<noteq> None \<longleftrightarrow> matches e s"
proof
  assume "full_match e s \<noteq> None"
  then have "filter (\<lambda>(m, rest). rest = []) (runs e (\<lambda>_. [], s)) \<noteq> []"
    by (auto simp: full_match_def)
  then obtain m where "(m, []) \<in> set (runs e (\<lambda>_. [], s))"
    by (auto simp: filter_empty_conv)
  with runs_sound show "matches e s" by fastforce
next
  assume "matches e s"
  with runs_complete [of e s "[]" "\<lambda>_. []"] obtain m where "(m, []) \<in> set (runs e (\<lambda>_. [], s))" by auto
  then show "full_match e s \<noteq> None"
    by (auto simp: full_match_def filter_empty_conv split: list.splits)
qed

text \<open>The groups of an expression with their bodies.\<close>

fun groups :: "rx \<Rightarrow> (nat \<times> rx) list" where
  "groups (Str p) = []"
| "groups (Plus p) = []"
| "groups (Cat a b) = groups a @ groups b"
| "groups (Alt a b) = groups a @ groups b"
| "groups (Opt a) = groups a"
| "groups (Grp i a) = (i, a) # groups a"

text \<open>A submatch is what it was before or a text that a group of that number matches.\<close>

lemma runs_captures:
  "(m', r) \<in> set (runs e (m, s)) \<Longrightarrow> m' i = m i \<or> (\<exists>a. (i, a) \<in> set (groups e) \<and> matches a (m' i))"
proof (induction e arbitrary: m s m' r)
  case (Cat a b)
  then obtain m1 r1 where "(m1, r1) \<in> set (runs a (m, s))" "(m', r) \<in> set (runs b (m1, r1))"
    by auto
  with Cat.IH show ?case by (metis Un_iff groups.simps(3) set_append)
next
  case (Grp j a)
  then obtain m1 where m1: "(m1, r) \<in> set (runs a (m, s))"
    and m': "m' = m1(j := take (length s - length r) s)"
    by auto
  from runs_sound [OF m1] have "matches a (take (length s - length r) s)" by auto
  with Grp.IH [OF m1] m' show ?case by auto
next
  case (Alt a b)
  then have "(m', r) \<in> set (runs a (m, s)) \<or> (m', r) \<in> set (runs b (m, s))" by simp
  with Alt.IH show ?case by (metis Un_iff groups.simps(4) set_append)
next
  case (Opt a)
  then have "(m', r) \<in> set (runs a (m, s)) \<or> m' = m" by auto
  with Opt.IH show ?case by (metis groups.simps(5))
qed (auto split: option.splits)

lemma full_match_capture:
  assumes "full_match e s = Some m"
  shows "m i = [] \<or> (\<exists>a. (i, a) \<in> set (groups e) \<and> matches a (m i))"
proof -
  from assms obtain r where "(m, r) \<in> set (runs e (\<lambda>_. [], s))"
    by (auto simp: full_match_def filter_eq_Cons_iff split: list.splits prod.splits)
  from runs_captures [OF this] show ?thesis by auto
qed

end
