(* ===== verification/Sdf_Parser.thy ===== *)
theory Sdf_Parser
  imports Go_Net Ebpf_Maps
begin

text \<open>
  The parser of SDF flow descriptions, \<open>cmd/core/sdf_filter_parser.go\<close>: the regular
  expression of \<open>ParseSdfFilter\<close> with its seven groups, and the functions that turn the
  submatches into the protocol, addresses, masks and port ranges of an \<open>SdfFilter\<close>.
\<close>

unbundle bit_operations_syntax

section \<open>The expressions\<close>

definition is_digit_dot :: "char \<Rightarrow> bool" where
  "is_digit_dot c \<longleftrightarrow> is_digit c \<or> c = CHR ''.''"

definition is_hex_colon :: "char \<Rightarrow> bool" where
  "is_hex_colon c \<longleftrightarrow> hex_val c \<noteq> None \<or> c = CHR '':''"

definition ports_rx :: rx where
  "ports_rx = Alt (Plus is_digit) (Cat (Plus is_digit) (Cat (Str ''-'') (Plus is_digit)))"

text \<open>The optional prefix length and the optional ports that follow an address.\<close>

definition tail_rx :: "nat \<Rightarrow> nat \<Rightarrow> rx" where
  "tail_rx i j =
     Cat (Opt (Cat (Str ''/'') (Grp i (Plus is_digit)))) (Opt (Cat (Str '' '') (Grp j ports_rx)))"

definition sdf_rx :: rx where
  "sdf_rx =
     Cat (Str ''permit out '')
    (Cat (Grp 1 (Alt (Str ''icmp'') (Alt (Str ''ip'') (Alt (Str ''tcp'') (Alt (Str ''udp'') (Plus is_digit))))))
    (Cat (Str '' from '')
    (Cat (Grp 2 (Alt (Str ''any'') (Alt (Plus is_digit_dot) (Plus is_hex_colon))))
    (Cat (tail_rx 3 4)
    (Cat (Str '' to '')
    (Cat (Grp 5 (Alt (Str ''assigned'') (Alt (Str ''any'') (Alt (Plus is_digit_dot) (Plus is_hex_colon)))))
         (tail_rx 6 7)))))))"

definition port_range_rx :: rx where
  "port_range_rx = Cat (Grp 1 (Plus is_digit)) (Opt (Cat (Str ''-'') (Grp 2 (Plus is_digit))))"

section \<open>The functions\<close>

definition ParseProtocol :: "string \<Rightarrow> u8 res" where
  "ParseProtocol proto =
     (let proto = (if proto = ''58'' then ''icmp6'' else proto)
      in case map_of [(''icmp'', 0), (''ip'', 1), (''tcp'', 2), (''udp'', 3), (''icmp6'', 4)] proto of
           Some number \<Rightarrow> Val number
         | None \<Rightarrow> Err (ErrText ''Unsupported protocol.''))"

text \<open>
  \<open>int(maskUint)\<close> keeps the 64 bits of the number, so a length of \<open>2^63\<close> or more becomes
  negative. \<open>CIDRMask\<close> gives nil for a length out of range, and so does then \<open>ip.Mask\<close>.
\<close>

definition ParseCidrIp :: "string \<Rightarrow> string \<Rightarrow> IpWMask res" where
  "ParseCidrIp ipStr maskStr =
     (case ParseIP ipStr of
        None \<Rightarrow> Err (ErrText ''Bad IP formatting.'')
      | Some b \<Rightarrow>
          (let (ipType, ip) = (case To4 (Some b) of Some b4 \<Rightarrow> (1, b4) | None \<Rightarrow> (2, b));
               full = CIDRMask (int (8 * length ip)) (8 * length ip)
           in if maskStr = [] then Val \<lparr>wm_Type = ipType, wm_Ip = Some ip, wm_Mask = full\<rparr>
              else (case ParseUint maskStr of
                  None \<Rightarrow> Err (ErrText ''Bad IP mask formatting.'')
                | Some maskUint \<Rightarrow>
                    (let m = CIDRMask (sint (of_nat maskUint :: u64)) (8 * length ip)
                     in Val \<lparr>wm_Type = ipType, wm_Ip = IP_Mask (Some ip) m, wm_Mask = m\<rparr>))))"

definition ParsePort :: "string \<Rightarrow> u16 res" where
  "ParsePort str =
     (case ParseUint str of
        None \<Rightarrow> Err ErrLibrary
      | Some port64 \<Rightarrow>
          if port64 > 65535 then Err (ErrText ''Invalid port. Port must be inside bounds [0, 65535].'')
          else Val (of_nat port64))"

text \<open>The submatches are read without a test: a text that does not match is a panic.\<close>

definition ParsePortRange :: "string \<Rightarrow> PortRange res" where
  "ParsePortRange str =
     (case full_match port_range_rx str of
        None \<Rightarrow> Panic IndexOutOfRange
      | Some m \<Rightarrow>
          (case ParsePort (m 1) of
             Err e \<Rightarrow> Err e
           | Panic p \<Rightarrow> Panic p
           | Val lo \<Rightarrow>
               (case (if m 2 \<noteq> [] then ParsePort (m 2) else Val lo) of
                  Err e \<Rightarrow> Err e
                | Panic p \<Rightarrow> Panic p
                | Val hi \<Rightarrow>
                    if lo > hi
                    then Err (ErrText ''Invalid port range. Left port should be less or equal to right port.'')
                    else Val \<lparr>LowerBound = lo, UpperBound = hi\<rparr>)))"

definition any_address :: IpWMask where
  "any_address = \<lparr>wm_Type = 0, wm_Ip = None, wm_Mask = None\<rparr>"

definition all_ports :: PortRange where
  "all_ports = \<lparr>LowerBound = 0, UpperBound = 65535\<rparr>"

definition ParseSdfFilter :: "string \<Rightarrow> SdfFilter res" where
  "ParseSdfFilter flowDescription =
     (case full_match sdf_rx flowDescription of
        None \<Rightarrow> Err (ErrText ''SDF Filter: bad formatting.'')
      | Some m \<Rightarrow>
          bind_res (ParseProtocol (m 1)) (\<lambda>proto.
          bind_res
            (if m 2 = ''any''
             then (if m 3 \<noteq> [] then Err (ErrText ''<any> keyword should not be used with </mask>'')
                   else Val any_address)
             else ParseCidrIp (m 2) (m 3)) (\<lambda>src.
          bind_res (if m 4 \<noteq> [] then ParsePortRange (m 4) else Val all_ports) (\<lambda>srcPorts.
          bind_res
            (if m 5 = ''assigned'' \<or> m 5 = ''any'' then Val any_address
             else ParseCidrIp (m 5) (m 6)) (\<lambda>dst.
          bind_res (if m 7 \<noteq> [] then ParsePortRange (m 7) else Val all_ports) (\<lambda>dstPorts.
            Val \<lparr>sf_Protocol = proto, sf_SrcAddress = src, sf_SrcPortRange = srcPorts,
                 sf_DstAddress = dst, sf_DstPortRange = dstPorts\<rparr>))))))"

section \<open>What a filter of the parser looks like\<close>

definition address_ok :: "IpWMask \<Rightarrow> bool" where
  "address_ok a \<longleftrightarrow>
     (wm_Type a = 0 \<and> wm_Ip a = None \<and> wm_Mask a = None)
   \<or> (wm_Type a \<in> {1, 2} \<and>
        ((wm_Ip a = None \<and> wm_Mask a = None)
         \<or> (\<exists>i m. wm_Ip a = Some i \<and> wm_Mask a = Some m \<and> length i = length m
                \<and> length i = (if wm_Type a = 1 then 4 else 16)
                \<and> map2 (AND) i m = i)))"

definition filter_ok :: "SdfFilter \<Rightarrow> bool" where
  "filter_ok f \<longleftrightarrow>
     sf_Protocol f \<le> 4
   \<and> address_ok (sf_SrcAddress f) \<and> address_ok (sf_DstAddress f)
   \<and> LowerBound (sf_SrcPortRange f) \<le> UpperBound (sf_SrcPortRange f)
   \<and> LowerBound (sf_DstPortRange f) \<le> UpperBound (sf_DstPortRange f)"

text \<open>Dotted notation, for the round trips.\<close>

definition show_ip4 :: "u8 \<Rightarrow> u8 \<Rightarrow> u8 \<Rightarrow> u8 \<Rightarrow> string" where
  "show_ip4 a b c d = IP_String (Some [a, b, c, d])"

section \<open>Lemmas on numbers\<close>

lemma char_code_char_of: "n < 256 \<Longrightarrow> char_code (char_of n) = n"
  by (simp add: char_code_def of_char_of)

lemma is_digit_char_of [simp]: "n < 10 \<Longrightarrow> is_digit (char_of (n + 48 :: nat))"
  by (simp add: is_digit_def char_code_char_of)

lemma digit_val_char_of [simp]: "n < 10 \<Longrightarrow> digit_val (char_of (n + 48 :: nat)) = n"
  by (simp add: digit_val_def char_code_char_of)

lemma dec_val_snoc: "dec_val (s @ [c]) = dec_val s * 10 + digit_val c"
  by (simp add: dec_val_def)

lemma show_nat_rec:
  "show_nat n = (if n < 10 then [char_of (n + 48)] else show_nat (n div 10) @ [char_of (n mod 10 + 48)])"
  by (simp add: show_nat_def show_base.simps [of 10 n])

lemma show_nat_digits: "list_all is_digit (show_nat n) \<and> show_nat n \<noteq> [] \<and> dec_val (show_nat n) = n"
proof (induction n rule: less_induct)
  case (less n)
  show ?case
  proof (cases "n < 10")
    case True
    then show ?thesis by (simp add: show_nat_rec [of n] dec_val_def)
  next
    case False
    then have "n div 10 < n" by simp
    with less have "list_all is_digit (show_nat (n div 10)) \<and> dec_val (show_nat (n div 10)) = n div 10" by simp
    with False show ?thesis by (subst (1 2 3) show_nat_rec) (simp add: dec_val_snoc)
  qed
qed

lemma ParseUint_show_nat: "n < 2 ^ 64 \<Longrightarrow> ParseUint (show_nat n) = Some n"
  using show_nat_digits [of n] by (simp add: ParseUint_def)

lemma ParseUint_bound: "ParseUint s = Some n \<Longrightarrow> n < 2 ^ 64"
  by (auto simp: ParseUint_def split: if_splits)

lemma ParsePort_not_panic [simp]: "ParsePort s \<noteq> Panic p"
  by (simp add: ParsePort_def split: option.split)

section \<open>Lemmas on masks and addresses\<close>

lemma mask_bytes_length [simp]: "length (mask_bytes l n) = l"
  by (induction l n rule: mask_bytes.induct) auto

lemma map2_AND_idem: "map2 (AND) (map2 (AND) xs ys) ys = map2 (AND) xs (ys :: bytes)"
  by (induction xs ys rule: list_induct2') (auto simp: and.assoc)

lemma and_255 [simp]: "(a :: u8) AND 255 = a"
proof -
  have "(255 :: u8) = - 1" by simp
  then show ?thesis by (simp only: and.right_neutral)
qed

lemma map2_AND_mask_full: "map2 (AND) xs (mask_bytes (length xs) (8 * length xs)) = xs"
  by (induction xs) auto

lemma parseIPv4_loop_length:
  "parseIPv4_loop st d v dl fs s = Some b \<Longrightarrow> length fs \<le> 3 \<Longrightarrow> length b = 4"
  by (induction st d v dl fs s rule: parseIPv4_loop.induct) (auto split: if_splits)

lemma parseIPv4_length: "parseIPv4 s = Some b \<Longrightarrow> length b = 4"
  unfolding parseIPv4_def by (rule parseIPv4_loop_length) auto

text \<open>One round of the loop for a colon-separated group.\<close>

lemma parseIPv6_loop_Suc:
  assumes "parseIPv6_loop (Suc n) acc e s = Some (acc', e', r)"
  obtains b where "acc' = acc @ b" "length b = 4" "length acc + 4 \<le> 16" "e' = e"
  | g where "length g = 2" "acc' = acc @ g" "e' = e \<or> e' = Some (length acc')"
  | g e1 s1 where "length g = 2" "e1 = e \<or> e1 = Some (length (acc @ g))"
      "parseIPv6_loop n (acc @ g) e1 s1 = Some (acc', e', r)"
proof -
  from assms obtain off v rest where h: "hex_run 0 0 s = Some (off, v, rest)"
    by (auto split: option.splits)
  let ?g = "[of_nat (v div 256), of_nat v] :: bytes"
  show ?thesis
  proof (cases "rest \<noteq> [] \<and> hd rest = CHR ''.''")
    case True
    with assms h show ?thesis
      by (auto split: option.splits if_splits dest: parseIPv4_length intro: that(1))
  next
    case False
    with assms h show ?thesis
      using that(2) [of ?g] that(3) [of ?g]
      by (auto simp: Let_def split: if_splits list.splits)
  qed
qed

lemma parseIPv6_loop_length:
  "parseIPv6_loop n acc e s = Some (acc', e', r) \<Longrightarrow> length acc + 2 * n \<le> 16 \<Longrightarrow>
   (\<forall>p. e = Some p \<longrightarrow> p \<le> length acc) \<Longrightarrow>
   length acc' \<le> 16 \<and> (\<forall>p. e' = Some p \<longrightarrow> p \<le> length acc')"
proof (induction n arbitrary: acc e s)
  case 0
  then show ?case by auto
next
  case (Suc n)
  from Suc.prems(1) show ?case
  proof (cases rule: parseIPv6_loop_Suc)
    case (1 b)
    with Suc.prems show ?thesis by auto
  next
    case (2 g)
    with Suc.prems show ?thesis by auto
  next
    case (3 g e1 s1)
    then show ?thesis using Suc.prems(2,3) by (intro Suc.IH [OF 3(3)]) auto
  qed
qed

lemma parseIPv6_length: "parseIPv6 s = Some b \<Longrightarrow> length b = 16"
proof -
  have start: "length acc \<le> 16 \<and> (\<forall>p. e = Some p \<longrightarrow> p \<le> length acc)"
    if "parseIPv6_loop 8 [] e0 s0 = Some (acc, e, r)" "e0 = None \<or> e0 = Some 0" for e0 s0 acc e r
    using parseIPv6_loop_length [OF that(1)] that(2) by auto
  assume "parseIPv6 s = Some b"
  then show ?thesis
    unfolding parseIPv6_def Let_def
    by (auto split: if_splits option.splits prod.splits dest: start)
qed

lemma ParseIP_length: "ParseIP s = Some b \<Longrightarrow> length b = 16"
  by (auto simp: ParseIP_def v4InV6Prefix_def split: if_splits list.splits
      dest: parseIPv4_length parseIPv6_length)

lemma To4_length: "To4 (Some b) = Some b4 \<Longrightarrow> length b4 = 4"
  by (auto simp: To4_def split: if_splits)

lemma IP_Mask_same:
  assumes "length i = length m"
  shows "IP_Mask (Some i) (Some m) = Some (map2 (AND) i m)"
  using assms by (cases "length m = 16") (simp_all add: IP_Mask_def ip_bytes_def Let_def)

lemma IP_Mask_nil: "i \<noteq> [] \<Longrightarrow> IP_Mask (Some i) None = None"
  by (simp add: IP_Mask_def ip_bytes_def Let_def)

text \<open>The address of a text: an IPv4 address in four bytes, any other in sixteen.\<close>

definition parsed_ip :: "string \<Rightarrow> (u8 \<times> bytes) option" where
  "parsed_ip s =
     (case ParseIP s of
        None \<Rightarrow> None
      | Some b \<Rightarrow> (case To4 (Some b) of Some b4 \<Rightarrow> Some (1, b4) | None \<Rightarrow> Some (2, b)))"

lemma parsed_ip_length:
  "parsed_ip s = Some (t, b) \<Longrightarrow> (t = 1 \<and> length b = 4) \<or> (t = 2 \<and> length b = 16)"
  by (auto simp: parsed_ip_def split: option.splits dest: ParseIP_length To4_length)

lemma ParseCidrIp_Val:
  assumes "ParseCidrIp s k = Val w"
  obtains t b n where "parsed_ip s = Some (t, b)" "wm_Type w = t"
    "wm_Mask w = CIDRMask n (8 * length b)" "wm_Ip w = IP_Mask (Some b) (CIDRMask n (8 * length b))"
proof -
  from assms obtain t b where p: "parsed_ip s = Some (t, b)"
    by (auto simp: ParseCidrIp_def parsed_ip_def split: option.splits)
  have full: "IP_Mask (Some b) (CIDRMask (int (8 * length b)) (8 * length b)) = Some b"
    using parsed_ip_length [OF p] map2_AND_mask_full [of b]
    by (auto simp: CIDRMask_def IP_Mask_same simp del: of_nat_mult)
  from assms p show ?thesis
  proof (cases "k = []")
    case True
    with assms p full show ?thesis
      by (intro that [OF p, of "int (8 * length b)"])
         (auto simp: ParseCidrIp_def parsed_ip_def Let_def split: option.splits)
  next
    case False
    with assms p obtain n where "ParseUint k = Some n"
      by (auto simp: ParseCidrIp_def parsed_ip_def Let_def split: option.splits)
    with assms p False show ?thesis
      by (intro that [OF p, of "sint (of_nat n :: u64)"])
         (auto simp: ParseCidrIp_def parsed_ip_def Let_def split: option.splits)
  qed
qed

lemma ParseCidrIp_ok:
  assumes "ParseCidrIp s k = Val w"
  shows "address_ok w"
  using assms
proof (cases rule: ParseCidrIp_Val)
  case (1 t b n)
  note len = parsed_ip_length [OF 1(1)]
  show ?thesis
  proof (cases "CIDRMask n (8 * length b)")
    case None
    moreover have "b \<noteq> []" using len by auto
    ultimately show ?thesis using 1 len by (auto simp: address_ok_def IP_Mask_nil)
  next
    case (Some m)
    then have "length m = length b" by (auto simp: CIDRMask_def split: if_splits)
    with 1 len Some show ?thesis
      by (auto simp: address_ok_def IP_Mask_same map2_AND_idem)
  qed
qed

lemma ParseCidrIp_not_panic: "\<not> is_panic (ParseCidrIp a k)"
  by (auto simp: ParseCidrIp_def Let_def split: option.split prod.split)

section \<open>Lemmas on the expressions\<close>

lemma ParsePortRange_not_panic: "matches ports_rx s \<Longrightarrow> \<not> is_panic (ParsePortRange s)"
proof -
  assume p: "matches ports_rx s"
  have "matches port_range_rx s"
  proof (cases "matches (Plus is_digit) s")
    case True
    from m_Cat [OF m_Grp [OF this] m_OptNo] show ?thesis by (simp add: port_range_rx_def)
  next
    case False
    with p obtain a b where "s = a @ ''-'' @ b" "matches (Plus is_digit) a" "matches (Plus is_digit) b"
      by (auto simp: ports_rx_def elim!: matches_AltE matches_CatE matches_StrE)
    then show ?thesis
      unfolding port_range_rx_def by (metis m_Cat m_Grp m_Opt m_Str)
  qed
  then obtain m where "full_match port_range_rx s = Some m"
    using full_match_iff [of port_range_rx s] by auto
  then show ?thesis
    by (auto simp: ParsePortRange_def split: res.split)
qed

lemma ParsePortRange_res:
  assumes "matches ports_rx s"
  shows "res_all (\<lambda>r. LowerBound r \<le> UpperBound r) (ParsePortRange s)"
  using ParsePortRange_not_panic [OF assms]
  by (auto simp: ParsePortRange_def split: option.splits res.splits)

lemma ParseProtocol_res: "res_all (\<lambda>n. n \<le> 4) (ParseProtocol s)"
  by (simp add: ParseProtocol_def Let_def)

lemma ParseCidrIp_res: "res_all address_ok (ParseCidrIp s k)"
  using ParseCidrIp_not_panic [of s k] ParseCidrIp_ok [of s k] by (cases "ParseCidrIp s k") auto

lemma any_address_ok: "address_ok any_address"
  by (simp add: any_address_def address_ok_def)

lemma ParsePort_show: "ParsePort (show_nat (unat p)) = Val (p :: u16)"
proof -
  have "unat p < 65536" using unsigned_less [of p] by simp
  then show ?thesis by (simp add: ParsePort_def ParseUint_show_nat)
qed

lemma ParseProtocol_errors: "ParseProtocol s \<noteq> Err (ErrText ''SDF Filter: bad formatting.'')"
  by (auto simp: ParseProtocol_def Let_def split: if_splits)

lemma ParseCidrIp_errors: "ParseCidrIp s k \<noteq> Err (ErrText ''SDF Filter: bad formatting.'')"
  by (auto simp: ParseCidrIp_def Let_def split: option.splits prod.splits if_splits)

lemma ParsePort_errors: "ParsePort s \<noteq> Err (ErrText ''SDF Filter: bad formatting.'')"
  by (auto simp: ParsePort_def split: option.splits if_splits)

lemma ParsePortRange_errors: "ParsePortRange s \<noteq> Err (ErrText ''SDF Filter: bad formatting.'')"
  using ParsePort_errors by (auto simp: ParsePortRange_def split: option.splits res.splits if_splits)

text \<open>The greedy search finds the two numbers of a range at once.\<close>

lemma runs_Plus_all:
  assumes "s \<noteq> []" and "list_all p s" and "r = [] \<or> \<not> p (hd r)"
  obtains rest where "runs (Plus p) (m, s @ r) = (m, r) # rest"
proof -
  have "takeWhile p (s @ r) = s"
    using assms(2,3) by (cases r) (auto simp: list_all_iff takeWhile_append2)
  moreover have "rev [1..<Suc (length s)] = length s # rev [1..<length s]"
    using assms(1) by (cases s) auto
  ultimately have "runs (Plus p) (m, s @ r) = (m, r) # map (\<lambda>n. (m, drop n (s @ r))) (rev [1..<length s])"
    by simp
  then show thesis by (rule that)
qed

lemma port_range_match:
  assumes "a \<noteq> []" "list_all is_digit a" "b \<noteq> []" "list_all is_digit b"
  shows "\<exists>m. full_match port_range_rx (a @ ''-'' @ b) = Some m \<and> m 1 = a \<and> m 2 = b"
proof -
  have dash: "\<not> is_digit CHR ''-''" by (simp add: is_digit_def char_code_def)
  obtain r1 where 1: "runs (Plus is_digit) (\<lambda>_. [], a @ ''-'' @ b) = (\<lambda>_. [], ''-'' @ b) # r1"
    using runs_Plus_all [OF assms(1,2), of "''-'' @ b" "\<lambda>_. []"] dash by auto
  obtain r2 where 2: "runs (Plus is_digit) ((\<lambda>_. [])(1 := a), b) = ((\<lambda>_. [])(1 := a), []) # r2"
    using runs_Plus_all [OF assms(3,4), of "[]" "(\<lambda>_. [])(1 := a)"] by auto
  obtain r3 where "runs port_range_rx (\<lambda>_. [], a @ ''-'' @ b) = ((\<lambda>_. [])(1 := a, 2 := b), []) # r3"
    using 1 2 by (simp add: port_range_rx_def del: runs.simps(2))
  then show ?thesis by (simp add: full_match_def)
qed

lemma CIDRMask32:
  assumes "n < 2 ^ 64"
  shows "CIDRMask (sint (of_nat n :: u64)) 32 = (if n \<le> 32 then Some (mask_bytes 4 n) else None)"
proof -
  let ?k = "sint (of_nat n :: u64)"
  have k: "?k = signed_take_bit 63 (int n)" using assms by (simp add: sint_uint uint_nat unat_of_nat)
  show ?thesis
  proof (cases "n < 2 ^ 63")
    case True
    then have "?k = int n" unfolding k by (simp add: signed_take_bit_int_eq_self_iff)
    then show ?thesis by (simp add: CIDRMask_def)
  next
    case False
    then have "n div 2 ^ 63 = 1" using assms by (intro div_nat_eqI) auto
    then have "int n div 2 ^ 63 = 1" by (metis of_nat_1 of_nat_numeral of_nat_power zdiv_int)
    then have "bit (int n) 63" by (simp only: bit_iff_odd) simp
    then have "?k < 0" unfolding k by (simp add: signed_take_bit_negative_iff)
    with False show ?thesis by (simp add: CIDRMask_def)
  qed
qed

lemma sdf_ports_capture:
  assumes "full_match sdf_rx s = Some m" and "i \<in> {4, 7}" and "m i \<noteq> []"
  shows "matches ports_rx (m i)"
  using full_match_capture [OF assms(1), of i] assms(2,3)
  by (auto simp: sdf_rx_def tail_rx_def ports_rx_def)

lemma parseIPv4_octet:
  assumes "n < 256" and "rest = [] \<or> hd rest = CHR ''.''"
  shows "parseIPv4_loop st dt 0 0 fs (show_nat n @ rest) = parseIPv4_loop False False n 1 fs rest"
proof -
  have any_len: "parseIPv4_loop st dt v (Suc k) fs rest = parseIPv4_loop st dt v 1 fs rest" for st dt v k
    using assms(2) by (cases rest) (auto simp: is_digit_def char_code_def)
  consider "n < 10" | "10 \<le> n" "n < 100" | "100 \<le> n" by linarith
  then show ?thesis
  proof cases
    case 1
    then show ?thesis by (simp add: show_nat_rec [of n])
  next
    case 2
    then have d: "n div 10 < 10" "0 < n div 10" by auto
    then have "show_nat n = [char_of (n div 10 + 48), char_of (n mod 10 + 48)]"
      using 2 by (simp add: show_nat_rec [of n] show_nat_rec [of "n div 10"])
    with d assms(1) any_len [of False False n 1] show ?thesis
      by (simp add: numeral_2_eq_2)
  next
    case 3
    then have d: "n div 100 < 10" "0 < n div 100" "n div 10 mod 10 < 10" "\<not> n div 10 < 10"
      and e: "n div 100 * 10 + n div 10 mod 10 = n div 10"
      using assms(1) by (auto simp: div_mult2_eq [of n 10 10, simplified])
    then have "show_nat n = [char_of (n div 100 + 48), char_of (n div 10 mod 10 + 48), char_of (n mod 10 + 48)]"
      using 3 by (simp add: show_nat_rec [of n] show_nat_rec [of "n div 10"]
          show_nat_rec [of "n div 10 div 10"] div_mult2_eq [of n 10 10, simplified])
    with d e assms(1) any_len [of False False n 2] show ?thesis
      by (simp add: numeral_2_eq_2) (intro conjI impI; use 3 assms(1) in linarith)
  qed
qed

lemma show_ip4_eq:
  "show_ip4 a b c d =
     show_nat (unat a) @ ''.'' @ show_nat (unat b) @ ''.'' @ show_nat (unat c) @ ''.'' @ show_nat (unat d)"
  by (simp add: show_ip4_def IP_String_def ip_bytes_def To4_def ip4_string_def eval_nat_numeral)

lemma parseIPv4_show: "parseIPv4 (show_ip4 a b c d) = Some [a, b, c, d]"
proof -
  have lt: "unat (x :: u8) < 256" for x using unsigned_less [of x] by simp
  have dot: "\<not> is_digit CHR ''.''" by (simp add: is_digit_def char_code_def)
  show ?thesis
    using show_nat_digits [of "unat b"] show_nat_digits [of "unat c"] show_nat_digits [of "unat d"]
    by (simp add: parseIPv4_def show_ip4_eq parseIPv4_octet lt dot parseIPv4_octet [where rest = "[]", simplified])
qed

lemma ParseIP_show: "ParseIP (show_ip4 a b c d) = Some (v4InV6Prefix @ [a, b, c, d])"
proof -
  have plain: "c \<in> set (show_nat n) \<Longrightarrow> is_digit c" for c n
    using show_nat_digits [of n] by (auto simp: list_all_iff)
  have none: "\<not> is_digit CHR ''%''" "\<not> is_digit CHR '':''" "\<not> is_digit CHR ''.''"
    by (simp_all add: is_digit_def char_code_def)
  have "CHR ''%'' \<notin> set (show_ip4 a b c d)"
    using none plain by (auto simp: show_ip4_eq)
  moreover have "filter (\<lambda>c. c = CHR ''.'' \<or> c = CHR '':'') (show_nat n) = []" for n
    using none plain by (auto simp: filter_empty_conv)
  then have "filter (\<lambda>c. c = CHR ''.'' \<or> c = CHR '':'') (show_ip4 a b c d) = ''...''"
    by (simp add: show_ip4_eq)
  ultimately show ?thesis by (simp add: ParseIP_def parseIPv4_show)
qed

lemma mask_bytes_bit:
  "k < 8 * l \<Longrightarrow> bit (mask_bytes l n ! (k div 8)) (7 - k mod 8) \<longleftrightarrow> k < n"
proof (induction l n arbitrary: k rule: mask_bytes.induct)
  case (1 n)
  then show ?case by simp
next
  case (2 l n)
  have ones: "bit (255 :: u8) j" if "j < 8" for j
  proof -
    have "(255 :: u8) = - 1" by simp
    with that show ?thesis by (simp only: bit_minus_1_iff) simp
  qed
  show ?case
  proof (cases "k < 8")
    case True
    then have "7 - k + n < 8 \<longleftrightarrow> n \<le> k" by linarith
    with True ones [of "7 - k"] ones [of "7 - k + n"] show ?thesis
      by (auto simp: bit_not_iff bit_drop_bit_eq add.commute dest: bit_imp_le_length)
  next
    case False
    then have "k div 8 = Suc ((k - 8) div 8)" "k mod 8 = (k - 8) mod 8"
      by (simp_all add: le_div_geq le_mod_geq)
    with 2 False show ?thesis by (cases "8 \<le> n") (auto simp: less_diff_conv)
  qed
qed

section \<open>Properties\<close>


text \<open>
  A flow description is refused as badly formatted exactly when the documented
  expression does not match it, in the usual sense of matching a regular expression:
  the search for submatches misses nothing.
\<close>

theorem ParseSdfFilter_bad_format:
  "ParseSdfFilter s = Err (ErrText ''SDF Filter: bad formatting.'') \<longleftrightarrow> \<not> matches sdf_rx s"
proof (cases "full_match sdf_rx s")
  case None
  with full_match_iff [of sdf_rx s] show ?thesis by (simp add: ParseSdfFilter_def)
next
  case (Some m)
  then have "ParseSdfFilter s \<noteq> Err (ErrText ''SDF Filter: bad formatting.'')"
    by (auto simp: ParseSdfFilter_def bind_res_eq_Err ParseProtocol_errors ParseCidrIp_errors
        ParsePortRange_errors split: if_splits)
  with Some full_match_iff [of sdf_rx s] show ?thesis by auto
qed

text \<open>
  A port range written as \<open>lo-hi\<close> in decimal is read back as that range when
  \<open>lo\<close> is not above \<open>hi\<close>, and is refused otherwise.
\<close>

theorem ParsePortRange_roundtrip:
  "ParsePortRange (show_nat (unat lo) @ ''-'' @ show_nat (unat hi)) =
     (if lo \<le> hi then Val \<lparr>LowerBound = lo, UpperBound = hi\<rparr>
      else Err (ErrText ''Invalid port range. Left port should be less or equal to right port.''))"
proof -
  obtain m where m: "full_match port_range_rx (show_nat (unat lo) @ ''-'' @ show_nat (unat hi)) = Some m"
    "m 1 = show_nat (unat lo)" "m 2 = show_nat (unat hi)"
    using port_range_match show_nat_digits by metis
  with show_nat_digits [of "unat hi"] show ?thesis
    by (auto simp: ParsePortRange_def ParsePort_show)
qed

text \<open>
  An IPv4 address \<open>a.b.c.d\<close> with prefix length \<open>n\<close> is read as an address of type 1
  whose first \<open>n\<close> bits are those of the address and whose other bits are zero, with the
  mask of \<open>n\<close> leading ones. A length above 32 is not refused: it gives a filter without
  address and without mask.
\<close>

theorem ParseCidrIp_network:
  assumes "n < 2 ^ 64"
  shows "ParseCidrIp (show_ip4 a b c d) (show_nat n) =
           Val (if n \<le> 32
                then \<lparr>wm_Type = 1, wm_Ip = Some (map2 (AND) [a, b, c, d] (mask_bytes 4 n)),
                      wm_Mask = Some (mask_bytes 4 n)\<rparr>
                else \<lparr>wm_Type = 1, wm_Ip = None, wm_Mask = None\<rparr>)
         \<and> (\<forall>k < 32. bit (mask_bytes 4 n ! (k div 8)) (7 - k mod 8) \<longleftrightarrow> k < n)"
proof
  have "To4 (Some (v4InV6Prefix @ [a, b, c, d])) = Some [a, b, c, d]"
    by (simp add: To4_def v4InV6Prefix_def)
  moreover have "show_nat n \<noteq> []" "ParseUint (show_nat n) = Some n"
    using show_nat_digits [of n] assms by (auto simp: ParseUint_show_nat)
  ultimately show "ParseCidrIp (show_ip4 a b c d) (show_nat n) =
      Val (if n \<le> 32
           then \<lparr>wm_Type = 1, wm_Ip = Some (map2 (AND) [a, b, c, d] (mask_bytes 4 n)),
                 wm_Mask = Some (mask_bytes 4 n)\<rparr>
           else \<lparr>wm_Type = 1, wm_Ip = None, wm_Mask = None\<rparr>)"
    using CIDRMask32 [OF assms]
    by (simp add: ParseCidrIp_def ParseIP_show IP_Mask_same IP_Mask_nil Let_def)
  show "\<forall>k < 32. bit (mask_bytes 4 n ! (k div 8)) (7 - k mod 8) \<longleftrightarrow> k < n"
    using mask_bytes_bit [of _ 4 n] by simp
qed

theorem ParseCidrIp_network_witness:
  "ParseCidrIp ''10.60.7.9'' ''16'' =
     Val \<lparr>wm_Type = 1, wm_Ip = Some [10, 60, 0, 0], wm_Mask = Some [255, 255, 0, 0]\<rparr>
   \<and> ParseCidrIp ''10.60.7.9'' ''33'' = Val \<lparr>wm_Type = 1, wm_Ip = None, wm_Mask = None\<rparr>"
proof -
  have "show_ip4 10 60 7 9 = ''10.60.7.9''" "show_nat 16 = ''16''" "show_nat 33 = ''33''" by code_simp+
  moreover have "mask_bytes 4 16 = [255, 255, 0, 0]" by code_simp
  ultimately show ?thesis
    using ParseCidrIp_network [of 16 10 60 7 9] ParseCidrIp_network [of 33 10 60 7 9] by simp
qed

text \<open>
  The address \<open>any\<close> with a prefix length is refused for the source and accepted for
  the destination, where the length has no effect.
\<close>

theorem any_with_mask:
  "ParseSdfFilter ''permit out ip from any/24 to assigned'' =
     Err (ErrText ''<any> keyword should not be used with </mask>'')
   \<and> ParseSdfFilter ''permit out ip from any to any/24'' = ParseSdfFilter ''permit out ip from any to any''"
  by code_simp

end
