(* ===== verification/Pdr_Context.thy ===== *)
theory Pdr_Context
  imports Pfcp_Session Sdf_Parser
begin

text \<open>
  Reading rules from PFCP information elements: \<open>cmd/core/pdr_creation_context.go\<close>,
  \<open>cmd/core/pdr.go\<close> and the helper functions of \<open>cmd/core/pfcp_session_handlers.go\<close>.

  Information elements belong to the library \<open>go-pfcp\<close>: they are values of a type
  \<open>'ie\<close>, and the accessors the code calls are fields of the record \<open>upf_env\<close>. An
  accessor gives \<^term>\<open>None\<close> where the library returns an error; the code that ignores
  the error then sees the zero value or the nil pointer of the result. The element
  types and the causes of the protocol are enumerations, and an element that the code
  builds is a term of \<open>resp_ie\<close> named after the constructor function of the library.

  \<open>range\<close> over the maps of a session takes its order from the environment, as does the
  clock: \<open>time_Now n\<close> is the reading of the \<open>n\<close>-th call.
\<close>

unbundle bit_operations_syntax

section \<open>The library of information elements\<close>

datatype ie_type =
    T_CreatePDR | T_UpdatePDR | T_CreateFAR | T_UpdateFAR | T_URRID | T_QERID | T_FTEID
  | T_UEIPAddress | T_SDFFilter | T_SourceInterface | T_OuterHeaderCreation
  | T_TransportLevelMarking | T_other u16

datatype cause =
    CauseRequestAccepted | CauseRequestRejected | CauseSessionContextNotFound
  | CauseMandatoryIEMissing | CauseConditionalIEMissing | CauseInvalidLength
  | CauseMandatoryIEIncorrect | CauseInvalidForwardingPolicy | CauseInvalidFTEIDAllocationOption
  | CauseNoEstablishedPFCPAssociation | CauseRuleCreationModificationFailure
  | CausePFCPEntityInCongestion | CauseNoResourcesAvailable | CauseServiceNotSupported
  | CauseSystemFailure | CauseRedirectionRequested | CauseOther u8

datatype msg_type =
    MsgTypeHeartbeatRequest | MsgTypeHeartbeatResponse | MsgTypeAssociationSetupRequest
  | MsgTypeAssociationSetupResponse | MsgTypeAssociationUpdateRequest
  | MsgTypeAssociationUpdateResponse | MsgTypeSessionEstablishmentRequest
  | MsgTypeSessionEstablishmentResponse | MsgTypeSessionDeletionRequest
  | MsgTypeSessionDeletionResponse | MsgTypeSessionModificationRequest
  | MsgTypeSessionModificationResponse | MsgTypeOther u8

type_synonym Time = int

record FTEIDFields =
  ft_TEID :: u32
  ft_HasCh :: bool
  ft_HasChID :: bool
  ft_ChooseID :: u8

record UEIPAddressFields =
  ue_Flags :: u8
  ue_IPv4Address :: IP
  ue_IPv6Address :: IP

record OuterHeaderCreationFields =
  oh_Description :: u16
  oh_TEID :: u32
  oh_HasIPv4 :: bool
  oh_HasIPv6 :: bool
  oh_IPv4Address :: IP

datatype resp_ie =
    NewCause cause
  | NewNodeID string string string
  | NewFSEID u64 IP IP
  | NewCreatedPDR "resp_ie list"
  | NewPDRID u16
  | NewUEIPAddress u8 string string u8 u8
  | NewFTEID u8 u32 IP IP u8
  | NewUsageReportWithinSessionDeletionResponse "resp_ie list"
  | NewUsageReportWithinSessionModificationResponse "resp_ie list"
  | NewURRID u32
  | NewURSEQN u32
  | NewUsageReportTrigger bytes
  | NewEndTime Time
  | NewVolumeMeasurement u8 u64 u64 u64 u64 u64 u64
  | NewRecoveryTimeStamp Time
  | NewUPFunctionFeatures bytes

record ('ie, 'm, 'b) upf_env = "('m, 'b) bpf_env" +
  ie_Type :: "'ie \<Rightarrow> ie_type"
  ie_ChildIEs :: "'ie \<Rightarrow> 'ie list"
  ie_CreatePDR :: "'ie \<Rightarrow> 'ie list option"
  ie_UpdatePDR :: "'ie \<Rightarrow> 'ie list option"
  ie_PDI :: "'ie \<Rightarrow> 'ie list option"
  ie_ForwardingParameters :: "'ie \<Rightarrow> 'ie list option"
  ie_UpdateForwardingParameters :: "'ie \<Rightarrow> 'ie list option"
  ie_PDRID :: "'ie \<Rightarrow> u16 option"
  ie_FARID :: "'ie \<Rightarrow> u32 option"
  ie_QERID :: "'ie \<Rightarrow> u32 option"
  ie_URRID :: "'ie \<Rightarrow> u32 option"
  ie_NodeID :: "'ie \<Rightarrow> string option"
  ie_FSEID :: "'ie \<Rightarrow> u64 option"
  ie_OuterHeaderRemovalDescription :: "'ie \<Rightarrow> u8 option"
  ie_SDFFilter_FlowDescription :: "'ie \<Rightarrow> string option"
  ie_FTEID :: "'ie \<Rightarrow> FTEIDFields option"
  ie_UEIPAddress :: "'ie \<Rightarrow> UEIPAddressFields option"
  ie_ApplyAction :: "'ie \<Rightarrow> bytes option"
  ie_OuterHeaderCreation :: "'ie \<Rightarrow> OuterHeaderCreationFields option"
  ie_TransportLevelMarking :: "'ie \<Rightarrow> u16 option"
  ie_GateStatusDL :: "'ie \<Rightarrow> u8 option"
  ie_GateStatusUL :: "'ie \<Rightarrow> u8 option"
  ie_MBRDL :: "'ie \<Rightarrow> u64 option"
  ie_MBRUL :: "'ie \<Rightarrow> u64 option"
  ie_QFI :: "'ie \<Rightarrow> u8 option"
  ie_Cause :: "'ie \<Rightarrow> cause option"
  ie_CPFunctionFeatures :: "'ie \<Rightarrow> u8 option"
  ie_RecoveryTimeStamp :: "'ie option \<Rightarrow> Time res"
  rangePDRs :: "(u32 \<rightharpoonup> SPDRInfo) \<Rightarrow> (u32 \<times> SPDRInfo) list"
  rangeFARs :: "(u32 \<rightharpoonup> SFarInfo) \<Rightarrow> (u32 \<times> SFarInfo) list"
  rangeQERs :: "(u32 \<rightharpoonup> SQerInfo) \<Rightarrow> (u32 \<times> SQerInfo) list"
  rangeURRs :: "(u32 \<rightharpoonup> SUrrInfo) \<Rightarrow> (u32 \<times> SUrrInfo) list"
  rangeSessions :: "(u64 \<rightharpoonup> Session) \<Rightarrow> (u64 \<times> Session) list"
  time_Now :: "nat \<Rightarrow> Time"
  MessageTypeName :: "msg_type \<Rightarrow> string"

section \<open>The creation context\<close>

text \<open>
  The context of a request: the session and the resource manager it works on, and the
  TEIDs chosen so far. \<open>rule_ctx\<close> adds the tables of the forwarding plane, which the Go
  functions get as an argument of their own.
\<close>

record PDRCreationContext =
  pc_Session :: Session
  pc_ResourceManager :: "ResourceManager option"
  pc_TEIDCache :: "u8 \<rightharpoonup> u32"

record ('m, 'b) rule_ctx = PDRCreationContext +
  rc_mapOperations :: "('m, 'b) BpfObjects"

definition NewPDRCreationContext :: "Session \<Rightarrow> ResourceManager option \<Rightarrow> PDRCreationContext" where
  "NewPDRCreationContext session resourceManager =
     \<lparr>pc_Session = session, pc_ResourceManager = resourceManager, pc_TEIDCache = Map.empty\<rparr>"

text \<open>An operation on the tables, used on a context.\<close>

definition on_tables ::
  "(('m, 'b) BpfObjects, 'a) op \<Rightarrow> (('m, 'b, 'z) rule_ctx_scheme, 'a) op" where
  "on_tables f c = (case f (rc_mapOperations c) of (r, b) \<Rightarrow> (r, c\<lparr>rc_mapOperations := b\<rparr>))"

section \<open>Helper functions\<close>

definition findIEindex ::
  "('ie, 'm, 'b, 'z) upf_env_scheme \<Rightarrow> 'ie list \<Rightarrow> ie_type \<Rightarrow> int" where
  "findIEindex E ieArr ieType =
     (let n = length (takeWhile (\<lambda>i. ie_Type E i \<noteq> ieType) ieArr)
      in if n < length ieArr then int n else - 1)"

text \<open>A slice read at an index, which panics outside the slice.\<close>

definition index_slice :: "'a list \<Rightarrow> int \<Rightarrow> 'a res" where
  "index_slice xs i = (if 0 \<le> i \<and> i < int (length xs) then Val (xs ! nat i) else Panic IndexOutOfRange)"

definition cloneIP :: "IP \<Rightarrow> IP" where
  "cloneIP ip = Some (ip_bytes ip)"

definition causeToString :: "cause \<Rightarrow> string" where
  "causeToString c =
     (case c of
        CauseRequestAccepted \<Rightarrow> ''RequestAccepted''
      | CauseRequestRejected \<Rightarrow> ''RequestRejected''
      | CauseSessionContextNotFound \<Rightarrow> ''SessionContextNotFound''
      | CauseMandatoryIEMissing \<Rightarrow> ''MandatoryIEMissing''
      | CauseConditionalIEMissing \<Rightarrow> ''ConditionalIEMissing''
      | CauseInvalidLength \<Rightarrow> ''InvalidLength''
      | CauseMandatoryIEIncorrect \<Rightarrow> ''MandatoryIEIncorrect''
      | CauseInvalidForwardingPolicy \<Rightarrow> ''InvalidForwardingPolicy''
      | CauseInvalidFTEIDAllocationOption \<Rightarrow> ''InvalidFTEIDAllocationOption''
      | CauseNoEstablishedPFCPAssociation \<Rightarrow> ''NoEstablishedPFCPAssociation''
      | CauseRuleCreationModificationFailure \<Rightarrow> ''RuleCreationModificationFailure''
      | CausePFCPEntityInCongestion \<Rightarrow> ''PFCPEntityInCongestion''
      | CauseNoResourcesAvailable \<Rightarrow> ''NoResourcesAvailable''
      | CauseServiceNotSupported \<Rightarrow> ''ServiceNotSupported''
      | CauseSystemFailure \<Rightarrow> ''SystemFailure''
      | CauseRedirectionRequested \<Rightarrow> ''RedirectionRequested''
      | CauseOther _ \<Rightarrow> ''UnknownCause'')"

definition convertErrorToIeCause :: "goerror \<Rightarrow> cause" where
  "convertErrorToIeCause err =
     (case err of
        ErrMandatoryIeMissing \<Rightarrow> CauseMandatoryIEMissing
      | ErrNoEstablishedAssociation \<Rightarrow> CauseNoEstablishedPFCPAssociation
      | _ \<Rightarrow> CauseRequestRejected)"

definition validateRequest ::
  "('ie, 'm, 'b, 'z) upf_env_scheme \<Rightarrow> 'ie option \<Rightarrow> 'ie option \<Rightarrow> u64 res" where
  "validateRequest E nodeId cpfseid =
     (case (nodeId, cpfseid) of
        (Some n, Some f) \<Rightarrow>
          (case ie_NodeID E n of
             None \<Rightarrow> Err ErrMandatoryIeMissing
           | Some _ \<Rightarrow>
               (case ie_FSEID E f of
                  None \<Rightarrow> Err ErrMandatoryIeMissing
                | Some seid \<Rightarrow> Val seid))
      | _ \<Rightarrow> Err ErrMandatoryIeMissing)"

text \<open>The value of a result whose error the code ignores.\<close>

definition or_zero :: "('w :: len) word option \<Rightarrow> 'w word" where
  "or_zero r = (case r of None \<Rightarrow> 0 | Some v \<Rightarrow> v)"

section \<open>FARs and QERs\<close>

definition GetTransportLevelMarking ::
  "('ie, 'm, 'b, 'z) upf_env_scheme \<Rightarrow> 'ie \<Rightarrow> u16 res" where
  "GetTransportLevelMarking E far =
     (case find (\<lambda>i. ie_Type E i = T_TransportLevelMarking) (ie_ChildIEs E far) of
        None \<Rightarrow> Err (ErrText ''no TransportLevelMarking found'')
      | Some i \<Rightarrow> (case ie_TransportLevelMarking E i of None \<Rightarrow> Err ErrLibrary | Some t \<Rightarrow> Val t))"

text \<open>\<open>binary.LittleEndian.Uint32\<close>, which panics on a slice of less than four bytes.\<close>

definition LittleEndian_Uint32 :: "IP \<Rightarrow> u32 res" where
  "LittleEndian_Uint32 ip =
     (let b = ip_bytes ip
      in if length b < 4 then Panic IndexOutOfRange
         else Val (ucast (b ! 0) OR push_bit 8 (ucast (b ! 1)) OR push_bit 16 (ucast (b ! 2))
                   OR push_bit 24 (ucast (b ! 3))))"

definition composeFar_header ::
  "('ie, 'm, 'b, 'z) upf_env_scheme \<Rightarrow> 'ie list \<Rightarrow> FarInfo \<Rightarrow> FarInfo res" where
  "composeFar_header E forward farInfo =
     (let i = findIEindex E forward T_OuterHeaderCreation
      in if i = - 1 then Val farInfo
         else bind_res (index_slice forward i) (\<lambda>x.
           (case ie_OuterHeaderCreation E x of
              None \<Rightarrow> Panic NilDereference
            | Some oh \<Rightarrow>
                (let farInfo = farInfo\<lparr>fi_OuterHeaderCreation := ucast (drop_bit 8 (oh_Description oh)),
                                       fi_Teid := oh_TEID oh\<rparr>
                 in bind_res
                      (if oh_HasIPv4 oh
                       then bind_res (LittleEndian_Uint32 (oh_IPv4Address oh))
                              (\<lambda>a. Val (farInfo\<lparr>fi_RemoteIP := a\<rparr>))
                       else Val farInfo)
                      (\<lambda>farInfo. if oh_HasIPv6 oh then Err (ErrText ''IPv6 not supported yet'')
                                  else Val farInfo)))))"

definition composeFarInfo ::
  "('ie, 'm, 'b, 'z) upf_env_scheme \<Rightarrow> 'ie \<Rightarrow> FarInfo \<Rightarrow> FarInfo res" where
  "composeFarInfo E far farInfo =
     bind_res
       (case ie_ApplyAction E far of
          None \<Rightarrow> Val farInfo
        | Some applyAction \<Rightarrow>
            bind_res (index_slice applyAction 0) (\<lambda>a. Val (farInfo\<lparr>fi_Action := a\<rparr>))) (\<lambda>farInfo.
     bind_res
       (if ie_Type E far = T_CreateFAR then Val (ie_ForwardingParameters E far)
        else if ie_Type E far = T_UpdateFAR then Val (ie_UpdateForwardingParameters E far)
        else Err (ErrText ''unsupported IE type'')) (\<lambda>forward.
     bind_res
       (case forward of
          None \<Rightarrow> Val farInfo
        | Some forward \<Rightarrow> composeFar_header E forward farInfo) (\<lambda>farInfo.
     (case GetTransportLevelMarking E far of
        Val t \<Rightarrow> Val (farInfo\<lparr>fi_TransportLevelMarking := t\<rparr>)
      | Err _ \<Rightarrow> Val farInfo
      | Panic p \<Rightarrow> Panic p))))"

definition updateQer ::
  "('ie, 'm, 'b, 'z) upf_env_scheme \<Rightarrow> 'ie \<Rightarrow> QerInfo \<Rightarrow> QerInfo" where
  "updateQer E qer q =
     (let q = (case ie_GateStatusDL E qer of None \<Rightarrow> q | Some g \<Rightarrow> q\<lparr>qi_GateStatusDL := g\<rparr>);
          q = (case ie_GateStatusUL E qer of None \<Rightarrow> q | Some g \<Rightarrow> q\<lparr>qi_GateStatusUL := g\<rparr>);
          q = (case ie_MBRDL E qer of None \<Rightarrow> q | Some m \<Rightarrow> q\<lparr>qi_MaxBitrateDL := ucast m * 1000\<rparr>);
          q = (case ie_MBRUL E qer of None \<Rightarrow> q | Some m \<Rightarrow> q\<lparr>qi_MaxBitrateUL := ucast m * 1000\<rparr>);
          q = (case ie_QFI E qer of None \<Rightarrow> q | Some f \<Rightarrow> q\<lparr>qi_Qfi := f\<rparr>)
      in q\<lparr>qi_StartUL := 0, qi_StartDL := 0\<rparr>)"

text \<open>The body of \<open>updateUrr\<close> is a comment.\<close>

definition updateUrr :: "('ie, 'm, 'b, 'z) upf_env_scheme \<Rightarrow> 'ie \<Rightarrow> UrrInfo \<Rightarrow> UrrInfo" where
  "updateUrr E urr u = u"

section \<open>PDRs\<close>

definition GetURRIDs :: "('ie, 'm, 'b, 'z) upf_env_scheme \<Rightarrow> 'ie \<Rightarrow> u32 list res" where
  "GetURRIDs E i =
     (let collect = (\<lambda>ies. List.map_filter (\<lambda>x. if ie_Type E x = T_URRID then ie_URRID E x else None) ies)
      in case ie_Type E i of
           T_CreatePDR \<Rightarrow> (case ie_CreatePDR E i of None \<Rightarrow> Err ErrLibrary | Some ies \<Rightarrow> Val (collect ies))
         | T_UpdatePDR \<Rightarrow> (case ie_UpdatePDR E i of None \<Rightarrow> Err ErrLibrary | Some ies \<Rightarrow> Val (collect ies))
         | _ \<Rightarrow> Err ErrLibrary)"

definition getFARID :: "u32 \<Rightarrow> 'z PDRCreationContext_scheme \<Rightarrow> u32" where
  "getFARID farid c = sfar_GlobalId (Session_GetFar farid (pc_Session c))"

definition getQERID :: "u32 \<Rightarrow> 'z PDRCreationContext_scheme \<Rightarrow> u32" where
  "getQERID qerid c = sqer_GlobalId (Session_GetQer qerid (pc_Session c))"

definition getURRID :: "u32 \<Rightarrow> 'z PDRCreationContext_scheme \<Rightarrow> u32" where
  "getURRID urrid c = surr_GlobalId (Session_GetUrr urrid (pc_Session c))"

definition hasTEIDCache :: "u8 \<Rightarrow> 'z PDRCreationContext_scheme \<Rightarrow> u32 option" where
  "hasTEIDCache chooseID c = pc_TEIDCache c chooseID"

definition setTEIDCache :: "u8 \<Rightarrow> u32 \<Rightarrow> 'z PDRCreationContext_scheme \<Rightarrow> 'z PDRCreationContext_scheme" where
  "setTEIDCache chooseID teid c = c\<lparr>pc_TEIDCache := (pc_TEIDCache c)(chooseID \<mapsto> teid)\<rparr>"

definition hasCHV4 :: "u8 \<Rightarrow> bool" where
  "hasCHV4 flags \<longleftrightarrow> flags AND push_bit 4 1 \<noteq> 0"

definition getFTEID :: "u64 \<Rightarrow> u32 \<Rightarrow> ('z PDRCreationContext_scheme, u32) op" where
  "getFTEID seID pdrID c =
     (case pc_ResourceManager c of
        None \<Rightarrow> (Err (ErrText ''FTEID manager is nil''), c)
      | Some rm \<Rightarrow>
          (case rm_FTEIDM rm of
             None \<Rightarrow> (Err (ErrText ''FTEID manager is nil''), c)
           | Some f \<Rightarrow>
               (case AllocateTEID seID pdrID f of
                  (r, f') \<Rightarrow>
                    (case r of Err _ \<Rightarrow> Err (ErrText ''Can't allocate TEID: NoResourcesAvailable'') | _ \<Rightarrow> r,
                     c\<lparr>pc_ResourceManager := Some (rm\<lparr>rm_FTEIDM := Some f'\<rparr>)\<rparr>))))"

definition getIP :: "('z PDRCreationContext_scheme, IP) op" where
  "getIP c =
     (case pc_ResourceManager c of
        None \<Rightarrow> (Err (ErrText ''IP address manager is nil''), c)
      | Some rm \<Rightarrow>
          (case rm_IPAM rm of
             None \<Rightarrow> (Err (ErrText ''IP address manager is nil''), c)
           | Some p \<Rightarrow>
               (case AllocateIP (RemoteSEID (pc_Session c)) p of
                  (r, p') \<Rightarrow>
                    (case r of Err _ \<Rightarrow> Err (ErrText ''can't allocate IP: NoResourcesAvailable'') | _ \<Rightarrow> r,
                     c\<lparr>pc_ResourceManager := Some (rm\<lparr>rm_IPAM := Some p'\<rparr>)\<rparr>))))"

text \<open>
  \<open>extractPDR\<close> in its four steps. The identifiers: outer header removal, FAR, QER and the
  first two URRs, each only when the element has it.
\<close>

definition extractPDR_ids ::
  "('ie, 'm, 'b, 'z) upf_env_scheme \<Rightarrow> 'y PDRCreationContext_scheme \<Rightarrow> 'ie \<Rightarrow> PdrInfo \<Rightarrow> PdrInfo" where
  "extractPDR_ids E c pdr p =
     (let p = (case ie_OuterHeaderRemovalDescription E pdr of None \<Rightarrow> p | Some r \<Rightarrow> p\<lparr>pi_OuterHeaderRemoval := r\<rparr>);
          p = (case ie_FARID E pdr of None \<Rightarrow> p | Some farid \<Rightarrow> p\<lparr>pi_FarId := getFARID farid c\<rparr>);
          p = (case ie_QERID E pdr of None \<Rightarrow> p | Some qerid \<Rightarrow> p\<lparr>pi_QerId := getQERID qerid c\<rparr>)
      in case GetURRIDs E pdr of
           Val urrs \<Rightarrow>
             (let p = (if length urrs > 0 then p\<lparr>pi_Urr1Id := getURRID (urrs ! 0) c\<rparr> else p)
              in if length urrs > 1 then p\<lparr>pi_Urr2Id := getURRID (urrs ! 1) c\<rparr> else p)
         | _ \<Rightarrow> p)"

definition extractPDR_sdf ::
  "('ie, 'm, 'b, 'z) upf_env_scheme \<Rightarrow> 'ie \<Rightarrow> PdrInfo \<Rightarrow> PdrInfo res" where
  "extractPDR_sdf E pdr p =
     (case ie_SDFFilter_FlowDescription E pdr of
        None \<Rightarrow> Val p
      | Some flow \<Rightarrow>
          if flow = [] then Val p
          else bind_res (ParseSdfFilter flow) (\<lambda>f. Val (p\<lparr>pi_SdfFilter := Some f\<rparr>)))"

text \<open>The F-TEID: given by the control plane, remembered for its choose identifier, or allocated.\<close>

definition extractPDR_fteid ::
  "('ie, 'm, 'b, 'z) upf_env_scheme \<Rightarrow> 'ie \<Rightarrow> SPDRInfo \<Rightarrow> ('y PDRCreationContext_scheme, SPDRInfo) op" where
  "extractPDR_fteid E fteidIE spdrInfo c =
     (case ie_FTEID E fteidIE of
        None \<Rightarrow> (Err (ErrText ''F-TEID IE is missing''), c)
      | Some fteid \<Rightarrow>
          if \<not> ft_HasCh fteid then (Val (spdrInfo\<lparr>sp_Teid := ft_TEID fteid\<rparr>), c)
          else (case (if ft_HasChID fteid then hasTEIDCache (ft_ChooseID fteid) c else None) of
              Some teidFromCache \<Rightarrow>
                (Val (spdrInfo\<lparr>sp_Teid := teidFromCache, sp_Allocated := True\<rparr>), c)
            | None \<Rightarrow>
                (case getFTEID (RemoteSEID (pc_Session c)) (sp_PdrID spdrInfo) c of
                   (Val teid, c) \<Rightarrow>
                     (Val (spdrInfo\<lparr>sp_Teid := teid, sp_Allocated := True\<rparr>),
                      if ft_HasChID fteid then setTEIDCache (ft_ChooseID fteid) teid c else c)
                 | (Err _, c) \<Rightarrow> (Err (ErrText ''can't allocate TEID: NoResourcesAvailable''), c)
                 | (Panic p, c) \<Rightarrow> (Panic p, c))))"

text \<open>The address of the user equipment: given by the control plane, or allocated when it asks for it.\<close>

definition extractPDR_ueip ::
  "('ie, 'm, 'b, 'z) upf_env_scheme \<Rightarrow> bool \<Rightarrow> 'ie \<Rightarrow> SPDRInfo \<Rightarrow> ('y PDRCreationContext_scheme, SPDRInfo) op" where
  "extractPDR_ueip E featureUEIP ueipIE spdrInfo c =
     (case ie_UEIPAddress E ueipIE of
        None \<Rightarrow> (Err (ErrText ''UE IP Address IE is missing''), c)
      | Some ueIP \<Rightarrow>
          (let (r, c) =
             (if featureUEIP \<and> hasCHV4 (ue_Flags ueIP)
              then (case getIP c of
                  (Val ip, c) \<Rightarrow> (Val (cloneIP ip, True), c)
                | (Err _, c) \<Rightarrow> (Val (ue_IPv4Address ueIP, sp_Allocated spdrInfo), c)
                | (Panic p, c) \<Rightarrow> (Panic p, c))
              else (Val (ue_IPv4Address ueIP, sp_Allocated spdrInfo), c))
           in (bind_res r (\<lambda>(ipv4, allocated).
                 if ipv4 \<noteq> None then Val (spdrInfo\<lparr>sp_Ipv4 := cloneIP ipv4, sp_Allocated := allocated\<rparr>)
                 else if ue_IPv6Address ueIP \<noteq> None
                 then Val (spdrInfo\<lparr>sp_Ipv6 := cloneIP (ue_IPv6Address ueIP), sp_Allocated := allocated\<rparr>)
                 else Err (ErrText ''UE IP Address IE is missing'')), c)))"

definition extractPDR ::
  "('ie, 'm, 'b, 'z) upf_env_scheme \<Rightarrow> bool \<Rightarrow> 'ie \<Rightarrow> SPDRInfo \<Rightarrow> ('y PDRCreationContext_scheme, SPDRInfo) op" where
  "extractPDR E featureUEIP pdr spdrInfo c =
     (let p = extractPDR_ids E c pdr (sp_PdrInfo spdrInfo)
      in case ie_PDI E pdr of
           None \<Rightarrow> (Err (ErrText ''PDI IE is missing''), c)
         | Some pdi \<Rightarrow>
             (case extractPDR_sdf E pdr p of
                Err e \<Rightarrow> (Err e, c)
              | Panic q \<Rightarrow> (Panic q, c)
              | Val p \<Rightarrow>
                  (let spdrInfo = spdrInfo\<lparr>sp_PdrInfo := p\<rparr>;
                       teidPdiId = findIEindex E pdi T_FTEID;
                       ueipPdiId = findIEindex E pdi T_UEIPAddress
                   in if teidPdiId \<noteq> - 1 then extractPDR_fteid E (pdi ! nat teidPdiId) spdrInfo c
                      else if ueipPdiId \<noteq> - 1 then extractPDR_ueip E featureUEIP (pdi ! nat ueipPdiId) spdrInfo c
                      else (Val spdrInfo, c))))"

definition applyPDR ::
  "('ie, 'm, 'b, 'z) upf_env_scheme \<Rightarrow> SPDRInfo \<Rightarrow> (('m, 'b) BpfObjects, unit) op" where
  "applyPDR E spdrInfo =
     (if sp_Ipv4 spdrInfo \<noteq> None then PutPdrDownlink E (sp_Ipv4 spdrInfo) (sp_PdrInfo spdrInfo)
      else if sp_Ipv6 spdrInfo \<noteq> None then PutDownlinkPdrIp6 E (sp_Ipv6 spdrInfo) (sp_PdrInfo spdrInfo)
      else PutPdrUplink E (sp_Teid spdrInfo) (sp_PdrInfo spdrInfo))"

text \<open>
  \<open>deletePDR\<close>: the map entry, then the TEIDs of the session. The cache keeps the low
  eight bits of the TEIDs already deleted. The release works on the resource manager
  without a test for nil.
\<close>

definition wrap_err :: "goerror \<Rightarrow> ('s, 'a) op \<Rightarrow> ('s, 'a) op" where
  "wrap_err e f s = (case f s of (Err _, s') \<Rightarrow> (Err e, s') | x \<Rightarrow> x)"

definition deletePDR_entry ::
  "('ie, 'm, 'b, 'z) upf_env_scheme \<Rightarrow> SPDRInfo \<Rightarrow> (('m, 'b, 'y) rule_ctx_scheme, unit) op" where
  "deletePDR_entry E spdrInfo c =
     (if sp_Ipv4 spdrInfo \<noteq> None
      then wrap_err (ErrText ''Can't delete IPv4 PDR'') (on_tables (DeletePdrDownlink E (sp_Ipv4 spdrInfo))) c
      else if sp_Ipv6 spdrInfo \<noteq> None
      then wrap_err (ErrText ''Can't delete IPv6 PDR'') (on_tables (DeleteDownlinkPdrIp6 E (sp_Ipv6 spdrInfo))) c
      else if pc_TEIDCache c (ucast (sp_Teid spdrInfo)) = None
      then bind_op
             (wrap_err (ErrText ''Can't delete GTP PDR'') (on_tables (DeletePdrUplink E (sp_Teid spdrInfo))))
             (\<lambda>_ c. (Val (), c\<lparr>pc_TEIDCache := (pc_TEIDCache c)(ucast (sp_Teid spdrInfo) \<mapsto> 0)\<rparr>)) c
      else (Val (), c))"

definition deletePDR_release ::
  "('ie, 'm, 'b, 'z) upf_env_scheme \<Rightarrow> SPDRInfo \<Rightarrow> (('m, 'b, 'y) rule_ctx_scheme, unit) op" where
  "deletePDR_release E spdrInfo c =
     (if sp_Teid spdrInfo = 0 then (Val (), c)
      else (case pc_ResourceManager c of
          None \<Rightarrow> (Panic NilDereference, c)
        | Some rm \<Rightarrow>
            (case rm_FTEIDM rm of
               None \<Rightarrow> (Panic NilDereference, c)
             | Some f \<Rightarrow>
                 (Val (), c\<lparr>pc_ResourceManager :=
                    Some (rm\<lparr>rm_FTEIDM := Some (ReleaseTEID E (RemoteSEID (pc_Session c)) f)\<rparr>)\<rparr>))))"

definition deletePDR ::
  "('ie, 'm, 'b, 'z) upf_env_scheme \<Rightarrow> SPDRInfo \<Rightarrow> (('m, 'b, 'y) rule_ctx_scheme, unit) op" where
  "deletePDR E spdrInfo = bind_op (deletePDR_entry E spdrInfo) (\<lambda>_. deletePDR_release E spdrInfo)"

definition processCreatedPDRs :: "SPDRInfo list \<Rightarrow> IP \<Rightarrow> resp_ie list" where
  "processCreatedPDRs createdPDRs n3Address =
     concat (map (\<lambda>pdr.
       if \<not> sp_Allocated pdr then []
       else if sp_Ipv4 pdr \<noteq> None
       then [NewCreatedPDR [NewPDRID (ucast (sp_PdrID pdr)), NewUEIPAddress 2 (IP_String (sp_Ipv4 pdr)) [] 0 0]]
       else if sp_Ipv6 pdr \<noteq> None then []
       else [NewCreatedPDR [NewPDRID (ucast (sp_PdrID pdr)),
                            NewFTEID 1 (sp_Teid pdr) (cloneIP n3Address) None 0]]) createdPDRs)"

text \<open>
  Printing a request reads the source interface of every PDR: \<open>pdi[srcIfacePdiId]\<close> with
  an index that is \<open>-1\<close> when the PDI has none.
\<close>

definition displayPdr :: "('ie, 'm, 'b, 'z) upf_env_scheme \<Rightarrow> 'ie \<Rightarrow> unit res" where
  "displayPdr E pdr =
     (case ie_PDI E pdr of
        None \<Rightarrow> Val ()
      | Some pdi \<Rightarrow> bind_res (index_slice pdi (findIEindex E pdi T_SourceInterface)) (\<lambda>_. Val ()))"

section \<open>A concrete library of elements\<close>

text \<open>
  Elements with a type, an identifier, a FAR reference, children, an F-TEID, a UE address,
  a text and a bit rate, each possibly absent; and the environment of these elements over
  the simulated kernel maps. The theorems with hypotheses are tried on it.
\<close>

datatype sim_ie =
  Sim (s_type: ie_type) (s_id: "u32 option") (s_far: "u32 option") (s_kids: "sim_ie list")
    (s_fteid: "FTEIDFields option") (s_ueip: "UEIPAddressFields option") (s_text: "string option")
    (s_mbr: "u64 option")

definition is_pdr :: "sim_ie \<Rightarrow> bool" where
  "is_pdr i \<longleftrightarrow> s_type i = T_CreatePDR \<or> s_type i = T_UpdatePDR"

definition sim_upf_env :: "(sim_ie, kmap, u32 list) upf_env" where
  "sim_upf_env = bpf_env.extend sim_bpf_env (upf_env.fields
     s_type
     s_kids
     (\<lambda>i. if s_type i = T_CreatePDR then Some (s_kids i) else None)
     (\<lambda>i. if s_type i = T_UpdatePDR then Some (s_kids i) else None)
     (\<lambda>i. if is_pdr i then Some (s_kids i) else None)
     (\<lambda>i. if s_type i = T_CreateFAR then Some (s_kids i) else None)
     (\<lambda>i. if s_type i = T_UpdateFAR then Some (s_kids i) else None)
     (\<lambda>i. map_option ucast (s_id i))
     (\<lambda>i. if is_pdr i then s_far i else s_id i)
     (\<lambda>i. if is_pdr i then None else s_id i)
     (\<lambda>i. if is_pdr i then None else s_id i)
     s_text
     (\<lambda>i. map_option ucast (s_id i))
     (\<lambda>_. None)
     s_text
     s_fteid
     s_ueip
     (\<lambda>i. if s_type i = T_CreateFAR then Some [2] else None)
     (\<lambda>_. None)
     (\<lambda>_. None)
     (\<lambda>_. None)
     (\<lambda>_. None)
     s_mbr
     (\<lambda>_. None)
     (\<lambda>_. None)
     (\<lambda>_. Some CauseRequestAccepted)
     (\<lambda>_. Some 0)
     (\<lambda>i. case i of None \<Rightarrow> Panic NilDereference | Some _ \<Rightarrow> Val 0)
     ascending ascending ascending ascending ascending
     int
     (\<lambda>_. ''PFCP message''))"

definition sim_elem :: "ie_type \<Rightarrow> u32 \<Rightarrow> sim_ie" where
  "sim_elem t i = Sim t (Some i) None [] None None None None"

definition sim_fteid :: "FTEIDFields \<Rightarrow> sim_ie" where
  "sim_fteid f = Sim T_FTEID None None [] (Some f) None None None"

definition sim_qer :: "u32 \<Rightarrow> u64 \<Rightarrow> sim_ie" where
  "sim_qer i mbr = Sim (T_other 7) (Some i) None [] None None None (Some mbr)"

definition sim_pdr :: "u32 \<Rightarrow> u32 \<Rightarrow> sim_ie list \<Rightarrow> sim_ie" where
  "sim_pdr i far pdi = Sim T_CreatePDR (Some i) (Some far) pdi None None None None"

definition sim_ctx :: "(kmap, u32 list) rule_ctx" where
  "sim_ctx = \<lparr>pc_Session = NewSession 2 7,
     pc_ResourceManager = Some \<lparr>rm_IPAM = None,
        rm_FTEIDM = Some \<lparr>freeTEIDs = [1, 2, 3], busyTEIDs = Some Map.empty\<rparr>\<rparr>,
     pc_TEIDCache = Map.empty, rc_mapOperations = sim_objects\<rparr>"

lemma sim_upf_env_sel [simp]:
  "rangeTEIDs sim_upf_env = ascending"
  "far_ops sim_upf_env = far_ops sim_bpf_env"
  "qer_ops sim_upf_env = qer_ops sim_bpf_env"
  "urr_ops sim_upf_env = urr_ops sim_bpf_env"
  "teid_ops sim_upf_env = teid_ops sim_bpf_env"
  "ip4_ops sim_upf_env = ip4_ops sim_bpf_env"
  "ip6_ops sim_upf_env = ip6_ops sim_bpf_env"
  "Map_isArray sim_upf_env = Map_isArray sim_bpf_env"
  "Map_MaxEntries sim_upf_env = Map_MaxEntries sim_bpf_env"
  "NewBitmap sim_upf_env = NewBitmap sim_bpf_env"
  "Bitmap_Flip sim_upf_env = Bitmap_Flip sim_bpf_env"
  "Bitmap_Iterator sim_upf_env = Bitmap_Iterator sim_bpf_env"
  "Bitmap_Remove sim_upf_env = Bitmap_Remove sim_bpf_env"
  "Bitmap_Add sim_upf_env = Bitmap_Add sim_bpf_env"
  by (simp_all add: sim_upf_env_def bpf_env.defs sim_bpf_env_def)

lemma sim_upf_env_ie [simp]:
  "ie_Type sim_upf_env = s_type"
  "ie_ChildIEs sim_upf_env = s_kids"
  "ie_CreatePDR sim_upf_env i = (if s_type i = T_CreatePDR then Some (s_kids i) else None)"
  "ie_UpdatePDR sim_upf_env i = (if s_type i = T_UpdatePDR then Some (s_kids i) else None)"
  "ie_PDI sim_upf_env i = (if is_pdr i then Some (s_kids i) else None)"
  "ie_ForwardingParameters sim_upf_env i = (if s_type i = T_CreateFAR then Some (s_kids i) else None)"
  "ie_UpdateForwardingParameters sim_upf_env i = (if s_type i = T_UpdateFAR then Some (s_kids i) else None)"
  "ie_PDRID sim_upf_env i = map_option ucast (s_id i)"
  "ie_FARID sim_upf_env i = (if is_pdr i then s_far i else s_id i)"
  "ie_QERID sim_upf_env i = (if is_pdr i then None else s_id i)"
  "ie_URRID sim_upf_env i = (if is_pdr i then None else s_id i)"
  "ie_NodeID sim_upf_env = s_text"
  "ie_FSEID sim_upf_env i = map_option ucast (s_id i)"
  "ie_OuterHeaderRemovalDescription sim_upf_env i = None"
  "ie_SDFFilter_FlowDescription sim_upf_env = s_text"
  "ie_FTEID sim_upf_env = s_fteid"
  "ie_UEIPAddress sim_upf_env = s_ueip"
  "ie_ApplyAction sim_upf_env i = (if s_type i = T_CreateFAR then Some [2] else None)"
  "ie_OuterHeaderCreation sim_upf_env i = None"
  "ie_TransportLevelMarking sim_upf_env i = None"
  "ie_GateStatusDL sim_upf_env i = None"
  "ie_GateStatusUL sim_upf_env i = None"
  "ie_MBRDL sim_upf_env = s_mbr"
  "ie_MBRUL sim_upf_env i = None"
  "ie_QFI sim_upf_env i = None"
  "ie_Cause sim_upf_env i = Some CauseRequestAccepted"
  "ie_CPFunctionFeatures sim_upf_env i = Some 0"
  "rangePDRs sim_upf_env = ascending"
  "rangeFARs sim_upf_env = ascending"
  "rangeQERs sim_upf_env = ascending"
  "rangeURRs sim_upf_env = ascending"
  "rangeSessions sim_upf_env = ascending"
  "ie_RecoveryTimeStamp sim_upf_env (Some i) = Val 0"
  "ie_RecoveryTimeStamp sim_upf_env None = Panic NilDereference"
  by (simp_all add: sim_upf_env_def bpf_env.defs upf_env.defs sim_bpf_env_def)

lemma sim_upf_env_ok: "bpf_env_ok sim_upf_env" "rangeTEIDs_ok sim_upf_env"
proof -
  have "bitmap_ok sim_upf_env"
    using sim_bitmap_ok unfolding bitmap_ok_def sim_upf_env_sel .
  then show "bpf_env_ok sim_upf_env"
    using sim_bpf_env_ok unfolding bpf_env_ok_def sim_upf_env_sel by blast
  show "rangeTEIDs_ok sim_upf_env"
    by (simp add: rangeTEIDs_ok_def enumerates_ascending)
qed

section \<open>Lemmas\<close>

lemma findIEindex_nonneg: "findIEindex E xs t \<noteq> - 1 \<Longrightarrow> 0 \<le> findIEindex E xs t \<and> findIEindex E xs t < int (length xs)"
  by (auto simp: findIEindex_def Let_def split: if_splits)

lemma findIEindex_found:
  "findIEindex E xs t \<noteq> - 1 \<Longrightarrow> ie_Type E (xs ! nat (findIEindex E xs t)) = t"
  by (auto simp: findIEindex_def Let_def split: if_splits dest: nth_length_takeWhile)

lemma length_takeWhile_less_iff: "length (takeWhile P xs) < length xs \<longleftrightarrow> (\<exists>x \<in> set xs. \<not> P x)"
  by (induction xs) auto

lemma findIEindex_absent: "findIEindex E xs t = - 1 \<longleftrightarrow> t \<notin> ie_Type E ` set xs"
  by (auto simp: findIEindex_def Let_def length_takeWhile_less_iff)

lemma index_slice_found:
  "findIEindex E xs t \<noteq> - 1 \<Longrightarrow> index_slice xs (findIEindex E xs t) = Val (xs ! nat (findIEindex E xs t))"
  using findIEindex_nonneg [of E xs t] by (simp add: index_slice_def)

lemma on_tables_Val: "on_tables f c = (Val a, c') \<longleftrightarrow>
  (\<exists>b. f (rc_mapOperations c) = (Val a, b) \<and> c' = c\<lparr>rc_mapOperations := b\<rparr>)"
  by (auto simp: on_tables_def split: prod.splits)

lemma getFTEID_session: "pc_Session (snd (getFTEID s p c)) = pc_Session c"
  by (auto simp: getFTEID_def split: option.splits prod.splits)

lemma getIP_session: "pc_Session (snd (getIP c)) = pc_Session c"
  by (auto simp: getIP_def split: option.splits prod.splits)

lemma getFTEID_cache: "pc_TEIDCache (snd (getFTEID s p c)) = pc_TEIDCache c"
  by (auto simp: getFTEID_def split: option.splits prod.splits)

lemma findIEindex_Cons:
  "findIEindex E (x # xs) t =
     (if ie_Type E x = t then 0 else if findIEindex E xs t = - 1 then - 1 else findIEindex E xs t + 1)"
  by (simp add: findIEindex_def Let_def)

lemma find_findIEindex:
  "find (\<lambda>i. ie_Type E i = t) xs =
     (if findIEindex E xs t = - 1 then None else Some (xs ! nat (findIEindex E xs t)))"
proof (induction xs)
  case Nil
  then show ?case by (simp add: findIEindex_def)
next
  case (Cons x xs)
  have "nat (findIEindex E xs t + 1) = Suc (nat (findIEindex E xs t))" if "findIEindex E xs t \<noteq> - 1"
    using findIEindex_nonneg [OF that] by linarith
  with Cons findIEindex_nonneg [of E xs t] show ?case by (auto simp: findIEindex_Cons)
qed

lemma LittleEndian_panic: "is_panic (LittleEndian_Uint32 ip) \<longleftrightarrow> length (ip_bytes ip) < 4"
  by (simp add: LittleEndian_Uint32_def Let_def)

lemma LittleEndian_not_Err [simp]: "LittleEndian_Uint32 ip \<noteq> Err e"
  by (simp add: LittleEndian_Uint32_def Let_def)

lemma is_panic_bind: "is_panic (bind_res r f) \<longleftrightarrow> is_panic r \<or> (\<exists>a. r = Val a \<and> is_panic (f a))"
  by (cases r) auto

lemma LittleEndian_Val: "\<not> length (ip_bytes ip) < 4 \<Longrightarrow> \<exists>a. LittleEndian_Uint32 ip = Val a"
  by (simp add: LittleEndian_Uint32_def Let_def)

lemma composeFar_header_panic:
  "is_panic (composeFar_header E forward farInfo) \<longleftrightarrow>
     (\<exists>i. find (\<lambda>i. ie_Type E i = T_OuterHeaderCreation) forward = Some i
      \<and> (case ie_OuterHeaderCreation E i of
            None \<Rightarrow> True
          | Some oh \<Rightarrow> oh_HasIPv4 oh \<and> length (ip_bytes (oh_IPv4Address oh)) < 4))"
proof (cases "findIEindex E forward T_OuterHeaderCreation = - 1")
  case True
  then show ?thesis by (simp add: composeFar_header_def find_findIEindex)
next
  case False
  show ?thesis
    using LittleEndian_Val
    by (auto simp: composeFar_header_def find_findIEindex False index_slice_found is_panic_bind
        LittleEndian_panic Let_def split: option.splits if_splits)
qed

text \<open>What deleting a PDR of the uplink map changes.\<close>

lemma wrap_on_tables:
  "wrap_err e (on_tables f) c =
     (case fst (f (rc_mapOperations c)) of Err _ \<Rightarrow> Err e | r \<Rightarrow> r,
      c\<lparr>rc_mapOperations := snd (f (rc_mapOperations c))\<rparr>)"
  by (simp add: wrap_err_def on_tables_def split: prod.split res.split)

lemma deletePDR_entry_state:
  "\<exists>k b. snd (deletePDR_entry E p c) = c\<lparr>pc_TEIDCache := k, rc_mapOperations := b\<rparr>"
proof -
  have same: "\<exists>k b. c = c\<lparr>pc_TEIDCache := k, rc_mapOperations := b\<rparr>"
    by (intro exI [of _ "pc_TEIDCache c"] exI [of _ "rc_mapOperations c"]) simp
  have tables: "\<exists>k b. c\<lparr>rc_mapOperations := b0\<rparr> = c\<lparr>pc_TEIDCache := k, rc_mapOperations := b\<rparr>" for b0
    by (intro exI [of _ "pc_TEIDCache c"] exI [of _ b0]) simp
  have both: "\<exists>k b. c\<lparr>rc_mapOperations := b0, pc_TEIDCache := k0\<rparr> = c\<lparr>pc_TEIDCache := k, rc_mapOperations := b\<rparr>" for b0 k0
    by (intro exI [of _ k0] exI [of _ b0]) simp
  show ?thesis
    unfolding deletePDR_entry_def bind_op_def wrap_on_tables
    by (simp add: same tables both split: res.split)
qed

lemma deletePDR_entry_keeps:
  assumes "deletePDR_entry E p c = (r, c')"
  shows "pc_ResourceManager c' = pc_ResourceManager c" "pc_Session c' = pc_Session c"
  using deletePDR_entry_state [of E p c] unfolding assms by auto

lemma deletePDR_entry_uplink:
  assumes "bpf_env_ok E" and "deletePDR_entry E p c = (Val (), c')" and "sp_Ipv4 p = None" "sp_Ipv6 p = None"
  shows "pc_TEIDCache c' (ucast (sp_Teid p)) \<noteq> None"
    and "t \<noteq> sp_Teid p \<Longrightarrow>
           uplink_lookup E (rc_mapOperations c') t = uplink_lookup E (rc_mapOperations c) t"
proof -
  let ?k = "ucast (sp_Teid p) :: u8"
  obtain e m where d: "Map_Delete (teid_ops E) (PdrMapTeidIp4 (rc_mapOperations c)) (sp_Teid p) = (e, m)" by fastforce
  have "pc_TEIDCache c' ?k \<noteq> None \<and>
    (t \<noteq> sp_Teid p \<longrightarrow> uplink_lookup E (rc_mapOperations c') t = uplink_lookup E (rc_mapOperations c) t)"
  proof (cases "pc_TEIDCache c ?k = None")
    case False
    with assms have "c' = c" by (simp add: deletePDR_entry_def)
    with False show ?thesis by simp
  next
    case True
    then have "deletePDR_entry E p c =
       (case e of
          None \<Rightarrow> (Val (), c\<lparr>rc_mapOperations := (rc_mapOperations c)\<lparr>PdrMapTeidIp4 := m\<rparr>,
                             pc_TEIDCache := (pc_TEIDCache c)(?k \<mapsto> 0)\<rparr>)
        | Some _ \<Rightarrow> (Err (ErrText ''Can't delete GTP PDR''), c\<lparr>rc_mapOperations := (rc_mapOperations c)\<lparr>PdrMapTeidIp4 := m\<rparr>\<rparr>))"
      using assms(3,4) d
      by (simp add: deletePDR_entry_def wrap_on_tables bind_op_def DeletePdrUplink_def err_res_def split: option.split)
    with assms(2) have "e = None" and c': "c' = c\<lparr>rc_mapOperations := (rc_mapOperations c)\<lparr>PdrMapTeidIp4 := m\<rparr>,
                             pc_TEIDCache := (pc_TEIDCache c)(?k \<mapsto> 0)\<rparr>"
      by (cases e; simp)+
    with map_ops_okD(5) [OF bpf_env_okD(8) [OF assms(1)]] d show ?thesis by simp
  qed
  then show "pc_TEIDCache c' ?k \<noteq> None"
    and "t \<noteq> sp_Teid p \<Longrightarrow> uplink_lookup E (rc_mapOperations c') t = uplink_lookup E (rc_mapOperations c) t"
    by simp_all
qed

lemma deletePDR_release_Val:
  assumes "deletePDR_release E p c = (Val (), c')"
  shows "rc_mapOperations c' = rc_mapOperations c" "pc_TEIDCache c' = pc_TEIDCache c"
    and "sp_Teid p \<noteq> 0 \<Longrightarrow> \<exists>rm f. pc_ResourceManager c = Some rm \<and> rm_FTEIDM rm = Some f \<and>
       pc_ResourceManager c' = Some (rm\<lparr>rm_FTEIDM := Some (ReleaseTEID E (RemoteSEID (pc_Session c)) f)\<rparr>)"
  using assms by (auto simp: deletePDR_release_def split: if_splits option.splits)

lemma ucast8_eq: "unat (a :: u32) mod 256 = unat (b :: u32) mod 256 \<Longrightarrow> (ucast a :: u8) = ucast b"
  by (simp add: word_unat_eq_iff unsigned_ucast_eq take_bit_eq_mod)

text \<open>What reading a PDR changes: the pools, and the cache of chosen TEIDs.\<close>

lemma extractPDR_fteid_state:
  "snd (extractPDR_fteid E i s c) = c
   \<or> snd (extractPDR_fteid E i s c) = snd (getFTEID (RemoteSEID (pc_Session c)) (sp_PdrID s) c)
   \<or> (\<exists>k t. snd (extractPDR_fteid E i s c) = setTEIDCache k t (snd (getFTEID (RemoteSEID (pc_Session c)) (sp_PdrID s) c)))"
  unfolding extractPDR_fteid_def
  by (auto split: option.splits res.splits prod.splits if_splits)

lemma extractPDR_ueip_state:
  "snd (extractPDR_ueip E ft i s c) = c \<or> snd (extractPDR_ueip E ft i s c) = snd (getIP c)"
  unfolding extractPDR_ueip_def
  by (auto simp: Let_def split: option.splits res.splits prod.splits)

lemma extractPDR_state:
  "snd (extractPDR E ft pdr s c) = c
   \<or> (\<exists>p. snd (extractPDR E ft pdr s c) = snd (getFTEID (RemoteSEID (pc_Session c)) p c))
   \<or> (\<exists>p k t. snd (extractPDR E ft pdr s c) = setTEIDCache k t (snd (getFTEID (RemoteSEID (pc_Session c)) p c)))
   \<or> snd (extractPDR E ft pdr s c) = snd (getIP c)"
proof -
  consider "snd (extractPDR E ft pdr s c) = c"
    | i s' where "extractPDR E ft pdr s c = extractPDR_fteid E i s' c"
    | i s' where "extractPDR E ft pdr s c = extractPDR_ueip E ft i s' c"
    by (fastforce simp: extractPDR_def Let_def split: option.splits res.splits if_splits)
  then show ?thesis
    by cases (metis extractPDR_fteid_state extractPDR_ueip_state)+
qed

lemma extractPDR_session: "pc_Session (snd (extractPDR E ft pdr s c)) = pc_Session c"
  using extractPDR_state [of E ft pdr s c]
  by (elim disjE exE) (simp_all add: getFTEID_session getIP_session setTEIDCache_def)

section \<open>Properties\<close>

text \<open>
  Bit rates are stored in bit/s in 32 bits while the control plane sends kbit/s in up
  to 40 bits: what is stored is the rate modulo \<open>2^32\<close>, so it is exact below 4294968
  kbit/s and a smaller rate than the one that was asked for from there on.
\<close>

theorem updateQer_bitrate:
  assumes "ie_MBRDL E qer = Some m"
  shows "unat (qi_MaxBitrateDL (updateQer E qer q)) = (unat m * 1000) mod 2 ^ 32
       \<and> (unat (qi_MaxBitrateDL (updateQer E qer q)) = unat m * 1000 \<longleftrightarrow> unat m < 4294968)"
proof -
  have "unat (qi_MaxBitrateDL (updateQer E qer q)) = unat (ucast m * 1000 :: u32)"
    using assms by (simp add: updateQer_def Let_def split: option.splits)
  also have "\<dots> = (unat m * 1000) mod 2 ^ 32"
    by (simp add: unat_word_ariths unsigned_ucast_eq take_bit_eq_mod mod_mult_left_eq)
  finally have e: "unat (qi_MaxBitrateDL (updateQer E qer q)) = (unat m * 1000) mod 2 ^ 32" .
  moreover have "(unat m * 1000) mod 2 ^ 32 = unat m * 1000 \<longleftrightarrow> unat m < 4294968"
    by (auto simp: mod_eq_self_iff_div_eq_0 div_eq_0_iff)
  ultimately show ?thesis by simp
qed

theorem updateQer_bitrate_witness:
  "unat (qi_MaxBitrateDL (updateQer sim_upf_env (sim_qer 1 5000000) zero_QerInfo)) = 705032704"
  using updateQer_bitrate [of sim_upf_env "sim_qer 1 5000000" 5000000 zero_QerInfo]
  by (simp add: sim_qer_def)

text \<open>
  PDRs of one request that ask the UPF to choose a TEID with the same choose
  identifier share the TEID: after the first of them was read, a later one gets the same
  TEID, is reported as allocated, and takes nothing more from the pool.
\<close>

theorem choose_id_shares_teid:
  assumes "ie_FTEID E i1 = Some f1" "ft_HasCh f1" "ft_HasChID f1"
    and "ie_FTEID E i2 = Some f2" "ft_HasCh f2" "ft_HasChID f2"
    and "ft_ChooseID f1 = ft_ChooseID f2"
    and "extractPDR_fteid E i1 s1 c = (Val r1, c')"
  shows "extractPDR_fteid E i2 s2 c' = (Val (s2\<lparr>sp_Teid := sp_Teid r1, sp_Allocated := True\<rparr>), c')"
proof -
  have "pc_TEIDCache c' (ft_ChooseID f2) = Some (sp_Teid r1)"
    using assms by (auto simp: extractPDR_fteid_def hasTEIDCache_def setTEIDCache_def
        split: option.splits prod.splits res.splits)
  with assms show ?thesis by (simp add: extractPDR_fteid_def hasTEIDCache_def)
qed

theorem choose_id_shares_teid_witness:
  "let i = sim_fteid \<lparr>ft_TEID = 0, ft_HasCh = True, ft_HasChID = True, ft_ChooseID = 9\<rparr>;
       c = snd (extractPDR_fteid sim_upf_env i zero_SPDRInfo sim_ctx)
   in extractPDR_fteid sim_upf_env i zero_SPDRInfo c =
        (Val (zero_SPDRInfo\<lparr>sp_Teid := 1, sp_Allocated := True\<rparr>), c)"
proof -
  let ?f = "\<lparr>ft_TEID = 0, ft_HasCh = True, ft_HasChID = True, ft_ChooseID = 9\<rparr>"
  obtain c' where "extractPDR_fteid sim_upf_env (sim_fteid ?f) zero_SPDRInfo sim_ctx =
      (Val (zero_SPDRInfo\<lparr>sp_Teid := 1, sp_Allocated := True\<rparr>), c')"
    by (simp add: extractPDR_fteid_def sim_fteid_def hasTEIDCache_def getFTEID_def AllocateTEID_def
        sim_ctx_def NewSession_def)
  from choose_id_shares_teid [OF _ _ _ _ _ _ _ this, where ?f1.0 = ?f and ?f2.0 = ?f and ?i2.0 = "sim_fteid ?f" and ?s2.0 = zero_SPDRInfo] this
  show ?thesis by (simp add: sim_fteid_def)
qed

text \<open>
  A PDR whose PDI has neither an F-TEID nor a UE address is not refused: it is read as
  a PDR for TEID 0, and applying it writes the entry of TEID 0 of the uplink map.
\<close>

theorem extractPDR_without_endpoint:
  assumes "ie_PDI E pdr = Some pdi" "T_FTEID \<notin> ie_Type E ` set pdi" "T_UEIPAddress \<notin> ie_Type E ` set pdi"
    and "ie_SDFFilter_FlowDescription E pdr = None"
  shows "\<exists>r. extractPDR E ft pdr (zero_SPDRInfo\<lparr>sp_PdrID := n\<rparr>) c = (Val r, c)
           \<and> applyPDR E r = PutPdrUplink E 0 (sp_PdrInfo r)"
  using assms unfolding findIEindex_absent [symmetric]
  by (simp add: extractPDR_def extractPDR_sdf_def applyPDR_def zero_SPDRInfo_def)

theorem extractPDR_without_endpoint_witness:
  "\<exists>r. extractPDR sim_upf_env False (sim_pdr 1 1 [sim_elem T_SourceInterface 0])
         (zero_SPDRInfo\<lparr>sp_PdrID := 1\<rparr>) sim_ctx = (Val r, sim_ctx)
       \<and> applyPDR sim_upf_env r = PutPdrUplink sim_upf_env 0 (sp_PdrInfo r)"
  by (rule extractPDR_without_endpoint) (auto simp: sim_pdr_def is_pdr_def sim_elem_def)

text \<open>
  Deleting the PDRs of a session with TEIDs remembers only the low eight bits of each
  TEID: after one PDR was deleted, the map entry of another one whose TEID is equal modulo
  256 stays in the uplink map although its deletion reports success.
\<close>

theorem deletePDR_teid_mod_256:
  assumes "bpf_env_ok E" and "deletePDR E p c = (Val (), c')" and "deletePDR E q c' = (r, c'')"
    and "sp_Ipv4 p = None" "sp_Ipv6 p = None" "sp_Ipv4 q = None" "sp_Ipv6 q = None"
    and "sp_Teid p \<noteq> 0" "sp_Teid p \<noteq> sp_Teid q" and "unat (sp_Teid p) mod 256 = unat (sp_Teid q) mod 256"
  shows "r = Val () \<and>
         uplink_lookup E (rc_mapOperations c'') (sp_Teid q) = uplink_lookup E (rc_mapOperations c) (sp_Teid q)"
proof -
  from assms(2) obtain c1 where p: "deletePDR_entry E p c = (Val (), c1)" "deletePDR_release E p c1 = (Val (), c')"
    by (auto simp: deletePDR_def bind_op_eq_Val)
  note e = deletePDR_entry_uplink [OF assms(1) p(1) assms(4,5)] and l = deletePDR_release_Val [OF p(2)]
  from e(1) l(2) have "deletePDR_entry E q c' = (Val (), c')"
    using assms(6,7) ucast8_eq [OF assms(10)] by (auto simp: deletePDR_entry_def)
  with assms(3) l(3) [OF assms(8)] have "r = Val ()" "rc_mapOperations c'' = rc_mapOperations c'"
    by (auto simp: deletePDR_def deletePDR_release_def split: if_splits)
  with e(2) [of "sp_Teid q"] l(1) assms(9) show ?thesis by simp
qed

theorem deletePDR_teid_mod_256_witness:
  "let p = zero_SPDRInfo\<lparr>sp_Teid := 1\<rparr>; q = zero_SPDRInfo\<lparr>sp_Teid := 257\<rparr>;
       c = sim_ctx\<lparr>rc_mapOperations := snd (PutPdrUplink sim_upf_env 257 zero_PdrInfo
             (snd (PutPdrUplink sim_upf_env 1 zero_PdrInfo sim_objects)))\<rparr>;
       c' = snd (deletePDR sim_upf_env p c)
   in fst (deletePDR sim_upf_env q c') = Val () \<and>
      uplink_lookup sim_upf_env (rc_mapOperations (snd (deletePDR sim_upf_env q c'))) 257
        = uplink_lookup sim_upf_env (rc_mapOperations c) 257"
proof -
  let ?p = "zero_SPDRInfo\<lparr>sp_Teid := 1\<rparr>" and ?q = "zero_SPDRInfo\<lparr>sp_Teid := 257\<rparr>"
  let ?c = "sim_ctx\<lparr>rc_mapOperations := snd (PutPdrUplink sim_upf_env 257 zero_PdrInfo
             (snd (PutPdrUplink sim_upf_env 1 zero_PdrInfo sim_objects)))\<rparr>"
  have "deletePDR sim_upf_env ?p ?c = (Val (), snd (deletePDR sim_upf_env ?p ?c))"
    by (simp add: deletePDR_def deletePDR_entry_def deletePDR_release_def wrap_err_def on_tables_def
        sim_ctx_def zero_SPDRInfo_def DeletePdrUplink_def PutPdrUplink_def pdrToStore_def zero_PdrInfo_def sim_eval)
  from deletePDR_teid_mod_256 [OF sim_upf_env_ok(1) this, of ?q "fst (deletePDR sim_upf_env ?q (snd (deletePDR sim_upf_env ?p ?c)))"
      "snd (deletePDR sim_upf_env ?q (snd (deletePDR sim_upf_env ?p ?c)))"]
  show ?thesis by (simp add: zero_SPDRInfo_def Let_def)
qed

text \<open>
  Deleting one PDR with a TEID gives back every TEID that the session holds, also those
  of its other PDRs: they are free again, and may be handed to another session, while the
  session keeps using them.
\<close>

theorem deletePDR_releases_all_teids:
  assumes "rangeTEIDs_ok E" and "deletePDR E p c = (Val (), c')" and "sp_Teid p \<noteq> 0"
    and "pc_ResourceManager c = Some rm" "rm_FTEIDM rm = Some f" "fteid_finite f"
    and "busyTEID f (RemoteSEID (pc_Session c)) q = Some t"
  shows "\<exists>rm' f'. pc_ResourceManager c' = Some rm' \<and> rm_FTEIDM rm' = Some f' \<and> t \<in> set (freeTEIDs f')
           \<and> busyTEID f' (RemoteSEID (pc_Session c)) q = None"
proof -
  from assms(2) obtain c1 where p: "deletePDR_entry E p c = (Val (), c1)" "deletePDR_release E p c1 = (Val (), c')"
    by (auto simp: deletePDR_def bind_op_eq_Val)
  from deletePDR_release_Val(3) [OF p(2) assms(3)] deletePDR_entry_keeps [OF p(1)] assms(4,5)
  have "pc_ResourceManager c' = Some (rm\<lparr>rm_FTEIDM := Some (ReleaseTEID E (RemoteSEID (pc_Session c)) f)\<rparr>)"
    by auto
  moreover have "t \<in> set (freeTEIDs (ReleaseTEID E (RemoteSEID (pc_Session c)) f))"
    using ReleaseTEID_free [OF assms(1,6)] assms(7) by auto
  ultimately show ?thesis by (simp add: busyTEID_release)
qed

theorem deletePDR_releases_all_teids_witness:
  "let f = \<lparr>freeTEIDs = [3], busyTEIDs = Some [7 \<mapsto> [1 \<mapsto> 1, 2 \<mapsto> 2]]\<rparr>;
       c = sim_ctx\<lparr>pc_ResourceManager := Some \<lparr>rm_IPAM = None, rm_FTEIDM = Some f\<rparr>,
                   rc_mapOperations := snd (PutPdrUplink sim_upf_env 1 zero_PdrInfo sim_objects)\<rparr>;
       c' = snd (deletePDR sim_upf_env (zero_SPDRInfo\<lparr>sp_PdrID := 1, sp_Teid := 1\<rparr>) c)
   in \<exists>rm' f'. pc_ResourceManager c' = Some rm' \<and> rm_FTEIDM rm' = Some f' \<and> 2 \<in> set (freeTEIDs f')"
proof -
  let ?f = "\<lparr>freeTEIDs = [3], busyTEIDs = Some [7 \<mapsto> [1 \<mapsto> 1, 2 \<mapsto> 2]]\<rparr> :: FTEIDM"
  let ?c = "sim_ctx\<lparr>pc_ResourceManager := Some \<lparr>rm_IPAM = None, rm_FTEIDM = Some ?f\<rparr>,
                   rc_mapOperations := snd (PutPdrUplink sim_upf_env 1 zero_PdrInfo sim_objects)\<rparr>"
  let ?p = "zero_SPDRInfo\<lparr>sp_PdrID := 1, sp_Teid := 1\<rparr>"
  have "deletePDR sim_upf_env ?p ?c = (Val (), snd (deletePDR sim_upf_env ?p ?c))"
    by (simp add: deletePDR_def deletePDR_entry_def deletePDR_release_def wrap_err_def on_tables_def
        sim_ctx_def zero_SPDRInfo_def DeletePdrUplink_def PutPdrUplink_def pdrToStore_def zero_PdrInfo_def sim_eval)
  from deletePDR_releases_all_teids [OF sim_upf_env_ok(2) this, of _ ?f 2 2] show ?thesis
    by (simp add: zero_SPDRInfo_def fteid_finite_def busyTEID_def sim_ctx_def NewSession_def Let_def) blast
qed

text \<open>
  Reading a FAR panics exactly when the library hands out an Apply Action without
  bytes, an Outer Header Creation that cannot be decoded, or one that announces an IPv4
  address of less than four bytes; every other FAR gives parameters or an error.
\<close>

theorem composeFarInfo_panic_iff:
  "is_panic (composeFarInfo E far farInfo) \<longleftrightarrow>
     ie_ApplyAction E far = Some []
   \<or> (\<exists>forward i.
        (if ie_Type E far = T_CreateFAR then ie_ForwardingParameters E far
         else if ie_Type E far = T_UpdateFAR then ie_UpdateForwardingParameters E far else None) = Some forward
      \<and> find (\<lambda>i. ie_Type E i = T_OuterHeaderCreation) forward = Some i
      \<and> (case ie_OuterHeaderCreation E i of
            None \<Rightarrow> True
          | Some oh \<Rightarrow> oh_HasIPv4 oh \<and> length (ip_bytes (oh_IPv4Address oh)) < 4))"
proof -
  let ?act = "case ie_ApplyAction E far of None \<Rightarrow> Val farInfo
      | Some applyAction \<Rightarrow> bind_res (index_slice applyAction 0) (\<lambda>a. Val (farInfo\<lparr>fi_Action := a\<rparr>))"
  let ?fwd = "if ie_Type E far = T_CreateFAR then ie_ForwardingParameters E far
         else if ie_Type E far = T_UpdateFAR then ie_UpdateForwardingParameters E far else None"
  have act: "is_panic ?act \<longleftrightarrow> ie_ApplyAction E far = Some []" and act_Val: "\<not> is_panic ?act \<Longrightarrow> \<exists>i. ?act = Val i"
    by (auto simp: index_slice_def split: option.splits)
  have tlm: "GetTransportLevelMarking E far \<noteq> Panic p" for p
    by (simp add: GetTransportLevelMarking_def split: option.split)
  then have mark: "\<not> is_panic (case GetTransportLevelMarking E far of
      Val t \<Rightarrow> Val (i\<lparr>fi_TransportLevelMarking := t\<rparr>) | Err _ \<Rightarrow> Val i | Panic p \<Rightarrow> Panic p)" for i :: FarInfo
    by (simp split: res.split)
  show ?thesis
  proof (cases "is_panic ?act")
    case True
    with act show ?thesis by (simp add: composeFarInfo_def is_panic_bind)
  next
    case False
    with act_Val obtain i where i: "?act = Val i" by blast
    have "is_panic (composeFarInfo E far farInfo) \<longleftrightarrow> (\<exists>f. ?fwd = Some f \<and> is_panic (composeFar_header E f i))"
      unfolding composeFarInfo_def i by (auto simp: is_panic_bind mark split: option.splits)
    with False act show ?thesis by (simp only: composeFar_header_panic) blast
  qed
qed

end
