(* ===== verification/Upf_Config.thy ===== *)
theory Upf_Config
  imports Upf_Prelude
begin

text \<open>
  The configuration (\<open>cmd/config/config.go\<close>), the logger (\<open>cmd/core/logger.go\<close>) and the
  change of the configuration at run time (\<open>cmd/core/config_edit.go\<close>). The checks of the
  validator library and the level names of the logging library are parameters.
\<close>

section \<open>Data and operations\<close>

record UpfConfig =
  InterfaceName :: "string list"
  XDPAttachMode :: string
  ApiAddress :: string
  PfcpAddress :: string
  PfcpNodeId :: string
  PfcpRemoteNode :: "string list"
  AssociationSetupTimeout :: u32
  MetricsAddress :: string
  N3Address :: string
  N9Address :: string
  GtpPeer :: "string list"
  GtpEchoInterval :: u32
  QerMapSize :: u32
  FarMapSize :: u32
  UrrMapSize :: u32
  PdrMapSize :: u32
  MaxSessions :: u32
  HeartbeatRetries :: u32
  HeartbeatInterval :: u32
  HeartbeatTimeout :: u32
  LoggingLevel :: string
  UEIPPool :: string
  FTEIDPool :: u32
  FeatureUEIP :: bool
  FeatureFTUP :: bool

definition Validate :: "(UpfConfig \<Rightarrow> bool) \<Rightarrow> (UpfConfig, unit) op" where
  "Validate validator_Struct c =
     (if \<not> validator_Struct c then (Err ErrLibrary, c)
      else
        let c = (if \<not> FeatureFTUP c then c\<lparr>FTEIDPool := 0\<rparr> else c);
            c = (if \<not> FeatureUEIP c then c\<lparr>UEIPPool := []\<rparr> else c);
            c = (if PdrMapSize c = 0 then c\<lparr>PdrMapSize := MaxSessions c * 2\<rparr> else c);
            c = (if FarMapSize c = 0 then c\<lparr>FarMapSize := MaxSessions c * 2\<rparr> else c);
            c = (if QerMapSize c = 0 then c\<lparr>QerMapSize := MaxSessions c\<rparr> else c);
            c = (if UrrMapSize c = 0 then c\<lparr>UrrMapSize := MaxSessions c * 2\<rparr> else c)
        in (Val (), c))"

text \<open>
  \<open>SetLoggerLevel\<close>: \<open>zerolog_ParseLevel\<close> gives the level of a name, and \<open>String\<close> of the
  global level is written back to the configuration.
\<close>

definition SetLoggerLevel ::
  "(string \<Rightarrow> 'l option) \<Rightarrow> ('l \<Rightarrow> string) \<Rightarrow> string \<Rightarrow> ('l \<times> UpfConfig, unit) op" where
  "SetLoggerLevel zerolog_ParseLevel Level_String loggingLevel s =
     (if loggingLevel = [] then (Err (ErrText ''Logging level can't be empty''), s)
      else (case zerolog_ParseLevel loggingLevel of
          Some loglvl \<Rightarrow> (Val (), (loglvl, (snd s)\<lparr>LoggingLevel := Level_String loglvl\<rparr>))
        | None \<Rightarrow> (Err (ErrText ''Can't parse logging level''), s)))"

definition SetConfig ::
  "(string \<Rightarrow> 'l option) \<Rightarrow> ('l \<Rightarrow> string) \<Rightarrow> UpfConfig \<Rightarrow> ('l \<times> UpfConfig, unit) op" where
  "SetConfig zerolog_ParseLevel Level_String conf s =
     (case SetLoggerLevel zerolog_ParseLevel Level_String (LoggingLevel conf) s of
        (Err _, s') \<Rightarrow> (Err (ErrText ''Logger configuring error''), s')
      | x \<Rightarrow> x)"

definition default_config :: UpfConfig where
  "default_config =
     \<lparr>InterfaceName = [], XDPAttachMode = ''generic'', ApiAddress = '':8080'', PfcpAddress = ''127.0.0.1:8805'',
      PfcpNodeId = ''127.0.0.1'', PfcpRemoteNode = [], AssociationSetupTimeout = 5, MetricsAddress = '':9090'',
      N3Address = ''127.0.0.1'', N9Address = ''127.0.0.1'', GtpPeer = [], GtpEchoInterval = 10, QerMapSize = 0,
      FarMapSize = 0, UrrMapSize = 0, PdrMapSize = 0, MaxSessions = 65535, HeartbeatRetries = 3,
      HeartbeatInterval = 5, HeartbeatTimeout = 5, LoggingLevel = ''info'', UEIPPool = ''10.60.0.0/24'',
      FTEIDPool = 65535, FeatureUEIP = False, FeatureFTUP = False\<rparr>"

section \<open>Properties\<close>

lemma unat_double32: "unat (n :: u32) < 2 ^ 31 \<Longrightarrow> unat (n * 2) = 2 * unat n"
  by (simp add: unat_word_ariths)

text \<open>
  A validated configuration whose map sizes were left open gives the forwarding plane
  room for two PDRs, two FARs, one QER and two URRs per session, as long as the number of
  sessions is below \<open>2^31\<close>; a pool of a feature that is off is empty; and validating the
  result again changes nothing.
\<close>

theorem Validate_sizes:
  assumes "Validate V c = (Val (), c')" and "unat (MaxSessions c) < 2 ^ 31"
    and "PdrMapSize c = 0" "FarMapSize c = 0" "QerMapSize c = 0" "UrrMapSize c = 0"
  shows "unat (PdrMapSize c') = 2 * unat (MaxSessions c) \<and> unat (FarMapSize c') = 2 * unat (MaxSessions c)
       \<and> unat (QerMapSize c') = unat (MaxSessions c) \<and> unat (UrrMapSize c') = 2 * unat (MaxSessions c)
       \<and> (\<not> FeatureFTUP c \<longrightarrow> FTEIDPool c' = 0) \<and> (\<not> FeatureUEIP c \<longrightarrow> UEIPPool c' = [])
       \<and> (V c' \<longrightarrow> MaxSessions c \<noteq> 0 \<longrightarrow> Validate V c' = (Val (), c'))"
proof -
  let ?d = "c\<lparr>FTEIDPool := if FeatureFTUP c then FTEIDPool c else 0,
     UEIPPool := if FeatureUEIP c then UEIPPool c else [], PdrMapSize := MaxSessions c * 2,
     FarMapSize := MaxSessions c * 2, QerMapSize := MaxSessions c, UrrMapSize := MaxSessions c * 2\<rparr>"
  have pos: "MaxSessions c * 2 \<noteq> 0" if "MaxSessions c \<noteq> 0"
    using that unat_double32 [OF assms(2)] by (metis mult_eq_0_iff unat_0 unat_eq_0 zero_neq_numeral)
  have "V c" using assms(1) by (simp add: Validate_def split: if_splits)
  then have "Validate V c = (Val (), ?d)"
    using assms(3-6) by (cases "FeatureFTUP c"; cases "FeatureUEIP c") (simp_all add: Validate_def Let_def)
  with assms(1) have d: "c' = ?d" by simp
  moreover have "Validate V ?d = (Val (), ?d)" if "V ?d" "MaxSessions c \<noteq> 0"
    using that pos by (cases "FeatureFTUP c"; cases "FeatureUEIP c") (simp_all add: Validate_def Let_def)
  ultimately show ?thesis by (simp add: unat_double32 [OF assms(2)])
qed

theorem Validate_sizes_witness:
  "unat (FarMapSize (snd (Validate (\<lambda>_. True) default_config))) = 131070 \<and>
   FTEIDPool (snd (Validate (\<lambda>_. True) default_config)) = 0"
  using Validate_sizes [of "\<lambda>_. True" default_config "snd (Validate (\<lambda>_. True) default_config)"]
  by (simp add: Validate_def default_config_def)

end
