(* ===== verification/Pfcp_Connection.thy ===== *)
theory Pfcp_Connection
  imports Pdr_Context Upf_Config
begin

text \<open>
  Associations and the connection: \<open>cmd/core/node_association.go\<close>, the association
  handlers of \<open>cmd/core/pfcp_handlers.go\<close>, and \<open>cmd/core/pfcp_connection.go\<close> apart from
  its socket calls.

  The state is the connection object with what its operations reach: the associations
  with their sessions, the tables of the forwarding plane, the resource manager, the
  package variable \<open>config.Conf\<close>, the counters of received messages, the number of clock
  readings, the heartbeat goroutines that were started and the messages that were sent.
  Associations and sessions are pointers in Go; each is reachable from one place only,
  so the maps of the model hold the objects themselves.

  A message that the UPF builds is a term named after the constructor function of the
  message library. A handler returns a message or none, and an error or none.
\<close>

unbundle bit_operations_syntax

section \<open>Data\<close>

datatype out_msg =
    NewHeartbeatRequest u32 resp_ie
  | NewHeartbeatResponse u32 resp_ie
  | NewAssociationSetupRequest u32 "resp_ie list"
  | NewAssociationSetupResponse u32 "resp_ie list"
  | NewAssociationUpdateResponse u32 "resp_ie list"
  | NewSessionEstablishmentResponse u8 u8 u64 u32 u8 "resp_ie list"
  | NewSessionDeletionResponse u8 u8 u64 u32 u8 "resp_ie list"
  | NewSessionModificationResponse u8 u8 u64 u32 u8 "resp_ie list"

record NodeAssociation =
  na_ID :: string
  na_Addr :: string
  NextSessionID :: u64
  NextSequenceID :: u32
  Sessions :: "u64 \<rightharpoonup> Session"

record ('m, 'b) PfcpConnection =
  NodeAssociations :: "string \<rightharpoonup> NodeAssociation"
  nodeId :: string
  nodeAddrV4 :: IP
  n3Address :: IP
  n9Address :: IP
  mapOperations :: "('m, 'b) BpfObjects"
  RecoveryTimestamp :: Time
  featuresOctets :: bytes
  conn_ResourceManager :: "ResourceManager option"
  nodes :: "string list"
  Conf :: UpfConfig
  PfcpMessageRx :: "string \<Rightarrow> nat"
  PfcpMessageTx :: "string \<Rightarrow> nat"
  PfcpMessageRxErrors :: "string \<times> string \<Rightarrow> nat"
  clockReads :: nat
  heartbeatSchedulers :: "string list"
  sentMessages :: "(out_msg \<times> string) list"

type_synonym reply = "out_msg option \<times> goerror option"

record 'ie AssociationSetupRequest =
  asq_SequenceNumber :: u32
  asq_NodeID :: "'ie option"
  asq_RecoveryTimeStamp :: "'ie option"

record 'ie AssociationUpdateRequest =
  auq_SequenceNumber :: u32
  auq_NodeID :: "'ie option"

record 'ie AssociationSetupResponse =
  asr_NodeID :: "'ie option"
  asr_Cause :: "'ie option"
  asr_CPFunctionFeatures :: "'ie option"

section \<open>Associations\<close>

definition NewNodeAssociation :: "string \<Rightarrow> string \<Rightarrow> NodeAssociation" where
  "NewNodeAssociation remoteNodeID addr =
     \<lparr>na_ID = remoteNodeID, na_Addr = addr, NextSessionID = 1, NextSequenceID = 1, Sessions = Map.empty\<rparr>"

definition NewLocalSEID :: "NodeAssociation \<Rightarrow> u64 \<times> NodeAssociation" where
  "NewLocalSEID a = (NextSessionID a + 1, a\<lparr>NextSessionID := NextSessionID a + 1\<rparr>)"

definition NewSequenceID :: "NodeAssociation \<Rightarrow> u32 \<times> NodeAssociation" where
  "NewSequenceID a = (NextSequenceID a + 1, a\<lparr>NextSequenceID := NextSequenceID a + 1\<rparr>)"

section \<open>The connection\<close>

definition setBit :: "u8 \<Rightarrow> nat \<Rightarrow> u8" where
  "setBit n pos = n OR push_bit pos 1"

definition featureOctets :: "UpfConfig \<Rightarrow> bytes" where
  "featureOctets conf =
     (let f = [0, 0, 0];
          f = f[1 := setBit (f ! 1) 0];
          f = (if FeatureFTUP conf then f[0 := setBit (f ! 0) 4] else f)
      in if FeatureUEIP conf then f[2 := setBit (f ! 2) 2] else f)"

text \<open>
  \<open>NewPfcpConnection\<close> after the socket was opened: \<open>addrV4\<close> is the resolved address and
  \<open>now\<close> the time.
\<close>

definition NewPfcpConnection ::
  "UpfConfig \<Rightarrow> IP \<Rightarrow> Time \<Rightarrow> string \<Rightarrow> string \<Rightarrow> string \<Rightarrow> ('m, 'b) BpfObjects \<Rightarrow> ResourceManager option \<Rightarrow>
   ('m, 'b) PfcpConnection res" where
  "NewPfcpConnection conf addrV4 now nodeID n3Ip n9Ip objects resourceManager =
     (if ParseIP n3Ip = None then Err (ErrText ''failed to parse N3 IP address ID'')
      else if ParseIP n9Ip = None then Err (ErrText ''failed to parse N9 IP address ID'')
      else Val \<lparr>NodeAssociations = Map.empty, nodeId = nodeID, nodeAddrV4 = addrV4, n3Address = ParseIP n3Ip,
                n9Address = ParseIP n9Ip, mapOperations = objects, RecoveryTimestamp = now,
                featuresOctets = featureOctets conf, conn_ResourceManager = resourceManager, nodes = [],
                Conf = conf, PfcpMessageRx = (\<lambda>_. 0), PfcpMessageTx = (\<lambda>_. 0), PfcpMessageRxErrors = (\<lambda>_. 0),
                clockReads = 0, heartbeatSchedulers = [], sentMessages = []\<rparr>)"

definition SetRemoteNodes :: "string list \<Rightarrow> ('m, 'b) PfcpConnection \<Rightarrow> ('m, 'b) PfcpConnection" where
  "SetRemoteNodes ns c = c\<lparr>nodes := ns\<rparr>"

definition GetAssociation :: "string \<Rightarrow> ('m, 'b) PfcpConnection \<Rightarrow> NodeAssociation option" where
  "GetAssociation assocAddr c = NodeAssociations c assocAddr"

text \<open>\<open>PfcpMessageRxErrors.WithLabelValues(name, causeToString(cause)).Inc()\<close>.\<close>

definition count_rx ::
  "('ie, 'm, 'b, 'z) upf_env_scheme \<Rightarrow> msg_type \<Rightarrow> cause \<Rightarrow> ('m, 'b) PfcpConnection \<Rightarrow> ('m, 'b) PfcpConnection" where
  "count_rx E t cause c =
     (let l = (MessageTypeName E t, causeToString cause)
      in c\<lparr>PfcpMessageRxErrors := (PfcpMessageRxErrors c)(l := PfcpMessageRxErrors c l + 1)\<rparr>)"

definition newIeNodeID :: "string \<Rightarrow> resp_ie" where
  "newIeNodeID nodeID =
     (case ParseIP nodeID of
        Some b \<Rightarrow> if To4 (Some b) \<noteq> None then NewNodeID nodeID [] [] else NewNodeID [] nodeID []
      | None \<Rightarrow> NewNodeID [] [] nodeID)"

text \<open>A new association is stored, and its heartbeat goroutine started when heartbeats are on.\<close>

definition saveAssociation :: "string \<Rightarrow> string \<Rightarrow> ('m, 'b) PfcpConnection \<Rightarrow> ('m, 'b) PfcpConnection" where
  "saveAssociation remoteNodeID addr c =
     (case NodeAssociations c addr of
        Some _ \<Rightarrow> c
      | None \<Rightarrow>
          (let c = c\<lparr>NodeAssociations := (NodeAssociations c)(addr \<mapsto> NewNodeAssociation remoteNodeID addr)\<rparr>
           in if HeartbeatTimeout (Conf c) \<noteq> 0
              then c\<lparr>heartbeatSchedulers := addr # heartbeatSchedulers c\<rparr> else c))"

definition HandlePfcpAssociationSetupRequest ::
  "('ie, 'm, 'b, 'z) upf_env_scheme \<Rightarrow> 'ie AssociationSetupRequest \<Rightarrow> string \<Rightarrow> (('m, 'b) PfcpConnection, reply) op" where
  "HandlePfcpAssociationSetupRequest E asreq addr c =
     (let t = MsgTypeAssociationSetupRequest;
          reject = (\<lambda>cause. (Val (Some (NewAssociationSetupResponse (asq_SequenceNumber asreq) [NewCause cause]), None),
                             count_rx E t cause c))
      in case asq_NodeID asreq of
           None \<Rightarrow> reject CauseMandatoryIEMissing
         | Some n \<Rightarrow>
             (case ie_NodeID E n of
                None \<Rightarrow> reject CauseMandatoryIEIncorrect
              | Some remoteNodeID \<Rightarrow>
                  if asq_RecoveryTimeStamp asreq = None then reject CauseMandatoryIEMissing
                  else (case ie_RecoveryTimeStamp E (asq_RecoveryTimeStamp asreq) of
                      Panic p \<Rightarrow> (Panic p, c)
                    | Err _ \<Rightarrow> reject CauseMandatoryIEIncorrect
                    | Val _ \<Rightarrow>
                        (let c = saveAssociation remoteNodeID addr c
                         in (Val (Some (NewAssociationSetupResponse (asq_SequenceNumber asreq)
                               [NewCause CauseRequestAccepted, newIeNodeID (nodeId c),
                                NewRecoveryTimeStamp (RecoveryTimestamp c),
                                NewUPFunctionFeatures (featuresOctets c)]), None),
                             count_rx E t CauseRequestAccepted c)))))"

definition HandlePfcpAssociationUpdateRequest ::
  "('ie, 'm, 'b, 'z) upf_env_scheme \<Rightarrow> 'ie AssociationUpdateRequest \<Rightarrow> string \<Rightarrow> (('m, 'b) PfcpConnection, reply) op" where
  "HandlePfcpAssociationUpdateRequest E asreq addr c =
     (let t = MsgTypeAssociationUpdateRequest;
          reject = (\<lambda>cause. (Val (Some (NewAssociationUpdateResponse (auq_SequenceNumber asreq) [NewCause cause]), None),
                             count_rx E t cause c))
      in case auq_NodeID asreq of
           None \<Rightarrow> reject CauseMandatoryIEMissing
         | Some n \<Rightarrow>
             (case ie_NodeID E n of
                None \<Rightarrow> reject CauseMandatoryIEIncorrect
              | Some _ \<Rightarrow>
                  if NodeAssociations c addr = None then reject CauseNoEstablishedPFCPAssociation
                  else (Val (Some (NewAssociationUpdateResponse (auq_SequenceNumber asreq)
                          [newIeNodeID (nodeId c), NewCause CauseRequestAccepted]), None),
                        count_rx E t CauseRequestAccepted c)))"

definition HandlePfcpAssociationSetupResponse ::
  "('ie, 'm, 'b, 'z) upf_env_scheme \<Rightarrow> 'ie AssociationSetupResponse \<Rightarrow> string \<Rightarrow> (('m, 'b) PfcpConnection, reply) op" where
  "HandlePfcpAssociationSetupResponse E asres addr c =
     (let count = (\<lambda>cause. count_rx E MsgTypeAssociationSetupResponse cause c)
      in case asr_NodeID asres of
           None \<Rightarrow> (Val (None, None), count CauseMandatoryIEMissing)
         | Some n \<Rightarrow>
             (case ie_NodeID E n of
                None \<Rightarrow> (Val (None, Some ErrLibrary), count CauseMandatoryIEIncorrect)
              | Some remoteNodeID \<Rightarrow>
                  (case asr_Cause asres of
                     None \<Rightarrow> (Val (None, None), count CauseMandatoryIEMissing)
                   | Some k \<Rightarrow>
                       (case ie_Cause E k of
                          None \<Rightarrow> (Val (None, Some ErrLibrary), count CauseMandatoryIEIncorrect)
                        | Some cause \<Rightarrow>
                            if cause \<noteq> CauseRequestAccepted then (Val (None, None), count cause)
                            else (case asr_CPFunctionFeatures asres of
                                None \<Rightarrow> (Val (None, None), count CauseConditionalIEMissing)
                              | Some f \<Rightarrow>
                                  (case ie_CPFunctionFeatures E f of
                                     None \<Rightarrow> (Val (None, Some ErrLibrary), count CauseConditionalIEMissing)
                                   | Some _ \<Rightarrow> (Val (None, None), saveAssociation remoteNodeID addr c)))))))"

definition ReleaseResources ::
  "('ie, 'm, 'b, 'z) upf_env_scheme \<Rightarrow> u64 \<Rightarrow> ('m, 'b) PfcpConnection \<Rightarrow> ('m, 'b) PfcpConnection" where
  "ReleaseResources E seID c =
     (case conn_ResourceManager c of
        None \<Rightarrow> c
      | Some rm \<Rightarrow>
          (let rm = (case rm_IPAM rm of None \<Rightarrow> rm | Some p \<Rightarrow> rm\<lparr>rm_IPAM := Some (ReleaseIP seID p)\<rparr>);
               rm = (case rm_FTEIDM rm of None \<Rightarrow> rm | Some f \<Rightarrow> rm\<lparr>rm_FTEIDM := Some (ReleaseTEID E seID f)\<rparr>)
           in c\<lparr>conn_ResourceManager := Some rm\<rparr>))"

text \<open>
  \<open>DeleteSession\<close> ignores every error of the tables; a panic ends the process. The loops
  work on a context of the session, and the tables and pools are those of the connection.
\<close>

definition ignore_err :: "('s, 'a) op \<Rightarrow> ('s, unit) op" where
  "ignore_err f s = (case f s of (Panic p, s') \<Rightarrow> (Panic p, s') | (_, s') \<Rightarrow> (Val (), s'))"

definition session_ctx :: "Session \<Rightarrow> ('m, 'b) PfcpConnection \<Rightarrow> ('m, 'b) rule_ctx" where
  "session_ctx s c = PDRCreationContext.extend (NewPDRCreationContext s (conn_ResourceManager c))
     (rule_ctx.fields (mapOperations c))"

definition from_ctx :: "('m, 'b, 'z) rule_ctx_scheme \<Rightarrow> ('m, 'b) PfcpConnection \<Rightarrow> ('m, 'b) PfcpConnection" where
  "from_ctx x c = c\<lparr>mapOperations := rc_mapOperations x, conn_ResourceManager := pc_ResourceManager x\<rparr>"

definition DeleteSession ::
  "('ie, 'm, 'b, 'z) upf_env_scheme \<Rightarrow> Session \<Rightarrow> (('m, 'b) PfcpConnection, unit) op" where
  "DeleteSession E session c =
     (case seq_ops
        [for_range (\<lambda>(_, far). ignore_err (on_tables (DeleteFar E (sfar_GlobalId far)))) (rangeFARs E (FARs session)),
         for_range (\<lambda>(_, qer). ignore_err (on_tables (DeleteQer E (sqer_GlobalId qer)))) (rangeQERs E (QERs session)),
         for_range (\<lambda>(_, pdr). ignore_err (deletePDR E pdr)) (rangePDRs E (PDRs session))]
        (session_ctx session c) of
       (r, x) \<Rightarrow> (r, from_ctx x c))"

definition DeleteAssociation ::
  "('ie, 'm, 'b, 'z) upf_env_scheme \<Rightarrow> string \<Rightarrow> (('m, 'b) PfcpConnection, unit) op" where
  "DeleteAssociation E assocAddr c =
     (case GetAssociation assocAddr c of
        None \<Rightarrow> (Panic NilDereference, c)
      | Some assoc \<Rightarrow>
          bind_op (for_range (\<lambda>(_, session). DeleteSession E session) (rangeSessions E (Sessions assoc)))
            (\<lambda>_ c. (Val (), c\<lparr>NodeAssociations := (NodeAssociations c)(assocAddr := None)\<rparr>)) c)"

definition GetSessionCount :: "('m, 'b) PfcpConnection \<Rightarrow> nat" where
  "GetSessionCount c = (\<Sum>a \<in> dom (NodeAssociations c). card (dom (Sessions (the (NodeAssociations c a)))))"

definition GetAssiciationCount :: "('m, 'b) PfcpConnection \<Rightarrow> nat" where
  "GetAssiciationCount c = card (dom (NodeAssociations c))"

text \<open>
  \<open>RefreshAssociations\<close> sends a setup request to every configured node without an
  association; \<open>reach\<close> says whether resolving the address and sending succeed.
\<close>

definition sendAssociationSetupRequest ::
  "(string \<Rightarrow> bool) \<Rightarrow> string \<Rightarrow> ('m, 'b) PfcpConnection \<Rightarrow> ('m, 'b) PfcpConnection" where
  "sendAssociationSetupRequest reach addr c =
     (let msg = NewAssociationSetupRequest 0 [newIeNodeID (nodeId c), NewRecoveryTimeStamp (RecoveryTimestamp c),
                  NewUPFunctionFeatures (featuresOctets c)]
      in if reach (addr @ '':8805'') then c\<lparr>sentMessages := sentMessages c @ [(msg, addr @ '':8805'')]\<rparr> else c)"

definition RefreshAssociations ::
  "(string \<Rightarrow> bool) \<Rightarrow> ('m, 'b) PfcpConnection \<Rightarrow> ('m, 'b) PfcpConnection" where
  "RefreshAssociations reach c =
     fold (\<lambda>node c. if GetAssociation node c = None then sendAssociationSetupRequest reach node c else c) (nodes c) c"

end
