(* ===== verification/Session_Handlers.thy ===== *)
theory Session_Handlers
  imports Pfcp_Connection
begin

text \<open>
  The session handlers of \<open>cmd/core/pfcp_session_handlers.go\<close>. The loop bodies of the
  establishment and modification closures are definitions of their own
  (\<open>create_far\<close>, \<open>update_far\<close>, ...); a closure is the sequence of its loops, which ends at
  the first error. They work on the context of the request with the list of PDRs created
  so far and the usage reports to send.

  The session of a modification is a pointer: whatever the loops changed before an error
  stays, so the handler writes the session back on every path.
\<close>

section \<open>Requests\<close>

record 'ie SessionEstablishmentRequest =
  seq_Sequence :: u32
  seq_NodeID :: "'ie option"
  seq_CPFSEID :: "'ie option"
  seq_CreatePDR :: "'ie list"
  seq_CreateFAR :: "'ie list"
  seq_CreateQER :: "'ie list"
  seq_CreateURR :: "'ie list"

record SessionDeletionRequest =
  sdq_Sequence :: u32
  sdq_SEID :: u64

record 'ie SessionModificationRequest =
  smq_Sequence :: u32
  smq_SEID :: u64
  smq_CPFSEID :: "'ie option"
  smq_CreatePDR :: "'ie list"
  smq_CreateFAR :: "'ie list"
  smq_CreateQER :: "'ie list"
  smq_CreateURR :: "'ie list"
  smq_UpdatePDR :: "'ie list"
  smq_UpdateFAR :: "'ie list"
  smq_UpdateQER :: "'ie list"
  smq_UpdateURR :: "'ie list"
  smq_RemovePDR :: "'ie list"
  smq_RemoveFAR :: "'ie list"
  smq_RemoveQER :: "'ie list"
  smq_RemoveURR :: "'ie list"

record ('m, 'b) hstate = "('m, 'b) rule_ctx" +
  h_createdPDRs :: "SPDRInfo list"
  h_reports :: "resp_ie list"
  h_clock :: nat

section \<open>Loop bodies\<close>

text \<open>A result without effect on the state, and a change of the session.\<close>

definition lift_res :: "'a res \<Rightarrow> ('s, 'a) op" where
  "lift_res r s = (r, s)"

definition on_session :: "(Session \<Rightarrow> Session) \<Rightarrow> ('z PDRCreationContext_scheme, unit) op" where
  "on_session f h = (Val (), h\<lparr>pc_Session := f (pc_Session h)\<rparr>)"

definition or_err :: "goerror \<Rightarrow> 'a option \<Rightarrow> 'a res" where
  "or_err e r = (case r of None \<Rightarrow> Err e | Some v \<Rightarrow> Val v)"

definition create_far ::
  "('ie, 'm, 'b, 'z) upf_env_scheme \<Rightarrow> 'ie \<Rightarrow> (('m, 'b) hstate, unit) op" where
  "create_far E far =
     bind_op (lift_res (composeFarInfo E far zero_FarInfo)) (\<lambda>farInfo.
     bind_op (on_tables (NewFar E farInfo)) (\<lambda>internalId.
       on_session (Session_NewFar (or_zero (ie_FARID E far)) internalId farInfo)))"

definition create_qer ::
  "('ie, 'm, 'b, 'z) upf_env_scheme \<Rightarrow> 'ie \<Rightarrow> (('m, 'b) hstate, unit) op" where
  "create_qer E qer =
     bind_op (lift_res (or_err (ErrText ''QER ID missing'') (ie_QERID E qer))) (\<lambda>qerId.
       let qerInfo = updateQer E qer zero_QerInfo
       in bind_op (on_tables (NewQer E qerInfo)) (\<lambda>internalId.
            on_session (Session_NewQer qerId internalId qerInfo)))"

definition create_urr ::
  "('ie, 'm, 'b, 'z) upf_env_scheme \<Rightarrow> 'ie \<Rightarrow> (('m, 'b) hstate, unit) op" where
  "create_urr E urr =
     bind_op (lift_res (or_err (ErrText ''URR ID missing'') (ie_URRID E urr))) (\<lambda>urrId.
       let urrInfo = updateUrr E urr zero_UrrInfo
       in bind_op (on_tables (NewUrr E urrInfo)) (\<lambda>internalId.
            on_session (Session_NewUrr urrId internalId urrInfo)))"

definition create_pdr ::
  "('ie, 'm, 'b, 'z) upf_env_scheme \<Rightarrow> bool \<Rightarrow> goerror \<Rightarrow> 'ie \<Rightarrow> (('m, 'b) hstate, unit) op" where
  "create_pdr E featureUEIP idError pdr =
     bind_op (lift_res (or_err idError (ie_PDRID E pdr))) (\<lambda>pdrId.
     bind_op (extractPDR E featureUEIP pdr (zero_SPDRInfo\<lparr>sp_PdrID := ucast pdrId\<rparr>)) (\<lambda>spdrInfo.
     bind_op (on_session (PutPDR (sp_PdrID spdrInfo) spdrInfo)) (\<lambda>_.
     bind_op (on_tables (applyPDR E spdrInfo)) (\<lambda>_ h.
       (Val (), h\<lparr>h_createdPDRs := h_createdPDRs h @ [spdrInfo]\<rparr>)))))"

definition update_far ::
  "('ie, 'm, 'b, 'z) upf_env_scheme \<Rightarrow> 'ie \<Rightarrow> (('m, 'b) hstate, unit) op" where
  "update_far E far =
     bind_op (lift_res (or_err ErrLibrary (ie_FARID E far))) (\<lambda>farid h.
       let sFarInfo = Session_GetFar farid (pc_Session h)
       in bind_op (lift_res (composeFarInfo E far (sfar_FarInfo sFarInfo))) (\<lambda>farInfo.
          bind_op (on_session (Session_UpdateFar farid farInfo)) (\<lambda>_.
            on_tables (UpdateFar E (sfar_GlobalId sFarInfo) farInfo))) h)"

definition remove_far ::
  "('ie, 'm, 'b, 'z) upf_env_scheme \<Rightarrow> 'ie \<Rightarrow> (('m, 'b) hstate, unit) op" where
  "remove_far E far h =
     (case Session_RemoveFar (or_zero (ie_FARID E far)) (pc_Session h) of
        (sFarInfo, s) \<Rightarrow> on_tables (DeleteFar E (sfar_GlobalId sFarInfo)) (h\<lparr>pc_Session := s\<rparr>))"

definition update_qer ::
  "('ie, 'm, 'b, 'z) upf_env_scheme \<Rightarrow> 'ie \<Rightarrow> (('m, 'b) hstate, unit) op" where
  "update_qer E qer =
     bind_op (lift_res (or_err (ErrText ''QER ID missing'') (ie_QERID E qer))) (\<lambda>qerId h.
       let sQerInfo = Session_GetQer qerId (pc_Session h);
           qerInfo = updateQer E qer (sqer_QerInfo sQerInfo)
       in bind_op (on_session (Session_UpdateQer qerId qerInfo)) (\<lambda>_.
            on_tables (UpdateQer E (sqer_GlobalId sQerInfo) qerInfo)) h)"

definition remove_qer ::
  "('ie, 'm, 'b, 'z) upf_env_scheme \<Rightarrow> 'ie \<Rightarrow> (('m, 'b) hstate, unit) op" where
  "remove_qer E qer =
     bind_op (lift_res (or_err (ErrText ''QER ID missing'') (ie_QERID E qer))) (\<lambda>qerId h.
       case Session_RemoveQer qerId (pc_Session h) of
         (sQerInfo, s) \<Rightarrow> on_tables (DeleteQer E (sqer_GlobalId sQerInfo)) (h\<lparr>pc_Session := s\<rparr>))"

definition update_urr ::
  "('ie, 'm, 'b, 'z) upf_env_scheme \<Rightarrow> 'ie \<Rightarrow> (('m, 'b) hstate, unit) op" where
  "update_urr E urr =
     bind_op (lift_res (or_err (ErrText ''URR ID missing'') (ie_URRID E urr))) (\<lambda>urrId h.
       let sUrrInfo = Session_GetUrr urrId (pc_Session h);
           urrInfo = updateUrr E urr (surr_UrrInfo sUrrInfo)
       in bind_op (on_session (Session_UpdateUrr urrId urrInfo)) (\<lambda>_.
            on_tables (UpdateUrr E (surr_GlobalId sUrrInfo) urrInfo)) h)"

text \<open>The elements of a usage report; reading the clock counts.\<close>

definition usage_report ::
  "('ie, 'm, 'b, 'z) upf_env_scheme \<Rightarrow> u32 \<Rightarrow> u32 \<Rightarrow> UrrInfo \<Rightarrow> nat \<Rightarrow> resp_ie list" where
  "usage_report E urrId reportSeq urrInfo clock =
     [NewURRID urrId, NewURSEQN reportSeq, NewUsageReportTrigger [0, 8, 0], NewEndTime (time_Now E clock),
      NewVolumeMeasurement 7 (ui_UplinkVolume urrInfo + ui_DownlinkVolume urrInfo)
        (ui_UplinkVolume urrInfo) (ui_DownlinkVolume urrInfo) 0 0 0]"

definition remove_urr ::
  "('ie, 'm, 'b, 'z) upf_env_scheme \<Rightarrow> 'ie \<Rightarrow> (('m, 'b) hstate, unit) op" where
  "remove_urr E urr =
     bind_op (lift_res (or_err (ErrText ''URR ID missing'') (ie_URRID E urr))) (\<lambda>urrId h.
       case Session_RemoveUrr urrId (pc_Session h) of
         (sUrrInfo, s) \<Rightarrow>
           bind_op (on_tables (DeleteUrr E (surr_GlobalId sUrrInfo))) (\<lambda>urrInfo h.
             (Val (), h\<lparr>h_reports := h_reports h @
                [NewUsageReportWithinSessionModificationResponse
                   (usage_report E urrId (surr_ReportSeqNumber sUrrInfo + 1) urrInfo (h_clock h))],
                h_clock := h_clock h + 1\<rparr>)) (h\<lparr>pc_Session := s\<rparr>))"

definition update_pdr ::
  "('ie, 'm, 'b, 'z) upf_env_scheme \<Rightarrow> bool \<Rightarrow> 'ie \<Rightarrow> (('m, 'b) hstate, unit) op" where
  "update_pdr E featureUEIP pdr =
     bind_op (lift_res (or_err (ErrText ''PDR ID missing'') (ie_PDRID E pdr))) (\<lambda>pdrId h.
       bind_op (extractPDR E featureUEIP pdr (GetPDR pdrId (pc_Session h))) (\<lambda>spdrInfo.
       bind_op (on_session (PutPDR (ucast pdrId) spdrInfo)) (\<lambda>_.
         on_tables (applyPDR E spdrInfo))) h)"

definition remove_pdr ::
  "('ie, 'm, 'b, 'z) upf_env_scheme \<Rightarrow> 'ie \<Rightarrow> (('m, 'b) hstate, unit) op" where
  "remove_pdr E pdr h =
     (let pdrId = ucast (or_zero (ie_PDRID E pdr)) :: u32
      in if PDRs (pc_Session h) pdrId = None then (Val (), h)
         else (case RemovePDR pdrId (pc_Session h) of
             (sPDRInfo, s) \<Rightarrow> deletePDR E sPDRInfo (h\<lparr>pc_Session := s\<rparr>)))"

section \<open>Handlers\<close>

text \<open>Printing a request: only \<open>displayPdr\<close> can fail.\<close>

definition print_pdrs :: "('ie, 'm, 'b, 'z) upf_env_scheme \<Rightarrow> 'ie list \<Rightarrow> unit res" where
  "print_pdrs E pdrs = foldr (\<lambda>p r. bind_res (displayPdr E p) (\<lambda>_. r)) pdrs (Val ())"

definition handler_ctx :: "Session \<Rightarrow> ('m, 'b) PfcpConnection \<Rightarrow> ('m, 'b) hstate" where
  "handler_ctx s c = rule_ctx.extend (session_ctx s c) (hstate.fields [] [] (clockReads c))"

text \<open>What a context leaves in the connection: tables, pools and the clock.\<close>

definition leave_ctx :: "('m, 'b) hstate \<Rightarrow> ('m, 'b) PfcpConnection \<Rightarrow> ('m, 'b) PfcpConnection" where
  "leave_ctx h c = (from_ctx h c)\<lparr>clockReads := h_clock h\<rparr>"

definition put_session :: "string \<Rightarrow> u64 \<Rightarrow> Session \<Rightarrow> ('m, 'b) PfcpConnection \<Rightarrow> ('m, 'b) PfcpConnection" where
  "put_session addr seid s c =
     (case NodeAssociations c addr of
        None \<Rightarrow> c
      | Some a \<Rightarrow> c\<lparr>NodeAssociations := (NodeAssociations c)(addr \<mapsto> a\<lparr>Sessions := (Sessions a)(seid \<mapsto> s)\<rparr>)\<rparr>)"

definition establish_rules ::
  "('ie, 'm, 'b, 'z) upf_env_scheme \<Rightarrow> bool \<Rightarrow> 'ie SessionEstablishmentRequest \<Rightarrow> (('m, 'b) hstate, unit) op" where
  "establish_rules E featureUEIP req =
     seq_ops
       [for_range (create_far E) (seq_CreateFAR req),
        for_range (create_qer E) (seq_CreateQER req),
        for_range (create_urr E) (seq_CreateURR req),
        for_range (create_pdr E featureUEIP (ErrText ''PDR ID missing'')) (seq_CreatePDR req)]"

definition HandlePfcpSessionEstablishmentRequest ::
  "('ie, 'm, 'b, 'z) upf_env_scheme \<Rightarrow> 'ie SessionEstablishmentRequest \<Rightarrow> string \<Rightarrow>
   (('m, 'b) PfcpConnection, reply) op" where
  "HandlePfcpSessionEstablishmentRequest E req addr c =
     (let t = MsgTypeSessionEstablishmentRequest;
          response = (\<lambda>seid ies. Some (NewSessionEstablishmentResponse 0 0 seid (seq_Sequence req) 0 ies))
      in case validateRequest E (seq_NodeID req) (seq_CPFSEID req) of
           Panic p \<Rightarrow> (Panic p, c)
         | Err e \<Rightarrow>
             (Val (response 0 [newIeNodeID (nodeId c), NewCause (convertErrorToIeCause e)], None),
              count_rx E t CauseMandatoryIEMissing c)
         | Val remoteSEID \<Rightarrow>
             (case NodeAssociations c addr of
                None \<Rightarrow>
                  (Val (response 0 [newIeNodeID (nodeId c), NewCause CauseNoEstablishedPFCPAssociation], None),
                   count_rx E t CauseNoEstablishedPFCPAssociation c)
              | Some association \<Rightarrow>
                  (let (localSEID, association) = NewLocalSEID association;
                       c = c\<lparr>NodeAssociations := (NodeAssociations c)(addr \<mapsto> association)\<rparr>
                   in case print_pdrs E (seq_CreatePDR req) of
                        Panic p \<Rightarrow> (Panic p, c)
                      | _ \<Rightarrow>
                          (case establish_rules E (FeatureUEIP (Conf c)) req
                                  (handler_ctx (NewSession localSEID remoteSEID) c) of
                             (Panic p, h) \<Rightarrow> (Panic p, leave_ctx h c)
                           | (Err e, h) \<Rightarrow>
                               (Val (response remoteSEID [newIeNodeID (nodeId c), NewCause CauseRuleCreationModificationFailure], None),
                                count_rx E t CauseRuleCreationModificationFailure (leave_ctx h c))
                           | (Val _, h) \<Rightarrow>
                               (Val (response remoteSEID
                                  ([newIeNodeID (nodeId c), NewCause CauseRequestAccepted,
                                    NewFSEID localSEID (cloneIP (nodeAddrV4 c)) None]
                                   @ processCreatedPDRs (h_createdPDRs h) (cloneIP (n3Address c))), None),
                                count_rx E t CauseRequestAccepted
                                  (put_session addr localSEID (pc_Session h) (leave_ctx h c)))))))"

text \<open>The loops of the deletion: PDRs, FARs and QERs end at the first error, URRs go on.\<close>

definition delete_urr ::
  "('ie, 'm, 'b, 'z) upf_env_scheme \<Rightarrow> u32 \<times> SUrrInfo \<Rightarrow> (('m, 'b) hstate, unit) op" where
  "delete_urr E = (\<lambda>(urrId, urr) h.
     case on_tables (DeleteUrr E (surr_GlobalId urr)) h of
       (Panic p, h) \<Rightarrow> (Panic p, h)
     | (Err _, h) \<Rightarrow> (Val (), h)
     | (Val urrInfo, h) \<Rightarrow>
         (Val (), h\<lparr>h_reports := h_reports h @
            [NewUsageReportWithinSessionDeletionResponse
               (usage_report E urrId (surr_ReportSeqNumber urr + 1) urrInfo (h_clock h))],
            h_clock := h_clock h + 1\<rparr>))"

definition delete_rules ::
  "('ie, 'm, 'b, 'z) upf_env_scheme \<Rightarrow> Session \<Rightarrow> (('m, 'b) hstate, unit) op" where
  "delete_rules E session =
     seq_ops
       [for_range (\<lambda>(_, pdr). deletePDR E pdr) (rangePDRs E (PDRs session)),
        for_range (\<lambda>(_, far). on_tables (DeleteFar E (sfar_GlobalId far))) (rangeFARs E (FARs session)),
        for_range (\<lambda>(_, qer). on_tables (DeleteQer E (sqer_GlobalId qer))) (rangeQERs E (QERs session)),
        for_range (delete_urr E) (rangeURRs E (URRs session))]"

definition HandlePfcpSessionDeletionRequest ::
  "('ie, 'm, 'b, 'z) upf_env_scheme \<Rightarrow> SessionDeletionRequest \<Rightarrow> string \<Rightarrow>
   (('m, 'b) PfcpConnection, reply) op" where
  "HandlePfcpSessionDeletionRequest E req addr c =
     (let t = MsgTypeSessionDeletionRequest;
          response = (\<lambda>seid ies. Some (NewSessionDeletionResponse 0 0 seid (sdq_Sequence req) 0 ies))
      in case NodeAssociations c addr of
           None \<Rightarrow>
             (Val (response 0 [NewCause CauseNoEstablishedPFCPAssociation], None),
              count_rx E t CauseNoEstablishedPFCPAssociation c)
         | Some association \<Rightarrow>
             (case Sessions association (sdq_SEID req) of
                None \<Rightarrow>
                  (Val (response 0 [NewCause CauseSessionContextNotFound], None),
                   count_rx E t CauseSessionContextNotFound c)
              | Some session \<Rightarrow>
                  (case delete_rules E session (handler_ctx session c) of
                     (Panic p, h) \<Rightarrow> (Panic p, leave_ctx h c)
                   | (Err e, h) \<Rightarrow>
                       (Val (response 0 [NewCause CauseRuleCreationModificationFailure], Some e),
                        count_rx E t CauseRuleCreationModificationFailure (leave_ctx h c))
                   | (Val _, h) \<Rightarrow>
                       (let c = leave_ctx h c;
                            c = c\<lparr>NodeAssociations := (NodeAssociations c)
                                  (addr \<mapsto> association\<lparr>Sessions := (Sessions association)(sdq_SEID req := None)\<rparr>)\<rparr>;
                            c = ReleaseResources E (sdq_SEID req) c
                        in (Val (response (RemoteSEID session) (NewCause CauseRequestAccepted # h_reports h), None),
                            count_rx E t CauseRequestAccepted c)))))"

definition modify_rules ::
  "('ie, 'm, 'b, 'z) upf_env_scheme \<Rightarrow> bool \<Rightarrow> 'ie SessionModificationRequest \<Rightarrow> (('m, 'b) hstate, unit) op" where
  "modify_rules E featureUEIP req =
     seq_ops
       [for_range (create_far E) (smq_CreateFAR req),
        for_range (update_far E) (smq_UpdateFAR req),
        for_range (remove_far E) (smq_RemoveFAR req),
        for_range (create_qer E) (smq_CreateQER req),
        for_range (update_qer E) (smq_UpdateQER req),
        for_range (remove_qer E) (smq_RemoveQER req),
        for_range (create_urr E) (smq_CreateURR req),
        for_range (update_urr E) (smq_UpdateURR req),
        for_range (remove_urr E) (smq_RemoveURR req),
        for_range (create_pdr E featureUEIP ErrLibrary) (smq_CreatePDR req),
        for_range (update_pdr E featureUEIP) (smq_UpdatePDR req),
        for_range (remove_pdr E) (smq_RemovePDR req)]"

definition newRemoteSEID ::
  "('ie, 'm, 'b, 'z) upf_env_scheme \<Rightarrow> 'ie option \<Rightarrow> Session \<Rightarrow> Session" where
  "newRemoteSEID E cpfseid s =
     (case cpfseid of
        None \<Rightarrow> s
      | Some i \<Rightarrow> (case ie_FSEID E i of None \<Rightarrow> s | Some seid \<Rightarrow> s\<lparr>RemoteSEID := seid\<rparr>))"

definition HandlePfcpSessionModificationRequest ::
  "('ie, 'm, 'b, 'z) upf_env_scheme \<Rightarrow> 'ie SessionModificationRequest \<Rightarrow> string \<Rightarrow>
   (('m, 'b) PfcpConnection, reply) op" where
  "HandlePfcpSessionModificationRequest E req addr c =
     (let t = MsgTypeSessionModificationRequest;
          response = (\<lambda>seid ies. Some (NewSessionModificationResponse 0 0 seid (smq_Sequence req) 0 ies))
      in case NodeAssociations c addr of
           None \<Rightarrow>
             (Val (response (smq_SEID req) [NewCause CauseNoEstablishedPFCPAssociation], None),
              count_rx E t CauseNoEstablishedPFCPAssociation c)
         | Some association \<Rightarrow>
             (case Sessions association (smq_SEID req) of
                None \<Rightarrow>
                  (Val (response 0 [NewCause CauseSessionContextNotFound], None),
                   count_rx E t CauseSessionContextNotFound c)
              | Some session \<Rightarrow>
                  (let session = newRemoteSEID E (smq_CPFSEID req) session;
                       c = put_session addr (smq_SEID req) session c
                   in case print_pdrs E (smq_CreatePDR req @ smq_UpdatePDR req @ smq_RemovePDR req) of
                        Panic p \<Rightarrow> (Panic p, c)
                      | _ \<Rightarrow>
                          (case modify_rules E (FeatureUEIP (Conf c)) req (handler_ctx session c) of
                             (r, h) \<Rightarrow>
                               (let c = put_session addr (smq_SEID req) (pc_Session h) (leave_ctx h c)
                                in case r of
                                     Panic p \<Rightarrow> (Panic p, c)
                                   | Err e \<Rightarrow>
                                       (Val (response (RemoteSEID (pc_Session h))
                                          [NewCause CauseRuleCreationModificationFailure], None),
                                        count_rx E t CauseRuleCreationModificationFailure c)
                                   | Val _ \<Rightarrow>
                                       (Val (response (RemoteSEID (pc_Session h))
                                          (NewCause CauseRequestAccepted #
                                           processCreatedPDRs (h_createdPDRs h) (n3Address c) @ h_reports h), None),
                                        count_rx E t CauseRequestAccepted c))))))"

end
