(* ===== verification/Pfcp_Dispatch.thy ===== *)
theory Pfcp_Dispatch
  imports Session_Handlers
begin

text \<open>
  Receiving messages: the handler map and \<open>Handle\<close> of \<open>cmd/core/pfcp_handlers.go\<close> and
  \<open>cmd/core/pfcp_connection.go\<close>, and the heartbeat messages of
  \<open>cmd/core/pfcp_hearbeat.go\<close>.

  Decoding a datagram, resolving an address and the outcome of a send belong to the message
  library and the network; they are the record \<open>pfcp_io\<close>. A decoded message is one of the
  types with a handler, or another one.

  A heartbeat response is handed to the scheduler of the association over a channel without
  buffer. The handler blocks there, so its result says that it has a value to deliver;
  \<open>Heartbeat\<close> has the rendezvous.
\<close>

section \<open>Data\<close>

record 'ie HeartbeatMsg =
  hb_SequenceNumber :: u32
  hb_RecoveryTimeStamp :: "'ie option"

datatype 'ie in_msg =
    HeartbeatRequest "'ie HeartbeatMsg"
  | HeartbeatResponse "'ie HeartbeatMsg"
  | AssocSetupRequest "'ie AssociationSetupRequest"
  | AssocSetupResponse "'ie AssociationSetupResponse"
  | AssocUpdateRequest "'ie AssociationUpdateRequest"
  | SessEstablishmentRequest "'ie SessionEstablishmentRequest"
  | SessDeletionRequest SessionDeletionRequest
  | SessModificationRequest "'ie SessionModificationRequest"
  | UnhandledMessage msg_type

record UDPAddr =
  ua_IP :: IP
  ua_Port :: nat

record 'ie pfcp_io =
  message_Parse :: "bytes \<Rightarrow> 'ie in_msg option"
  udp_Send :: "out_msg \<Rightarrow> string \<Rightarrow> bool"
  ResolveUDPAddr :: "string \<Rightarrow> bool"

text \<open>What a handler is left with: a reply and an error, or a sequence number for a scheduler.\<close>

datatype handled = Returned reply | Deliver string u32

definition MessageType :: "'ie in_msg \<Rightarrow> msg_type" where
  "MessageType msg =
     (case msg of
        HeartbeatRequest _ \<Rightarrow> MsgTypeHeartbeatRequest
      | HeartbeatResponse _ \<Rightarrow> MsgTypeHeartbeatResponse
      | AssocSetupRequest _ \<Rightarrow> MsgTypeAssociationSetupRequest
      | AssocSetupResponse _ \<Rightarrow> MsgTypeAssociationSetupResponse
      | AssocUpdateRequest _ \<Rightarrow> MsgTypeAssociationUpdateRequest
      | SessEstablishmentRequest _ \<Rightarrow> MsgTypeSessionEstablishmentRequest
      | SessDeletionRequest _ \<Rightarrow> MsgTypeSessionDeletionRequest
      | SessModificationRequest _ \<Rightarrow> MsgTypeSessionModificationRequest
      | UnhandledMessage t \<Rightarrow> t)"

definition out_type :: "out_msg \<Rightarrow> msg_type" where
  "out_type msg =
     (case msg of
        NewHeartbeatRequest _ _ \<Rightarrow> MsgTypeHeartbeatRequest
      | NewHeartbeatResponse _ _ \<Rightarrow> MsgTypeHeartbeatResponse
      | NewAssociationSetupRequest _ _ \<Rightarrow> MsgTypeAssociationSetupRequest
      | NewAssociationSetupResponse _ _ \<Rightarrow> MsgTypeAssociationSetupResponse
      | NewAssociationUpdateResponse _ _ \<Rightarrow> MsgTypeAssociationUpdateResponse
      | NewSessionEstablishmentResponse _ _ _ _ _ _ \<Rightarrow> MsgTypeSessionEstablishmentResponse
      | NewSessionDeletionResponse _ _ _ _ _ _ \<Rightarrow> MsgTypeSessionDeletionResponse
      | NewSessionModificationResponse _ _ _ _ _ _ \<Rightarrow> MsgTypeSessionModificationResponse)"

section \<open>Heartbeat messages\<close>

definition HandlePfcpHeartbeatRequest ::
  "('ie, 'm, 'b, 'z) upf_env_scheme \<Rightarrow> 'ie HeartbeatMsg \<Rightarrow> (('m, 'b) PfcpConnection, reply) op" where
  "HandlePfcpHeartbeatRequest E hbreq c =
     (case ie_RecoveryTimeStamp E (hb_RecoveryTimeStamp hbreq) of
        Panic p \<Rightarrow> (Panic p, c)
      | Err e \<Rightarrow> (Val (None, Some e), c)
      | Val _ \<Rightarrow> (Val (Some (NewHeartbeatResponse (hb_SequenceNumber hbreq)
                           (NewRecoveryTimeStamp (RecoveryTimestamp c))), None), c))"

definition HandlePfcpHeartbeatResponse ::
  "('ie, 'm, 'b, 'z) upf_env_scheme \<Rightarrow> 'ie HeartbeatMsg \<Rightarrow> string \<Rightarrow> (('m, 'b) PfcpConnection, handled) op" where
  "HandlePfcpHeartbeatResponse E hbresp addr c =
     (case ie_RecoveryTimeStamp E (hb_RecoveryTimeStamp hbresp) of
        Panic p \<Rightarrow> (Panic p, c)
      | Err e \<Rightarrow> (Val (Returned (None, Some e)), c)
      | Val _ \<Rightarrow>
          (case GetAssociation addr c of
             None \<Rightarrow> (Val (Returned (None, None)), c)
           | Some _ \<Rightarrow> (Val (Deliver addr (hb_SequenceNumber hbresp)), c)))"

text \<open>\<open>SendMessage\<close>: the message is on the wire when encoding and sending succeed.\<close>

definition SendMessage ::
  "'ie pfcp_io \<Rightarrow> out_msg \<Rightarrow> string \<Rightarrow> ('m, 'b) PfcpConnection \<Rightarrow> goerror option \<times> ('m, 'b) PfcpConnection" where
  "SendMessage io msg dest c =
     (if udp_Send io msg dest then (None, c\<lparr>sentMessages := sentMessages c @ [(msg, dest)]\<rparr>)
      else (Some ErrLibrary, c))"

definition SendHeartbeatRequest ::
  "'ie pfcp_io \<Rightarrow> u32 \<Rightarrow> string \<Rightarrow> ('m, 'b) PfcpConnection \<Rightarrow> ('m, 'b) PfcpConnection" where
  "SendHeartbeatRequest io sequenceID associationAddr c =
     (if ResolveUDPAddr io (associationAddr @ '':8805'')
      then snd (SendMessage io (NewHeartbeatRequest sequenceID (NewRecoveryTimeStamp (RecoveryTimestamp c)))
             (associationAddr @ '':8805'') c)
      else c)"

section \<open>Dispatch\<close>

definition lift_reply :: "('s, reply) op \<Rightarrow> ('s, handled) op" where
  "lift_reply f s = (case f s of (Val r, s') \<Rightarrow> (Val (Returned r), s') | (Err e, s') \<Rightarrow> (Err e, s') | (Panic p, s') \<Rightarrow> (Panic p, s'))"

text \<open>The handler map: \<open>None\<close> for a type without a handler.\<close>

definition pfcpHandlers ::
  "('ie, 'm, 'b, 'z) upf_env_scheme \<Rightarrow> 'ie in_msg \<Rightarrow> (string \<Rightarrow> (('m, 'b) PfcpConnection, handled) op) option" where
  "pfcpHandlers E msg =
     (case msg of
        HeartbeatRequest r \<Rightarrow> Some (\<lambda>addr. lift_reply (HandlePfcpHeartbeatRequest E r))
      | HeartbeatResponse r \<Rightarrow> Some (HandlePfcpHeartbeatResponse E r)
      | AssocSetupRequest r \<Rightarrow> Some (\<lambda>addr. lift_reply (HandlePfcpAssociationSetupRequest E r addr))
      | AssocSetupResponse r \<Rightarrow> Some (\<lambda>addr. lift_reply (HandlePfcpAssociationSetupResponse E r addr))
      | AssocUpdateRequest r \<Rightarrow> Some (\<lambda>addr. lift_reply (HandlePfcpAssociationUpdateRequest E r addr))
      | SessEstablishmentRequest r \<Rightarrow> Some (\<lambda>addr. lift_reply (HandlePfcpSessionEstablishmentRequest E r addr))
      | SessDeletionRequest r \<Rightarrow> Some (\<lambda>addr. lift_reply (HandlePfcpSessionDeletionRequest E r addr))
      | SessModificationRequest r \<Rightarrow> Some (\<lambda>addr. lift_reply (HandlePfcpSessionModificationRequest E r addr))
      | UnhandledMessage _ \<Rightarrow> None)"

definition inc_label :: "string \<Rightarrow> (string \<Rightarrow> nat) \<Rightarrow> string \<Rightarrow> nat" where
  "inc_label l f = f(l := f l + 1)"

definition udp_string :: "UDPAddr \<Rightarrow> string" where
  "udp_string a = IP_String (ua_IP a) @ '':'' @ show_nat (ua_Port a)"

text \<open>
  The outcome of \<open>Handle\<close>: the error it returns, or a delivery that has to happen first
  (afterwards the handler returns no message and no error).
\<close>

datatype outcome = Finished "goerror option" | Blocked string u32

definition Handle ::
  "('ie, 'm, 'b, 'z) upf_env_scheme \<Rightarrow> 'ie pfcp_io \<Rightarrow> bytes \<Rightarrow> UDPAddr \<Rightarrow> (('m, 'b) PfcpConnection, outcome) op" where
  "Handle E io buf addr c =
     (case message_Parse io buf of
        None \<Rightarrow> (Val (Finished (Some ErrLibrary)), c)
      | Some incomingMsg \<Rightarrow>
          (let c = c\<lparr>PfcpMessageRx := inc_label (MessageTypeName E (MessageType incomingMsg)) (PfcpMessageRx c)\<rparr>
           in case pfcpHandlers E incomingMsg of
                None \<Rightarrow> (Val (Finished None), c)
              | Some handler \<Rightarrow>
                  (case handler (IP_String (ua_IP addr)) c of
                     (Panic p, c) \<Rightarrow> (Panic p, c)
                   | (Err e, c) \<Rightarrow> (Val (Finished (Some e)), c)
                   | (Val (Deliver a seq), c) \<Rightarrow> (Val (Blocked a seq), c)
                   | (Val (Returned (_, Some e)), c) \<Rightarrow> (Val (Finished (Some e)), c)
                   | (Val (Returned (None, None)), c) \<Rightarrow> (Val (Finished None), c)
                   | (Val (Returned (Some outgoingMsg, None)), c) \<Rightarrow>
                       (let c = c\<lparr>PfcpMessageTx := inc_label (MessageTypeName E (out_type outgoingMsg)) (PfcpMessageTx c)\<rparr>
                        in case SendMessage io outgoingMsg (udp_string addr) c of
                             (e, c) \<Rightarrow> (Val (Finished e), c)))))"

end
