(* ===== verification/Rule_Ownership.thy ===== *)
theory Rule_Ownership
  imports Session_Handlers
begin

text \<open>
  Who owns which entry of the forwarding plane. The sessions of a connection hold global
  identifiers of FARs, QERs and URRs; \<open>conn_rules\<close> collects them in one map from the
  place where they are held (address of the association, SEID, identifier of the control
  plane) to the global identifier and the parameters. \<open>owns\<close> says that no two places hold
  the same identifier, that no held identifier is free, and that the table has at each held
  identifier the parameters that the session has. \<open>conn_ok\<close> is the invariant of the
  connection; the data path, which advances counters and time stamps of its own, is not
  part of the model.

  The lemmas on \<open>owns\<close> are proved once in the interface \<open>rule_table\<close> and used through its
  interpretations \<open>far\<close>, \<open>qer\<close> and \<open>urr\<close>.
\<close>

section \<open>Ownership\<close>

definition owns :: "u32 set \<Rightarrow> (u32 \<rightharpoonup> 'v) \<Rightarrow> u32 \<Rightarrow> ('o \<rightharpoonup> u32 \<times> 'v) \<Rightarrow> bool" where
  "owns free lookup n tab \<longleftrightarrow>
     (\<forall>p i v. tab p = Some (i, v) \<longrightarrow> i < n \<and> i \<notin> free \<and> lookup i = Some v) \<and>
     (\<forall>p q i v w. tab p = Some (i, v) \<longrightarrow> tab q = Some (i, w) \<longrightarrow> p = q)"

type_synonym place = "string \<times> u64 \<times> u32"

definition rules_ok ::
  "('ie, 'm, 'b, 'z) upf_env_scheme \<Rightarrow> ('m, 'b) BpfObjects \<Rightarrow> (place \<rightharpoonup> u32 \<times> FarInfo) \<Rightarrow>
   (place \<rightharpoonup> u32 \<times> QerInfo) \<Rightarrow> (place \<rightharpoonup> u32 \<times> UrrInfo) \<Rightarrow> bool" where
  "rules_ok E b tf tq tu \<longleftrightarrow>
     far_ok E b \<and> owns (far_free E b) (far_lookup E b) (maxSize (farIdTracker b)) tf \<and>
     qer_ok E b \<and> owns (qer_free E b) (qer_lookup E b) (maxSize (qerIdTracker b)) tq \<and>
     urr_ok E b \<and> owns (urr_free E b) (urr_lookup E b) (maxSize (urrIdTracker b)) tu"

definition conn_rules :: "(Session \<Rightarrow> u32 \<rightharpoonup> 'e) \<Rightarrow> ('m, 'b) PfcpConnection \<Rightarrow> place \<rightharpoonup> 'e" where
  "conn_rules rules c = (\<lambda>(addr, seid, i).
     case NodeAssociations c addr of
       None \<Rightarrow> None
     | Some a \<Rightarrow> (case Sessions a seid of None \<Rightarrow> None | Some s \<Rightarrow> rules s i))"

definition session_finite :: "Session \<Rightarrow> bool" where
  "session_finite s \<longleftrightarrow>
     finite (dom (PDRs s)) \<and> finite (dom (FARs s)) \<and> finite (dom (QERs s)) \<and> finite (dom (URRs s))"

definition conn_ok :: "('ie, 'm, 'b, 'z) upf_env_scheme \<Rightarrow> ('m, 'b) PfcpConnection \<Rightarrow> bool" where
  "conn_ok E c \<longleftrightarrow>
     rules_ok E (mapOperations c) (conn_rules session_fars c) (conn_rules session_qers c)
       (conn_rules session_urrs c) \<and>
     (\<forall>addr a seid s. NodeAssociations c addr = Some a \<longrightarrow> Sessions a seid = Some s \<longrightarrow>
        seid \<le> NextSessionID a \<and> session_finite s) \<and>
     (\<forall>addr a. NodeAssociations c addr = Some a \<longrightarrow> finite (dom (Sessions a)))"

text \<open>What Go promises of \<open>range\<close> over the maps of a session and of an association.\<close>

definition ranges_ok :: "('ie, 'm, 'b, 'z) upf_env_scheme \<Rightarrow> bool" where
  "ranges_ok E \<longleftrightarrow>
     (\<forall>m. finite (dom m) \<longrightarrow> enumerates (rangePDRs E m) m) \<and>
     (\<forall>m. finite (dom m) \<longrightarrow> enumerates (rangeFARs E m) m) \<and>
     (\<forall>m. finite (dom m) \<longrightarrow> enumerates (rangeQERs E m) m) \<and>
     (\<forall>m. finite (dom m) \<longrightarrow> enumerates (rangeURRs E m) m) \<and>
     (\<forall>m. finite (dom m) \<longrightarrow> enumerates (rangeSessions E m) m)"

text \<open>The rules of all sessions but one, with other rules for that one.\<close>

definition over :: "(place \<rightharpoonup> 'e) \<Rightarrow> string \<Rightarrow> u64 \<Rightarrow> (u32 \<rightharpoonup> 'e) \<Rightarrow> place \<rightharpoonup> 'e" where
  "over base addr seid t = (\<lambda>(a, s, i). if a = addr \<and> s = seid then t i else base (a, s, i))"

section \<open>Lemmas on ownership\<close>

lemma ownsD:
  assumes "owns free lookup n tab"
  shows "tab p = Some (i, v) \<Longrightarrow> i < n" "tab p = Some (i, v) \<Longrightarrow> i \<notin> free"
    and "tab p = Some (i, v) \<Longrightarrow> lookup i = Some v"
    and "tab p = Some (i, v) \<Longrightarrow> tab q = Some (i, w) \<Longrightarrow> p = q"
  using assms unfolding owns_def by blast+

lemma owns_submap: "owns free lookup n tab \<Longrightarrow> tab' \<subseteq>\<^sub>m tab \<Longrightarrow> owns free lookup n tab'"
  unfolding owns_def map_le_def dom_def by (metis (mono_tags, lifting) mem_Collect_eq option.distinct(1))

lemma owns_empty [simp]: "owns free lookup n Map.empty"
  by (simp add: owns_def)

context rule_table
begin

lemma owns_new:
  assumes "inv s" and o: "owns (free s) (lookup s) (size_of s) tab" and "new v s = (Val i, s')"
  shows "inv s'" and "owns (free s') (lookup s') (size_of s') (tab(p \<mapsto> (i, v)))"
proof -
  note n = new_Val [OF assms(1,3)]
  then have i: "i \<in> free s" "i < size_of s" using free_below [OF assms(1)] by blast+
  then have "tab q \<noteq> Some (i, w)" for q w using ownsD(2) [OF o] by blast
  then show "owns (free s') (lookup s') (size_of s') (tab(p \<mapsto> (i, v)))"
    using n i ownsD [OF o] unfolding owns_def by (auto split: if_splits)
  show "inv s'" using n by blast
qed

lemma owns_update:
  assumes "inv s" and o: "owns (free s) (lookup s) (size_of s) tab" and p: "tab p = Some (i, w)"
  shows "\<exists>s'. update i v s = (Val (), s') \<and> inv s' \<and> free s' = free s \<and>
    owns (free s') (lookup s') (size_of s') (tab(p \<mapsto> (i, v)))"
proof -
  from update_ok [OF assms(1) ownsD(1) [OF o p]] obtain s' where u: "update i v s = (Val (), s')"
    "free s' = free s" "lookup s' = (lookup s)(i \<mapsto> v)" "size_of s' = size_of s" "inv s'" by blast
  then have "owns (free s') (lookup s') (size_of s') (tab(p \<mapsto> (i, v)))"
    using p ownsD [OF o] unfolding owns_def by (auto split: if_splits)
  with u show ?thesis by blast
qed

lemma owns_delete:
  assumes "inv s" and o: "owns (free s) (lookup s) (size_of s) tab" and p: "tab p = Some (i, w)"
  shows "\<exists>r s'. delete i s = (Val r, s') \<and> inv s' \<and> free s' = insert i (free s) \<and>
    owns (free s') (lookup s') (size_of s') (tab(p := None))"
proof -
  from delete_ok [OF assms(1) ownsD(1) [OF o p]] obtain r s' where u: "delete i s = (Val r, s')"
    "free s' = insert i (free s)" "lookup s' = (lookup s)(i \<mapsto> zero)" "size_of s' = size_of s" "inv s'" by blast
  have "j \<noteq> i" if "q \<noteq> p" "tab q = Some (j, x)" for q j x using ownsD(4) [OF o p] that by blast
  then have "owns (free s') (lookup s') (size_of s') (tab(p := None))"
    using u ownsD [OF o] unfolding owns_def by (auto split: if_splits)
  with u show ?thesis by blast
qed

text \<open>Deleting the rules of several places, whatever the results of the calls are used for.\<close>

lemma owns_delete_all:
  assumes "inv s" and "owns (free s) (lookup s) (size_of s) tab"
    and "\<And>p i. (p, i) \<in> set xs \<Longrightarrow> \<exists>v. tab p = Some (i, v)" and "distinct (map fst xs)"
    and body: "\<And>p i s. body (p, i) s = (case delete i s of (Val _, s') \<Rightarrow> (Val (), s') | (Err e, s') \<Rightarrow> (Err e, s')
                 | (Panic q, s') \<Rightarrow> (Panic q, s'))"
  shows "\<exists>s'. for_range body xs s = (Val (), s') \<and> inv s' \<and> free s' = free s \<union> snd ` set xs \<and>
    owns (free s') (lookup s') (size_of s') (tab |` (- fst ` set xs))"
  using assms(1-4)
proof (induction xs arbitrary: s tab)
  case Nil
  then show ?case by simp
next
  case (Cons x xs)
  obtain p i where x: "x = (p, i)" by fastforce
  from Cons.prems(3) [of p i] x obtain w where w: "tab p = Some (i, w)" by auto
  from owns_delete [OF Cons.prems(1,2) w] obtain r s1 where d: "delete i s = (Val r, s1)" "inv s1"
    "free s1 = insert i (free s)" "owns (free s1) (lookup s1) (size_of s1) (tab(p := None))" by blast
  have "\<exists>v. (tab(p := None)) q = Some (j, v)" if "(q, j) \<in> set xs" for q j
    using Cons.prems(3) [of q j] Cons.prems(4) that x by force
  moreover have "distinct (map fst xs)" using Cons.prems(4) by simp
  ultimately obtain s' where s': "for_range body xs s1 = (Val (), s')" "inv s'"
    "free s' = free s1 \<union> snd ` set xs" "owns (free s') (lookup s') (size_of s') (tab(p := None) |` (- fst ` set xs))"
    using Cons.IH [OF d(2,4)] by blast
  have "tab(p := None) |` (- fst ` set xs) = tab |` (- fst ` set (x # xs))"
    by (auto simp: restrict_map_def fun_eq_iff x)
  with s' d x show ?case by (auto simp: body)
qed

end

section \<open>One table at a time\<close>

lemma far_frame:
  "\<exists>m t. snd (NewFar E v b) = b\<lparr>FarMap := m, farIdTracker := t\<rparr>"
  "\<exists>m t. snd (UpdateFar E i v b) = b\<lparr>FarMap := m, farIdTracker := t\<rparr>"
  "\<exists>m t. snd (DeleteFar E i b) = b\<lparr>FarMap := m, farIdTracker := t\<rparr>"
  unfolding Far_as_table by (auto split: prod.split)

lemma qer_frame:
  "\<exists>m t. snd (NewQer E w b) = b\<lparr>QerMap := m, qerIdTracker := t\<rparr>"
  "\<exists>m t. snd (UpdateQer E i w b) = b\<lparr>QerMap := m, qerIdTracker := t\<rparr>"
  "\<exists>m t. snd (DeleteQer E i b) = b\<lparr>QerMap := m, qerIdTracker := t\<rparr>"
  unfolding Qer_as_table by (auto split: prod.split)

lemma urr_frame:
  "\<exists>m t. snd (NewUrr E u b) = b\<lparr>UrrMap := m, urrIdTracker := t\<rparr>"
  "\<exists>m t. snd (UpdateUrr E i u b) = b\<lparr>UrrMap := m, urrIdTracker := t\<rparr>"
  "\<exists>m t. snd (DeleteUrr E i b) = b\<lparr>UrrMap := m, urrIdTracker := t\<rparr>"
proof -
  show "\<exists>m t. snd (NewUrr E u b) = b\<lparr>UrrMap := m, urrIdTracker := t\<rparr>"
    and "\<exists>m t. snd (UpdateUrr E i u b) = b\<lparr>UrrMap := m, urrIdTracker := t\<rparr>"
    unfolding Urr_as_table by (auto split: prod.split)
  have same: "\<exists>m t. b = b\<lparr>UrrMap := m, urrIdTracker := t\<rparr>"
    by (intro exI [of _ "UrrMap b"] exI [of _ "urrIdTracker b"]) simp
  have other: "\<exists>m t. b\<lparr>urrIdTracker := t0, UrrMap := m0\<rparr> = b\<lparr>UrrMap := m, urrIdTracker := t\<rparr>" for m0 t0
    by (intro exI [of _ m0] exI [of _ t0]) simp
  show "\<exists>m t. snd (DeleteUrr E i b) = b\<lparr>UrrMap := m, urrIdTracker := t\<rparr>"
    by (simp add: DeleteUrr_def ReleaseURR_def Let_def same other split: option.split prod.split)
qed

lemma pdr_frame:
  "\<exists>x y z. snd (applyPDR E s b) = b\<lparr>PdrMapTeidIp4 := x, PdrMapDownlinkIp4 := y, PdrMapDownlinkIp6 := z\<rparr>"
  "\<exists>x y z. snd (DeletePdrUplink E t b) = b\<lparr>PdrMapTeidIp4 := x, PdrMapDownlinkIp4 := y, PdrMapDownlinkIp6 := z\<rparr>"
  "\<exists>x y z. snd (DeletePdrDownlink E ip b) = b\<lparr>PdrMapTeidIp4 := x, PdrMapDownlinkIp4 := y, PdrMapDownlinkIp6 := z\<rparr>"
  "\<exists>x y z. snd (DeleteDownlinkPdrIp6 E ip b) = b\<lparr>PdrMapTeidIp4 := x, PdrMapDownlinkIp4 := y, PdrMapDownlinkIp6 := z\<rparr>"
proof -
  let ?P = "\<lambda>b'. \<exists>x y z. b' = b\<lparr>PdrMapTeidIp4 := x, PdrMapDownlinkIp4 := y, PdrMapDownlinkIp6 := z\<rparr>"
  have "b\<lparr>PdrMapTeidIp4 := m\<rparr> = b\<lparr>PdrMapTeidIp4 := m, PdrMapDownlinkIp4 := PdrMapDownlinkIp4 b, PdrMapDownlinkIp6 := PdrMapDownlinkIp6 b\<rparr>"
    and "b\<lparr>PdrMapDownlinkIp4 := m\<rparr> = b\<lparr>PdrMapTeidIp4 := PdrMapTeidIp4 b, PdrMapDownlinkIp4 := m, PdrMapDownlinkIp6 := PdrMapDownlinkIp6 b\<rparr>"
    and "b\<lparr>PdrMapDownlinkIp6 := m\<rparr> = b\<lparr>PdrMapTeidIp4 := PdrMapTeidIp4 b, PdrMapDownlinkIp4 := PdrMapDownlinkIp4 b, PdrMapDownlinkIp6 := m\<rparr>"
    and "b = b\<lparr>PdrMapTeidIp4 := PdrMapTeidIp4 b, PdrMapDownlinkIp4 := PdrMapDownlinkIp4 b, PdrMapDownlinkIp6 := PdrMapDownlinkIp6 b\<rparr>"
    for m by simp_all
  then have e: "?P (b\<lparr>PdrMapTeidIp4 := m\<rparr>)" "?P (b\<lparr>PdrMapDownlinkIp4 := m\<rparr>)" "?P (b\<lparr>PdrMapDownlinkIp6 := m\<rparr>)" "?P b"
    for m by blast+
  show "?P (snd (applyPDR E s b))"
    by (simp add: applyPDR_def PutPdrDownlink_def PutDownlinkPdrIp6_def PutPdrUplink_def e split: prod.split res.split)
  show "?P (snd (DeletePdrUplink E t b))" "?P (snd (DeletePdrDownlink E ip b))" "?P (snd (DeleteDownlinkPdrIp6 E ip b))"
    by (simp_all add: DeletePdrUplink_def DeletePdrDownlink_def DeleteDownlinkPdrIp6_def e split: prod.split)
qed

lemma rules_ok_pdr_maps [simp]:
  "rules_ok E (b\<lparr>PdrMapTeidIp4 := x, PdrMapDownlinkIp4 := y, PdrMapDownlinkIp6 := z\<rparr>) tf tq tu = rules_ok E b tf tq tu"
  by (simp add: rules_ok_def far_ok_def qer_ok_def urr_ok_def)

lemma rules_okD:
  assumes "rules_ok E b tf tq tu"
  shows "far_ok E b" "owns (far_free E b) (far_lookup E b) (maxSize (farIdTracker b)) tf"
    "qer_ok E b" "owns (qer_free E b) (qer_lookup E b) (maxSize (qerIdTracker b)) tq"
    "urr_ok E b" "owns (urr_free E b) (urr_lookup E b) (maxSize (urrIdTracker b)) tu"
  using assms unfolding rules_ok_def by blast+

text \<open>The tables of the other kinds do not change.\<close>

lemma rules_ok_far_step:
  assumes "rules_ok E b tf tq tu" and "\<exists>m t. b' = b\<lparr>FarMap := m, farIdTracker := t\<rparr>"
    and "far_ok E b'" "owns (far_free E b') (far_lookup E b') (maxSize (farIdTracker b')) tf'"
  shows "rules_ok E b' tf' tq tu"
  using assms by (auto simp: rules_ok_def qer_ok_def urr_ok_def)

lemma rules_ok_qer_step:
  assumes "rules_ok E b tf tq tu" and "\<exists>m t. b' = b\<lparr>QerMap := m, qerIdTracker := t\<rparr>"
    and "qer_ok E b'" "owns (qer_free E b') (qer_lookup E b') (maxSize (qerIdTracker b')) tq'"
  shows "rules_ok E b' tf tq' tu"
  using assms by (auto simp: rules_ok_def far_ok_def urr_ok_def)

lemma rules_ok_urr_step:
  assumes "rules_ok E b tf tq tu" and "\<exists>m t. b' = b\<lparr>UrrMap := m, urrIdTracker := t\<rparr>"
    and "urr_ok E b'" "owns (urr_free E b') (urr_lookup E b') (maxSize (urrIdTracker b')) tu'"
  shows "rules_ok E b' tf tq tu'"
  using assms by (auto simp: rules_ok_def far_ok_def qer_ok_def)

lemma rules_ok_NewFar:
  assumes "rules_ok E b tf tq tu" and "NewFar E v b = (r, b')"
  shows "rules_ok E b' (case r of Val i \<Rightarrow> tf(p \<mapsto> (i, v)) | _ \<Rightarrow> tf) tq tu"
proof (cases r)
  case (Val i)
  with far.owns_new [OF rules_okD(1,2) [OF assms(1)]] assms(2) far_frame(1) [of E v b] show ?thesis
    by (intro rules_ok_far_step [OF assms(1)]) auto
next
  case (Err e)
  with far.new_Err [OF rules_okD(1) [OF assms(1)]] assms show ?thesis by auto
next
  case (Panic q)
  with far.new_no_panic [OF rules_okD(1) [OF assms(1)]] assms(2) show ?thesis by auto
qed

lemma rules_ok_NewQer:
  assumes "rules_ok E b tf tq tu" and "NewQer E v b = (r, b')"
  shows "rules_ok E b' tf (case r of Val i \<Rightarrow> tq(p \<mapsto> (i, v)) | _ \<Rightarrow> tq) tu"
proof (cases r)
  case (Val i)
  with qer.owns_new [OF rules_okD(3,4) [OF assms(1)]] assms(2) qer_frame(1) [of E v b] show ?thesis
    by (intro rules_ok_qer_step [OF assms(1)]) auto
next
  case (Err e)
  with qer.new_Err [OF rules_okD(3) [OF assms(1)]] assms show ?thesis by auto
next
  case (Panic q)
  with qer.new_no_panic [OF rules_okD(3) [OF assms(1)]] assms(2) show ?thesis by auto
qed

lemma rules_ok_NewUrr:
  assumes "rules_ok E b tf tq tu" and "NewUrr E v b = (r, b')"
  shows "rules_ok E b' tf tq (case r of Val i \<Rightarrow> tu(p \<mapsto> (i, v)) | _ \<Rightarrow> tu)"
proof (cases r)
  case (Val i)
  with urr.owns_new [OF rules_okD(5,6) [OF assms(1)]] assms(2) urr_frame(1) [of E v b] show ?thesis
    by (intro rules_ok_urr_step [OF assms(1)]) auto
next
  case (Err e)
  with urr.new_Err [OF rules_okD(5) [OF assms(1)]] assms show ?thesis by auto
next
  case (Panic q)
  with urr.new_no_panic [OF rules_okD(5) [OF assms(1)]] assms(2) show ?thesis by auto
qed

lemma rules_ok_UpdateFar:
  assumes "rules_ok E b tf tq tu" and "tf p = Some (i, w)"
  shows "fst (UpdateFar E i v b) = Val ()" and "rules_ok E (snd (UpdateFar E i v b)) (tf(p \<mapsto> (i, v))) tq tu"
  using far.owns_update [OF rules_okD(1,2) [OF assms(1)] assms(2), of v] far_frame(2) [of E i v b]
  by (auto intro!: rules_ok_far_step [OF assms(1)])

lemma rules_ok_UpdateQer:
  assumes "rules_ok E b tf tq tu" and "tq p = Some (i, w)"
  shows "fst (UpdateQer E i v b) = Val ()" and "rules_ok E (snd (UpdateQer E i v b)) tf (tq(p \<mapsto> (i, v))) tu"
  using qer.owns_update [OF rules_okD(3,4) [OF assms(1)] assms(2), of v] qer_frame(2) [of E i v b]
  by (auto intro!: rules_ok_qer_step [OF assms(1)])

lemma rules_ok_UpdateUrr:
  assumes "rules_ok E b tf tq tu" and "tu p = Some (i, w)"
  shows "fst (UpdateUrr E i v b) = Val ()" and "rules_ok E (snd (UpdateUrr E i v b)) tf tq (tu(p \<mapsto> (i, v)))"
  using urr.owns_update [OF rules_okD(5,6) [OF assms(1)] assms(2), of v] urr_frame(2) [of E i v b]
  by (auto intro!: rules_ok_urr_step [OF assms(1)])

lemma rules_ok_DeleteFar:
  assumes "rules_ok E b tf tq tu" and "tf p = Some (i, w)"
  shows "fst (DeleteFar E i b) = Val ()" and "rules_ok E (snd (DeleteFar E i b)) (tf(p := None)) tq tu"
  using far.owns_delete [OF rules_okD(1,2) [OF assms(1)] assms(2)] far_frame(3) [of E i b]
  by (auto intro!: rules_ok_far_step [OF assms(1)])

lemma rules_ok_DeleteQer:
  assumes "rules_ok E b tf tq tu" and "tq p = Some (i, w)"
  shows "fst (DeleteQer E i b) = Val ()" and "rules_ok E (snd (DeleteQer E i b)) tf (tq(p := None)) tu"
  using qer.owns_delete [OF rules_okD(3,4) [OF assms(1)] assms(2)] qer_frame(3) [of E i b]
  by (auto intro!: rules_ok_qer_step [OF assms(1)])

lemma rules_ok_DeleteUrr:
  assumes "rules_ok E b tf tq tu" and "tu p = Some (i, w)"
  shows "\<exists>u. fst (DeleteUrr E i b) = Val u" and "rules_ok E (snd (DeleteUrr E i b)) tf tq (tu(p := None))"
  using urr.owns_delete [OF rules_okD(5,6) [OF assms(1)] assms(2)] urr_frame(3) [of E i b]
  by (auto intro!: rules_ok_urr_step [OF assms(1)])

section \<open>The loops of the handlers\<close>

text \<open>
  The invariant of a request: the tables belong to the sessions of the connection, given
  by the three maps, with the session of the request in place of what they say about it.
\<close>

definition request_ok ::
  "('ie, 'm, 'b, 'z) upf_env_scheme \<Rightarrow> (place \<rightharpoonup> u32 \<times> FarInfo) \<Rightarrow> (place \<rightharpoonup> u32 \<times> QerInfo) \<Rightarrow>
   (place \<rightharpoonup> u32 \<times> UrrInfo) \<Rightarrow> string \<Rightarrow> u64 \<Rightarrow> ('m, 'b) hstate \<Rightarrow> bool" where
  "request_ok E bf bq bu addr seid h \<longleftrightarrow>
     rules_ok E (rc_mapOperations h) (over bf addr seid (session_fars (pc_Session h)))
       (over bq addr seid (session_qers (pc_Session h))) (over bu addr seid (session_urrs (pc_Session h)))
   \<and> session_finite (pc_Session h)"

lemma over_upd: "over base addr seid (t(i \<mapsto> e)) = (over base addr seid t)((addr, seid, i) \<mapsto> e)"
  by (auto simp: over_def fun_eq_iff)

lemma over_del: "over base addr seid (t(i := None)) = (over base addr seid t)((addr, seid, i) := None)"
  by (auto simp: over_def fun_eq_iff)

lemma over_at: "over base addr seid t (addr, seid, i) = t i"
  by (simp add: over_def)

lemma session_finite_ops [simp]:
  "session_finite (Session_NewFar i g f s) = session_finite s"
  "session_finite (Session_NewQer i g q s) = session_finite s"
  "session_finite (Session_NewUrr i g u s) = session_finite s"
  "session_finite (Session_UpdateFar i f s) = session_finite s"
  "session_finite (Session_UpdateQer i q s) = session_finite s"
  "session_finite (Session_UpdateUrr i u s) = session_finite s"
  "session_finite (PutPDR p x s) = session_finite s"
  "session_finite (NewSession l r)"
  by (auto simp: session_finite_def Session_NewFar_def Session_NewQer_def Session_NewUrr_def
      Session_UpdateFar_def Session_UpdateQer_def Session_UpdateUrr_def PutPDR_def NewSession_def Let_def)

lemma create_far_ok:
  assumes "request_ok E bf bq bu addr seid h"
  shows "request_ok E bf bq bu addr seid (snd (create_far E x h))"
proof (cases "composeFarInfo E x zero_FarInfo")
  case (Val info)
  obtain r b' where n: "NewFar E info (rc_mapOperations h) = (r, b')" by fastforce
  from assms rules_ok_NewFar [OF _ n, where p = "(addr, seid, or_zero (ie_FARID E x))"] show ?thesis
    by (cases r) (auto simp: request_ok_def create_far_def lift_res_def on_tables_def on_session_def bind_op_def
        Val n session_far.entries_new over_upd)
qed (use assms in \<open>simp_all add: create_far_def lift_res_def bind_op_def\<close>)

lemma create_qer_ok:
  assumes "request_ok E bf bq bu addr seid h"
  shows "request_ok E bf bq bu addr seid (snd (create_qer E x h))"
proof (cases "ie_QERID E x")
  case None
  with assms show ?thesis by (simp add: create_qer_def lift_res_def or_err_def bind_op_def)
next
  case (Some i)
  obtain r b' where n: "NewQer E (updateQer E x zero_QerInfo) (rc_mapOperations h) = (r, b')" by fastforce
  from assms rules_ok_NewQer [OF _ n, where p = "(addr, seid, i)"] show ?thesis
    by (cases r) (auto simp: request_ok_def create_qer_def lift_res_def or_err_def on_tables_def on_session_def
        bind_op_def Let_def Some n session_qer.entries_new over_upd)
qed

lemma create_urr_ok:
  assumes "request_ok E bf bq bu addr seid h"
  shows "request_ok E bf bq bu addr seid (snd (create_urr E x h))"
proof (cases "ie_URRID E x")
  case None
  with assms show ?thesis by (simp add: create_urr_def lift_res_def or_err_def bind_op_def)
next
  case (Some i)
  obtain r b' where n: "NewUrr E (updateUrr E x zero_UrrInfo) (rc_mapOperations h) = (r, b')" by fastforce
  from assms rules_ok_NewUrr [OF _ n, where p = "(addr, seid, i)"] show ?thesis
    by (cases r) (auto simp: request_ok_def create_urr_def lift_res_def or_err_def on_tables_def on_session_def
        bind_op_def Let_def Some n session_urr.entries_new over_upd)
qed

text \<open>Reading and applying PDRs changes neither the tables of the other rules nor who holds them.\<close>

lemma getFTEID_tables: "rc_mapOperations (snd (getFTEID s p c)) = rc_mapOperations c"
  by (auto simp: getFTEID_def split: option.splits prod.splits)

lemma getIP_tables: "rc_mapOperations (snd (getIP c)) = rc_mapOperations c"
  by (auto simp: getIP_def split: option.splits prod.splits)

lemma extractPDR_tables: "rc_mapOperations (snd (extractPDR E ft pdr s c)) = rc_mapOperations c"
  using extractPDR_state [of E ft pdr s c]
  by (elim disjE exE) (simp_all add: getFTEID_tables getIP_tables setTEIDCache_def)

lemma request_ok_extract:
  "request_ok E bf bq bu addr seid (snd (extractPDR E ft pdr s h)) = request_ok E bf bq bu addr seid h"
  by (simp add: request_ok_def extractPDR_tables extractPDR_session)

lemma request_ok_apply:
  assumes "request_ok E bf bq bu addr seid h"
  shows "request_ok E bf bq bu addr seid (snd (on_tables (applyPDR E s) h))"
proof -
  obtain x y z where "snd (applyPDR E s (rc_mapOperations h)) =
      (rc_mapOperations h)\<lparr>PdrMapTeidIp4 := x, PdrMapDownlinkIp4 := y, PdrMapDownlinkIp6 := z\<rparr>"
    using pdr_frame(1) [of E s] by blast
  with assms show ?thesis by (auto simp: request_ok_def on_tables_def split: prod.splits)
qed

lemma request_ok_PutPDR:
  "request_ok E bf bq bu addr seid (h\<lparr>pc_Session := PutPDR i x (pc_Session h)\<rparr>) = request_ok E bf bq bu addr seid h"
  by (simp add: request_ok_def)

lemma request_ok_lists [simp]:
  "request_ok E bf bq bu addr seid (h\<lparr>h_createdPDRs := l\<rparr>) = request_ok E bf bq bu addr seid h"
  "request_ok E bf bq bu addr seid (h\<lparr>h_reports := r, h_clock := n\<rparr>) = request_ok E bf bq bu addr seid h"
  by (simp_all add: request_ok_def)

lemma bind_op_keeps:
  "I (snd (f s)) \<Longrightarrow> (\<And>a s'. f s = (Val a, s') \<Longrightarrow> I (snd (g a s'))) \<Longrightarrow> I (snd (bind_op f g s))"
  by (cases rule: bind_op_cases [of f s g]) auto

text \<open>What is kept by reading, storing and applying a PDR is kept by the whole loop body.\<close>

lemma create_pdr_keeps:
  assumes ext: "\<And>s h. I h \<Longrightarrow> I (snd (extractPDR E ft x s h))"
    and app: "\<And>s h. I h \<Longrightarrow> I (snd (on_tables (applyPDR E s) h))"
    and store: "\<And>i s h. I h \<Longrightarrow> I (h\<lparr>pc_Session := PutPDR i s (pc_Session h)\<rparr>)"
    and list: "\<And>l h. I h \<Longrightarrow> I (h\<lparr>h_createdPDRs := l\<rparr>)" and h: "I h"
  shows "I (snd (create_pdr E ft e x h))"
proof (cases "ie_PDRID E x")
  case None
  with h show ?thesis by (simp add: create_pdr_def lift_res_def or_err_def bind_op_def)
next
  case (Some i)
  have put: "I (snd (bind_op (on_session (PutPDR (sp_PdrID s) s)) (\<lambda>_. bind_op (on_tables (applyPDR E s)) (\<lambda>_ h.
       (Val (), h\<lparr>h_createdPDRs := h_createdPDRs h @ [s]\<rparr>))) h1))" if "I h1" for s h1
  proof -
    let ?h = "h1\<lparr>pc_Session := PutPDR (sp_PdrID s) s (pc_Session h1)\<rparr>"
    have a: "I (snd (on_tables (applyPDR E s) ?h))" by (rule app [OF store [OF that]])
    have "I (snd (bind_op (on_tables (applyPDR E s)) (\<lambda>_ h. (Val (), h\<lparr>h_createdPDRs := h_createdPDRs h @ [s]\<rparr>)) ?h))"
      by (rule bind_op_keeps [where I = I], rule a) (use a list in simp)
    then show ?thesis by (simp add: on_session_def)
  qed
  let ?s0 = "zero_SPDRInfo\<lparr>sp_PdrID := ucast i\<rparr>"
  have "I (snd (bind_op (extractPDR E ft x ?s0) (\<lambda>s.
       bind_op (on_session (PutPDR (sp_PdrID s) s)) (\<lambda>_. bind_op (on_tables (applyPDR E s)) (\<lambda>_ h.
       (Val (), h\<lparr>h_createdPDRs := h_createdPDRs h @ [s]\<rparr>)))) h))"
    by (rule bind_op_keeps [where I = I], rule ext [OF h], rule put) (metis ext [OF h] snd_conv)
  with Some show ?thesis by (simp add: create_pdr_def lift_res_def or_err_def)
qed

lemma create_pdr_ok:
  assumes "request_ok E bf bq bu addr seid h"
  shows "request_ok E bf bq bu addr seid (snd (create_pdr E ft e x h))"
  by (rule create_pdr_keeps [where I = "request_ok E bf bq bu addr seid"])
     (simp_all add: request_ok_extract request_ok_apply request_ok_PutPDR assms)

lemma establish_rules_keeps:
  assumes "\<And>x h. I h \<Longrightarrow> I (snd (create_far E x h))" "\<And>x h. I h \<Longrightarrow> I (snd (create_qer E x h))"
    "\<And>x h. I h \<Longrightarrow> I (snd (create_urr E x h))" "\<And>e x h. I h \<Longrightarrow> I (snd (create_pdr E ft e x h))" and "I h"
  shows "I (snd (establish_rules E ft req h))"
proof -
  have loop: "I (snd (for_range body xs s))" if "I s" "\<And>x s. I s \<Longrightarrow> I (snd (body x s))" for body xs s
    by (rule for_range_keeps [where I = I]) (use that in auto)
  show ?thesis
    unfolding establish_rules_def
    by (rule seq_ops_keeps [where I = I, OF _ assms(5)]) (auto intro: loop assms)
qed

lemma establish_rules_ok:
  assumes "request_ok E bf bq bu addr seid h"
  shows "request_ok E bf bq bu addr seid (snd (establish_rules E ft req h))"
  by (rule establish_rules_keeps [where I = "request_ok E bf bq bu addr seid"])
     (auto intro: create_far_ok create_qer_ok create_urr_ok create_pdr_ok assms)

section \<open>Establishment\<close>

lemma handler_ctx_sel [simp]:
  "pc_Session (handler_ctx s c) = s" "rc_mapOperations (handler_ctx s c) = mapOperations c"
  "pc_ResourceManager (handler_ctx s c) = conn_ResourceManager c" "pc_TEIDCache (handler_ctx s c) = Map.empty"
  "h_createdPDRs (handler_ctx s c) = []" "h_reports (handler_ctx s c) = []" "h_clock (handler_ctx s c) = clockReads c"
  by (simp_all add: handler_ctx_def session_ctx_def NewPDRCreationContext_def rule_ctx.defs hstate.defs
      PDRCreationContext.defs)

lemma leave_ctx_sel [simp]:
  "mapOperations (leave_ctx h c) = rc_mapOperations h" "NodeAssociations (leave_ctx h c) = NodeAssociations c"
  "conn_ResourceManager (leave_ctx h c) = pc_ResourceManager h"
  by (simp_all add: leave_ctx_def from_ctx_def)

lemma count_rx_sel [simp]:
  "mapOperations (count_rx E t k c) = mapOperations c" "NodeAssociations (count_rx E t k c) = NodeAssociations c"
  "conn_ResourceManager (count_rx E t k c) = conn_ResourceManager c"
  by (simp_all add: count_rx_def Let_def)

lemma put_session_sel [simp]: "mapOperations (put_session addr seid s c) = mapOperations c"
  by (simp add: put_session_def split: option.split)

lemma conn_rules_cong: "NodeAssociations c = NodeAssociations d \<Longrightarrow> conn_rules g c = conn_rules g d"
  by (simp add: conn_rules_def)

lemma conn_ok_cong:
  "mapOperations c = mapOperations d \<Longrightarrow> NodeAssociations c = NodeAssociations d \<Longrightarrow> conn_ok E c = conn_ok E d"
  by (simp add: conn_ok_def conn_rules_cong [of c d])

lemma conn_ok_count [simp]: "conn_ok E (count_rx E t k c) = conn_ok E c"
  by (rule conn_ok_cong) simp_all

lemma conn_rules_put:
  assumes "NodeAssociations c addr = Some a"
  shows "conn_rules g (put_session addr seid s c) = over (conn_rules g c) addr seid (g s)"
  using assms by (auto simp: put_session_def conn_rules_def over_def fun_eq_iff)

lemma over_none: "(\<And>i. base (addr, seid, i) = None) \<Longrightarrow> over base addr seid Map.empty = base"
  by (auto simp: over_def fun_eq_iff)

lemma over_supmap: "(\<And>i. base (addr, seid, i) = None) \<Longrightarrow> base \<subseteq>\<^sub>m over base addr seid t"
  by (auto simp: over_def map_le_def)

lemma rules_ok_submap:
  "rules_ok E b tf tq tu \<Longrightarrow> tf' \<subseteq>\<^sub>m tf \<Longrightarrow> tq' \<subseteq>\<^sub>m tq \<Longrightarrow> tu' \<subseteq>\<^sub>m tu \<Longrightarrow> rules_ok E b tf' tq' tu'"
  unfolding rules_ok_def by (elim conjE, intro conjI) (assumption | erule (1) owns_submap)+

lemma conn_okD:
  assumes "conn_ok E c"
  shows "rules_ok E (mapOperations c) (conn_rules session_fars c) (conn_rules session_qers c) (conn_rules session_urrs c)"
    and "NodeAssociations c addr = Some a \<Longrightarrow> Sessions a seid = Some s \<Longrightarrow> seid \<le> NextSessionID a"
    and "NodeAssociations c addr = Some a \<Longrightarrow> Sessions a seid = Some s \<Longrightarrow> session_finite s"
    and "NodeAssociations c addr = Some a \<Longrightarrow> finite (dom (Sessions a))"
  using assms unfolding conn_ok_def by blast+

lemma plus_one_greater:
  assumes "x \<noteq> - 1"
  shows "x < x + (1 :: u64)"
proof -
  have "unat (- 1 :: u64) = 2 ^ 64 - 1" by (simp add: unsigned_minus_1_eq_mask mask_eq_exp_minus_1)
  then have "unat x \<noteq> 2 ^ 64 - 1" using assms by (simp add: word_unat_eq_iff)
  moreover have "unat x < 2 ^ 64" using unsigned_less [of x] by simp
  ultimately have "unat (x + 1) = unat x + 1" by (simp add: unat_word_ariths)
  then show ?thesis by (simp add: word_less_nat_alt)
qed

text \<open>The connection after the SEID was taken, seen from the new session.\<close>

lemma fresh_session:
  assumes ok: "conn_ok E c" and a: "NodeAssociations c addr = Some a" and nw: "NextSessionID a \<noteq> - 1"
    and c1: "c1 = c\<lparr>NodeAssociations := (NodeAssociations c)(addr \<mapsto> a\<lparr>NextSessionID := NextSessionID a + 1\<rparr>)\<rparr>"
  shows "conn_ok E c1" and "Sessions a (NextSessionID a + 1) = None"
    and "conn_rules g c1 (addr, NextSessionID a + 1, i) = None"
    and "conn_rules g c1 = conn_rules g c"
proof -
  note gt = plus_one_greater [OF nw]
  show new: "Sessions a (NextSessionID a + 1) = None"
    using conn_okD(2) [OF ok a, of "NextSessionID a + 1"] gt by (cases "Sessions a (NextSessionID a + 1)") auto
  then show "conn_rules g c1 (addr, NextSessionID a + 1, i) = None" by (simp add: conn_rules_def c1)
  show eq: "conn_rules g c1 = conn_rules g c" for g :: "Session \<Rightarrow> u32 \<rightharpoonup> 'x"
    using a by (auto simp: conn_rules_def c1 fun_eq_iff)
  show "conn_ok E c1"
    unfolding conn_ok_def eq using ok gt a
    by (auto simp: c1 conn_ok_def split: if_splits dest: conn_okD(2) [OF ok a])
qed

lemma conn_ok_session:
  assumes "conn_ok E c" and "NodeAssociations c addr = Some a" and "seid \<le> NextSessionID a"
    and "request_ok E (conn_rules session_fars c) (conn_rules session_qers c) (conn_rules session_urrs c) addr seid h"
  shows "conn_ok E (put_session addr seid (pc_Session h) (leave_ctx h c))"
proof -
  let ?d = "leave_ctx h c"
  have a: "NodeAssociations ?d addr = Some a" using assms(2) by simp
  have base: "conn_rules g ?d = conn_rules g c" for g :: "Session \<Rightarrow> u32 \<rightharpoonup> 'x"
    by (rule conn_rules_cong) simp
  have "rules_ok E (mapOperations ?d) (conn_rules session_fars (put_session addr seid (pc_Session h) ?d))
     (conn_rules session_qers (put_session addr seid (pc_Session h) ?d))
     (conn_rules session_urrs (put_session addr seid (pc_Session h) ?d))"
    using assms(4) unfolding conn_rules_put [OF a] base request_ok_def by simp
  then show ?thesis
    using assms a unfolding conn_ok_def request_ok_def put_session_def
    by (auto split: if_splits)
qed

lemma conn_ok_dropped:
  assumes "conn_ok E c" and "\<And>i. conn_rules session_fars c (addr, seid, i) = None"
    "\<And>i. conn_rules session_qers c (addr, seid, i) = None" "\<And>i. conn_rules session_urrs c (addr, seid, i) = None"
    and "request_ok E (conn_rules session_fars c) (conn_rules session_qers c) (conn_rules session_urrs c) addr seid h"
  shows "conn_ok E (leave_ctx h c)"
proof -
  have base: "conn_rules g (leave_ctx h c) = conn_rules g c" for g :: "Session \<Rightarrow> u32 \<rightharpoonup> 'x"
    by (rule conn_rules_cong) simp
  have "rules_ok E (rc_mapOperations h) (conn_rules session_fars c) (conn_rules session_qers c) (conn_rules session_urrs c)"
    using assms(5) unfolding request_ok_def
    by (elim conjE) (erule rules_ok_submap; intro over_supmap assms)
  with assms(1) show ?thesis unfolding conn_ok_def base by simp
qed

lemma establish_ok:
  assumes ok: "conn_ok E c" and nw: "\<And>a. NodeAssociations c addr = Some a \<Longrightarrow> NextSessionID a \<noteq> - 1"
  shows "conn_ok E (snd (HandlePfcpSessionEstablishmentRequest E req addr c))"
proof (cases "validateRequest E (seq_NodeID req) (seq_CPFSEID req)")
  case (Val remote)
  show ?thesis
  proof (cases "NodeAssociations c addr")
    case None
    with Val ok show ?thesis by (simp add: HandlePfcpSessionEstablishmentRequest_def Let_def)
  next
    case (Some a)
    define c1 where c1: "c1 = c\<lparr>NodeAssociations := (NodeAssociations c)(addr \<mapsto> a\<lparr>NextSessionID := NextSessionID a + 1\<rparr>)\<rparr>"
    let ?n = "NextSessionID a + 1"
    note f = fresh_session [OF ok Some nw [OF Some] c1]
    have a1: "NodeAssociations c1 addr = Some (a\<lparr>NextSessionID := ?n\<rparr>)" by (simp add: c1)
    let ?R = "request_ok E (conn_rules session_fars c1) (conn_rules session_qers c1) (conn_rules session_urrs c1) addr ?n"
    obtain r h where h: "establish_rules E (FeatureUEIP (Conf c1)) req (handler_ctx (NewSession ?n remote) c1) = (r, h)"
      by fastforce
    have "?R (handler_ctx (NewSession ?n remote) c1)"
      using conn_okD(1) [OF f(1)] by (simp add: request_ok_def over_none f(3))
    from establish_rules_ok [OF this, of "FeatureUEIP (Conf c1)" req] have R: "?R h" by (simp add: h)
    have stored: "conn_ok E (put_session addr ?n (pc_Session h) (leave_ctx h c1))"
      by (rule conn_ok_session [OF f(1) a1 _ R]) simp
    have dropped: "conn_ok E (leave_ctx h c1)"
      by (rule conn_ok_dropped [OF f(1) _ _ _ R]) (simp_all add: f(3))
    show ?thesis
      using Val Some f(1) dropped stored h
      by (simp add: HandlePfcpSessionEstablishmentRequest_def NewLocalSEID_def Let_def c1 [symmetric]
          split: res.split)
  qed
qed (use ok in \<open>simp_all add: HandlePfcpSessionEstablishmentRequest_def Let_def\<close>)

end
