(* ===== verification/Session_Deletion.thy ===== *)
theory Session_Deletion
  imports Rule_Ownership
begin

text \<open>
  The deletion of a session: the loops over its PDRs, FARs, QERs and URRs return exactly
  the global identifiers of the session, and the invariant of the connection holds after
  every outcome of the handler.
\<close>

section \<open>Deletion\<close>

lemma for_range_map: "for_range body (map g xs) s = for_range (\<lambda>x. body (g x)) xs s"
  by (induction xs arbitrary: s) (auto simp: bind_op_def split: prod.split res.split)

lemma for_range_on_tables: "for_range (\<lambda>x. on_tables (f x)) xs h = on_tables (for_range f xs) h"
proof (induction xs arbitrary: h)
  case Nil
  then show ?case by (simp add: on_tables_def)
next
  case (Cons x xs)
  then show ?case by (auto simp: on_tables_def bind_op_def split: prod.splits res.splits)
qed

lemma delete_fars:
  assumes "rules_ok E b tf tq tu" and "\<And>p i. (p, i) \<in> set xs \<Longrightarrow> \<exists>v. tf p = Some (i, v)"
    and "distinct (map fst xs)"
  shows "\<exists>b'. for_range (\<lambda>(p, i). DeleteFar E i) xs b = (Val (), b') \<and> rules_ok E b' (tf |` (- fst ` set xs)) tq tu \<and>
     far_free E b' = far_free E b \<union> snd ` set xs \<and> qer_free E b' = qer_free E b \<and> urr_free E b' = urr_free E b"
proof -
  let ?body = "\<lambda>(p, i). DeleteFar E i"
  let ?I = "\<lambda>b'. \<exists>m t. b' = b\<lparr>FarMap := m, farIdTracker := t\<rparr>"
  have "?body (p, i) s = (case DeleteFar E i s of (Val _, s') \<Rightarrow> (Val (), s') | (Err e, s') \<Rightarrow> (Err e, s')
      | (Panic q, s') \<Rightarrow> (Panic q, s'))" for p :: place and i s
    by (simp split: prod.split res.split)
  from far.owns_delete_all [OF rules_okD(1,2) [OF assms(1)] assms(2,3) this] obtain b' where b':
    "for_range ?body xs b = (Val (), b')" "far_ok E b'" "far_free E b' = far_free E b \<union> snd ` set xs"
    "owns (far_free E b') (far_lookup E b') (maxSize (farIdTracker b')) (tf |` (- fst ` set xs))" by blast
  have I: "?I b" by (intro exI [of _ "FarMap b"] exI [of _ "farIdTracker b"]) simp
  have "?I (snd (for_range ?body xs b))"
  proof (rule for_range_keeps [where I = ?I, OF _ I])
    fix x s assume "?I s"
    then obtain m t where "s = b\<lparr>FarMap := m, farIdTracker := t\<rparr>" by blast
    with far_frame(3) [of E "snd x" s] show "?I (snd (?body x s))" by (auto simp: case_prod_beta)
  qed
  then have f: "?I b'" using b'(1) by simp
  with rules_ok_far_step [OF assms(1) f b'(2,4)] b'(1,3) show ?thesis by auto
qed

lemma delete_qers:
  assumes "rules_ok E b tf tq tu" and "\<And>p i. (p, i) \<in> set xs \<Longrightarrow> \<exists>v. tq p = Some (i, v)"
    and "distinct (map fst xs)"
  shows "\<exists>b'. for_range (\<lambda>(p, i). DeleteQer E i) xs b = (Val (), b') \<and> rules_ok E b' tf (tq |` (- fst ` set xs)) tu \<and>
     far_free E b' = far_free E b \<and> qer_free E b' = qer_free E b \<union> snd ` set xs \<and> urr_free E b' = urr_free E b"
proof -
  let ?body = "\<lambda>(p, i). DeleteQer E i"
  let ?I = "\<lambda>b'. \<exists>m t. b' = b\<lparr>QerMap := m, qerIdTracker := t\<rparr>"
  have "?body (p, i) s = (case DeleteQer E i s of (Val _, s') \<Rightarrow> (Val (), s') | (Err e, s') \<Rightarrow> (Err e, s')
      | (Panic q, s') \<Rightarrow> (Panic q, s'))" for p :: place and i s
    by (simp split: prod.split res.split)
  from qer.owns_delete_all [OF rules_okD(3,4) [OF assms(1)] assms(2,3) this] obtain b' where b':
    "for_range ?body xs b = (Val (), b')" "qer_ok E b'" "qer_free E b' = qer_free E b \<union> snd ` set xs"
    "owns (qer_free E b') (qer_lookup E b') (maxSize (qerIdTracker b')) (tq |` (- fst ` set xs))" by blast
  have I: "?I b" by (intro exI [of _ "QerMap b"] exI [of _ "qerIdTracker b"]) simp
  have "?I (snd (for_range ?body xs b))"
  proof (rule for_range_keeps [where I = ?I, OF _ I])
    fix x s assume "?I s"
    then obtain m t where "s = b\<lparr>QerMap := m, qerIdTracker := t\<rparr>" by blast
    with qer_frame(3) [of E "snd x" s] show "?I (snd (?body x s))" by (auto simp: case_prod_beta)
  qed
  then have f: "?I b'" using b'(1) by simp
  with rules_ok_qer_step [OF assms(1) f b'(2,4)] b'(1,3) show ?thesis by auto
qed

text \<open>Deleting URRs, with the deleted counters left out.\<close>

definition drop_urr :: "('ie, 'm, 'b, 'z) upf_env_scheme \<Rightarrow> u32 \<Rightarrow> (('m, 'b) BpfObjects, unit) op" where
  "drop_urr E i s = (case DeleteUrr E i s of (Val _, s') \<Rightarrow> (Val (), s') | (Err e, s') \<Rightarrow> (Err e, s')
      | (Panic q, s') \<Rightarrow> (Panic q, s'))"

lemma delete_urrs:
  assumes "rules_ok E b tf tq tu" and "\<And>p i. (p, i) \<in> set xs \<Longrightarrow> \<exists>v. tu p = Some (i, v)"
    and "distinct (map fst xs)"
  shows "\<exists>b'. for_range (\<lambda>(p, i). drop_urr E i) xs b = (Val (), b') \<and> rules_ok E b' tf tq (tu |` (- fst ` set xs)) \<and>
     far_free E b' = far_free E b \<and> qer_free E b' = qer_free E b \<and> urr_free E b' = urr_free E b \<union> snd ` set xs"
proof -
  let ?body = "\<lambda>(p, i). drop_urr E i"
  let ?I = "\<lambda>b'. \<exists>m t. b' = b\<lparr>UrrMap := m, urrIdTracker := t\<rparr>"
  have "?body (p, i) s = (case DeleteUrr E i s of (Val _, s') \<Rightarrow> (Val (), s') | (Err e, s') \<Rightarrow> (Err e, s')
      | (Panic q, s') \<Rightarrow> (Panic q, s'))" for p :: place and i s
    by (simp add: drop_urr_def)
  from urr.owns_delete_all [OF rules_okD(5,6) [OF assms(1)] assms(2,3) this] obtain b' where b':
    "for_range ?body xs b = (Val (), b')" "urr_ok E b'" "urr_free E b' = urr_free E b \<union> snd ` set xs"
    "owns (urr_free E b') (urr_lookup E b') (maxSize (urrIdTracker b')) (tu |` (- fst ` set xs))" by blast
  have I: "?I b" by (intro exI [of _ "UrrMap b"] exI [of _ "urrIdTracker b"]) simp
  have "?I (snd (for_range ?body xs b))"
  proof (rule for_range_keeps [where I = ?I, OF _ I])
    fix x s assume "?I s"
    then obtain m t where "s = b\<lparr>UrrMap := m, urrIdTracker := t\<rparr>" by blast
    moreover have "snd (drop_urr E (snd x) s) = snd (DeleteUrr E (snd x) s)"
      by (simp add: drop_urr_def split: prod.split res.split)
    ultimately show "?I (snd (?body x s))"
      using urr_frame(3) [of E "snd x" s] by (auto simp: case_prod_beta)
  qed
  then have f: "?I b'" using b'(1) by simp
  with rules_ok_urr_step [OF assms(1) f b'(2,4)] b'(1,3) show ?thesis by auto
qed

lemma drop_urr_Val: "drop_urr E i s = (Val (), s') \<longleftrightarrow> (\<exists>v. DeleteUrr E i s = (Val v, s'))"
  by (auto simp: drop_urr_def split: prod.splits res.splits)

lemma delete_urr_loop:
  assumes "for_range (\<lambda>(_, u). drop_urr E (surr_GlobalId u)) xs (rc_mapOperations h) = (Val (), b')"
  shows "\<exists>h'. for_range (delete_urr E) xs h = (Val (), h') \<and> rc_mapOperations h' = b' \<and>
     pc_Session h' = pc_Session h \<and> pc_ResourceManager h' = pc_ResourceManager h"
  using assms
proof (induction xs arbitrary: h)
  case Nil
  then show ?case by simp
next
  case (Cons x xs)
  obtain i u where x: "x = (i, u)" by fastforce
  from Cons.prems obtain v b1 where d: "DeleteUrr E (surr_GlobalId u) (rc_mapOperations h) = (Val v, b1)"
    and rest: "for_range (\<lambda>(_, u). drop_urr E (surr_GlobalId u)) xs b1 = (Val (), b')"
    by (auto simp: x bind_op_eq_Val drop_urr_Val)
  obtain h1 where h1: "delete_urr E x h = (Val (), h1)" "rc_mapOperations h1 = b1" "pc_Session h1 = pc_Session h"
    "pc_ResourceManager h1 = pc_ResourceManager h"
    by (simp add: x delete_urr_def on_tables_def d)
  from Cons.IH [of h1] rest h1 show ?case by (auto simp: bind_op_def)
qed

lemma deletePDR_tables:
  "pc_Session (snd (deletePDR E p h)) = pc_Session h"
  "rules_ok E (rc_mapOperations (snd (deletePDR E p h))) tf tq tu = rules_ok E (rc_mapOperations h) tf tq tu"
  "far_free E (rc_mapOperations (snd (deletePDR E p h))) = far_free E (rc_mapOperations h)"
  "qer_free E (rc_mapOperations (snd (deletePDR E p h))) = qer_free E (rc_mapOperations h)"
  "urr_free E (rc_mapOperations (snd (deletePDR E p h))) = urr_free E (rc_mapOperations h)"
proof -
  let ?P = "\<lambda>h'. pc_Session h' = pc_Session h \<and> (\<exists>x y z. rc_mapOperations h' =
     (rc_mapOperations h)\<lparr>PdrMapTeidIp4 := x, PdrMapDownlinkIp4 := y, PdrMapDownlinkIp6 := z\<rparr>)"
  have same: "\<exists>x y z. rc_mapOperations h = (rc_mapOperations h)\<lparr>PdrMapTeidIp4 := x, PdrMapDownlinkIp4 := y, PdrMapDownlinkIp6 := z\<rparr>"
    by (intro exI [of _ "PdrMapTeidIp4 (rc_mapOperations h)"] exI [of _ "PdrMapDownlinkIp4 (rc_mapOperations h)"]
        exI [of _ "PdrMapDownlinkIp6 (rc_mapOperations h)"]) simp
  have e: "?P (snd (deletePDR_entry E p h))"
    unfolding deletePDR_entry_def bind_op_def wrap_on_tables
    by (simp add: same pdr_frame [of E] split: res.split)
  have "?P (snd (deletePDR E p h))"
    unfolding deletePDR_def
    by (rule bind_op_keeps [where I = ?P], rule e)
       (use e in \<open>auto simp: deletePDR_release_def split: option.split\<close>)
  then show "pc_Session (snd (deletePDR E p h)) = pc_Session h"
    "rules_ok E (rc_mapOperations (snd (deletePDR E p h))) tf tq tu = rules_ok E (rc_mapOperations h) tf tq tu"
    "far_free E (rc_mapOperations (snd (deletePDR E p h))) = far_free E (rc_mapOperations h)"
    "qer_free E (rc_mapOperations (snd (deletePDR E p h))) = qer_free E (rc_mapOperations h)"
    "urr_free E (rc_mapOperations (snd (deletePDR E p h))) = urr_free E (rc_mapOperations h)"
    by auto
qed

text \<open>The identifiers that a session holds, as the loops visit them.\<close>

lemma held_rules:
  fixes gid :: "'x \<Rightarrow> u32"
  assumes e: "enumerates xs m" and t: "\<And>i x. m i = Some x \<Longrightarrow> \<exists>v. tab (addr, seid, i) = Some (gid x, v)"
    and n: "\<And>i. m i = None \<Longrightarrow> tab (addr, seid, i) = None"
    and ys: "ys = map (\<lambda>(i, x). ((addr, seid, i), gid x)) xs"
  shows "(p, g) \<in> set ys \<Longrightarrow> \<exists>v. tab p = Some (g, v)" and "distinct (map fst ys)"
    and "tab |` (- fst ` set ys) = over tab addr seid Map.empty" and "snd ` set ys = gid ` ran m"
proof -
  show "(p, g) \<in> set ys \<Longrightarrow> \<exists>v. tab p = Some (g, v)"
    using t by (auto simp: ys enumerates_mem [OF e])
  have "map fst ys = map (\<lambda>i. (addr, seid, i)) (map fst xs)" by (simp add: ys case_prod_beta)
  then show "distinct (map fst ys)" using e by (simp add: enumerates_def distinct_map inj_on_def)
  have "fst ` set ys = (\<lambda>i. (addr, seid, i)) ` dom m"
    unfolding enumerates_keys [OF e, symmetric] by (simp add: ys image_image case_prod_beta)
  then have mem: "(a, q, i) \<in> fst ` set ys \<longleftrightarrow> a = addr \<and> q = seid \<and> m i \<noteq> None" for a q i
    by (auto simp: dom_def)
  show "tab |` (- fst ` set ys) = over tab addr seid Map.empty"
  proof
    fix p :: place
    obtain a q i where p: "p = (a, q, i)" by (cases p)
    from n [of i] show "(tab |` (- fst ` set ys)) p = over tab addr seid Map.empty p"
      unfolding p restrict_map_def over_def Compl_iff mem by auto
  qed
  show "snd ` set ys = gid ` ran m"
    unfolding enumerates_values [OF e, symmetric] by (simp add: ys image_image case_prod_beta)
qed

lemma ranges_okD:
  assumes "ranges_ok E"
  shows "finite (dom mp) \<Longrightarrow> enumerates (rangePDRs E mp) mp" "finite (dom mf) \<Longrightarrow> enumerates (rangeFARs E mf) mf"
    "finite (dom mq) \<Longrightarrow> enumerates (rangeQERs E mq) mq" "finite (dom mu) \<Longrightarrow> enumerates (rangeURRs E mu) mu"
    "finite (dom ms) \<Longrightarrow> enumerates (rangeSessions E ms) ms"
  using assms unfolding ranges_ok_def by blast+

text \<open>What it takes to take the rules of a session out of the tables.\<close>

lemma delete_fars_of:
  assumes E: "ranges_ok E" and fin: "session_finite s" and ok: "rules_ok E b tf tq tu"
    and held: "\<And>i. tf (addr, seid, i) = session_fars s i"
  shows "\<exists>b1. for_range (\<lambda>(_, far). DeleteFar E (sfar_GlobalId far)) (rangeFARs E (FARs s)) b = (Val (), b1) \<and>
      rules_ok E b1 (over tf addr seid Map.empty) tq tu \<and> far_free E b1 = far_free E b \<union> sfar_GlobalId ` ran (FARs s) \<and>
      qer_free E b1 = qer_free E b \<and> urr_free E b1 = urr_free E b"
proof -
  define ys where ys: "ys = map (\<lambda>(i, x). ((addr, seid, i), sfar_GlobalId x)) (rangeFARs E (FARs s))"
  have "finite (dom (FARs s))" using fin by (simp add: session_finite_def)
  note h = held_rules [OF ranges_okD(2) [OF E this] _ _ ys, where tab = tf]
  have "for_range (\<lambda>(_, far). DeleteFar E (sfar_GlobalId far)) (rangeFARs E (FARs s)) b = for_range (\<lambda>(p, i). DeleteFar E i) ys b"
    unfolding ys for_range_map by (simp add: case_prod_unfold)
  with delete_fars [OF ok h(1,2)] h(3,4) show ?thesis
    by (simp add: held session_fars_def far_entry_def)
qed

lemma delete_qers_of:
  assumes E: "ranges_ok E" and fin: "session_finite s" and ok: "rules_ok E b tf tq tu"
    and held: "\<And>i. tq (addr, seid, i) = session_qers s i"
  shows "\<exists>b1. for_range (\<lambda>(_, qer). DeleteQer E (sqer_GlobalId qer)) (rangeQERs E (QERs s)) b = (Val (), b1) \<and>
      rules_ok E b1 tf (over tq addr seid Map.empty) tu \<and> far_free E b1 = far_free E b \<and>
      qer_free E b1 = qer_free E b \<union> sqer_GlobalId ` ran (QERs s) \<and> urr_free E b1 = urr_free E b"
proof -
  define ys where ys: "ys = map (\<lambda>(i, x). ((addr, seid, i), sqer_GlobalId x)) (rangeQERs E (QERs s))"
  have "finite (dom (QERs s))" using fin by (simp add: session_finite_def)
  note h = held_rules [OF ranges_okD(3) [OF E this] _ _ ys, where tab = tq]
  have "for_range (\<lambda>(_, qer). DeleteQer E (sqer_GlobalId qer)) (rangeQERs E (QERs s)) b = for_range (\<lambda>(p, i). DeleteQer E i) ys b"
    unfolding ys for_range_map by (simp add: case_prod_unfold)
  with delete_qers [OF ok h(1,2)] h(3,4) show ?thesis
    by (simp add: held session_qers_def qer_entry_def)
qed

lemma delete_urrs_of:
  assumes E: "ranges_ok E" and fin: "session_finite s" and ok: "rules_ok E b tf tq tu"
    and held: "\<And>i. tu (addr, seid, i) = session_urrs s i"
  shows "\<exists>b1. for_range (\<lambda>(_, u). drop_urr E (surr_GlobalId u)) (rangeURRs E (URRs s)) b = (Val (), b1) \<and>
      rules_ok E b1 tf tq (over tu addr seid Map.empty) \<and> far_free E b1 = far_free E b \<and>
      qer_free E b1 = qer_free E b \<and> urr_free E b1 = urr_free E b \<union> surr_GlobalId ` ran (URRs s)"
proof -
  define ys where ys: "ys = map (\<lambda>(i, x). ((addr, seid, i), surr_GlobalId x)) (rangeURRs E (URRs s))"
  have "finite (dom (URRs s))" using fin by (simp add: session_finite_def)
  note h = held_rules [OF ranges_okD(4) [OF E this] _ _ ys, where tab = tu]
  have "for_range (\<lambda>(_, u). drop_urr E (surr_GlobalId u)) (rangeURRs E (URRs s)) b = for_range (\<lambda>(p, i). drop_urr E i) ys b"
    unfolding ys for_range_map by (simp add: case_prod_unfold)
  with delete_urrs [OF ok h(1,2)] h(3,4) show ?thesis
    by (simp add: held session_urrs_def urr_entry_def)
qed

lemma over_over [simp]: "over (over t addr seid x) addr seid y = over t addr seid y"
  by (auto simp: over_def fun_eq_iff)

lemma pdr_loop:
  assumes "for_range (\<lambda>(_, pdr). deletePDR E pdr) ps h = (r, h')"
  shows "rules_ok E (rc_mapOperations h') tf tq tu = rules_ok E (rc_mapOperations h) tf tq tu"
    and "far_free E (rc_mapOperations h') = far_free E (rc_mapOperations h)"
    "qer_free E (rc_mapOperations h') = qer_free E (rc_mapOperations h)"
    "urr_free E (rc_mapOperations h') = urr_free E (rc_mapOperations h)" "pc_Session h' = pc_Session h"
proof -
  let ?I = "\<lambda>k. (rules_ok E (rc_mapOperations k) tf tq tu = rules_ok E (rc_mapOperations h) tf tq tu) \<and>
     far_free E (rc_mapOperations k) = far_free E (rc_mapOperations h) \<and>
     qer_free E (rc_mapOperations k) = qer_free E (rc_mapOperations h) \<and>
     urr_free E (rc_mapOperations k) = urr_free E (rc_mapOperations h) \<and> pc_Session k = pc_Session h"
  have "?I (snd (for_range (\<lambda>(_, pdr). deletePDR E pdr) ps h))"
    by (rule for_range_keeps [where I = ?I]) (simp_all add: case_prod_beta deletePDR_tables)
  then show "rules_ok E (rc_mapOperations h') tf tq tu = rules_ok E (rc_mapOperations h) tf tq tu"
    and "far_free E (rc_mapOperations h') = far_free E (rc_mapOperations h)"
    "qer_free E (rc_mapOperations h') = qer_free E (rc_mapOperations h)"
    "urr_free E (rc_mapOperations h') = urr_free E (rc_mapOperations h)" "pc_Session h' = pc_Session h"
    using assms by simp_all
qed

lemma delete_rules_effect:
  assumes E: "ranges_ok E" and fin: "session_finite s" and ok: "rules_ok E (rc_mapOperations h) tf tq tu"
    and held: "\<And>i. tf (addr, seid, i) = session_fars s i" "\<And>i. tq (addr, seid, i) = session_qers s i"
      "\<And>i. tu (addr, seid, i) = session_urrs s i"
    and d: "delete_rules E s h = (r, h')"
  shows "case r of
      Val _ \<Rightarrow> rules_ok E (rc_mapOperations h') (over tf addr seid Map.empty) (over tq addr seid Map.empty)
           (over tu addr seid Map.empty) \<and>
         far_free E (rc_mapOperations h') = far_free E (rc_mapOperations h) \<union> sfar_GlobalId ` ran (FARs s) \<and>
         qer_free E (rc_mapOperations h') = qer_free E (rc_mapOperations h) \<union> sqer_GlobalId ` ran (QERs s) \<and>
         urr_free E (rc_mapOperations h') = urr_free E (rc_mapOperations h) \<union> surr_GlobalId ` ran (URRs s)
    | _ \<Rightarrow> rules_ok E (rc_mapOperations h') tf tq tu"
proof -
  obtain r1 h1 where p: "for_range (\<lambda>(_, pdr). deletePDR E pdr) (rangePDRs E (PDRs s)) h = (r1, h1)" by fastforce
  note l = pdr_loop [OF p]
  show ?thesis
  proof (cases "is_val r1")
    case False
    with p d have "\<not> is_val r" "h' = h1" by (cases r1; simp add: delete_rules_def bind_op_def; fastforce)+
    with l(1) ok show ?thesis by (cases r) simp_all
  next
    case True
    then have r1: "r1 = Val ()" by (cases r1) auto
    have ok1: "rules_ok E (rc_mapOperations h1) tf tq tu" using l(1) ok by simp
    obtain b2 where b2: "for_range (\<lambda>(_, far). DeleteFar E (sfar_GlobalId far)) (rangeFARs E (FARs s)) (rc_mapOperations h1) = (Val (), b2)"
      "rules_ok E b2 (over tf addr seid Map.empty) tq tu"
      "far_free E b2 = far_free E (rc_mapOperations h1) \<union> sfar_GlobalId ` ran (FARs s)"
      "qer_free E b2 = qer_free E (rc_mapOperations h1)" "urr_free E b2 = urr_free E (rc_mapOperations h1)"
      using delete_fars_of [OF E fin ok1 held(1)] by blast
    obtain b3 where b3: "for_range (\<lambda>(_, qer). DeleteQer E (sqer_GlobalId qer)) (rangeQERs E (QERs s)) b2 = (Val (), b3)"
      "rules_ok E b3 (over tf addr seid Map.empty) (over tq addr seid Map.empty) tu"
      "far_free E b3 = far_free E b2" "qer_free E b3 = qer_free E b2 \<union> sqer_GlobalId ` ran (QERs s)"
      "urr_free E b3 = urr_free E b2"
      using delete_qers_of [OF E fin b2(2) held(2)] by blast
    obtain b4 where b4: "for_range (\<lambda>(_, u). drop_urr E (surr_GlobalId u)) (rangeURRs E (URRs s)) b3 = (Val (), b4)"
      "rules_ok E b4 (over tf addr seid Map.empty) (over tq addr seid Map.empty) (over tu addr seid Map.empty)"
      "far_free E b4 = far_free E b3" "qer_free E b4 = qer_free E b3"
      "urr_free E b4 = urr_free E b3 \<union> surr_GlobalId ` ran (URRs s)"
      using delete_urrs_of [OF E fin b3(2) held(3)] by blast
    have f: "for_range (\<lambda>(_, far). on_tables (DeleteFar E (sfar_GlobalId far))) (rangeFARs E (FARs s)) h1 =
        (Val (), h1\<lparr>rc_mapOperations := b2\<rparr>)"
      using for_range_on_tables [of "\<lambda>x. DeleteFar E (sfar_GlobalId (snd x))" "rangeFARs E (FARs s)" h1] b2(1)
      by (simp add: case_prod_unfold on_tables_def)
    have q: "for_range (\<lambda>(_, qer). on_tables (DeleteQer E (sqer_GlobalId qer))) (rangeQERs E (QERs s)) (h1\<lparr>rc_mapOperations := b2\<rparr>) =
        (Val (), h1\<lparr>rc_mapOperations := b3\<rparr>)"
      using for_range_on_tables [of "\<lambda>x. DeleteQer E (sqer_GlobalId (snd x))" "rangeQERs E (QERs s)" "h1\<lparr>rc_mapOperations := b2\<rparr>"] b3(1)
      by (simp add: case_prod_unfold on_tables_def)
    obtain h4 where u: "for_range (delete_urr E) (rangeURRs E (URRs s)) (h1\<lparr>rc_mapOperations := b3\<rparr>) = (Val (), h4)"
      "rc_mapOperations h4 = b4"
      using delete_urr_loop [of E "rangeURRs E (URRs s)" "h1\<lparr>rc_mapOperations := b3\<rparr>" b4] b4(1) by auto
    have "delete_rules E s h = (Val (), h4)"
      using p r1 f q u(1) by (simp add: delete_rules_def bind_op_def)
    with d have "r = Val ()" "h' = h4" by auto
    with u(2) b2 b3 b4 l show ?thesis by simp
  qed
qed

lemma ReleaseResources_sel [simp]:
  "mapOperations (ReleaseResources E n c) = mapOperations c"
  "NodeAssociations (ReleaseResources E n c) = NodeAssociations c"
  by (simp_all add: ReleaseResources_def Let_def split: option.split)

lemma conn_rules_at:
  "NodeAssociations c addr = Some a \<Longrightarrow> Sessions a seid = Some s \<Longrightarrow> conn_rules g c (addr, seid, i) = g s i"
  by (simp add: conn_rules_def)

lemma conn_rules_drop:
  assumes "NodeAssociations c addr = Some a"
  shows "conn_rules g (c\<lparr>NodeAssociations := (NodeAssociations c)(addr \<mapsto> a\<lparr>Sessions := (Sessions a)(seid := None)\<rparr>)\<rparr>) =
         over (conn_rules g c) addr seid Map.empty"
  using assms by (auto simp: conn_rules_def over_def fun_eq_iff)

lemma conn_ok_tables:
  assumes "conn_ok E c" and "NodeAssociations d = NodeAssociations c"
    and "rules_ok E (mapOperations d) (conn_rules session_fars c) (conn_rules session_qers c) (conn_rules session_urrs c)"
  shows "conn_ok E d"
  using assms unfolding conn_ok_def by (simp add: conn_rules_cong [OF assms(2)])

lemma conn_ok_drop:
  assumes ok: "conn_ok E c" and a: "NodeAssociations c addr = Some a"
    and d: "NodeAssociations d = (NodeAssociations c)(addr \<mapsto> a\<lparr>Sessions := (Sessions a)(seid := None)\<rparr>)"
    and r: "rules_ok E (mapOperations d) (over (conn_rules session_fars c) addr seid Map.empty)
       (over (conn_rules session_qers c) addr seid Map.empty) (over (conn_rules session_urrs c) addr seid Map.empty)"
  shows "conn_ok E d"
proof -
  have e: "conn_rules g d = over (conn_rules g c) addr seid Map.empty" for g :: "Session \<Rightarrow> u32 \<rightharpoonup> 'x"
    using conn_rules_drop [OF a, of g seid] conn_rules_cong [of d "c\<lparr>NodeAssociations := (NodeAssociations c)(addr \<mapsto> a\<lparr>Sessions := (Sessions a)(seid := None)\<rparr>)\<rparr>" g]
    by (simp add: d)
  have "finite (dom (Sessions a))" using conn_okD(4) [OF ok a] .
  then have "finite (dom ((Sessions a)(seid := None)))" by simp
  with ok r a show ?thesis
    unfolding conn_ok_def e by (auto simp: d split: if_splits)
qed

text \<open>The deletion of a known session, in one piece.\<close>

lemma deletion_effect:
  assumes E: "ranges_ok E" and ok: "conn_ok E c" and a: "NodeAssociations c addr = Some a"
    and s: "Sessions a (sdq_SEID req) = Some s"
    and h: "HandlePfcpSessionDeletionRequest E req addr c = (r, c')"
  shows "conn_ok E c'"
    and "r = Val (m, None) \<Longrightarrow>
      NodeAssociations c' = (NodeAssociations c)(addr \<mapsto> a\<lparr>Sessions := (Sessions a)(sdq_SEID req := None)\<rparr>) \<and>
      far_free E (mapOperations c') = far_free E (mapOperations c) \<union> sfar_GlobalId ` ran (FARs s) \<and>
      qer_free E (mapOperations c') = qer_free E (mapOperations c) \<union> sqer_GlobalId ` ran (QERs s) \<and>
      urr_free E (mapOperations c') = urr_free E (mapOperations c) \<union> surr_GlobalId ` ran (URRs s)"
proof -
  obtain q k where k: "delete_rules E s (handler_ctx s c) = (q, k)" by fastforce
  have ok0: "rules_ok E (rc_mapOperations (handler_ctx s c)) (conn_rules session_fars c) (conn_rules session_qers c) (conn_rules session_urrs c)"
    using conn_okD(1) [OF ok] by simp
  note at = conn_rules_at [OF a s] and fin = conn_okD(3) [OF ok a s]
  note e = delete_rules_effect [OF E fin ok0 at at at k]
  show "conn_ok E c'"
  proof (cases q)
    case (Val x)
    with h k a s have "c' = count_rx E MsgTypeSessionDeletionRequest CauseRequestAccepted (ReleaseResources E (sdq_SEID req)
        ((leave_ctx k c)\<lparr>NodeAssociations := (NodeAssociations c)(addr \<mapsto> a\<lparr>Sessions := (Sessions a)(sdq_SEID req := None)\<rparr>)\<rparr>))"
      by (auto simp: HandlePfcpSessionDeletionRequest_def Let_def)
    with e Val show ?thesis by (intro conn_ok_drop [OF ok a]) auto
  qed (use h k a s e ok in \<open>auto simp: HandlePfcpSessionDeletionRequest_def Let_def intro: conn_ok_tables [OF ok]\<close>)
  show "NodeAssociations c' = (NodeAssociations c)(addr \<mapsto> a\<lparr>Sessions := (Sessions a)(sdq_SEID req := None)\<rparr>) \<and>
      far_free E (mapOperations c') = far_free E (mapOperations c) \<union> sfar_GlobalId ` ran (FARs s) \<and>
      qer_free E (mapOperations c') = qer_free E (mapOperations c) \<union> sqer_GlobalId ` ran (QERs s) \<and>
      urr_free E (mapOperations c') = urr_free E (mapOperations c) \<union> surr_GlobalId ` ran (URRs s)"
    if "r = Val (m, None)"
    using h k a s e that
    by (cases q) (auto simp: HandlePfcpSessionDeletionRequest_def Let_def)
qed

lemma deletion_ok:
  assumes "ranges_ok E" and "conn_ok E c"
  shows "conn_ok E (snd (HandlePfcpSessionDeletionRequest E req addr c))"
proof (cases "NodeAssociations c addr")
  case None
  with assms(2) show ?thesis by (simp add: HandlePfcpSessionDeletionRequest_def Let_def)
next
  case (Some a)
  then show ?thesis
  proof (cases "Sessions a (sdq_SEID req)")
    case None
    with Some assms(2) show ?thesis by (simp add: HandlePfcpSessionDeletionRequest_def Let_def)
  next
    case (Some s)
    from deletion_effect(1) [OF assms \<open>NodeAssociations c addr = Some a\<close> Some] show ?thesis
      by (metis prod.collapse)
  qed
qed

end
