(* ===== verification/Session_Modification.thy ===== *)
theory Session_Modification
  imports Session_Deletion
begin

text \<open>
  The modification of a session. A request that updates and removes only rules that the
  session has keeps the invariant of the connection on every outcome.
\<close>

section \<open>Modification\<close>

text \<open>
  A block keeps its promise: from a state with \<open>P\<close> it ends with \<open>Q\<close>, or early with \<open>R\<close>.
\<close>

definition ok_step :: "('s \<Rightarrow> bool) \<Rightarrow> ('s, unit) op \<Rightarrow> ('s \<Rightarrow> bool) \<Rightarrow> ('s \<Rightarrow> bool) \<Rightarrow> bool" where
  "ok_step P f Q R \<longleftrightarrow> (\<forall>s. P s \<longrightarrow> (if is_val (fst (f s)) then Q (snd (f s)) else R (snd (f s))))"

lemma ok_step_nil: "ok_step Q (seq_ops []) Q R"
  by (simp add: ok_step_def)

lemma ok_step_bind:
  assumes "ok_step P f Q R" and "\<And>a. ok_step Q (g a) Q' R"
  shows "ok_step P (bind_op f g) Q' R"
  unfolding ok_step_def
proof (intro allI impI)
  fix s assume "P s"
  with assms show "if is_val (fst (bind_op f g s)) then Q' (snd (bind_op f g s)) else R (snd (bind_op f g s))"
    unfolding ok_step_def by (cases rule: bind_op_cases [of f s g]) (metis fst_conv snd_conv is_val.simps)+
qed

lemma ok_step_seq: "ok_step P f Q R \<Longrightarrow> ok_step Q (seq_ops fs) Q' R \<Longrightarrow> ok_step P (seq_ops (f # fs)) Q' R"
  using ok_step_bind [of P f Q R "\<lambda>_. seq_ops fs" Q'] by (simp add: ok_step_def)

lemma ok_step_for: "(\<And>x. x \<in> set xs \<Longrightarrow> ok_step P (body x) P R) \<Longrightarrow> ok_step P (for_range body xs) P R"
proof (induction xs)
  case Nil
  then show ?case by (simp add: ok_step_def)
next
  case (Cons x xs)
  have "for_range body (x # xs) = bind_op (body x) (\<lambda>_. for_range body xs)" by (rule ext) simp
  with ok_step_bind [of P "body x" P R "\<lambda>_. for_range body xs" P] Cons show ?case by simp
qed

lemma ok_step_keep: "(\<And>x s. R s \<Longrightarrow> R (snd (body x s))) \<Longrightarrow> ok_step R (for_range body xs) R R"
  by (rule ok_step_for) (simp add: ok_step_def)

lemma ok_step_weaken: "ok_step P f Q R \<Longrightarrow> (\<And>s. P' s \<Longrightarrow> P s) \<Longrightarrow> (\<And>s. Q s \<Longrightarrow> Q' s) \<Longrightarrow> ok_step P' f Q' R"
  unfolding ok_step_def by presburger

text \<open>The invariant of a request together with identifiers that the session is known to hold.\<close>

definition knows :: "u32 set \<Rightarrow> u32 set \<Rightarrow> u32 set \<Rightarrow> Session \<Rightarrow> bool" where
  "knows df dq du s \<longleftrightarrow> df \<subseteq> dom (session_fars s) \<and> dq \<subseteq> dom (session_qers s) \<and> du \<subseteq> dom (session_urrs s)"

definition known_rules ::
  "('ie, 'm, 'b, 'z) upf_env_scheme \<Rightarrow> Session \<Rightarrow> 'ie SessionModificationRequest \<Rightarrow> bool" where
  "known_rules E s req \<longleftrightarrow>
     (\<forall>x \<in> set (smq_UpdateFAR req). \<forall>i. ie_FARID E x = Some i \<longrightarrow> FARs s i \<noteq> None) \<and>
     (\<forall>x \<in> set (smq_RemoveFAR req). FARs s (or_zero (ie_FARID E x)) \<noteq> None) \<and>
     distinct (map (\<lambda>x. or_zero (ie_FARID E x)) (smq_RemoveFAR req)) \<and>
     (\<forall>x \<in> set (smq_UpdateQER req). \<forall>i. ie_QERID E x = Some i \<longrightarrow> QERs s i \<noteq> None) \<and>
     (\<forall>x \<in> set (smq_RemoveQER req). \<forall>i. ie_QERID E x = Some i \<longrightarrow> QERs s i \<noteq> None) \<and>
     distinct (map (ie_QERID E) (smq_RemoveQER req)) \<and>
     (\<forall>x \<in> set (smq_UpdateURR req). \<forall>i. ie_URRID E x = Some i \<longrightarrow> URRs s i \<noteq> None) \<and>
     (\<forall>x \<in> set (smq_RemoveURR req). \<forall>i. ie_URRID E x = Some i \<longrightarrow> URRs s i \<noteq> None) \<and>
     distinct (map (ie_URRID E) (smq_RemoveURR req))"

definition request_knows ::
  "('ie, 'm, 'b, 'z) upf_env_scheme \<Rightarrow> (place \<rightharpoonup> u32 \<times> FarInfo) \<Rightarrow> (place \<rightharpoonup> u32 \<times> QerInfo) \<Rightarrow>
   (place \<rightharpoonup> u32 \<times> UrrInfo) \<Rightarrow> string \<Rightarrow> u64 \<Rightarrow> u32 set \<Rightarrow> u32 set \<Rightarrow> u32 set \<Rightarrow> ('m, 'b) hstate \<Rightarrow> bool" where
  "request_knows E bf bq bu addr seid df dq du h \<longleftrightarrow>
     request_ok E bf bq bu addr seid h \<and> knows df dq du (pc_Session h)"

lemma keeps_knowing:
  assumes "\<And>h. request_ok E bf bq bu addr seid h \<Longrightarrow> request_ok E bf bq bu addr seid (snd (f h))"
    and "\<And>h. dom (session_fars (pc_Session h)) \<subseteq> dom (session_fars (pc_Session (snd (f h)))) \<and>
       dom (session_qers (pc_Session h)) \<subseteq> dom (session_qers (pc_Session (snd (f h)))) \<and>
       dom (session_urrs (pc_Session h)) \<subseteq> dom (session_urrs (pc_Session (snd (f h))))"
  shows "ok_step (request_knows E bf bq bu addr seid df dq du) f (request_knows E bf bq bu addr seid df dq du)
     (request_ok E bf bq bu addr seid)"
  using assms unfolding ok_step_def request_knows_def knows_def by (meson subset_trans)

lemma create_knows:
  "ok_step (request_knows E bf bq bu addr seid df dq du) (create_far E x) (request_knows E bf bq bu addr seid df dq du) (request_ok E bf bq bu addr seid)"
  "ok_step (request_knows E bf bq bu addr seid df dq du) (create_qer E x) (request_knows E bf bq bu addr seid df dq du) (request_ok E bf bq bu addr seid)"
  "ok_step (request_knows E bf bq bu addr seid df dq du) (create_urr E x) (request_knows E bf bq bu addr seid df dq du) (request_ok E bf bq bu addr seid)"
proof -
  let ?D = "\<lambda>h h'. dom (session_fars (pc_Session h)) \<subseteq> dom (session_fars (pc_Session h')) \<and>
       dom (session_qers (pc_Session h)) \<subseteq> dom (session_qers (pc_Session h')) \<and>
       dom (session_urrs (pc_Session h)) \<subseteq> dom (session_urrs (pc_Session h'))"
  have far: "pc_Session (snd (create_far E x h)) = pc_Session h \<or> (\<exists>i g f. pc_Session (snd (create_far E x h)) = Session_NewFar i g f (pc_Session h))" for h
    by (auto simp: create_far_def lift_res_def on_tables_def on_session_def bind_op_def split: prod.split res.split)
  have qer: "pc_Session (snd (create_qer E x h)) = pc_Session h \<or> (\<exists>i g f. pc_Session (snd (create_qer E x h)) = Session_NewQer i g f (pc_Session h))" for h
    by (auto simp: create_qer_def lift_res_def on_tables_def on_session_def bind_op_def Let_def split: prod.split res.split)
  have urr: "pc_Session (snd (create_urr E x h)) = pc_Session h \<or> (\<exists>i g f. pc_Session (snd (create_urr E x h)) = Session_NewUrr i g f (pc_Session h))" for h
    by (auto simp: create_urr_def lift_res_def on_tables_def on_session_def bind_op_def Let_def split: prod.split res.split)
  show "ok_step (request_knows E bf bq bu addr seid df dq du) (create_far E x) (request_knows E bf bq bu addr seid df dq du) (request_ok E bf bq bu addr seid)"
  proof (rule keeps_knowing [OF create_far_ok])
    fix h show "?D h (snd (create_far E x h))" using far [of h] by (auto simp: session_far.entries_new split: if_splits)
  qed
  show "ok_step (request_knows E bf bq bu addr seid df dq du) (create_qer E x) (request_knows E bf bq bu addr seid df dq du) (request_ok E bf bq bu addr seid)"
  proof (rule keeps_knowing [OF create_qer_ok])
    fix h show "?D h (snd (create_qer E x h))" using qer [of h] by (auto simp: session_qer.entries_new split: if_splits)
  qed
  show "ok_step (request_knows E bf bq bu addr seid df dq du) (create_urr E x) (request_knows E bf bq bu addr seid df dq du) (request_ok E bf bq bu addr seid)"
  proof (rule keeps_knowing [OF create_urr_ok])
    fix h show "?D h (snd (create_urr E x h))" using urr [of h] by (auto simp: session_urr.entries_new split: if_splits)
  qed
qed

lemma update_far_knows:
  assumes "\<And>i. ie_FARID E x = Some i \<Longrightarrow> i \<in> df"
  shows "ok_step (request_knows E bf bq bu addr seid df dq du) (update_far E x) (request_knows E bf bq bu addr seid df dq du) (request_ok E bf bq bu addr seid)"
  unfolding ok_step_def
proof (intro allI impI)
  fix h assume J: "request_knows E bf bq bu addr seid df dq du h"
  show "if is_val (fst (update_far E x h)) then request_knows E bf bq bu addr seid df dq du (snd (update_far E x h))
        else request_ok E bf bq bu addr seid (snd (update_far E x h))"
  proof (cases "ie_FARID E x")
    case None
    with J show ?thesis by (simp add: update_far_def lift_res_def or_err_def bind_op_def request_knows_def)
  next
    case (Some i)
    with assms J obtain g w where gw: "session_fars (pc_Session h) i = Some (g, w)"
      unfolding request_knows_def knows_def by fastforce
    have e: "sfar_GlobalId (Session_GetFar i (pc_Session h)) = g" "sfar_FarInfo (Session_GetFar i (pc_Session h)) = w"
      using session_far.entry_get [of i "pc_Session h"] gw by (simp_all add: far_entry_def)
    show ?thesis
    proof (cases "composeFarInfo E x w")
      case (Val f)
      have "over bf addr seid (session_fars (pc_Session h)) (addr, seid, i) = Some (g, w)" using gw by (simp add: over_at)
      moreover have "rules_ok E (rc_mapOperations h) (over bf addr seid (session_fars (pc_Session h)))
          (over bq addr seid (session_qers (pc_Session h))) (over bu addr seid (session_urrs (pc_Session h)))"
        using J by (simp add: request_knows_def request_ok_def)
      ultimately have u: "fst (UpdateFar E g f (rc_mapOperations h)) = Val ()"
        "rules_ok E (snd (UpdateFar E g f (rc_mapOperations h))) ((over bf addr seid (session_fars (pc_Session h)))((addr, seid, i) \<mapsto> (g, f)))
          (over bq addr seid (session_qers (pc_Session h))) (over bu addr seid (session_urrs (pc_Session h)))"
        by (auto intro: rules_ok_UpdateFar)
      have "update_far E x h = (Val (), h\<lparr>pc_Session := Session_UpdateFar i f (pc_Session h),
          rc_mapOperations := snd (UpdateFar E g f (rc_mapOperations h))\<rparr>)"
        using u(1) by (simp add: update_far_def lift_res_def or_err_def Some on_session_def on_tables_def Let_def e Val
            bind_op_def prod_eq_iff case_prod_beta)
      with J u(2) gw show ?thesis
        by (auto simp: request_knows_def request_ok_def knows_def session_far.update_known over_upd)
    qed (use J in \<open>simp_all add: update_far_def lift_res_def or_err_def Some Let_def e bind_op_def request_knows_def\<close>)
  qed
qed

lemma update_qer_knows:
  assumes "\<And>i. ie_QERID E x = Some i \<Longrightarrow> i \<in> dq"
  shows "ok_step (request_knows E bf bq bu addr seid df dq du) (update_qer E x) (request_knows E bf bq bu addr seid df dq du) (request_ok E bf bq bu addr seid)"
  unfolding ok_step_def
proof (intro allI impI)
  fix h assume J: "request_knows E bf bq bu addr seid df dq du h"
  show "if is_val (fst (update_qer E x h)) then request_knows E bf bq bu addr seid df dq du (snd (update_qer E x h))
        else request_ok E bf bq bu addr seid (snd (update_qer E x h))"
  proof (cases "ie_QERID E x")
    case None
    with J show ?thesis by (simp add: update_qer_def lift_res_def or_err_def bind_op_def request_knows_def)
  next
    case (Some i)
    with assms J obtain g w where gw: "session_qers (pc_Session h) i = Some (g, w)"
      unfolding request_knows_def knows_def by fastforce
    have e: "sqer_GlobalId (Session_GetQer i (pc_Session h)) = g" "sqer_QerInfo (Session_GetQer i (pc_Session h)) = w"
      using session_qer.entry_get [of i "pc_Session h"] gw by (simp_all add: qer_entry_def)
    let ?f = "updateQer E x w"
    have "over bq addr seid (session_qers (pc_Session h)) (addr, seid, i) = Some (g, w)" using gw by (simp add: over_at)
    moreover have "rules_ok E (rc_mapOperations h) (over bf addr seid (session_fars (pc_Session h)))
        (over bq addr seid (session_qers (pc_Session h))) (over bu addr seid (session_urrs (pc_Session h)))"
      using J by (simp add: request_knows_def request_ok_def)
    ultimately have u: "fst (UpdateQer E g ?f (rc_mapOperations h)) = Val ()"
      "rules_ok E (snd (UpdateQer E g ?f (rc_mapOperations h))) (over bf addr seid (session_fars (pc_Session h)))
        ((over bq addr seid (session_qers (pc_Session h)))((addr, seid, i) \<mapsto> (g, ?f))) (over bu addr seid (session_urrs (pc_Session h)))"
      by (auto intro: rules_ok_UpdateQer)
    have "update_qer E x h = (Val (), h\<lparr>pc_Session := Session_UpdateQer i ?f (pc_Session h),
        rc_mapOperations := snd (UpdateQer E g ?f (rc_mapOperations h))\<rparr>)"
      using u(1) by (simp add: update_qer_def lift_res_def or_err_def Some on_session_def on_tables_def Let_def e
          bind_op_def prod_eq_iff case_prod_beta)
    with J u(2) gw show ?thesis
      by (auto simp: request_knows_def request_ok_def knows_def session_qer.update_known over_upd)
  qed
qed

lemma update_urr_knows:
  assumes "\<And>i. ie_URRID E x = Some i \<Longrightarrow> i \<in> du"
  shows "ok_step (request_knows E bf bq bu addr seid df dq du) (update_urr E x) (request_knows E bf bq bu addr seid df dq du) (request_ok E bf bq bu addr seid)"
  unfolding ok_step_def
proof (intro allI impI)
  fix h assume J: "request_knows E bf bq bu addr seid df dq du h"
  show "if is_val (fst (update_urr E x h)) then request_knows E bf bq bu addr seid df dq du (snd (update_urr E x h))
        else request_ok E bf bq bu addr seid (snd (update_urr E x h))"
  proof (cases "ie_URRID E x")
    case None
    with J show ?thesis by (simp add: update_urr_def lift_res_def or_err_def bind_op_def request_knows_def)
  next
    case (Some i)
    with assms J obtain g w where gw: "session_urrs (pc_Session h) i = Some (g, w)"
      unfolding request_knows_def knows_def by fastforce
    have e: "surr_GlobalId (Session_GetUrr i (pc_Session h)) = g" "surr_UrrInfo (Session_GetUrr i (pc_Session h)) = w"
      using session_urr.entry_get [of i "pc_Session h"] gw by (simp_all add: urr_entry_def)
    let ?f = "updateUrr E x w"
    have "over bu addr seid (session_urrs (pc_Session h)) (addr, seid, i) = Some (g, w)" using gw by (simp add: over_at)
    moreover have "rules_ok E (rc_mapOperations h) (over bf addr seid (session_fars (pc_Session h)))
        (over bq addr seid (session_qers (pc_Session h))) (over bu addr seid (session_urrs (pc_Session h)))"
      using J by (simp add: request_knows_def request_ok_def)
    ultimately have u: "fst (UpdateUrr E g ?f (rc_mapOperations h)) = Val ()"
      "rules_ok E (snd (UpdateUrr E g ?f (rc_mapOperations h))) (over bf addr seid (session_fars (pc_Session h)))
        (over bq addr seid (session_qers (pc_Session h))) ((over bu addr seid (session_urrs (pc_Session h)))((addr, seid, i) \<mapsto> (g, ?f)))"
      by (auto intro: rules_ok_UpdateUrr)
    have "update_urr E x h = (Val (), h\<lparr>pc_Session := Session_UpdateUrr i ?f (pc_Session h),
        rc_mapOperations := snd (UpdateUrr E g ?f (rc_mapOperations h))\<rparr>)"
      using u(1) by (simp add: update_urr_def lift_res_def or_err_def Some on_session_def on_tables_def Let_def e
          bind_op_def prod_eq_iff case_prod_beta)
    with J u(2) gw show ?thesis
      by (auto simp: request_knows_def request_ok_def knows_def session_urr.update_known over_upd)
  qed
qed

text \<open>A loop that uses up, one by one, identifiers that the session has.\<close>

lemma ok_step_consume:
  assumes "\<And>x D. x \<in> set xs \<Longrightarrow> key x \<in> D \<Longrightarrow> ok_step (P D) (body x) (P (D - {key x})) R"
    and "distinct (map key xs)" "key ` set xs \<subseteq> D"
  shows "ok_step (P D) (for_range body xs) (P (D - key ` set xs)) R"
  using assms
proof (induction xs arbitrary: D)
  case Nil
  then show ?case by (simp add: ok_step_def)
next
  case (Cons x xs)
  have sub: "key ` set xs \<subseteq> D - {key x}" using Cons.prems(2,3) by (simp add: subset_Diff_insert)
  have "ok_step (P D) (body x) (P (D - {key x})) R" using Cons.prems(1,3) by simp
  moreover have "ok_step (P (D - {key x})) (for_range body xs) (P (D - {key x} - key ` set xs)) R"
    using Cons.prems(1,2) sub by (intro Cons.IH) auto
  moreover have "D - {key x} - key ` set xs = D - key ` set (x # xs)" by auto
  moreover have "for_range body (x # xs) = bind_op (body x) (\<lambda>_. for_range body xs)" by (rule ext) simp
  ultimately show ?case using ok_step_bind [of "P D" "body x" _ R "\<lambda>_. for_range body xs"] by simp
qed

lemma session_finite_removals [simp]:
  "session_finite s \<Longrightarrow> session_finite (snd (Session_RemoveFar i s))"
  "session_finite s \<Longrightarrow> session_finite (snd (Session_RemoveQer i s))"
  "session_finite s \<Longrightarrow> session_finite (snd (Session_RemoveUrr i s))"
  "session_finite s \<Longrightarrow> session_finite (snd (RemovePDR k s))"
  by (simp_all add: session_finite_def Session_RemoveFar_def Session_RemoveQer_def Session_RemoveUrr_def RemovePDR_def)

lemma remove_far_knows:
  assumes "or_zero (ie_FARID E x) \<in> df"
  shows "ok_step (request_knows E bf bq bu addr seid df dq du) (remove_far E x)
    (request_knows E bf bq bu addr seid (df - {or_zero (ie_FARID E x)}) dq du) (request_ok E bf bq bu addr seid)"
  unfolding ok_step_def
proof (intro allI impI)
  fix h assume J: "request_knows E bf bq bu addr seid df dq du h"
  let ?i = "or_zero (ie_FARID E x)" let ?s = "snd (Session_RemoveFar ?i (pc_Session h))"
  from assms J obtain g w where gw: "session_fars (pc_Session h) ?i = Some (g, w)"
    unfolding request_knows_def knows_def by fastforce
  have e: "sfar_GlobalId (fst (Session_RemoveFar ?i (pc_Session h))) = g"
    using session_far.entry_get [of ?i "pc_Session h"] gw by (simp add: far_entry_def session_far.remove_get)
  have at: "over bf addr seid (session_fars (pc_Session h)) (addr, seid, ?i) = Some (g, w)" using gw by (simp add: over_at)
  have "rules_ok E (rc_mapOperations h) (over bf addr seid (session_fars (pc_Session h)))
      (over bq addr seid (session_qers (pc_Session h))) (over bu addr seid (session_urrs (pc_Session h)))"
    using J by (simp add: request_knows_def request_ok_def)
  note u = rules_ok_DeleteFar [OF this at]
  have "remove_far E x h = (Val (), h\<lparr>pc_Session := ?s, rc_mapOperations := snd (DeleteFar E g (rc_mapOperations h))\<rparr>)"
    using u(1) e by (simp add: remove_far_def on_tables_def prod_eq_iff case_prod_beta)
  with J u(2) show "if is_val (fst (remove_far E x h)) then request_knows E bf bq bu addr seid (df - {?i}) dq du (snd (remove_far E x h))
        else request_ok E bf bq bu addr seid (snd (remove_far E x h))"
    by (auto simp: request_knows_def request_ok_def knows_def session_far.entries_remove over_del)
qed

lemma remove_qer_knows:
  assumes "ie_QERID E x \<in> D"
  shows "ok_step (request_knows E bf bq bu addr seid df {i. Some i \<in> D} du) (remove_qer E x)
    (request_knows E bf bq bu addr seid df {i. Some i \<in> D - {ie_QERID E x}} du) (request_ok E bf bq bu addr seid)"
  unfolding ok_step_def
proof (intro allI impI)
  fix h assume J: "request_knows E bf bq bu addr seid df {i. Some i \<in> D} du h"
  show "if is_val (fst (remove_qer E x h)) then request_knows E bf bq bu addr seid df {i. Some i \<in> D - {ie_QERID E x}} du (snd (remove_qer E x h))
        else request_ok E bf bq bu addr seid (snd (remove_qer E x h))"
  proof (cases "ie_QERID E x")
    case None
    with J show ?thesis by (simp add: remove_qer_def lift_res_def or_err_def bind_op_def request_knows_def)
  next
    case (Some i)
    let ?s = "snd (Session_RemoveQer i (pc_Session h))"
    from assms J Some obtain g w where gw: "session_qers (pc_Session h) i = Some (g, w)"
      unfolding request_knows_def knows_def by fastforce
    have e: "sqer_GlobalId (fst (Session_RemoveQer i (pc_Session h))) = g"
      using session_qer.entry_get [of i "pc_Session h"] gw by (simp add: qer_entry_def session_qer.remove_get)
    have at: "over bq addr seid (session_qers (pc_Session h)) (addr, seid, i) = Some (g, w)" using gw by (simp add: over_at)
    have "rules_ok E (rc_mapOperations h) (over bf addr seid (session_fars (pc_Session h)))
        (over bq addr seid (session_qers (pc_Session h))) (over bu addr seid (session_urrs (pc_Session h)))"
      using J by (simp add: request_knows_def request_ok_def)
    note u = rules_ok_DeleteQer [OF this at]
    have "remove_qer E x h = (Val (), h\<lparr>pc_Session := ?s, rc_mapOperations := snd (DeleteQer E g (rc_mapOperations h))\<rparr>)"
      using u(1) e by (simp add: remove_qer_def lift_res_def or_err_def Some bind_op_def on_tables_def prod_eq_iff case_prod_beta)
    with J u(2) Some show ?thesis
      by (auto simp: request_knows_def request_ok_def knows_def session_qer.entries_remove over_del)
  qed
qed

lemma remove_urr_knows:
  assumes "ie_URRID E x \<in> D"
  shows "ok_step (request_knows E bf bq bu addr seid df dq {i. Some i \<in> D}) (remove_urr E x)
    (request_knows E bf bq bu addr seid df dq {i. Some i \<in> D - {ie_URRID E x}}) (request_ok E bf bq bu addr seid)"
  unfolding ok_step_def
proof (intro allI impI)
  fix h assume J: "request_knows E bf bq bu addr seid df dq {i. Some i \<in> D} h"
  show "if is_val (fst (remove_urr E x h)) then request_knows E bf bq bu addr seid df dq {i. Some i \<in> D - {ie_URRID E x}} (snd (remove_urr E x h))
        else request_ok E bf bq bu addr seid (snd (remove_urr E x h))"
  proof (cases "ie_URRID E x")
    case None
    with J show ?thesis by (simp add: remove_urr_def lift_res_def or_err_def bind_op_def request_knows_def)
  next
    case (Some i)
    let ?s = "snd (Session_RemoveUrr i (pc_Session h))"
    from assms J Some obtain g w where gw: "session_urrs (pc_Session h) i = Some (g, w)"
      unfolding request_knows_def knows_def by fastforce
    have e: "surr_GlobalId (fst (Session_RemoveUrr i (pc_Session h))) = g"
      using session_urr.entry_get [of i "pc_Session h"] gw by (simp add: urr_entry_def session_urr.remove_get)
    have at: "over bu addr seid (session_urrs (pc_Session h)) (addr, seid, i) = Some (g, w)" using gw by (simp add: over_at)
    have "rules_ok E (rc_mapOperations h) (over bf addr seid (session_fars (pc_Session h)))
        (over bq addr seid (session_qers (pc_Session h))) (over bu addr seid (session_urrs (pc_Session h)))"
      using J by (simp add: request_knows_def request_ok_def)
    note u = rules_ok_DeleteUrr [OF this at]
    from u(1) obtain v where v: "fst (DeleteUrr E g (rc_mapOperations h)) = Val v" by blast
    have "\<exists>l n. remove_urr E x h = (Val (), h\<lparr>pc_Session := ?s, rc_mapOperations := snd (DeleteUrr E g (rc_mapOperations h)),
        h_reports := l, h_clock := n\<rparr>)"
      using v e by (simp add: remove_urr_def lift_res_def or_err_def Some bind_op_def on_tables_def prod_eq_iff case_prod_beta)
        blast
    with J u(2) Some show ?thesis
      by (auto simp: request_knows_def request_ok_def knows_def session_urr.entries_remove over_del)
  qed
qed

lemma update_pdr_ok:
  assumes "request_ok E bf bq bu addr seid h"
  shows "request_ok E bf bq bu addr seid (snd (update_pdr E ft x h))"
proof (cases "ie_PDRID E x")
  case None
  with assms show ?thesis by (simp add: update_pdr_def lift_res_def or_err_def bind_op_def)
next
  case (Some i)
  let ?I = "request_ok E bf bq bu addr seid"
  have put: "?I (snd (bind_op (on_session (PutPDR (ucast i) s)) (\<lambda>_. on_tables (applyPDR E s)) h1))" if "?I h1" for s h1
    using request_ok_apply [of E bf bq bu addr seid "h1\<lparr>pc_Session := PutPDR (ucast i) s (pc_Session h1)\<rparr>" s] that
    by (simp add: request_ok_PutPDR on_session_def)
  have x: "?I (snd (extractPDR E ft x (GetPDR i (pc_Session h)) h))" using assms by (simp only: request_ok_extract)
  have "?I (snd (bind_op (extractPDR E ft x (GetPDR i (pc_Session h))) (\<lambda>s.
       bind_op (on_session (PutPDR (ucast i) s)) (\<lambda>_. on_tables (applyPDR E s))) h))"
    by (rule bind_op_keeps [where I = ?I], rule x, rule put) (use x in simp)
  with Some show ?thesis by (simp add: update_pdr_def lift_res_def or_err_def)
qed

lemma remove_pdr_ok:
  assumes "request_ok E bf bq bu addr seid h"
  shows "request_ok E bf bq bu addr seid (snd (remove_pdr E x h))"
  using assms by (simp add: remove_pdr_def request_ok_def deletePDR_tables Let_def case_prod_beta)

text \<open>The loops of the closure, in its order.\<close>

lemma modify_rules_ok:
  assumes I: "request_ok E bf bq bu addr seid h" and k: "known_rules E (pc_Session h) req"
  shows "request_ok E bf bq bu addr seid (snd (modify_rules E ft req h))"
proof -
  let ?s = "pc_Session h" and ?R = "request_ok E bf bq bu addr seid"
  let ?K = "request_knows E bf bq bu addr seid"
  let ?F = "dom (session_fars ?s)" and ?Q = "insert None (Some ` dom (session_qers ?s))"
    and ?U = "insert None (Some ` dom (session_urrs ?s))"
  let ?k = "\<lambda>x. or_zero (ie_FARID E x)"
  let ?F' = "?F - ?k ` set (smq_RemoveFAR req)" and ?Q' = "?Q - ie_QERID E ` set (smq_RemoveQER req)"
    and ?U' = "?U - ie_URRID E ` set (smq_RemoveURR req)"
  have dom: "dom (session_fars ?s) = dom (FARs ?s)" "dom (session_qers ?s) = dom (QERs ?s)" "dom (session_urrs ?s) = dom (URRs ?s)"
    by (auto simp: session_fars_def session_qers_def session_urrs_def)
  have far: "x \<in> set (smq_UpdateFAR req) \<Longrightarrow> ie_FARID E x = Some i \<Longrightarrow> i \<in> ?F"
      "x \<in> set (smq_RemoveFAR req) \<Longrightarrow> ?k x \<in> ?F" "distinct (map ?k (smq_RemoveFAR req))" for x i
    using k unfolding known_rules_def dom by blast+
  have qer: "x \<in> set (smq_UpdateQER req) \<Longrightarrow> ie_QERID E x = Some i \<Longrightarrow> i \<in> dom (session_qers ?s)"
      "x \<in> set (smq_RemoveQER req) \<Longrightarrow> ie_QERID E x = Some i \<Longrightarrow> i \<in> dom (session_qers ?s)"
      "distinct (map (ie_QERID E) (smq_RemoveQER req))" for x i
    using k unfolding known_rules_def dom by blast+
  have urr: "x \<in> set (smq_UpdateURR req) \<Longrightarrow> ie_URRID E x = Some i \<Longrightarrow> i \<in> dom (session_urrs ?s)"
      "x \<in> set (smq_RemoveURR req) \<Longrightarrow> ie_URRID E x = Some i \<Longrightarrow> i \<in> dom (session_urrs ?s)"
      "distinct (map (ie_URRID E) (smq_RemoveURR req))" for x i
    using k unfolding known_rules_def dom by blast+
  have some: "{i. Some i \<in> insert None (Some ` A)} = A" for A :: "u32 set" by auto
  have opt: "z \<in> insert None (Some ` A)" if "\<And>i. z = Some i \<Longrightarrow> i \<in> A" for z and A :: "u32 set"
    using that by (cases z) auto
  have ids: "ie_QERID E ` set (smq_RemoveQER req) \<subseteq> ?Q" "ie_URRID E ` set (smq_RemoveURR req) \<subseteq> ?U"
    by (rule image_subsetI, rule opt, erule (1) qer(2), rule image_subsetI, rule opt, erule (1) urr(2))
  have pdrs: "ok_step ?R (seq_ops [for_range (create_pdr E ft ErrLibrary) (smq_CreatePDR req),
      for_range (update_pdr E ft) (smq_UpdatePDR req), for_range (remove_pdr E) (smq_RemovePDR req)]) ?R ?R"
    by (intro ok_step_seq [where Q = ?R] ok_step_nil ok_step_keep create_pdr_ok update_pdr_ok remove_pdr_ok)
  have "ok_step (?K ?F {i. Some i \<in> ?Q} {i. Some i \<in> ?U}) (modify_rules E ft req) ?R ?R"
    unfolding modify_rules_def
    apply (rule ok_step_seq [OF ok_step_for [OF create_knows(1)]])
    apply (rule ok_step_seq [OF ok_step_for [OF update_far_knows]])
    subgoal by (rule far(1))
    apply (rule ok_step_seq [OF ok_step_consume [where key = ?k and P = "\<lambda>D. ?K D {i. Some i \<in> ?Q} {i. Some i \<in> ?U}"]])
    subgoal by (rule remove_far_knows)
    subgoal by (rule far(3))
    subgoal using far(2) by blast
    apply (rule ok_step_seq [OF ok_step_for [OF create_knows(2)]])
    apply (rule ok_step_seq [OF ok_step_for [OF update_qer_knows]])
    subgoal unfolding some by (rule qer(1))
    apply (rule ok_step_seq [OF ok_step_consume [where key = "ie_QERID E" and P = "\<lambda>D. ?K ?F' {i. Some i \<in> D} {i. Some i \<in> ?U}"]])
    subgoal by (rule remove_qer_knows)
    subgoal by (rule qer(3))
    subgoal by (rule ids(1))
    apply (rule ok_step_seq [OF ok_step_for [OF create_knows(3)]])
    apply (rule ok_step_seq [OF ok_step_for [OF update_urr_knows]])
    subgoal unfolding some by (rule urr(1))
    apply (rule ok_step_seq [OF ok_step_consume [where key = "ie_URRID E" and P = "\<lambda>D. ?K ?F' {i. Some i \<in> ?Q'} {i. Some i \<in> D}"]])
    subgoal by (rule remove_urr_knows)
    subgoal by (rule urr(3))
    subgoal by (rule ids(2))
    by (rule ok_step_weaken [OF pdrs]) (simp_all add: request_knows_def)
  moreover have "?K ?F {i. Some i \<in> ?Q} {i. Some i \<in> ?U} h"
    using I unfolding some by (simp add: request_knows_def knows_def)
  ultimately show ?thesis unfolding ok_step_def by presburger
qed

lemma newRemoteSEID_rules [simp]:
  "session_fars (newRemoteSEID E f s) = session_fars s" "session_qers (newRemoteSEID E f s) = session_qers s"
  "session_urrs (newRemoteSEID E f s) = session_urrs s" "session_finite (newRemoteSEID E f s) = session_finite s"
  "known_rules E (newRemoteSEID E f s) req = known_rules E s req"
  by (auto simp: newRemoteSEID_def session_fars_def session_qers_def session_urrs_def session_finite_def
      known_rules_def fun_eq_iff split: option.split)

lemma over_same: "(\<And>i. base (addr, seid, i) = t i) \<Longrightarrow> over base addr seid t = base"
  by (auto simp: over_def fun_eq_iff)

text \<open>Writing back a session with the same rules.\<close>

lemma conn_ok_put_same:
  assumes ok: "conn_ok E c" and a: "NodeAssociations c addr = Some a" and s: "Sessions a seid = Some s"
    and "session_fars s' = session_fars s" "session_qers s' = session_qers s" "session_urrs s' = session_urrs s" "session_finite s'"
  shows "conn_ok E (put_session addr seid s' c)"
    and "conn_rules session_fars (put_session addr seid s' c) = conn_rules session_fars c"
    and "conn_rules session_qers (put_session addr seid s' c) = conn_rules session_qers c"
    and "conn_rules session_urrs (put_session addr seid s' c) = conn_rules session_urrs c"
proof -
  show e: "conn_rules session_fars (put_session addr seid s' c) = conn_rules session_fars c"
    "conn_rules session_qers (put_session addr seid s' c) = conn_rules session_qers c"
    "conn_rules session_urrs (put_session addr seid s' c) = conn_rules session_urrs c"
    using assms by (auto simp: conn_rules_put [OF a] conn_rules_at [OF a s] intro!: over_same)
  show "conn_ok E (put_session addr seid s' c)"
    unfolding conn_ok_def e using conn_okD [OF ok] a s assms(7)
    by (auto simp: put_session_def split: if_splits)
qed

text \<open>The modification of a session keeps the invariant, whatever its outcome.\<close>

lemma modification_ok:
  assumes ok: "conn_ok E c"
    and known: "\<And>a s. NodeAssociations c addr = Some a \<Longrightarrow> Sessions a (smq_SEID req) = Some s \<Longrightarrow> known_rules E s req"
  shows "conn_ok E (snd (HandlePfcpSessionModificationRequest E req addr c))"
proof (cases "NodeAssociations c addr")
  case None
  with ok show ?thesis by (simp add: HandlePfcpSessionModificationRequest_def Let_def)
next
  case (Some a)
  show ?thesis
  proof (cases "Sessions a (smq_SEID req)")
    case None
    with Some ok show ?thesis by (simp add: HandlePfcpSessionModificationRequest_def Let_def)
  next
    case s: (Some s)
    define s1 where s1: "s1 = newRemoteSEID E (smq_CPFSEID req) s"
    define c1 where c1: "c1 = put_session addr (smq_SEID req) s1 c"
    have same: "session_fars s1 = session_fars s" "session_qers s1 = session_qers s" "session_urrs s1 = session_urrs s" "session_finite s1"
      using conn_okD(3) [OF ok Some s] by (simp_all add: s1)
    note p = conn_ok_put_same [OF ok Some s same, folded c1]
    obtain r h where h: "modify_rules E (FeatureUEIP (Conf c1)) req (handler_ctx s1 c1) = (r, h)" by fastforce
    have a1: "NodeAssociations c1 addr = Some (a\<lparr>Sessions := (Sessions a)(smq_SEID req \<mapsto> s1)\<rparr>)"
      using Some by (simp add: c1 put_session_def)
    let ?R = "request_ok E (conn_rules session_fars c1) (conn_rules session_qers c1) (conn_rules session_urrs c1) addr (smq_SEID req)"
    have "?R (handler_ctx s1 c1)"
      using conn_okD(1) [OF p(1)] same(4) by (simp add: request_ok_def over_same conn_rules_at [OF a1, of "smq_SEID req" s1])
    moreover have "known_rules E (pc_Session (handler_ctx s1 c1)) req" using known [OF Some s] by (simp add: s1)
    ultimately have R: "?R h" using modify_rules_ok [of E _ _ _ addr "smq_SEID req" "handler_ctx s1 c1"] h by (metis snd_conv)
    have "conn_ok E (put_session addr (smq_SEID req) (pc_Session h) (leave_ctx h c1))"
      by (rule conn_ok_session [OF p(1) a1 _ R]) (use conn_okD(2) [OF ok Some s] in simp)
    then show ?thesis
      using Some s p(1) h
      by (simp add: HandlePfcpSessionModificationRequest_def Let_def s1 [symmetric] c1 [symmetric] split: res.split)
  qed
qed

end
