(* ===== verification/Association_Lifecycle.thy ===== *)
theory Association_Lifecycle
  imports Session_Modification Pfcp_Dispatch
begin

text \<open>
  Associations: the setup and update handlers keep the invariant of the connection,
  \<open>DeleteAssociation\<close> returns the FAR and QER identifiers of all sessions of the
  association (and no URR identifier). The steps of the connection, the invariant of the
  connections that they reach, and the properties of the connection that rest on it.
\<close>

section \<open>Setup and update\<close>

lemma conn_rules_new_association:
  "NodeAssociations c addr = None \<Longrightarrow>
   conn_rules g (c\<lparr>NodeAssociations := (NodeAssociations c)(addr \<mapsto> NewNodeAssociation n addr)\<rparr>) = conn_rules g c"
  by (auto simp: conn_rules_def NewNodeAssociation_def fun_eq_iff)

lemma saveAssociation_ok:
  assumes "conn_ok E c"
  shows "conn_ok E (saveAssociation n addr c)"
proof (cases "NodeAssociations c addr")
  case None
  let ?c = "c\<lparr>NodeAssociations := (NodeAssociations c)(addr \<mapsto> NewNodeAssociation n addr)\<rparr>"
  have "conn_ok E ?c"
    unfolding conn_ok_def conn_rules_new_association [OF None] using conn_okD [OF assms]
    by (auto simp: NewNodeAssociation_def split: if_splits)
  moreover have "conn_ok E (?c\<lparr>heartbeatSchedulers := l\<rparr>) = conn_ok E ?c" for l by (rule conn_ok_cong) simp_all
  ultimately show ?thesis using None by (simp add: saveAssociation_def Let_def)
qed (simp add: saveAssociation_def assms)

lemma setup_ok: "conn_ok E c \<Longrightarrow> conn_ok E (snd (HandlePfcpAssociationSetupRequest E req addr c))"
  by (simp add: HandlePfcpAssociationSetupRequest_def Let_def saveAssociation_ok split: option.split res.split)

lemma update_ok: "conn_ok E c \<Longrightarrow> conn_ok E (snd (HandlePfcpAssociationUpdateRequest E req addr c))"
  by (simp add: HandlePfcpAssociationUpdateRequest_def Let_def split: option.split)

lemma setup_response_ok: "conn_ok E c \<Longrightarrow> conn_ok E (snd (HandlePfcpAssociationSetupResponse E res addr c))"
  by (simp add: HandlePfcpAssociationSetupResponse_def Let_def saveAssociation_ok split: option.split)

section \<open>Deletion of an association\<close>

lemma for_range_ignore:
  "for_range f xs s = (Val (), s') \<Longrightarrow> for_range (\<lambda>x. ignore_err (f x)) xs s = (Val (), s')"
proof (induction xs arbitrary: s)
  case Nil
  then show ?case by simp
next
  case (Cons x xs)
  then obtain s1 where "f x s = (Val (), s1)" "for_range f xs s1 = (Val (), s')"
    by (cases rule: bind_op_cases [of "f x" s "\<lambda>_. for_range f xs"]) auto
  with Cons.IH show ?case by (simp add: bind_op_def ignore_err_def)
qed

lemma deletePDR_no_panic:
  assumes "pc_ResourceManager h = Some rm" "rm_FTEIDM rm = Some f"
  shows "\<not> (\<exists>q. fst (deletePDR E p h) = Panic q)"
    and "\<exists>rm f. pc_ResourceManager (snd (deletePDR E p h)) = Some rm \<and> rm_FTEIDM rm = Some f"
proof -
  obtain r h1 where e: "deletePDR_entry E p h = (r, h1)" by fastforce
  have "r \<noteq> Panic q" for q
    using e by (auto simp: deletePDR_entry_def wrap_on_tables bind_op_def DeletePdrDownlink_def DeletePdrUplink_def
        DeleteDownlinkPdrIp6_def err_res_def split: if_splits prod.splits option.splits)
  then show "\<not> (\<exists>q. fst (deletePDR E p h) = Panic q)"
    and "\<exists>rm f. pc_ResourceManager (snd (deletePDR E p h)) = Some rm \<and> rm_FTEIDM rm = Some f"
    using assms deletePDR_entry_keeps(1) [OF e] e
    by (cases r; auto simp: deletePDR_def bind_op_def deletePDR_release_def)+
qed

lemma session_ctx_sel [simp]:
  "pc_Session (session_ctx s c) = s" "rc_mapOperations (session_ctx s c) = mapOperations c"
  "pc_ResourceManager (session_ctx s c) = conn_ResourceManager c"
  by (simp_all add: session_ctx_def NewPDRCreationContext_def rule_ctx.defs PDRCreationContext.defs)

lemma from_ctx_sel [simp]:
  "mapOperations (from_ctx x c) = rc_mapOperations x" "NodeAssociations (from_ctx x c) = NodeAssociations c"
  "conn_ResourceManager (from_ctx x c) = pc_ResourceManager x"
  by (simp_all add: from_ctx_def)

text \<open>The loop over the PDRs ignores errors; it panics only where there is no TEID pool.\<close>

definition has_pool :: "ResourceManager option \<Rightarrow> bool" where
  "has_pool m \<longleftrightarrow> (case m of None \<Rightarrow> False | Some rm \<Rightarrow> rm_FTEIDM rm \<noteq> None)"

lemma snd_ignore_err: "snd (ignore_err f s) = snd (f s)"
  by (simp add: ignore_err_def split: prod.split res.split)

lemma ignored_pdr_loop:
  fixes ps :: "(u32 \<times> SPDRInfo) list"
  assumes "for_range (\<lambda>(_, pdr). ignore_err (deletePDR E pdr)) ps h = (r, h')"
  shows "rules_ok E (rc_mapOperations h') tf tq tu = rules_ok E (rc_mapOperations h) tf tq tu"
    and "far_free E (rc_mapOperations h') = far_free E (rc_mapOperations h)"
    "qer_free E (rc_mapOperations h') = qer_free E (rc_mapOperations h)"
    "urr_free E (rc_mapOperations h') = urr_free E (rc_mapOperations h)"
    and "has_pool (pc_ResourceManager h) \<Longrightarrow> r = Val () \<and> has_pool (pc_ResourceManager h')"
proof -
  let ?body = "\<lambda>(_ :: u32, pdr). ignore_err (deletePDR E pdr)"
  let ?I = "\<lambda>k. (rules_ok E (rc_mapOperations k) tf tq tu = rules_ok E (rc_mapOperations h) tf tq tu) \<and>
     far_free E (rc_mapOperations k) = far_free E (rc_mapOperations h) \<and>
     qer_free E (rc_mapOperations k) = qer_free E (rc_mapOperations h) \<and>
     urr_free E (rc_mapOperations k) = urr_free E (rc_mapOperations h)"
  have "?I (snd (for_range ?body ps h))"
    by (rule for_range_keeps [where I = ?I]) (simp_all add: case_prod_beta snd_ignore_err deletePDR_tables)
  then show "rules_ok E (rc_mapOperations h') tf tq tu = rules_ok E (rc_mapOperations h) tf tq tu"
    and "far_free E (rc_mapOperations h') = far_free E (rc_mapOperations h)"
    "qer_free E (rc_mapOperations h') = qer_free E (rc_mapOperations h)"
    "urr_free E (rc_mapOperations h') = urr_free E (rc_mapOperations h)"
    using assms by simp_all
  have "fst (for_range ?body ps k) = Val () \<and> has_pool (pc_ResourceManager (snd (for_range ?body ps k)))"
    if "has_pool (pc_ResourceManager k)" for k
    using that
  proof (induction ps arbitrary: k)
    case (Cons p ps)
    obtain rm f where "pc_ResourceManager k = Some rm" "rm_FTEIDM rm = Some f"
      using Cons.prems by (auto simp: has_pool_def split: option.splits)
    note d = deletePDR_no_panic [OF this, of E "snd p"]
    have "\<exists>k1. ?body p k = (Val (), k1) \<and> has_pool (pc_ResourceManager k1)"
      using d by (auto simp: ignore_err_def has_pool_def case_prod_beta split: prod.split res.split)
    with Cons.IH show ?case by (auto simp: bind_op_def)
  qed simp
  then show "has_pool (pc_ResourceManager h) \<Longrightarrow> r = Val () \<and> has_pool (pc_ResourceManager h')"
    using assms by force
qed

lemma DeleteSession_effect:
  assumes E: "ranges_ok E" and fin: "session_finite s" and ok: "rules_ok E (mapOperations c) tf tq tu"
    and held: "\<And>i. tf (addr, seid, i) = session_fars s i" "\<And>i. tq (addr, seid, i) = session_qers s i"
    and d: "DeleteSession E s c = (r, c')"
  shows "rules_ok E (mapOperations c') (over tf addr seid Map.empty) (over tq addr seid Map.empty) tu"
    and "NodeAssociations c' = NodeAssociations c"
    and "far_free E (mapOperations c') = far_free E (mapOperations c) \<union> sfar_GlobalId ` ran (FARs s)"
    and "qer_free E (mapOperations c') = qer_free E (mapOperations c) \<union> sqer_GlobalId ` ran (QERs s)"
    and "urr_free E (mapOperations c') = urr_free E (mapOperations c)"
    and "has_pool (conn_ResourceManager c) \<Longrightarrow> r = Val () \<and> has_pool (conn_ResourceManager c')"
proof -
  let ?h = "session_ctx s c"
  obtain b2 where b2: "for_range (\<lambda>(_, far). DeleteFar E (sfar_GlobalId far)) (rangeFARs E (FARs s)) (mapOperations c) = (Val (), b2)"
    "rules_ok E b2 (over tf addr seid Map.empty) tq tu"
    "far_free E b2 = far_free E (mapOperations c) \<union> sfar_GlobalId ` ran (FARs s)"
    "qer_free E b2 = qer_free E (mapOperations c)" "urr_free E b2 = urr_free E (mapOperations c)"
    using delete_fars_of [OF E fin ok held(1)] by blast
  obtain b3 where b3: "for_range (\<lambda>(_, qer). DeleteQer E (sqer_GlobalId qer)) (rangeQERs E (QERs s)) b2 = (Val (), b3)"
    "rules_ok E b3 (over tf addr seid Map.empty) (over tq addr seid Map.empty) tu"
    "far_free E b3 = far_free E b2" "qer_free E b3 = qer_free E b2 \<union> sqer_GlobalId ` ran (QERs s)"
    "urr_free E b3 = urr_free E b2"
    using delete_qers_of [OF E fin b2(2) held(2)] by blast
  have "for_range (\<lambda>x. on_tables (DeleteFar E (sfar_GlobalId (snd x)))) (rangeFARs E (FARs s)) ?h = (Val (), ?h\<lparr>rc_mapOperations := b2\<rparr>)"
    using b2(1) by (simp add: for_range_on_tables [of "\<lambda>x. DeleteFar E (sfar_GlobalId (snd x))"] case_prod_unfold on_tables_def)
  note f = for_range_ignore [OF this]
  have "for_range (\<lambda>x. on_tables (DeleteQer E (sqer_GlobalId (snd x)))) (rangeQERs E (QERs s)) (?h\<lparr>rc_mapOperations := b2\<rparr>) = (Val (), ?h\<lparr>rc_mapOperations := b3\<rparr>)"
    using b3(1) by (simp add: for_range_on_tables [of "\<lambda>x. DeleteQer E (sqer_GlobalId (snd x))"] case_prod_unfold on_tables_def)
  note q = for_range_ignore [OF this]
  obtain r' h' where p: "for_range (\<lambda>(_, pdr). ignore_err (deletePDR E pdr)) (rangePDRs E (PDRs s)) (?h\<lparr>rc_mapOperations := b3\<rparr>) = (r', h')"
    by fastforce
  have "r = r'" "c' = from_ctx h' c"
    using d f q p by (cases r'; auto simp: DeleteSession_def case_prod_unfold bind_op_def)+
  with ignored_pdr_loop [OF p] b2 b3
  show "rules_ok E (mapOperations c') (over tf addr seid Map.empty) (over tq addr seid Map.empty) tu"
    and "NodeAssociations c' = NodeAssociations c"
    and "far_free E (mapOperations c') = far_free E (mapOperations c) \<union> sfar_GlobalId ` ran (FARs s)"
    and "qer_free E (mapOperations c') = qer_free E (mapOperations c) \<union> sqer_GlobalId ` ran (QERs s)"
    and "urr_free E (mapOperations c') = urr_free E (mapOperations c)"
    and "has_pool (conn_ResourceManager c) \<Longrightarrow> r = Val () \<and> has_pool (conn_ResourceManager c')"
    by simp_all
qed

definition without :: "(place \<rightharpoonup> 'e) \<Rightarrow> string \<Rightarrow> u64 set \<Rightarrow> place \<rightharpoonup> 'e" where
  "without t addr S = (\<lambda>(a, q, i). if a = addr \<and> q \<in> S then None else t (a, q, i))"

lemma without_over: "without (over t addr q Map.empty) addr S = without t addr (insert q S)"
  by (auto simp: without_def over_def fun_eq_iff)

lemma without_empty [simp]: "without t addr {} = t"
  by (auto simp: without_def fun_eq_iff)

lemma DeleteSession_loop:
  assumes E: "ranges_ok E" and "rules_ok E (mapOperations c) tf tq tu" and "distinct (map fst xs)"
    and "\<forall>q s. (q, s) \<in> set xs \<longrightarrow> session_finite s \<and> (\<forall>i. tf (addr, q, i) = session_fars s i) \<and>
      (\<forall>i. tq (addr, q, i) = session_qers s i)"
    and "for_range (\<lambda>(_, session). DeleteSession E session) xs c = (r, c')"
  shows "(r = Val () \<longrightarrow>
       rules_ok E (mapOperations c') (without tf addr (fst ` set xs)) (without tq addr (fst ` set xs)) tu \<and>
       NodeAssociations c' = NodeAssociations c \<and>
       far_free E (mapOperations c') = far_free E (mapOperations c) \<union> (\<Union>s \<in> snd ` set xs. sfar_GlobalId ` ran (FARs s)) \<and>
       qer_free E (mapOperations c') = qer_free E (mapOperations c) \<union> (\<Union>s \<in> snd ` set xs. sqer_GlobalId ` ran (QERs s)) \<and>
       urr_free E (mapOperations c') = urr_free E (mapOperations c)) \<and>
     (has_pool (conn_ResourceManager c) \<longrightarrow> r = Val ())"
  using assms(2-)
proof (induction xs arbitrary: c tf tq)
  case Nil
  then show ?case by auto
next
  case (Cons x xs)
  obtain q s where x: "x = (q, s)" by fastforce
  obtain r1 c1 where d: "DeleteSession E s c = (r1, c1)" by fastforce
  have fin: "session_finite s" and held: "\<And>i. tf (addr, q, i) = session_fars s i" "\<And>i. tq (addr, q, i) = session_qers s i"
    using Cons.prems(3) x by simp_all
  have e': "rules_ok E (mapOperations c1) (over tf addr q Map.empty) (over tq addr q Map.empty) tu"
    "NodeAssociations c1 = NodeAssociations c"
    "far_free E (mapOperations c1) = far_free E (mapOperations c) \<union> sfar_GlobalId ` ran (FARs s)"
    "qer_free E (mapOperations c1) = qer_free E (mapOperations c) \<union> sqer_GlobalId ` ran (QERs s)"
    "urr_free E (mapOperations c1) = urr_free E (mapOperations c)"
    "has_pool (conn_ResourceManager c) \<Longrightarrow> r1 = Val () \<and> has_pool (conn_ResourceManager c1)"
    using DeleteSession_effect [OF E fin Cons.prems(1) held d] by simp_all
  show ?case
  proof (cases "r1 = Val ()")
    case False
    then have "r \<noteq> Val ()" using d Cons.prems(4) x by (cases r1) (auto simp: bind_op_def)
    with False e'(6) show ?thesis by blast
  next
    case True
    then have l: "for_range (\<lambda>(_, session). DeleteSession E session) xs c1 = (r, c')"
      using d Cons.prems(4) x by (simp add: bind_op_def)
    have fresh: "(q', s') \<in> set xs \<Longrightarrow> q' \<noteq> q" for q' s' using Cons.prems(2) x by (auto simp: rev_image_eqI)
    have "\<forall>q' s'. (q', s') \<in> set xs \<longrightarrow> session_finite s' \<and> (\<forall>i. over tf addr q Map.empty (addr, q', i) = session_fars s' i) \<and>
      (\<forall>i. over tq addr q Map.empty (addr, q', i) = session_qers s' i)"
      using Cons.prems(3) fresh by (auto simp: over_def)
    moreover have "distinct (map fst xs)" using Cons.prems(2) by simp
    ultimately show ?thesis using Cons.IH [OF e'(1) _ _ l] e'(2-6) x by (simp add: without_over Un_assoc)
  qed
qed

lemma deleteAssociation_effect:
  assumes E: "ranges_ok E" and ok: "conn_ok E c" and a: "NodeAssociations c addr = Some a"
    and d: "DeleteAssociation E addr c = (r, c')"
  shows "r = Val () \<Longrightarrow> conn_ok E c'"
    and "r = Val () \<Longrightarrow>
       NodeAssociations c' = (NodeAssociations c)(addr := None) \<and>
       far_free E (mapOperations c') = far_free E (mapOperations c) \<union> (\<Union>s \<in> ran (Sessions a). sfar_GlobalId ` ran (FARs s)) \<and>
       qer_free E (mapOperations c') = qer_free E (mapOperations c) \<union> (\<Union>s \<in> ran (Sessions a). sqer_GlobalId ` ran (QERs s)) \<and>
       urr_free E (mapOperations c') = urr_free E (mapOperations c)"
    and "has_pool (conn_ResourceManager c) \<Longrightarrow> r = Val ()"
proof -
  let ?xs = "rangeSessions E (Sessions a)"
  note en = ranges_okD(5) [OF E conn_okD(4) [OF ok a]]
  obtain r1 c1 where l: "for_range (\<lambda>(_, session). DeleteSession E session) ?xs c = (r1, c1)" by fastforce
  have at: "conn_rules g c (addr, q, i) = g s i" if "(q, s) \<in> set ?xs" for g :: "Session \<Rightarrow> u32 \<rightharpoonup> 'x" and q s i
    using conn_rules_at [OF a] that by (simp add: enumerates_mem [OF en])
  have fin: "session_finite s" if "(q, s) \<in> set ?xs" for q s
    using conn_okD(3) [OF ok a] that by (simp add: enumerates_mem [OF en])
  have dist: "distinct (map fst ?xs)" using en by (simp add: enumerates_def)
  have "\<forall>q s. (q, s) \<in> set ?xs \<longrightarrow> session_finite s \<and> (\<forall>i. conn_rules session_fars c (addr, q, i) = session_fars s i) \<and>
      (\<forall>i. conn_rules session_qers c (addr, q, i) = session_qers s i)"
    by (simp add: fin at)
  note eff = DeleteSession_loop [OF E conn_okD(1) [OF ok] dist this l]
  have keys: "fst ` set ?xs = dom (Sessions a)" "snd ` set ?xs = ran (Sessions a)"
    using enumerates_keys [OF en] enumerates_values [OF en] by auto
  have rr: "r = r1" "r = Val () \<Longrightarrow> c' = c1\<lparr>NodeAssociations := (NodeAssociations c1)(addr := None)\<rparr>"
    using d l a by (cases r1; auto simp: DeleteAssociation_def GetAssociation_def bind_op_def)+
  show "has_pool (conn_ResourceManager c) \<Longrightarrow> r = Val ()" using eff rr by blast
  assume v: "r = Val ()"
  have e: "rules_ok E (mapOperations c1) (without (conn_rules session_fars c) addr (dom (Sessions a)))
      (without (conn_rules session_qers c) addr (dom (Sessions a))) (conn_rules session_urrs c)"
    "NodeAssociations c1 = NodeAssociations c"
    using eff v rr keys by simp_all
  show "NodeAssociations c' = (NodeAssociations c)(addr := None) \<and>
       far_free E (mapOperations c') = far_free E (mapOperations c) \<union> (\<Union>s \<in> ran (Sessions a). sfar_GlobalId ` ran (FARs s)) \<and>
       qer_free E (mapOperations c') = qer_free E (mapOperations c) \<union> (\<Union>s \<in> ran (Sessions a). sqer_GlobalId ` ran (QERs s)) \<and>
       urr_free E (mapOperations c') = urr_free E (mapOperations c)"
    using eff v rr keys by simp
  have w: "conn_rules g c' = without (conn_rules g c) addr (dom (Sessions a))" for g :: "Session \<Rightarrow> u32 \<rightharpoonup> 'x"
    using rr(2) [OF v] e(2) a by (auto simp: conn_rules_def without_def fun_eq_iff domIff split: option.split)
  have "without (conn_rules session_urrs c) addr (dom (Sessions a)) \<subseteq>\<^sub>m conn_rules session_urrs c"
    by (auto simp: without_def map_le_def dom_def split: if_splits)
  then have "rules_ok E (mapOperations c') (conn_rules session_fars c') (conn_rules session_qers c') (conn_rules session_urrs c')"
    unfolding w using rules_ok_submap [OF e(1)] rr(2) [OF v] by simp
  then show "conn_ok E c'"
    unfolding conn_ok_def using conn_okD(2-4) [OF ok] rr(2) [OF v] e(2) by (auto split: if_splits)
qed

section \<open>The steps of a connection\<close>

text \<open>
  What a message may be asked for beside having a handler. \<open>seids_left\<close>: an establishment comes before the
  counter of SEIDs of its association wraps around, that is before the \<open>2^64\<close>th one. \<open>names_own_rules\<close>: a modification
  updates and removes only rules that its session has. The handler checks neither; a rule that the session does not have
  is read as global identifier 0, which may belong to another session (\<open>update_unknown_far_hits_id_0\<close>).
\<close>

definition seids_left :: "'ie in_msg \<Rightarrow> string \<Rightarrow> ('m, 'b) PfcpConnection \<Rightarrow> bool" where
  "seids_left msg addr c \<longleftrightarrow>
     (case msg of
        SessEstablishmentRequest _ \<Rightarrow> \<forall>a. NodeAssociations c addr = Some a \<longrightarrow> NextSessionID a \<noteq> - 1
      | _ \<Rightarrow> True)"

definition names_own_rules ::
  "('ie, 'm, 'b, 'z) upf_env_scheme \<Rightarrow> 'ie in_msg \<Rightarrow> string \<Rightarrow> ('m, 'b) PfcpConnection \<Rightarrow> bool" where
  "names_own_rules E msg addr c \<longleftrightarrow>
     (case msg of
        SessModificationRequest r \<Rightarrow>
          \<forall>a s. NodeAssociations c addr = Some a \<longrightarrow> Sessions a (smq_SEID r) = Some s \<longrightarrow> known_rules E s r
      | _ \<Rightarrow> True)"

definition orderly ::
  "('ie, 'm, 'b, 'z) upf_env_scheme \<Rightarrow> 'ie in_msg \<Rightarrow> string \<Rightarrow> ('m, 'b) PfcpConnection \<Rightarrow> bool" where
  "orderly E msg addr c \<longleftrightarrow> seids_left msg addr c \<and> names_own_rules E msg addr c"

lemma seids_left_establishment [simp]:
  "seids_left (SessEstablishmentRequest r) addr c \<longleftrightarrow> (\<forall>a. NodeAssociations c addr = Some a \<longrightarrow> NextSessionID a \<noteq> - 1)"
  by (simp add: seids_left_def)

lemma orderly_simps [simp]:
  "orderly E (AssocSetupRequest r1) addr c" "orderly E (AssocUpdateRequest r2) addr c" "orderly E (AssocSetupResponse r3) addr c"
  "orderly E (SessDeletionRequest r4) addr c"
  "orderly E (SessEstablishmentRequest r5) addr c \<longleftrightarrow> (\<forall>a. NodeAssociations c addr = Some a \<longrightarrow> NextSessionID a \<noteq> - 1)"
  "orderly E (SessModificationRequest r6) addr c \<longleftrightarrow>
     (\<forall>a s. NodeAssociations c addr = Some a \<longrightarrow> Sessions a (smq_SEID r6) = Some s \<longrightarrow> known_rules E s r6)"
  by (simp_all add: orderly_def seids_left_def names_own_rules_def)

text \<open>
  One step is one handler that returned, for a message that \<open>P\<close> permits, or the deletion of an association by the
  heartbeat scheduler.
\<close>

inductive conn_step ::
  "('ie, 'm, 'b, 'z) upf_env_scheme \<Rightarrow> ('ie in_msg \<Rightarrow> string \<Rightarrow> ('m, 'b) PfcpConnection \<Rightarrow> bool) \<Rightarrow>
   ('m, 'b) PfcpConnection \<Rightarrow> ('m, 'b) PfcpConnection \<Rightarrow> bool"
  for E P where
  associated: "HandlePfcpAssociationSetupRequest E asq addr c = (Val r, c') \<Longrightarrow> P (AssocSetupRequest asq) addr c \<Longrightarrow> conn_step E P c c'"
| updated: "HandlePfcpAssociationUpdateRequest E auq addr c = (Val r, c') \<Longrightarrow> P (AssocUpdateRequest auq) addr c \<Longrightarrow> conn_step E P c c'"
| answered: "HandlePfcpAssociationSetupResponse E asr addr c = (Val r, c') \<Longrightarrow> P (AssocSetupResponse asr) addr c \<Longrightarrow> conn_step E P c c'"
| established: "HandlePfcpSessionEstablishmentRequest E seq addr c = (Val r, c') \<Longrightarrow> P (SessEstablishmentRequest seq) addr c \<Longrightarrow>
    conn_step E P c c'"
| modified: "HandlePfcpSessionModificationRequest E smq addr c = (Val r, c') \<Longrightarrow> P (SessModificationRequest smq) addr c \<Longrightarrow>
    conn_step E P c c'"
| deleted: "HandlePfcpSessionDeletionRequest E sdq addr c = (Val r, c') \<Longrightarrow> P (SessDeletionRequest sdq) addr c \<Longrightarrow> conn_step E P c c'"
| released: "DeleteAssociation E addr c = (Val (), c') \<Longrightarrow> conn_step E P c c'"

text \<open>
  The connections that a run of the program reaches with messages that \<open>P\<close> permits: made by \<open>NewPfcpConnection\<close> over the
  tables that \<open>Load\<close> prepared, then any number of steps.
\<close>

inductive conn_reach ::
  "('ie, 'm, 'b, 'z) upf_env_scheme \<Rightarrow> ('ie in_msg \<Rightarrow> string \<Rightarrow> ('m, 'b) PfcpConnection \<Rightarrow> bool) \<Rightarrow> ('m, 'b) PfcpConnection \<Rightarrow> bool"
  for E P where
  start: "bpf_env_ok E \<Longrightarrow> Map_isArray E (FarMap b) \<Longrightarrow> Map_isArray E (QerMap b) \<Longrightarrow> Map_isArray E (UrrMap b) \<Longrightarrow>
    Load_trackers E b = (Val (), b') \<Longrightarrow>
    NewPfcpConnection conf addrV4 now nodeID n3 n9 b' rm = Val c \<Longrightarrow> conn_reach E P c"
| step: "conn_reach E P c \<Longrightarrow> conn_step E P c c' \<Longrightarrow> conn_reach E P c'"

lemma NewPfcpConnection_ok:
  assumes "far_ok E b" "qer_ok E b" "urr_ok E b"
    and "NewPfcpConnection conf addrV4 now nodeID n3 n9 b rm = Val c"
  shows "conn_ok E c"
proof -
  have c: "NodeAssociations c = Map.empty" "mapOperations c = b"
    using assms(4) by (auto simp: NewPfcpConnection_def split: if_splits)
  then have e: "conn_rules g c = Map.empty" for g :: "Session \<Rightarrow> u32 \<rightharpoonup> 'x" by (auto simp: conn_rules_def fun_eq_iff)
  from c assms(1-3) show ?thesis by (simp add: conn_ok_def rules_ok_def e)
qed

lemma conn_step_ok:
  assumes "ranges_ok E"
  shows "conn_step E (orderly E) c c' \<Longrightarrow> conn_ok E c \<Longrightarrow> conn_ok E c'"
proof (induction rule: conn_step.induct)
  case (associated asq addr c r c')
  then show ?case using setup_ok [of E c asq addr] by simp
next
  case (updated auq addr c r c')
  then show ?case using update_ok [of E c auq addr] by simp
next
  case (answered asr addr c r c')
  then show ?case using setup_response_ok [of E c asr addr] by simp
next
  case (established seq addr c r c')
  then show ?case using establish_ok [of E c addr seq] by simp
next
  case (modified smq addr c r c')
  then show ?case using modification_ok [of E c addr smq] by simp
next
  case (deleted sdq addr c r c')
  then show ?case using deletion_ok [OF assms, of c sdq addr] by simp
next
  case (released addr c c')
  then obtain a where "NodeAssociations c addr = Some a"
    by (auto simp: DeleteAssociation_def GetAssociation_def split: option.splits)
  from deleteAssociation_effect(1) [OF assms released(2) this released(1)] show ?case by simp
qed

lemma conn_reach_ok: "conn_reach E (orderly E) c \<Longrightarrow> ranges_ok E \<Longrightarrow> conn_ok E c"
proof (induction rule: conn_reach.induct)
  case (start b b' conf addrV4 now nodeID n3 n9 rm c)
  from Load_trackers_ok(1-3) [OF start(1,5,2-4)] start(6) show ?case by (rule NewPfcpConnection_ok)
next
  case (step c c')
  then show ?case by (blast intro: conn_step_ok)
qed

end
