(* ===== verification/Heartbeat.thy ===== *)
theory Heartbeat
  imports Pfcp_Dispatch Association_Lifecycle
begin

text \<open>
  The concurrent part of the control plane: the receive loop \<open>Run\<close> of
  \<open>cmd/core/pfcp_connection.go\<close> and one goroutine \<open>ScheduleHeartbeat\<close> per association
  (\<open>cmd/core/node_association.go\<close>), which meet on two kinds of channels without buffer:
  \<open>HeartbeatChannel\<close> of an association (receive loop to scheduler) and \<open>heartbeatFailedC\<close> of
  the connection (schedulers to receive loop).

  The state has the connection, the place where the receive loop is, and the place where
  the scheduler of each address is. The step relation interleaves them; a send and the
  matching receive are one step. Timers may fire at any time while they run. The scheduler
  shares the object of its association with the receive loop, which is why it is enough
  to know schedulers by address as long as an address has at most one; \<open>sys_ok\<close> has that.
\<close>

section \<open>State\<close>

text \<open>
  A scheduler is about to send a request (with the number of failures so far), waits for
  the answer to a sequence number, sleeps after an answer, or reports the failure.
\<close>

datatype hb_pc = Starting u32 | Waiting u32 u32 | Sleeping | Reporting

datatype run_pc = Selecting | Delivering string u32 | Crashed panic

record ('m, 'b) upf_sys =
  sys_conn :: "('m, 'b) PfcpConnection"
  sys_run :: run_pc
  sys_hb :: "string \<rightharpoonup> hb_pc"

section \<open>The scheduler\<close>

text \<open>The two branches of its \<open>select\<close>, and the head of its loop.\<close>

definition hb_timeout :: "u32 \<Rightarrow> u32 \<Rightarrow> hb_pc" where
  "hb_timeout retries failedHeartbeats =
     (let failedHeartbeats = failedHeartbeats + 1
      in if failedHeartbeats \<ge> retries then Reporting else Starting failedHeartbeats)"

definition hb_answer :: "u32 \<Rightarrow> u32 \<Rightarrow> u32 \<Rightarrow> hb_pc" where
  "hb_answer sequence failedHeartbeats seq = (if sequence = seq then Sleeping else Starting failedHeartbeats)"

definition hb_request ::
  "'ie pfcp_io \<Rightarrow> string \<Rightarrow> NodeAssociation \<Rightarrow> ('m, 'b) PfcpConnection \<Rightarrow> u32 \<times> ('m, 'b) PfcpConnection" where
  "hb_request io addr association c =
     (case NewSequenceID association of
        (sequence, association) \<Rightarrow>
          (sequence, SendHeartbeatRequest io sequence (na_Addr association) (c\<lparr>NodeAssociations := (NodeAssociations c)(addr \<mapsto> association)\<rparr>)))"

text \<open>A handler that stored a new association has started its scheduler.\<close>

definition start_schedulers ::
  "('m, 'b) PfcpConnection \<Rightarrow> ('m, 'b) PfcpConnection \<Rightarrow> (string \<rightharpoonup> hb_pc) \<Rightarrow> string \<rightharpoonup> hb_pc" where
  "start_schedulers c c' hb =
     (if heartbeatSchedulers c' = heartbeatSchedulers c then hb
      else hb(hd (heartbeatSchedulers c') \<mapsto> Starting 0))"

section \<open>Steps\<close>

inductive sys_step ::
  "('ie, 'm, 'b, 'z) upf_env_scheme \<Rightarrow> 'ie pfcp_io \<Rightarrow> ('m, 'b) upf_sys \<Rightarrow> ('m, 'b) upf_sys \<Rightarrow> bool"
  for E io where
  received: "sys_run s = Selecting \<Longrightarrow> Handle E io buf addr (sys_conn s) = (Val (Finished e), c') \<Longrightarrow>
    sys_step E io s (s\<lparr>sys_conn := c', sys_hb := start_schedulers (sys_conn s) c' (sys_hb s)\<rparr>)"
| answered: "sys_run s = Selecting \<Longrightarrow> Handle E io buf addr (sys_conn s) = (Val (Blocked a q), c') \<Longrightarrow>
    sys_step E io s (s\<lparr>sys_conn := c', sys_run := Delivering a q\<rparr>)"
| panicked: "sys_run s = Selecting \<Longrightarrow> Handle E io buf addr (sys_conn s) = (Panic p, c') \<Longrightarrow>
    sys_step E io s (s\<lparr>sys_conn := c', sys_run := Crashed p\<rparr>)"
| ticked: "sys_run s = Selecting \<Longrightarrow>
    sys_step E io s (s\<lparr>sys_conn := RefreshAssociations reach (sys_conn s)\<rparr>)"
| delivered: "sys_run s = Delivering a q \<Longrightarrow> sys_hb s a = Some (Waiting seq n) \<Longrightarrow>
    sys_step E io s (s\<lparr>sys_run := Selecting, sys_hb := (sys_hb s)(a \<mapsto> hb_answer seq n q)\<rparr>)"
| reported: "sys_run s = Selecting \<Longrightarrow> sys_hb s a = Some Reporting \<Longrightarrow>
    DeleteAssociation E a (sys_conn s) = (Val (), c') \<Longrightarrow>
    sys_step E io s (s\<lparr>sys_conn := c', sys_hb := (sys_hb s)(a := None)\<rparr>)"
| failed: "sys_run s = Selecting \<Longrightarrow> sys_hb s a = Some Reporting \<Longrightarrow>
    DeleteAssociation E a (sys_conn s) = (Panic p, c') \<Longrightarrow>
    sys_step E io s (s\<lparr>sys_conn := c', sys_run := Crashed p, sys_hb := (sys_hb s)(a := None)\<rparr>)"
| requested: "(\<And>p. sys_run s \<noteq> Crashed p) \<Longrightarrow> sys_hb s a = Some (Starting n) \<Longrightarrow>
    NodeAssociations (sys_conn s) a = Some association \<Longrightarrow> hb_request io a association (sys_conn s) = (seq, c') \<Longrightarrow>
    sys_step E io s (s\<lparr>sys_conn := c', sys_hb := (sys_hb s)(a \<mapsto> Waiting seq n)\<rparr>)"
| timed_out: "(\<And>p. sys_run s \<noteq> Crashed p) \<Longrightarrow> sys_hb s a = Some (Waiting seq n) \<Longrightarrow>
    sys_step E io s (s\<lparr>sys_hb := (sys_hb s)(a \<mapsto> hb_timeout (HeartbeatRetries (Conf (sys_conn s))) n)\<rparr>)"
| woke: "(\<And>p. sys_run s \<noteq> Crashed p) \<Longrightarrow> sys_hb s a = Some Sleeping \<Longrightarrow>
    sys_step E io s (s\<lparr>sys_hb := (sys_hb s)(a \<mapsto> Starting 0)\<rparr>)"

inductive sys_reach ::
  "('ie, 'm, 'b, 'z) upf_env_scheme \<Rightarrow> 'ie pfcp_io \<Rightarrow> ('m, 'b) upf_sys \<Rightarrow> bool" for E io where
  booted: "NewPfcpConnection conf addrV4 now nodeID n3 n9 b rm = Val c \<Longrightarrow>
    sys_reach E io \<lparr>sys_conn = SetRemoteNodes ns c, sys_run = Selecting, sys_hb = Map.empty\<rparr>"
| stepped: "sys_reach E io s \<Longrightarrow> sys_step E io s s' \<Longrightarrow> sys_reach E io s'"

inductive_cases sys_stepE: "sys_step E io s s'"

section \<open>What the handlers do to associations\<close>

definition seqs :: "('m, 'b) PfcpConnection \<Rightarrow> string \<rightharpoonup> u32" where
  "seqs c a = map_option NextSequenceID (NodeAssociations c a)"

definition keeps_assocs :: "('m, 'b) PfcpConnection \<Rightarrow> ('m, 'b) PfcpConnection \<Rightarrow> bool" where
  "keeps_assocs c c' \<longleftrightarrow> Conf c' = Conf c \<and> seqs c' = seqs c \<and> heartbeatSchedulers c' = heartbeatSchedulers c"

definition adds_assoc :: "('m, 'b) PfcpConnection \<Rightarrow> ('m, 'b) PfcpConnection \<Rightarrow> bool" where
  "adds_assoc c c' \<longleftrightarrow> Conf c' = Conf c \<and> (\<exists>a. seqs c a = None \<and> seqs c' = (seqs c)(a \<mapsto> 1) \<and>
     heartbeatSchedulers c' = (if HeartbeatTimeout (Conf c) \<noteq> 0 then a # heartbeatSchedulers c else heartbeatSchedulers c))"

lemma keeps_assocs_simps [simp]:
  "keeps_assocs c c"
  "keeps_assocs c (count_rx E t k d) = keeps_assocs c d"
  "keeps_assocs c (leave_ctx h d) = keeps_assocs c d"
  "keeps_assocs c (from_ctx x d) = keeps_assocs c d"
  "keeps_assocs c (ReleaseResources E n d) = keeps_assocs c d"
  by (simp_all add: keeps_assocs_def seqs_def fun_eq_iff count_rx_def leave_ctx_def from_ctx_def ReleaseResources_def Let_def
      split: option.split)

lemma put_session_assocs [simp]:
  "Conf (put_session addr seid s d) = Conf d" "heartbeatSchedulers (put_session addr seid s d) = heartbeatSchedulers d"
  "seqs (put_session addr seid s d) = seqs d"
proof -
  show "seqs (put_session addr seid s d) = seqs d"
  proof
    fix x show "seqs (put_session addr seid s d) x = seqs d x"
      by (cases "NodeAssociations d addr"; cases "x = addr") (simp_all add: seqs_def put_session_def)
  qed
qed (simp_all add: put_session_def split: option.split)

lemma keeps_assocs_put [simp]: "keeps_assocs c (put_session addr seid s d) = keeps_assocs c d"
  by (simp add: keeps_assocs_def)

lemma seqs_upd:
  assumes "NodeAssociations d addr = Some a" and "NextSequenceID a' = NextSequenceID a"
  shows "seqs (d\<lparr>NodeAssociations := (NodeAssociations d)(addr \<mapsto> a')\<rparr>) = seqs d"
proof
  fix x show "seqs (d\<lparr>NodeAssociations := (NodeAssociations d)(addr \<mapsto> a')\<rparr>) x = seqs d x"
    using assms by (cases "x = addr") (simp_all add: seqs_def)
qed

lemma keeps_assocs_upd:
  "NodeAssociations d addr = Some a \<Longrightarrow> NextSequenceID a' = NextSequenceID a \<Longrightarrow>
   keeps_assocs c (d\<lparr>NodeAssociations := (NodeAssociations d)(addr \<mapsto> a')\<rparr>) = keeps_assocs c d"
  by (simp add: keeps_assocs_def seqs_upd)

lemma session_handlers_keep:
  "keeps_assocs c (snd (HandlePfcpSessionEstablishmentRequest E seq addr c))"
  "keeps_assocs c (snd (HandlePfcpSessionModificationRequest E smq addr c))"
  "keeps_assocs c (snd (HandlePfcpSessionDeletionRequest E sdq addr c))"
proof -
  show "keeps_assocs c (snd (HandlePfcpSessionEstablishmentRequest E seq addr c))"
    unfolding HandlePfcpSessionEstablishmentRequest_def Let_def NewLocalSEID_def
    by (simp add: keeps_assocs_upd split: option.split res.split prod.split)
  show "keeps_assocs c (snd (HandlePfcpSessionModificationRequest E smq addr c))"
    unfolding HandlePfcpSessionModificationRequest_def Let_def
    by (simp split: option.split res.split prod.split)
  have "keeps_assocs c ((leave_ctx h c)\<lparr>NodeAssociations := (NodeAssociations c)(addr \<mapsto> a\<lparr>Sessions := ss\<rparr>)\<rparr>)"
    if "NodeAssociations c addr = Some a" for h a ss
    using keeps_assocs_upd [of "leave_ctx h c" addr a "a\<lparr>Sessions := ss\<rparr>" c] that by simp
  then show "keeps_assocs c (snd (HandlePfcpSessionDeletionRequest E sdq addr c))"
    unfolding HandlePfcpSessionDeletionRequest_def Let_def
    by (simp split: option.split res.split prod.split)
qed

lemma saveAssociation_adds: "keeps_assocs c (saveAssociation n addr c) \<or> adds_assoc c (saveAssociation n addr c)"
  by (auto simp: saveAssociation_def Let_def keeps_assocs_def adds_assoc_def seqs_def NewNodeAssociation_def fun_eq_iff
      split: option.split)

lemma adds_assoc_count [simp]: "adds_assoc c (count_rx E t k d) = adds_assoc c d"
  by (simp add: adds_assoc_def seqs_def count_rx_def Let_def fun_eq_iff)

lemma association_handlers_add:
  "keeps_assocs c (snd (HandlePfcpAssociationSetupRequest E asq addr c)) \<or> adds_assoc c (snd (HandlePfcpAssociationSetupRequest E asq addr c))"
  "keeps_assocs c (snd (HandlePfcpAssociationSetupResponse E asr addr c)) \<or> adds_assoc c (snd (HandlePfcpAssociationSetupResponse E asr addr c))"
  "keeps_assocs c (snd (HandlePfcpAssociationUpdateRequest E auq addr c))"
  by (simp_all add: HandlePfcpAssociationSetupRequest_def HandlePfcpAssociationSetupResponse_def
      HandlePfcpAssociationUpdateRequest_def Let_def saveAssociation_adds split: option.split res.split)

lemma lift_reply_state [simp]: "snd (lift_reply f c) = snd (f c)"
  by (simp add: lift_reply_def split: prod.split res.split)

lemma lift_reply_not_Deliver: "fst (lift_reply f c) \<noteq> Val (Deliver a q)"
  by (simp add: lift_reply_def split: prod.split res.split)

lemma handler_effect:
  assumes "pfcpHandlers E msg = Some h"
  shows "keeps_assocs c (snd (h addr c)) \<or> adds_assoc c (snd (h addr c))"
    and "fst (h addr c) = Val (Deliver a q) \<Longrightarrow> snd (h addr c) = c \<and> seqs c a \<noteq> None"
proof -
  have hb: "snd (HandlePfcpHeartbeatRequest E r c) = c" "snd (HandlePfcpHeartbeatResponse E r addr c) = c" for r
    by (simp_all add: HandlePfcpHeartbeatRequest_def HandlePfcpHeartbeatResponse_def split: res.split option.split)
  show "keeps_assocs c (snd (h addr c)) \<or> adds_assoc c (snd (h addr c))"
  proof (cases msg)
    case (AssocSetupRequest r)
    with assms association_handlers_add(1) [of c E r addr] show ?thesis by (auto simp: pfcpHandlers_def)
  next
    case (AssocSetupResponse r)
    with assms association_handlers_add(2) [of c E r addr] show ?thesis by (auto simp: pfcpHandlers_def)
  qed (use assms in \<open>auto simp: pfcpHandlers_def hb session_handlers_keep association_handlers_add(3)\<close>)
  show "snd (h addr c) = c \<and> seqs c a \<noteq> None" if "fst (h addr c) = Val (Deliver a q)"
  proof (cases msg)
    case (HeartbeatResponse r)
    with assms that show ?thesis
      by (auto simp: pfcpHandlers_def HandlePfcpHeartbeatResponse_def GetAssociation_def seqs_def split: res.splits option.splits)
  qed (use assms that in \<open>auto simp: pfcpHandlers_def lift_reply_not_Deliver\<close>)
qed

text \<open>Changes of the counters and of the messages that were sent.\<close>

lemma keeps_assocs_messages [simp]:
  "keeps_assocs c (d\<lparr>PfcpMessageRx := x\<rparr>) = keeps_assocs c d" "keeps_assocs (d\<lparr>PfcpMessageRx := x\<rparr>) c = keeps_assocs d c"
  "keeps_assocs c (d\<lparr>PfcpMessageTx := x\<rparr>) = keeps_assocs c d" "keeps_assocs c (d\<lparr>sentMessages := m\<rparr>) = keeps_assocs c d"
  "adds_assoc c (d\<lparr>PfcpMessageTx := x\<rparr>) = adds_assoc c d" "adds_assoc c (d\<lparr>sentMessages := m\<rparr>) = adds_assoc c d"
  "adds_assoc (d\<lparr>PfcpMessageRx := x\<rparr>) c = adds_assoc d c"
  by (simp_all add: keeps_assocs_def adds_assoc_def seqs_def fun_eq_iff)

lemma Handle_effect:
  assumes "Handle E io buf addr c = (r, c')"
  shows "keeps_assocs c c' \<or> adds_assoc c c'"
    and "r = Val (Blocked a q) \<Longrightarrow> keeps_assocs c c' \<and> seqs c a \<noteq> None"
proof -
  have "(keeps_assocs c c' \<or> adds_assoc c c') \<and> (r = Val (Blocked a q) \<longrightarrow> keeps_assocs c c' \<and> seqs c a \<noteq> None)"
  proof (cases "message_Parse io buf")
    case None
    with assms show ?thesis by (auto simp: Handle_def)
  next
    case (Some msg)
    let ?c = "c\<lparr>PfcpMessageRx := inc_label (MessageTypeName E (MessageType msg)) (PfcpMessageRx c)\<rparr>"
    let ?a = "IP_String (ua_IP addr)"
    have seqs: "seqs ?c = seqs c" by (simp add: seqs_def fun_eq_iff)
    show ?thesis
    proof (cases "pfcpHandlers E msg")
      case None
      with Some assms show ?thesis by (auto simp: Handle_def Let_def)
    next
      case h: (Some h)
      note e = handler_effect [OF h, where c = ?c and addr = ?a]
      obtain q1 c1 where q1: "h ?a ?c = (q1, c1)" by fastforce
      have c1: "keeps_assocs c c1 \<or> adds_assoc c c1" using e(1) q1 by simp
      show ?thesis
        using assms Some h q1 c1 e(2) [of a q] seqs
        by (auto simp: Handle_def Let_def SendMessage_def split: res.splits handled.splits prod.splits option.splits if_splits)
    qed
  qed
  then show "keeps_assocs c c' \<or> adds_assoc c c'"
    and "r = Val (Blocked a q) \<Longrightarrow> keeps_assocs c c' \<and> seqs c a \<noteq> None" by blast+
qed

lemma RefreshAssociations_keeps: "keeps_assocs c (RefreshAssociations reach c)"
proof -
  have "keeps_assocs c (fold (\<lambda>node c. if GetAssociation node c = None then sendAssociationSetupRequest reach node c else c) ns d)"
    if "keeps_assocs c d" for ns d
    using that by (induction ns arbitrary: d) (simp_all add: sendAssociationSetupRequest_def Let_def)
  then show ?thesis by (simp add: RefreshAssociations_def)
qed

lemma deletions_keep: "keeps_assocs c (snd (for_range (\<lambda>(_, session). DeleteSession E session) ss c))"
  by (rule for_range_keeps [where I = "keeps_assocs c"]) (simp_all add: DeleteSession_def case_prod_unfold split: prod.split)

lemma DeleteAssociation_Conf: "Conf (snd (DeleteAssociation E a c)) = Conf c"
proof (cases "NodeAssociations c a")
  case (Some as)
  have "Conf (snd (for_range (\<lambda>(_, session). DeleteSession E session) (rangeSessions E (Sessions as)) c)) = Conf c"
    using deletions_keep [of c E "rangeSessions E (Sessions as)"] by (simp add: keeps_assocs_def)
  with Some show ?thesis
    by (auto simp: DeleteAssociation_def GetAssociation_def bind_op_def dest!: arg_cong [where f = snd] split: prod.split res.split)
qed (simp add: DeleteAssociation_def GetAssociation_def)

lemma DeleteAssociation_assocs:
  assumes "DeleteAssociation E a c = (Val (), c')"
  shows "Conf c' = Conf c" "heartbeatSchedulers c' = heartbeatSchedulers c" "seqs c' = (seqs c)(a := None)"
proof -
  obtain as where as: "NodeAssociations c a = Some as"
    using assms by (auto simp: DeleteAssociation_def GetAssociation_def split: option.splits)
  note k = deletions_keep [of c E "rangeSessions E (Sessions as)"]
  obtain c1 where c1: "for_range (\<lambda>(_, session). DeleteSession E session) (rangeSessions E (Sessions as)) c = (Val (), c1)"
    "c' = c1\<lparr>NodeAssociations := (NodeAssociations c1)(a := None)\<rparr>"
    using assms as by (auto simp: DeleteAssociation_def GetAssociation_def bind_op_eq_Val)
  from k c1 show "Conf c' = Conf c" "heartbeatSchedulers c' = heartbeatSchedulers c" by (simp_all add: keeps_assocs_def)
  have "seqs c' = (seqs c1)(a := None)" by (simp add: c1 seqs_def fun_eq_iff)
  with k c1 show "seqs c' = (seqs c)(a := None)" by (simp add: keeps_assocs_def)
qed

section \<open>The invariant\<close>

text \<open>
  While the receive loop lives: the schedulers are those of the associations (of none, with
  heartbeats off); a scheduler waits for the last sequence number its association gave out; it has
  not reached the limit of failures; and a delivery goes to an association that exists.
\<close>

definition pc_ok :: "u32 \<Rightarrow> u32 \<Rightarrow> hb_pc \<Rightarrow> bool" where
  "pc_ok retries given p \<longleftrightarrow>
     (case p of
        Starting n \<Rightarrow> n < retries \<or> n = 0
      | Waiting seq n \<Rightarrow> seq = given \<and> (n < retries \<or> n = 0)
      | _ \<Rightarrow> True)"

definition sys_ok :: "('m, 'b) upf_sys \<Rightarrow> bool" where
  "sys_ok s \<longleftrightarrow> (\<exists>p. sys_run s = Crashed p) \<or>
     dom (sys_hb s) = (if HeartbeatTimeout (Conf (sys_conn s)) \<noteq> 0 then dom (seqs (sys_conn s)) else {}) \<and>
     (\<forall>a p. sys_hb s a = Some p \<longrightarrow> pc_ok (HeartbeatRetries (Conf (sys_conn s))) (the (seqs (sys_conn s) a)) p) \<and>
     (\<forall>a q. sys_run s = Delivering a q \<longrightarrow> seqs (sys_conn s) a \<noteq> None)"

lemma hb_timeout_ok: "n < retries \<or> n = 0 \<Longrightarrow> pc_ok retries l (hb_timeout retries n)"
  by (auto simp: hb_timeout_def pc_ok_def Let_def not_le)

lemma hb_answer_ok: "pc_ok retries l (Waiting seq n) \<Longrightarrow> pc_ok retries l (hb_answer seq n q)"
  by (simp add: hb_answer_def pc_ok_def)

lemma hb_request_effect:
  assumes "hb_request io a association c = (seq, c')"
  shows "Conf c' = Conf c" "seqs c' = (seqs c)(a \<mapsto> seq)" "heartbeatSchedulers c' = heartbeatSchedulers c"
proof -
  have c': "c' = SendHeartbeatRequest io seq (na_Addr association) (c\<lparr>NodeAssociations := (NodeAssociations c)(a \<mapsto> association\<lparr>NextSequenceID := seq\<rparr>)\<rparr>)"
    using assms by (auto simp: hb_request_def NewSequenceID_def)
  have send: "Conf (SendHeartbeatRequest io n x d) = Conf d" "NodeAssociations (SendHeartbeatRequest io n x d) = NodeAssociations d"
    "heartbeatSchedulers (SendHeartbeatRequest io n x d) = heartbeatSchedulers d" for n x and d :: "('d, 'e) PfcpConnection"
    by (simp_all add: SendHeartbeatRequest_def SendMessage_def)
  show "Conf c' = Conf c" "heartbeatSchedulers c' = heartbeatSchedulers c" by (simp_all add: c' send)
  show "seqs c' = (seqs c)(a \<mapsto> seq)" by (simp add: c' send seqs_def fun_eq_iff)
qed

lemma start_schedulers_cases:
  assumes "keeps_assocs c c' \<or> adds_assoc c c'"
  obtains "seqs c' = seqs c" "Conf c' = Conf c" "start_schedulers c c' hb = hb"
  | a where "seqs c a = None" "seqs c' = (seqs c)(a \<mapsto> 1)" "Conf c' = Conf c"
      "start_schedulers c c' hb = (if HeartbeatTimeout (Conf c) \<noteq> 0 then hb(a \<mapsto> Starting 0) else hb)"
  using assms by (auto simp: keeps_assocs_def adds_assoc_def start_schedulers_def split: if_splits)

text \<open>Steps of one scheduler: its entry changes to an admissible one, nothing else does.\<close>

lemma sys_ok_local:
  assumes "sys_ok s" and "\<forall>p. sys_run s \<noteq> Crashed p" and "sys_hb s a = Some p"
    and "Conf c' = Conf (sys_conn s)" and "seqs c' = seqs (sys_conn s) \<or> seqs c' = (seqs (sys_conn s))(a \<mapsto> q)"
    and "pc_ok (HeartbeatRetries (Conf c')) (the (seqs c' a)) p'"
    and "r = sys_run s \<or> r = Selecting"
  shows "sys_ok (s\<lparr>sys_conn := c', sys_run := r, sys_hb := (sys_hb s)(a \<mapsto> p')\<rparr>)"
proof -
  let ?c = "sys_conn s"
  have dom: "dom (sys_hb s) = (if HeartbeatTimeout (Conf ?c) \<noteq> 0 then dom (seqs ?c) else {})"
    and pcs: "\<forall>a p. sys_hb s a = Some p \<longrightarrow> pc_ok (HeartbeatRetries (Conf ?c)) (the (seqs ?c a)) p"
    and del: "\<forall>a q. sys_run s = Delivering a q \<longrightarrow> seqs ?c a \<noteq> None"
    using assms(1,2) by (simp_all add: sys_ok_def)
  have on: "HeartbeatTimeout (Conf ?c) \<noteq> 0" "a \<in> dom (seqs ?c)" using dom assms(3) by (auto split: if_splits)
  have d: "dom (seqs c') = dom (seqs ?c)" using assms(5) on(2) by (auto split: if_splits)
  have "\<forall>b p. ((sys_hb s)(a \<mapsto> p')) b = Some p \<longrightarrow> pc_ok (HeartbeatRetries (Conf c')) (the (seqs c' b)) p"
    using pcs assms(4-6) by auto
  moreover have "dom ((sys_hb s)(a \<mapsto> p')) = dom (seqs c')" using dom on d by auto
  moreover have "seqs c' b \<noteq> None" if "sys_run s = Delivering b x" for b x using del that d by blast
  ultimately show ?thesis using assms(4,7) on(1) by (auto simp: sys_ok_def) metis
qed

lemma sys_step_ok:
  assumes "sys_step E io s s'" and "sys_ok s"
  shows "sys_ok s'"
  using assms(1)
proof cases
  case (received buf addr e c')
  have "keeps_assocs (sys_conn s) c' \<or> adds_assoc (sys_conn s) c'" using Handle_effect(1) [OF received(3)] .
  then show ?thesis
  proof (rule start_schedulers_cases [where hb = "sys_hb s"], goal_cases)
    case 1
    with received assms(2) show ?case by (simp add: sys_ok_def)
  next
    case (2 a)
    from assms(2) received 2 show ?case
      by (cases "HeartbeatTimeout (Conf (sys_conn s)) = 0") (auto simp: sys_ok_def pc_ok_def)
  qed
next
  case (answered buf addr a q c')
  have "keeps_assocs (sys_conn s) c' \<and> seqs (sys_conn s) a \<noteq> None" using Handle_effect(2) [OF answered(3)] by simp
  with answered assms(2) show ?thesis by (simp add: sys_ok_def keeps_assocs_def)
next
  case (ticked reach)
  with RefreshAssociations_keeps [of "sys_conn s" reach] assms(2) show ?thesis by (simp add: sys_ok_def keeps_assocs_def)
next
  case (delivered a q seq n)
  then have "sys_ok (s\<lparr>sys_conn := sys_conn s, sys_run := Selecting, sys_hb := (sys_hb s)(a \<mapsto> hb_answer seq n q)\<rparr>)"
    using assms(2) by (intro sys_ok_local [where p = "Waiting seq n"] hb_answer_ok) (auto simp: sys_ok_def)
  with delivered show ?thesis by simp
next
  case (reported a c')
  have "sys_hb s a \<noteq> None" using reported by simp
  with reported assms(2) DeleteAssociation_assocs [OF reported(4)] show ?thesis
    by (cases "HeartbeatTimeout (Conf (sys_conn s)) = 0") (auto simp: sys_ok_def)
next
  case (requested a n association seq c')
  then have "pc_ok (HeartbeatRetries (Conf (sys_conn s))) (the (seqs (sys_conn s) a)) (Starting n)"
    using assms(2) by (auto simp: sys_ok_def)
  then have "sys_ok (s\<lparr>sys_conn := c', sys_run := sys_run s, sys_hb := (sys_hb s)(a \<mapsto> Waiting seq n)\<rparr>)"
    using assms(2) requested hb_request_effect [OF requested(5)]
    by (intro sys_ok_local [where p = "Starting n" and q = seq]) (auto simp: pc_ok_def)
  with requested show ?thesis by simp
next
  case (timed_out a seq n)
  then have "pc_ok (HeartbeatRetries (Conf (sys_conn s))) (the (seqs (sys_conn s) a)) (Waiting seq n)"
    using assms(2) by (auto simp: sys_ok_def)
  then have "sys_ok (s\<lparr>sys_conn := sys_conn s, sys_run := sys_run s, sys_hb := (sys_hb s)(a \<mapsto> hb_timeout (HeartbeatRetries (Conf (sys_conn s))) n)\<rparr>)"
    using assms(2) timed_out by (intro sys_ok_local [where p = "Waiting seq n"] hb_timeout_ok) (auto simp: pc_ok_def)
  with timed_out show ?thesis by simp
next
  case (woke a)
  then have "sys_ok (s\<lparr>sys_conn := sys_conn s, sys_run := sys_run s, sys_hb := (sys_hb s)(a \<mapsto> Starting 0)\<rparr>)"
    using assms(2) by (intro sys_ok_local [where p = Sleeping]) (auto simp: pc_ok_def)
  with woke show ?thesis by simp
qed (auto simp: sys_ok_def)

lemma sys_reach_ok: "sys_reach E io s \<Longrightarrow> sys_ok s"
proof (induction rule: sys_reach.induct)
  case (booted conf addrV4 now nodeID n3 n9 b rm c ns)
  then have "NodeAssociations c = Map.empty" by (auto simp: NewPfcpConnection_def split: if_splits)
  then show ?case by (simp add: sys_ok_def seqs_def SetRemoteNodes_def dom_def)
qed (rule sys_step_ok)

section \<open>A peer that is silent\<close>

text \<open>How many steps of its own a scheduler has at most before it reports, without an answer.\<close>

definition hb_left :: "u32 \<Rightarrow> hb_pc \<Rightarrow> nat" where
  "hb_left retries p =
     (case p of
        Starting n \<Rightarrow> 2 * (unat retries - unat n) + 2
      | Waiting _ n \<Rightarrow> 2 * (unat retries - unat n) + 1
      | Sleeping \<Rightarrow> 2 * unat retries + 3
      | Reporting \<Rightarrow> 0)"

lemma unat_Suc_less: "unat (n + 1) = unat n + 1" if "n < m" for n m :: "'a::len word"
proof -
  have "n + 1 \<noteq> 0" using that by (metis add.right_neutral add_diff_cancel_right' diff_0 word_order.extremum not_less)
  then show ?thesis by (simp add: unatSuc add.commute)
qed

lemma hb_left_timeout:
  assumes "n < retries \<or> n = 0"
  shows "hb_left retries (hb_timeout retries n) < hb_left retries (Waiting seq n)"
proof (cases "n + 1 \<ge> retries")
  case False
  then have "n < retries" using assms by (auto simp: not_le intro: order.strict_trans [of 0 1])
  then have "unat (n + 1) = unat n + 1"
    using unat_Suc_less [of n retries] by simp
  with False \<open>n < retries\<close> show ?thesis by (simp add: hb_timeout_def hb_left_def word_less_nat_alt)
qed (simp add: hb_timeout_def hb_left_def)

text \<open>A step that delivers nothing to a scheduler leaves it where it is or brings it closer to its report.\<close>

lemma scheduler_step:
  assumes "sys_step E io s s'" and "sys_ok s" and "sys_hb s a = Some p" and "p \<noteq> Reporting"
    and "\<forall>q. sys_run s \<noteq> Delivering a q"
  shows "Conf (sys_conn s') = Conf (sys_conn s) \<and> (sys_hb s' a = Some p \<or>
    (\<exists>p'. sys_hb s' a = Some p' \<and> hb_left (HeartbeatRetries (Conf (sys_conn s))) p' < hb_left (HeartbeatRetries (Conf (sys_conn s))) p))"
  using assms(1)
proof cases
  case (received buf addr e c')
  have h: "keeps_assocs (sys_conn s) c' \<or> adds_assoc (sys_conn s) c'" using Handle_effect(1) [OF received(3)] .
  have "seqs (sys_conn s) a \<noteq> None" using assms(2,3) received by (auto simp: sys_ok_def split: if_splits)
  with h show ?thesis using received assms(3)
    by (elim start_schedulers_cases [where hb = "sys_hb s"]) auto
next
  case (answered buf addr b q c')
  have "Conf c' = Conf (sys_conn s)" using Handle_effect(2) [OF answered(3)] by (simp add: keeps_assocs_def)
  with answered assms(3) show ?thesis by simp
next
  case (panicked buf addr p c')
  have "Conf c' = Conf (sys_conn s)" using Handle_effect(1) [OF panicked(3)] by (auto simp: keeps_assocs_def adds_assoc_def)
  with panicked assms(3) show ?thesis by simp
next
  case (ticked reach)
  with RefreshAssociations_keeps [of "sys_conn s" reach] assms(3) show ?thesis by (simp add: keeps_assocs_def)
next
  case (delivered b q seq n)
  with assms(3,5) show ?thesis by auto
next
  case (reported b c')
  with assms(3,4) DeleteAssociation_assocs [OF reported(4)] show ?thesis by auto
next
  case (failed b q c')
  with assms(3,4) DeleteAssociation_Conf [of E b "sys_conn s"] show ?thesis by auto
next
  case (requested b n association seq c')
  with assms(3) hb_request_effect [OF requested(5)] show ?thesis by (auto simp: hb_left_def)
next
  case (timed_out b seq n)
  then have "pc_ok (HeartbeatRetries (Conf (sys_conn s))) (the (seqs (sys_conn s) b)) (Waiting seq n)"
    using assms(2) by (auto simp: sys_ok_def)
  then have "n < HeartbeatRetries (Conf (sys_conn s)) \<or> n = 0" by (simp add: pc_ok_def)
  with timed_out assms(3) hb_left_timeout [of n "HeartbeatRetries (Conf (sys_conn s))" seq] show ?thesis by auto
next
  case (woke b)
  with assms(3) show ?thesis by (auto simp: hb_left_def)
qed

section \<open>A delivery that cannot happen\<close>

lemma delivery_stuck_step:
  assumes "sys_step E io s s'" and "sys_run s = Delivering a q" and "sys_hb s a = None \<or> sys_hb s a = Some Reporting"
  shows "sys_run s' = Delivering a q \<and> sys_hb s' a = sys_hb s a"
  using assms by (cases rule: sys_stepE) auto

lemma delivery_stuck:
  assumes "(sys_step E io)\<^sup>*\<^sup>* s s'" and "sys_run s = Delivering a q" and "sys_hb s a = None \<or> sys_hb s a = Some Reporting"
  shows "sys_run s' = Delivering a q \<and> sys_hb s' a = sys_hb s a"
  using assms(1)
proof (induction rule: rtranclp_induct)
  case (step s1 s2)
  with delivery_stuck_step [of E io s1 s2 a q] assms(3) show ?case by auto
qed (use assms(2) in simp)

end
