(* ===== verification/Session_Accounting.thy ===== *)
theory Session_Accounting
  imports Association_Lifecycle
begin

text \<open>
  Accounting of resources over the life of a session: an establishment moves identifiers
  from the free sets to the session and a deletion moves them back, and what happens to
  the TEIDs of the resource manager when a session is deleted.
\<close>

section \<open>Identifiers\<close>

definition held :: "('k \<rightharpoonup> u32 \<times> 'v) \<Rightarrow> u32 set" where
  "held t = fst ` ran t"

lemma held_upd: "t i = None \<Longrightarrow> held (t(i \<mapsto> (g, v))) = insert g (held t)"
  by (simp add: held_def)

lemma held_empty [simp]: "held Map.empty = {}"
  by (simp add: held_def)

lemma held_session:
  "held (session_fars s) = sfar_GlobalId ` ran (FARs s)"
  "held (session_qers s) = sqer_GlobalId ` ran (QERs s)"
  "held (session_urrs s) = surr_GlobalId ` ran (URRs s)"
  by (force simp: held_def ran_def session_fars_def session_qers_def session_urrs_def far_entry_def
      qer_entry_def urr_entry_def image_iff)+

text \<open>Free and held identifiers together stay the same; the session does not yet hold the rules in \<open>D\<close>.\<close>

definition account ::
  "('ie, 'm, 'b, 'z) upf_env_scheme \<Rightarrow> u32 set \<Rightarrow> u32 set \<Rightarrow> u32 set \<Rightarrow> u32 set \<Rightarrow> u32 option set \<Rightarrow>
   u32 option set \<Rightarrow> ('m, 'b) hstate \<Rightarrow> bool" where
  "account E F Q U df dq du h \<longleftrightarrow>
     far_ok E (rc_mapOperations h) \<and> qer_ok E (rc_mapOperations h) \<and> urr_ok E (rc_mapOperations h) \<and>
     far_free E (rc_mapOperations h) \<union> held (session_fars (pc_Session h)) = F \<and>
     qer_free E (rc_mapOperations h) \<union> held (session_qers (pc_Session h)) = Q \<and>
     urr_free E (rc_mapOperations h) \<union> held (session_urrs (pc_Session h)) = U \<and>
     df \<inter> dom (session_fars (pc_Session h)) = {} \<and>
     {i. Some i \<in> dq} \<inter> dom (session_qers (pc_Session h)) = {} \<and>
     {i. Some i \<in> du} \<inter> dom (session_urrs (pc_Session h)) = {}"

lemma create_far_account:
  assumes "or_zero (ie_FARID E x) \<in> df"
  shows "ok_step (account E F Q U df dq du) (create_far E x)
     (account E F Q U (df - {or_zero (ie_FARID E x)}) dq du) (\<lambda>_. True)"
  unfolding ok_step_def
proof (intro allI impI)
  fix h assume A: "account E F Q U df dq du h"
  let ?i = "or_zero (ie_FARID E x)"
  show "if is_val (fst (create_far E x h)) then account E F Q U (df - {?i}) dq du (snd (create_far E x h)) else True"
  proof (cases "composeFarInfo E x zero_FarInfo")
    case (Val info)
    obtain r b where n: "NewFar E info (rc_mapOperations h) = (r, b)" by fastforce
    show ?thesis
    proof (cases r)
      case (Val g)
      have none: "session_fars (pc_Session h) ?i = None" using A assms by (auto simp: account_def)
      have fr: "\<exists>m t. b = (rc_mapOperations h)\<lparr>FarMap := m, farIdTracker := t\<rparr>"
        using far_frame(1) [of E info "rc_mapOperations h"] n by simp
      have "far_ok E (rc_mapOperations h)" using A by (simp add: account_def)
      from far.new_Val [OF this n [unfolded Val]] have "g \<in> far_free E (rc_mapOperations h)"
        "far_free E b = far_free E (rc_mapOperations h) - {g}" "far_ok E b" by blast+
      with A none fr \<open>composeFarInfo E x zero_FarInfo = Val info\<close> n Val show ?thesis
        by (auto simp: create_far_def lift_res_def on_tables_def on_session_def bind_op_def account_def
            session_far.entries_new held_upd qer_ok_def urr_ok_def)
    qed (use n \<open>composeFarInfo E x zero_FarInfo = Val info\<close> in \<open>auto simp: create_far_def lift_res_def on_tables_def bind_op_def\<close>)
  qed (simp_all add: create_far_def lift_res_def bind_op_def)
qed

lemma create_qer_account:
  assumes "ie_QERID E x \<in> dq"
  shows "ok_step (account E F Q U df dq du) (create_qer E x) (account E F Q U df (dq - {ie_QERID E x}) du) (\<lambda>_. True)"
  unfolding ok_step_def
proof (intro allI impI)
  fix h assume A: "account E F Q U df dq du h"
  show "if is_val (fst (create_qer E x h)) then account E F Q U df (dq - {ie_QERID E x}) du (snd (create_qer E x h)) else True"
  proof (cases "ie_QERID E x")
    case (Some i)
    let ?v = "updateQer E x zero_QerInfo"
    obtain r b where n: "NewQer E ?v (rc_mapOperations h) = (r, b)" by fastforce
    show ?thesis
    proof (cases r)
      case (Val g)
      have none: "session_qers (pc_Session h) i = None" using A assms Some by (auto simp: account_def)
      have fr: "\<exists>m t. b = (rc_mapOperations h)\<lparr>QerMap := m, qerIdTracker := t\<rparr>"
        using qer_frame(1) [of E ?v "rc_mapOperations h"] n by simp
      have "qer_ok E (rc_mapOperations h)" using A by (simp add: account_def)
      from qer.new_Val [OF this n [unfolded Val]] have "g \<in> qer_free E (rc_mapOperations h)"
        "qer_free E b = qer_free E (rc_mapOperations h) - {g}" "qer_ok E b" by blast+
      with A none fr Some n Val show ?thesis
        by (auto simp: create_qer_def lift_res_def or_err_def Let_def on_tables_def on_session_def bind_op_def account_def
            session_qer.entries_new held_upd far_ok_def urr_ok_def)
    qed (use n Some in \<open>auto simp: create_qer_def lift_res_def or_err_def Let_def on_tables_def bind_op_def\<close>)
  qed (simp add: create_qer_def lift_res_def or_err_def bind_op_def)
qed

lemma create_urr_account:
  assumes "ie_URRID E x \<in> du"
  shows "ok_step (account E F Q U df dq du) (create_urr E x) (account E F Q U df dq (du - {ie_URRID E x})) (\<lambda>_. True)"
  unfolding ok_step_def
proof (intro allI impI)
  fix h assume A: "account E F Q U df dq du h"
  show "if is_val (fst (create_urr E x h)) then account E F Q U df dq (du - {ie_URRID E x}) (snd (create_urr E x h)) else True"
  proof (cases "ie_URRID E x")
    case (Some i)
    let ?v = "updateUrr E x zero_UrrInfo"
    obtain r b where n: "NewUrr E ?v (rc_mapOperations h) = (r, b)" by fastforce
    show ?thesis
    proof (cases r)
      case (Val g)
      have none: "session_urrs (pc_Session h) i = None" using A assms Some by (auto simp: account_def)
      have fr: "\<exists>m t. b = (rc_mapOperations h)\<lparr>UrrMap := m, urrIdTracker := t\<rparr>"
        using urr_frame(1) [of E ?v "rc_mapOperations h"] n by simp
      have "urr_ok E (rc_mapOperations h)" using A by (simp add: account_def)
      from urr.new_Val [OF this n [unfolded Val]] have "g \<in> urr_free E (rc_mapOperations h)"
        "urr_free E b = urr_free E (rc_mapOperations h) - {g}" "urr_ok E b" by blast+
      with A none fr Some n Val show ?thesis
        by (auto simp: create_urr_def lift_res_def or_err_def Let_def on_tables_def on_session_def bind_op_def account_def
            session_urr.entries_new held_upd far_ok_def qer_ok_def)
    qed (use n Some in \<open>auto simp: create_urr_def lift_res_def or_err_def Let_def on_tables_def bind_op_def\<close>)
  qed (simp add: create_urr_def lift_res_def or_err_def bind_op_def)
qed

lemma create_pdr_account:
  assumes "account E F Q U df dq du h"
  shows "account E F Q U df dq du (snd (create_pdr E ft e x h))"
proof (rule create_pdr_keeps [where I = "account E F Q U df dq du", OF _ _ _ _ assms])
  fix s h assume A: "account E F Q U df dq du h"
  then show "account E F Q U df dq du (snd (extractPDR E ft x s h))"
    by (simp add: account_def extractPDR_tables extractPDR_session)
  obtain k y z where "snd (applyPDR E s (rc_mapOperations h)) =
      (rc_mapOperations h)\<lparr>PdrMapTeidIp4 := k, PdrMapDownlinkIp4 := y, PdrMapDownlinkIp6 := z\<rparr>"
    using pdr_frame(1) [of E s] by blast
  with A show "account E F Q U df dq du (snd (on_tables (applyPDR E s) h))"
    by (auto simp: account_def on_tables_def far_ok_def qer_ok_def urr_ok_def split: prod.splits)
  show "account E F Q U df dq du (h\<lparr>pc_Session := PutPDR i s (pc_Session h)\<rparr>)" for i
    using A by (simp add: account_def)
  show "account E F Q U df dq du (h\<lparr>h_createdPDRs := l\<rparr>)" for l
    using A by (simp add: account_def)
qed

text \<open>A request that names every rule once takes identifiers from the free sets only.\<close>

definition names_once :: "('ie, 'm, 'b, 'z) upf_env_scheme \<Rightarrow> 'ie SessionEstablishmentRequest \<Rightarrow> bool" where
  "names_once E req \<longleftrightarrow> distinct (map (\<lambda>x. or_zero (ie_FARID E x)) (seq_CreateFAR req)) \<and>
     distinct (map (ie_QERID E) (seq_CreateQER req)) \<and> distinct (map (ie_URRID E) (seq_CreateURR req))"

lemma establish_rules_account:
  assumes "names_once E req" and "account E F Q U UNIV UNIV UNIV h"
    and "establish_rules E ft req h = (Val (), h')"
  shows "far_free E (rc_mapOperations h') \<union> held (session_fars (pc_Session h')) = F"
    and "qer_free E (rc_mapOperations h') \<union> held (session_qers (pc_Session h')) = Q"
    and "urr_free E (rc_mapOperations h') \<union> held (session_urrs (pc_Session h')) = U"
proof -
  let ?k = "\<lambda>x. or_zero (ie_FARID E x)"
  let ?F = "UNIV - ?k ` set (seq_CreateFAR req)" and ?Q = "UNIV - ie_QERID E ` set (seq_CreateQER req)"
    and ?U = "UNIV - ie_URRID E ` set (seq_CreateURR req)"
  have d: "distinct (map ?k (seq_CreateFAR req))" "distinct (map (ie_QERID E) (seq_CreateQER req))"
    "distinct (map (ie_URRID E) (seq_CreateURR req))" using assms(1) by (simp_all add: names_once_def)
  have "ok_step (account E F Q U UNIV UNIV UNIV) (establish_rules E ft req) (account E F Q U ?F ?Q ?U) (\<lambda>_. True)"
    unfolding establish_rules_def
    apply (rule ok_step_seq [OF ok_step_consume [where key = ?k and P = "\<lambda>D. account E F Q U D UNIV UNIV"]])
    subgoal by (rule create_far_account)
    subgoal by (rule d)
    subgoal by simp
    apply (rule ok_step_seq [OF ok_step_consume [where key = "ie_QERID E" and P = "\<lambda>D. account E F Q U ?F D UNIV"]])
    subgoal by (rule create_qer_account)
    subgoal by (rule d)
    subgoal by simp
    apply (rule ok_step_seq [OF ok_step_consume [where key = "ie_URRID E" and P = "\<lambda>D. account E F Q U ?F ?Q D"]])
    subgoal by (rule create_urr_account)
    subgoal by (rule d)
    subgoal by simp
    apply (rule ok_step_seq [OF ok_step_for ok_step_nil])
    by (simp add: ok_step_def create_pdr_account)
  with assms(2,3) have "account E F Q U ?F ?Q ?U h'" unfolding ok_step_def by force
  then show "far_free E (rc_mapOperations h') \<union> held (session_fars (pc_Session h')) = F"
    "qer_free E (rc_mapOperations h') \<union> held (session_qers (pc_Session h')) = Q"
    "urr_free E (rc_mapOperations h') \<union> held (session_urrs (pc_Session h')) = U"
    unfolding account_def by blast+
qed

section \<open>Accepted establishments\<close>

fun ies_of :: "out_msg \<Rightarrow> resp_ie list" where
  "ies_of (NewHeartbeatRequest _ i) = [i]"
| "ies_of (NewHeartbeatResponse _ i) = [i]"
| "ies_of (NewAssociationSetupRequest _ is) = is"
| "ies_of (NewAssociationSetupResponse _ is) = is"
| "ies_of (NewAssociationUpdateResponse _ is) = is"
| "ies_of (NewSessionEstablishmentResponse _ _ _ _ _ is) = is"
| "ies_of (NewSessionDeletionResponse _ _ _ _ _ is) = is"
| "ies_of (NewSessionModificationResponse _ _ _ _ _ is) = is"

definition accepted :: "reply res \<Rightarrow> bool" where
  "accepted r \<longleftrightarrow> (\<exists>m. r = Val (Some m, None) \<and> NewCause CauseRequestAccepted \<in> set (ies_of m))"

lemma newIeNodeID_no_cause [simp]: "newIeNodeID n \<noteq> NewCause k" "NewCause k \<noteq> newIeNodeID n"
  by (simp_all add: newIeNodeID_def split: option.split)

lemma convertErrorToIeCause_rejects [simp]: "convertErrorToIeCause e \<noteq> CauseRequestAccepted"
  "CauseRequestAccepted \<noteq> convertErrorToIeCause e"
  by (simp_all add: convertErrorToIeCause_def split: goerror.split)

text \<open>The loops of an establishment do not change the SEIDs of the session.\<close>

lemma establish_rules_seids:
  assumes "establish_rules E ft req h = (r, h')"
  shows "LocalSEID (pc_Session h') = LocalSEID (pc_Session h)" "RemoteSEID (pc_Session h') = RemoteSEID (pc_Session h)"
proof -
  let ?I = "\<lambda>k. LocalSEID (pc_Session k) = LocalSEID (pc_Session h) \<and> RemoteSEID (pc_Session k) = RemoteSEID (pc_Session h)"
  have far: "?I (snd (create_far E x k))" and qer: "?I (snd (create_qer E x k))" and urr: "?I (snd (create_urr E x k))" if "?I k" for x k
    using that by (auto simp: create_far_def create_qer_def create_urr_def lift_res_def on_tables_def on_session_def bind_op_def
        Let_def Session_NewFar_def Session_NewQer_def Session_NewUrr_def split: prod.split res.split)
  have pdr: "?I (snd (create_pdr E ft e x k))" if "?I k" for e x k
    by (rule create_pdr_keeps [where I = ?I, OF _ _ _ _ that])
       (auto simp: extractPDR_session on_tables_def PutPDR_def split: prod.split)
  have "?I (snd (establish_rules E ft req h))"
    by (rule establish_rules_keeps [where I = ?I]) (use far qer urr pdr in blast)+
  with assms show "LocalSEID (pc_Session h') = LocalSEID (pc_Session h)" "RemoteSEID (pc_Session h') = RemoteSEID (pc_Session h)"
    by simp_all
qed

lemma establishment_accepted:
  assumes ok: "conn_ok E c" and a: "NodeAssociations c addr = Some a" and nw: "NextSessionID a \<noteq> - 1"
    and h: "HandlePfcpSessionEstablishmentRequest E req addr c = (r, c')" and acc: "accepted r"
  shows "\<exists>s m. r = Val (Some m, None) \<and> NewFSEID (NextSessionID a + 1) (cloneIP (nodeAddrV4 c)) None \<in> set (ies_of m) \<and>
     validateRequest E (seq_NodeID req) (seq_CPFSEID req) = Val (RemoteSEID s) \<and> LocalSEID s = NextSessionID a + 1 \<and>
     Sessions a (NextSessionID a + 1) = None \<and>
     NodeAssociations c' = (NodeAssociations c)(addr \<mapsto>
        a\<lparr>NextSessionID := NextSessionID a + 1, Sessions := (Sessions a)(NextSessionID a + 1 \<mapsto> s)\<rparr>) \<and>
     (names_once E req \<longrightarrow>
        far_free E (mapOperations c') \<union> sfar_GlobalId ` ran (FARs s) = far_free E (mapOperations c) \<and>
        qer_free E (mapOperations c') \<union> sqer_GlobalId ` ran (QERs s) = qer_free E (mapOperations c) \<and>
        urr_free E (mapOperations c') \<union> surr_GlobalId ` ran (URRs s) = urr_free E (mapOperations c))"
proof -
  define c1 where c1: "c1 = c\<lparr>NodeAssociations := (NodeAssociations c)(addr \<mapsto> a\<lparr>NextSessionID := NextSessionID a + 1\<rparr>)\<rparr>"
  let ?n = "NextSessionID a + 1"
  note f = fresh_session [OF ok a nw c1]
  obtain remote where v: "validateRequest E (seq_NodeID req) (seq_CPFSEID req) = Val remote"
    using h acc by (cases "validateRequest E (seq_NodeID req) (seq_CPFSEID req)")
      (auto simp: HandlePfcpSessionEstablishmentRequest_def Let_def accepted_def)
  let ?h0 = "handler_ctx (NewSession ?n remote) c1"
  obtain q k where k: "establish_rules E (FeatureUEIP (Conf c1)) req ?h0 = (q, k)" by fastforce
  have "q = Val () \<and> c' = count_rx E MsgTypeSessionEstablishmentRequest CauseRequestAccepted
        (put_session addr ?n (pc_Session k) (leave_ctx k c1)) \<and>
      (\<exists>l. r = Val (Some (NewSessionEstablishmentResponse 0 0 remote (seq_Sequence req) 0
        ([newIeNodeID (nodeId c), NewCause CauseRequestAccepted, NewFSEID ?n (cloneIP (nodeAddrV4 c)) None] @ l)), None))"
    using h acc v a k
    by (cases q; cases "print_pdrs E (seq_CreatePDR req)")
       (auto simp: HandlePfcpSessionEstablishmentRequest_def NewLocalSEID_def Let_def c1 accepted_def)
  then have q: "q = Val ()" and c': "c' = count_rx E MsgTypeSessionEstablishmentRequest CauseRequestAccepted
        (put_session addr ?n (pc_Session k) (leave_ctx k c1))"
    and r: "\<exists>m. r = Val (Some m, None) \<and> NewFSEID ?n (cloneIP (nodeAddrV4 c)) None \<in> set (ies_of m)" by auto
  have assoc: "NodeAssociations c' = (NodeAssociations c)(addr \<mapsto> a\<lparr>NextSessionID := ?n, Sessions := (Sessions a)(?n \<mapsto> pc_Session k)\<rparr>)"
    unfolding c' count_rx_sel put_session_def by (simp add: c1 fun_eq_iff)
  have "account E (far_free E (mapOperations c)) (qer_free E (mapOperations c)) (urr_free E (mapOperations c)) UNIV UNIV UNIV ?h0"
    using rules_okD(1,3,5) [OF conn_okD(1) [OF ok]] by (simp add: account_def c1)
  from establish_rules_account [OF _ this, of req "FeatureUEIP (Conf c1)" k]
  have "names_once E req \<longrightarrow>
        far_free E (mapOperations c') \<union> sfar_GlobalId ` ran (FARs (pc_Session k)) = far_free E (mapOperations c) \<and>
        qer_free E (mapOperations c') \<union> sqer_GlobalId ` ran (QERs (pc_Session k)) = qer_free E (mapOperations c) \<and>
        urr_free E (mapOperations c') \<union> surr_GlobalId ` ran (URRs (pc_Session k)) = urr_free E (mapOperations c)"
    using k q by (simp add: c' held_session)
  moreover have "LocalSEID (pc_Session k) = ?n" "RemoteSEID (pc_Session k) = remote"
    using establish_rules_seids [OF k] by (simp_all add: NewSession_def)
  ultimately show ?thesis using r assoc v f(2) by (intro exI [of _ "pc_Session k"]) auto
qed

section \<open>TEIDs at the deletion of a session\<close>

text \<open>The pool holds \<open>B\<close> for the key \<open>n\<close>, and the context works for the session \<open>s\<close>.\<close>

definition pool_has :: "Session \<Rightarrow> u64 \<Rightarrow> (u32 \<rightharpoonup> u32) \<Rightarrow> ('m, 'b, 'y) rule_ctx_scheme \<Rightarrow> bool" where
  "pool_has s n B h \<longleftrightarrow> pc_Session h = s \<and> (\<exists>rm f. pc_ResourceManager h = Some rm \<and> rm_FTEIDM rm = Some f \<and>
     fteid_finite f \<and> (\<forall>p. busyTEID f n p = B p))"

lemma deletePDR_release_pool:
  "pool_has s n B k \<Longrightarrow> RemoteSEID s \<noteq> n \<Longrightarrow> pool_has s n B (snd (deletePDR_release E p k))"
  by (auto simp: deletePDR_release_def pool_has_def fteid_finite_release busyTEID_release)

lemma deletePDR_pool:
  assumes "pool_has s n B h" and "RemoteSEID s \<noteq> n"
  shows "pool_has s n B (snd (deletePDR E p h))"
proof -
  have e: "pool_has s n B (snd (deletePDR_entry E p h))"
    using deletePDR_entry_keeps [of E p h "fst (deletePDR_entry E p h)" "snd (deletePDR_entry E p h)"] assms(1)
    by (simp add: pool_has_def)
  show ?thesis
    unfolding deletePDR_def
    by (rule bind_op_keeps [where I = "pool_has s n B"], rule e)
       (rule deletePDR_release_pool [OF _ assms(2)], use e in simp)
qed

lemma on_tables_pool: "pool_has s n B (snd (on_tables f h)) = pool_has s n B h"
  by (simp add: pool_has_def on_tables_def split: prod.split)

lemma delete_urr_pool: "pool_has s n B h \<Longrightarrow> pool_has s n B (snd (delete_urr E x h))"
  by (auto simp: delete_urr_def pool_has_def on_tables_def split: prod.splits res.splits)

lemma delete_rules_pool:
  assumes "pool_has s n B h" and "RemoteSEID s \<noteq> n"
  shows "pool_has s n B (snd (delete_rules E s' h))"
proof -
  let ?I = "pool_has s n B"
  have loop: "?I (snd (for_range body xs k))" if "?I k" "\<And>x k. ?I k \<Longrightarrow> ?I (snd (body x k))" for body xs k
    by (rule for_range_keeps [where I = ?I]) (use that in auto)
  show ?thesis
    unfolding delete_rules_def
    by (rule seq_ops_keeps [where I = ?I, OF _ assms(1)])
       (auto simp: case_prod_unfold intro!: loop deletePDR_pool [OF _ assms(2)] delete_urr_pool simp: on_tables_pool)
qed

lemma deletion_releases_by_local_seid:
  assumes E: "rangeTEIDs_ok E" and a: "NodeAssociations c addr = Some a" and s: "Sessions a (sdq_SEID req) = Some s"
    and "RemoteSEID s \<noteq> sdq_SEID req"
    and "conn_ResourceManager c = Some rm" "rm_FTEIDM rm = Some f" "fteid_finite f"
    and b: "busyTEID f (sdq_SEID req) p = Some t"
    and h: "HandlePfcpSessionDeletionRequest E req addr c = (r, c')" and acc: "accepted r"
  shows "\<exists>rm' f'. conn_ResourceManager c' = Some rm' \<and> rm_FTEIDM rm' = Some f' \<and> t \<in> set (freeTEIDs f') \<and>
     busyTEID f' (sdq_SEID req) p = None"
proof -
  let ?n = "sdq_SEID req"
  obtain q k where k: "delete_rules E s (handler_ctx s c) = (q, k)" by fastforce
  have "pool_has s ?n (busyTEID f ?n) (handler_ctx s c)" using assms(5-7) by (simp add: pool_has_def)
  from delete_rules_pool [OF this assms(4), of E s] k obtain rm1 f1 where p: "pc_ResourceManager k = Some rm1"
    "rm_FTEIDM rm1 = Some f1" "fteid_finite f1" "busyTEID f1 ?n p = Some t"
    using b by (auto simp: pool_has_def)
  from h acc a s k have c': "c' = count_rx E MsgTypeSessionDeletionRequest CauseRequestAccepted (ReleaseResources E ?n
      ((leave_ctx k c)\<lparr>NodeAssociations := (NodeAssociations c)(addr \<mapsto> a\<lparr>Sessions := (Sessions a)(?n := None)\<rparr>)\<rparr>))"
    by (cases q) (auto simp: HandlePfcpSessionDeletionRequest_def Let_def accepted_def)
  have "t \<in> set (freeTEIDs (ReleaseTEID E ?n f1))" using ReleaseTEID_free [OF E p(3), of ?n] p(4) by auto
  with p(1,2) show ?thesis
    by (cases "rm_IPAM rm1") (auto simp: c' ReleaseResources_def Let_def busyTEID_release)
qed

end
