(* ===== verification/Sim_Connection.thy ===== *)
theory Sim_Connection
  imports Session_Accounting
begin

text \<open>
  A small run over the concrete library of elements: a connection over tables of four
  entries, an association with the node \<open>smf\<close>, and two sessions with one FAR, one QER and
  one URR each. The theorems about the connection are tried on it.
\<close>

definition sim_node :: sim_ie where
  "sim_node = Sim (T_other 60) None None [] None None (Some ''smf'') None"

definition sim_setup :: "sim_ie AssociationSetupRequest" where
  "sim_setup = \<lparr>asq_SequenceNumber = 1, asq_NodeID = Some sim_node,
     asq_RecoveryTimeStamp = Some (sim_elem (T_other 96) 0)\<rparr>"

definition sim_establish :: "u32 \<Rightarrow> sim_ie SessionEstablishmentRequest" where
  "sim_establish n = \<lparr>seq_Sequence = 2, seq_NodeID = Some sim_node, seq_CPFSEID = Some (sim_elem (T_other 57) n),
     seq_CreatePDR = [], seq_CreateFAR = [sim_elem T_CreateFAR 1], seq_CreateQER = [sim_qer 1 100],
     seq_CreateURR = [sim_elem (T_other 6) 1]\<rparr>"

definition sim_loaded :: "(kmap, u32 list) BpfObjects" where
  "sim_loaded = snd (Load_trackers sim_upf_env sim_objects)"

definition sim_rm :: ResourceManager where
  "sim_rm = \<lparr>rm_IPAM = None, rm_FTEIDM = Some \<lparr>freeTEIDs = [1, 2, 3], busyTEIDs = Some Map.empty\<rparr>\<rparr>"

definition sim_c0 :: "(kmap, u32 list) PfcpConnection" where
  "sim_c0 = \<lparr>NodeAssociations = Map.empty, nodeId = ''upf'', nodeAddrV4 = Some [127, 0, 0, 1],
     n3Address = Some [0, 0, 0, 0, 0, 0, 0, 0, 0, 0, 255, 255, 127, 0, 0, 1],
     n9Address = Some [0, 0, 0, 0, 0, 0, 0, 0, 0, 0, 255, 255, 127, 0, 0, 1],
     mapOperations = sim_loaded, RecoveryTimestamp = 0, featuresOctets = featureOctets default_config,
     conn_ResourceManager = Some sim_rm, nodes = [], Conf = default_config, PfcpMessageRx = (\<lambda>_. 0),
     PfcpMessageTx = (\<lambda>_. 0), PfcpMessageRxErrors = (\<lambda>_. 0), clockReads = 0, heartbeatSchedulers = [],
     sentMessages = []\<rparr>"

lemma sim_loaded: "Load_trackers sim_upf_env sim_objects = (Val (), sim_loaded)"
  "sim_loaded = sim_objects\<lparr>farIdTracker := \<lparr>bitmap = [0, 1, 2, 3], maxSize = 4\<rparr>,
     qerIdTracker := \<lparr>bitmap = [0, 1, 2, 3], maxSize = 4\<rparr>, urrIdTracker := \<lparr>bitmap = [0, 1, 2, 3], maxSize = 4\<rparr>\<rparr>"
proof -
  have "[0..<4] = [0, 1, 2, 3 :: nat]" by (simp add: numeral_eq_Suc)
  then have n: "NewIdTracker sim_upf_env 4 = \<lparr>bitmap = [0, 1, 2, 3], maxSize = 4\<rparr>"
    by (simp add: NewIdTracker_def sim_bpf_env_def)
  have "Load_trackers sim_upf_env sim_objects = (Val (), sim_objects\<lparr>farIdTracker := \<lparr>bitmap = [0, 1, 2, 3], maxSize = 4\<rparr>,
     qerIdTracker := \<lparr>bitmap = [0, 1, 2, 3], maxSize = 4\<rparr>, urrIdTracker := \<lparr>bitmap = [0, 1, 2, 3], maxSize = 4\<rparr>\<rparr>)"
    by (simp add: Load_trackers_def n Let_def sim_objects_def sim_array_map_def)
  then show "Load_trackers sim_upf_env sim_objects = (Val (), sim_loaded)"
  "sim_loaded = sim_objects\<lparr>farIdTracker := \<lparr>bitmap = [0, 1, 2, 3], maxSize = 4\<rparr>,
     qerIdTracker := \<lparr>bitmap = [0, 1, 2, 3], maxSize = 4\<rparr>, urrIdTracker := \<lparr>bitmap = [0, 1, 2, 3], maxSize = 4\<rparr>\<rparr>"
    by (simp_all add: sim_loaded_def)
qed


lemma sim_c0: "NewPfcpConnection default_config (Some [127, 0, 0, 1]) 0 ''upf'' ''127.0.0.1'' ''127.0.0.1'' sim_loaded (Some sim_rm) = Val sim_c0"
proof -
  have "ParseIP ''127.0.0.1'' = Some [0,0,0,0,0,0,0,0,0,0,255,255,127,0,0,1]" by code_simp
  then show ?thesis by (simp add: sim_c0_def NewPfcpConnection_def)
qed

definition sim_c1 :: "(kmap, u32 list) PfcpConnection" where
  "sim_c1 = snd (HandlePfcpAssociationSetupRequest sim_upf_env sim_setup ''smf'' sim_c0)"

definition sim_c2 :: "(kmap, u32 list) PfcpConnection" where
  "sim_c2 = snd (HandlePfcpSessionEstablishmentRequest sim_upf_env (sim_establish 7) ''smf'' sim_c1)"

lemma sim_c1: "\<exists>r. HandlePfcpAssociationSetupRequest sim_upf_env sim_setup ''smf'' sim_c0 = (Val r, sim_c1)"
  and sim_c1_sel [simp]: "NodeAssociations sim_c1 = [''smf'' \<mapsto> NewNodeAssociation ''smf'' ''smf'']"
  "mapOperations sim_c1 = sim_loaded" "conn_ResourceManager sim_c1 = Some sim_rm" "Conf sim_c1 = default_config" "clockReads sim_c1 = 0"
  by (simp_all add: sim_c0_def sim_c1_def HandlePfcpAssociationSetupRequest_def sim_setup_def sim_node_def saveAssociation_def Let_def default_config_def count_rx_def)

definition sim_c3 :: "(kmap, u32 list) PfcpConnection" where
  "sim_c3 = snd (HandlePfcpSessionEstablishmentRequest sim_upf_env (sim_establish 2) ''smf'' sim_c2)"

text \<open>What the sessions and the tables look like after one and after two establishments.\<close>

definition sim_far :: FarInfo where
  "sim_far = zero_FarInfo\<lparr>fi_Action := 2\<rparr>"

definition sim_qer_info :: QerInfo where
  "sim_qer_info = zero_QerInfo\<lparr>qi_MaxBitrateDL := 100000\<rparr>"

definition sim_session :: "u64 \<Rightarrow> u64 \<Rightarrow> u32 \<Rightarrow> Session" where
  "sim_session l r g = \<lparr>LocalSEID = l, RemoteSEID = r, PDRs = Map.empty,
     FARs = [1 \<mapsto> \<lparr>sfar_FarInfo = sim_far, sfar_GlobalId = g\<rparr>],
     QERs = [1 \<mapsto> \<lparr>sqer_QerInfo = sim_qer_info, sqer_GlobalId = g\<rparr>],
     URRs = [1 \<mapsto> \<lparr>surr_UrrInfo = zero_UrrInfo, surr_GlobalId = g, surr_ReportSeqNumber = 0\<rparr>]\<rparr>"

definition sim_assoc :: "u64 \<Rightarrow> (u64 \<rightharpoonup> Session) \<Rightarrow> NodeAssociation" where
  "sim_assoc n ss = \<lparr>na_ID = ''smf'', na_Addr = ''smf'', NextSessionID = n, NextSequenceID = 1, Sessions = ss\<rparr>"

definition sim_tables :: "u32 list \<Rightarrow> u32 list \<Rightarrow> (kmap, u32 list) BpfObjects" where
  "sim_tables used free =
     sim_objects\<lparr>FarMap := sim_array_map\<lparr>km_far := (\<lambda>i. if i \<in> set used then Some sim_far else None)\<rparr>,
       QerMap := sim_array_map\<lparr>km_qer := (\<lambda>i. if i \<in> set used then Some sim_qer_info else None)\<rparr>,
       UrrMap := sim_array_map\<lparr>km_urr := (\<lambda>i. if i \<in> set used then Some zero_UrrInfo else None)\<rparr>,
       farIdTracker := \<lparr>bitmap = free, maxSize = 4\<rparr>, qerIdTracker := \<lparr>bitmap = free, maxSize = 4\<rparr>,
       urrIdTracker := \<lparr>bitmap = free, maxSize = 4\<rparr>\<rparr>"

lemmas sim_handler_eval =
  sim_establish_def sim_node_def sim_elem_def sim_qer_def validateRequest_def NewNodeAssociation_def NewLocalSEID_def
  print_pdrs_def establish_rules_def create_far_def create_qer_def create_urr_def bind_op_def lift_res_def
  composeFarInfo_def index_slice_def zero_FarInfo_def composeFar_header_def findIEindex_def GetTransportLevelMarking_def
  on_tables_def on_session_def or_err_def or_zero_def is_pdr_def NewSession_def Session_NewFar_def Session_NewQer_def
  Session_NewUrr_def updateQer_def updateUrr_def zero_QerInfo_def zero_UrrInfo_def processCreatedPDRs_def put_session_def

lemmas sim_state_defs = sim_far_def sim_qer_info_def sim_session_def sim_assoc_def sim_tables_def

lemma sim_c2: "\<exists>r. HandlePfcpSessionEstablishmentRequest sim_upf_env (sim_establish 7) ''smf'' sim_c1 = (Val r, sim_c2)"
  and sim_c2_accepted: "accepted (fst (HandlePfcpSessionEstablishmentRequest sim_upf_env (sim_establish 7) ''smf'' sim_c1))"
  and sim_c2_sel [simp]: "NodeAssociations sim_c2 = [''smf'' \<mapsto> sim_assoc 2 [2 \<mapsto> sim_session 2 7 0]]"
  "mapOperations sim_c2 = sim_tables [0] [1, 2, 3]" "conn_ResourceManager sim_c2 = Some sim_rm"
  unfolding sim_c2_def HandlePfcpSessionEstablishmentRequest_def accepted_def
  by (simp_all add: sim_handler_eval sim_state_defs sim_loaded sim_eval Let_def fun_eq_iff)

lemma sim_c3: "\<exists>r. HandlePfcpSessionEstablishmentRequest sim_upf_env (sim_establish 2) ''smf'' sim_c2 = (Val r, sim_c3)"
  and sim_c3_sel [simp]: "NodeAssociations sim_c3 = [''smf'' \<mapsto> sim_assoc 3 [2 \<mapsto> sim_session 2 7 0, 3 \<mapsto> sim_session 3 2 1]]"
  "mapOperations sim_c3 = sim_tables [0, 1] [2, 3]" "conn_ResourceManager sim_c3 = Some sim_rm"
  unfolding sim_c3_def HandlePfcpSessionEstablishmentRequest_def
  by (simp_all add: sim_handler_eval sim_state_defs sim_eval Let_def fun_eq_iff)

lemma sim_ranges_ok: "ranges_ok sim_upf_env"
  by (simp add: ranges_ok_def enumerates_ascending)

lemma sim_orderly:
  "orderly sim_upf_env (SessEstablishmentRequest r) ''smf'' sim_c1" "orderly sim_upf_env (SessEstablishmentRequest r) ''smf'' sim_c2"
  by (simp_all add: NewNodeAssociation_def sim_assoc_def)

lemma sim_reach: "conn_reach sim_upf_env (orderly sim_upf_env) sim_c1" "conn_reach sim_upf_env (orderly sim_upf_env) sim_c2"
  "conn_reach sim_upf_env (orderly sim_upf_env) sim_c3"
proof -
  have "conn_reach sim_upf_env (orderly sim_upf_env) sim_c0"
    by (rule conn_reach.start [OF sim_upf_env_ok(1) _ _ _ sim_loaded(1) sim_c0])
       (simp_all add: sim_objects_def sim_array_map_def)
  then show c1: "conn_reach sim_upf_env (orderly sim_upf_env) sim_c1"
    using sim_c1 orderly_simps(1) by (blast intro: conn_reach.step conn_step.associated)
  with sim_c2 sim_orderly(1) show c2: "conn_reach sim_upf_env (orderly sim_upf_env) sim_c2"
    by (blast intro: conn_reach.step conn_step.established)
  with sim_c3 sim_orderly(2) show "conn_reach sim_upf_env (orderly sim_upf_env) sim_c3"
    by (blast intro: conn_reach.step conn_step.established)
qed

lemma ascending_single [simp]: "ascending [k \<mapsto> v] = [(k, v)]"
  by (simp add: ascending_def)

lemma ascending_none [simp]: "ascending (\<lambda>_. None) = []"
  by (simp add: ascending_def)

lemmas sim_delete_eval =
  delete_rules_def delete_urr_def ReleaseResources_def ReleaseTEID_def usage_report_def sim_rm_def

lemma sim_deletion_accepted:
  "accepted (fst (HandlePfcpSessionDeletionRequest sim_upf_env \<lparr>sdq_Sequence = n, sdq_SEID = 2\<rparr> ''smf'' sim_c2))"
  unfolding HandlePfcpSessionDeletionRequest_def accepted_def
  by (simp add: sim_delete_eval sim_handler_eval sim_state_defs sim_eval Let_def)

end
