(* ===== verification/Heartbeat_Properties.thy ===== *)
theory Heartbeat_Properties
  imports Heartbeat Sim_Connection
begin

text \<open>
  Properties of the receive loop and the heartbeat schedulers together, tried on a run with
  one peer: it sets up its association and then answers no heartbeat in time.
\<close>

section \<open>A run\<close>

definition sim_peer :: UDPAddr where
  "sim_peer = \<lparr>ua_IP = Some [127, 0, 0, 1], ua_Port = 8805\<rparr>"

definition sim_io :: "sim_ie pfcp_io" where
  "sim_io = \<lparr>message_Parse = (\<lambda>buf. if buf = [0] then Some (AssocSetupRequest sim_setup)
        else if buf = [1] then Some (HeartbeatResponse \<lparr>hb_SequenceNumber = 2, hb_RecoveryTimeStamp = Some (sim_elem (T_other 96) 0)\<rparr>)
        else None),
     udp_Send = (\<lambda>_ _. False), ResolveUDPAddr = (\<lambda>_. True)\<rparr>"

definition sim_boot :: "(kmap, u32 list) PfcpConnection" where
  "sim_boot = sim_c0\<lparr>Conf := default_config\<lparr>HeartbeatRetries := 1\<rparr>\<rparr>"

definition sim_peered :: "(kmap, u32 list) PfcpConnection" where
  "sim_peered = snd (Handle sim_upf_env sim_io [0] sim_peer sim_boot)"

definition sim_requested :: "(kmap, u32 list) PfcpConnection" where
  "sim_requested = snd (hb_request sim_io ''127.0.0.1'' (NewNodeAssociation ''smf'' ''127.0.0.1'') sim_peered)"

definition sim_sys :: "nat \<Rightarrow> (kmap, u32 list) upf_sys" where
  "sim_sys i =
     (if i = 0 then \<lparr>sys_conn = sim_peered, sys_run = Selecting, sys_hb = [''127.0.0.1'' \<mapsto> Starting 0]\<rparr>
      else if i = 1 then \<lparr>sys_conn = sim_requested, sys_run = Selecting, sys_hb = [''127.0.0.1'' \<mapsto> Waiting 2 0]\<rparr>
      else \<lparr>sys_conn = sim_requested, sys_run = Selecting, sys_hb = [''127.0.0.1'' \<mapsto> Reporting]\<rparr>)"

lemma sim_peer_string: "IP_String (ua_IP sim_peer) = ''127.0.0.1''"
  by code_simp

lemma sim_peered:
  "Handle sim_upf_env sim_io [0] sim_peer sim_boot = (Val (Finished (Some ErrLibrary)), sim_peered)"
  "NodeAssociations sim_peered = [''127.0.0.1'' \<mapsto> NewNodeAssociation ''smf'' ''127.0.0.1'']"
  "heartbeatSchedulers sim_peered = [''127.0.0.1'']" "Conf sim_peered = default_config\<lparr>HeartbeatRetries := 1\<rparr>" "nodes sim_peered = []"
  unfolding sim_peered_def Handle_def
  by (simp_all add: sim_io_def pfcpHandlers_def sim_peer_string HandlePfcpAssociationSetupRequest_def sim_setup_def sim_node_def
      saveAssociation_def Let_def default_config_def lift_reply_def sim_boot_def sim_c0_def SendMessage_def count_rx_def)

lemma sim_requested:
  "hb_request sim_io ''127.0.0.1'' (NewNodeAssociation ''smf'' ''127.0.0.1'') sim_peered = (2, sim_requested)"
  "NodeAssociations sim_requested ''127.0.0.1'' = Some ((NewNodeAssociation ''smf'' ''127.0.0.1'')\<lparr>NextSequenceID := 2\<rparr>)"
  "nodes sim_requested = []" "HeartbeatRetries (Conf sim_requested) = 1"
  by (simp_all add: sim_requested_def hb_request_def NewSequenceID_def NewNodeAssociation_def SendHeartbeatRequest_def SendMessage_def
      sim_io_def sim_peered)

lemma sim_start: "sys_reach sim_upf_env sim_io (sim_sys 0)"
proof -
  have "ParseIP ''127.0.0.1'' = Some [0,0,0,0,0,0,0,0,0,0,255,255,127,0,0,1]" by code_simp
  then have "NewPfcpConnection (default_config\<lparr>HeartbeatRetries := 1\<rparr>) (Some [127, 0, 0, 1]) 0 ''upf'' ''127.0.0.1'' ''127.0.0.1''
      sim_loaded (Some sim_rm) = Val sim_boot"
    by (simp add: sim_boot_def sim_c0_def NewPfcpConnection_def featureOctets_def default_config_def)
  moreover have "SetRemoteNodes [] sim_boot = sim_boot" by (simp add: SetRemoteNodes_def sim_boot_def sim_c0_def)
  ultimately have "sys_reach sim_upf_env sim_io \<lparr>sys_conn = sim_boot, sys_run = Selecting, sys_hb = Map.empty\<rparr>"
    using sys_reach.booted [where c = sim_boot and ns = "[]"] by metis
  moreover have "start_schedulers sim_boot sim_peered Map.empty = [''127.0.0.1'' \<mapsto> Starting 0]"
    by (simp add: start_schedulers_def sim_peered sim_boot_def sim_c0_def)
  ultimately show ?thesis
    using sys_step.received [of "\<lparr>sys_conn = sim_boot, sys_run = Selecting, sys_hb = Map.empty\<rparr>" sim_upf_env sim_io "[0]" sim_peer _ sim_peered]
      sim_peered(1) by (auto simp: sim_sys_def intro: sys_reach.stepped)
qed

lemma sim_run: "sys_step sim_upf_env sim_io (sim_sys i) (sim_sys (Suc i))"
proof -
  consider "i = 0" | "i = 1" | "i \<ge> 2" by linarith
  then show ?thesis
  proof cases
    case 1
    have "sys_step sim_upf_env sim_io (sim_sys 0) ((sim_sys 0)\<lparr>sys_conn := sim_requested,
        sys_hb := (sys_hb (sim_sys 0))(''127.0.0.1'' \<mapsto> Waiting 2 0)\<rparr>)"
      by (rule sys_step.requested [where association = "NewNodeAssociation ''smf'' ''127.0.0.1''"]) (simp_all add: sim_sys_def sim_peered sim_requested)
    with 1 show ?thesis by (simp add: sim_sys_def)
  next
    case 2
    have "sys_step sim_upf_env sim_io (sim_sys 1) ((sim_sys 1)\<lparr>
        sys_hb := (sys_hb (sim_sys 1))(''127.0.0.1'' \<mapsto> hb_timeout (HeartbeatRetries (Conf (sys_conn (sim_sys 1)))) 0)\<rparr>)"
      by (rule sys_step.timed_out [where seq = 2]) (simp_all add: sim_sys_def)
    with 2 show ?thesis by (simp add: sim_sys_def hb_timeout_def sim_requested)
  next
    case 3
    have "RefreshAssociations (\<lambda>_. True) sim_requested = sim_requested" by (simp add: RefreshAssociations_def sim_requested)
    with 3 sys_step.ticked [of "sim_sys i" sim_upf_env sim_io "\<lambda>_. True"] show ?thesis by (simp add: sim_sys_def)
  qed
qed

lemma sim_sys_reach: "sys_reach sim_upf_env sim_io (sim_sys i)"
  by (induction i) (auto intro: sim_start sim_run sys_reach.stepped)

section \<open>Properties\<close>

text \<open>
  C22. As long as the receive loop has not panicked: with heartbeats on, each association has
  its scheduler and each scheduler its association; with heartbeats off there is none. A
  scheduler waits for the sequence number that its association gave out last. So a report
  of failure always finds the association it deletes.
\<close>

theorem heartbeat_schedulers_match:
  assumes "sys_reach E io s" and "\<forall>p. sys_run s \<noteq> Crashed p"
  shows "dom (sys_hb s) = (if HeartbeatTimeout (Conf (sys_conn s)) \<noteq> 0 then dom (NodeAssociations (sys_conn s)) else {})
    \<and> (\<forall>a seq n. sys_hb s a = Some (Waiting seq n) \<longrightarrow> map_option NextSequenceID (GetAssociation a (sys_conn s)) = Some seq)
    \<and> (\<forall>a. sys_hb s a = Some Reporting \<longrightarrow> GetAssociation a (sys_conn s) \<noteq> None)"
proof -
  have d: "dom (seqs c) = dom (NodeAssociations c)" for c :: "('e, 'f) PfcpConnection" by (auto simp: seqs_def dom_def)
  from sys_reach_ok [OF assms(1)] assms(2) have
    dom: "dom (sys_hb s) = (if HeartbeatTimeout (Conf (sys_conn s)) \<noteq> 0 then dom (NodeAssociations (sys_conn s)) else {})"
    and pcs: "\<forall>a p. sys_hb s a = Some p \<longrightarrow> pc_ok (HeartbeatRetries (Conf (sys_conn s))) (the (seqs (sys_conn s) a)) p"
    by (simp_all add: sys_ok_def d)
  have has: "\<exists>x. NodeAssociations (sys_conn s) a = Some x" if "sys_hb s a = Some p" for a p
    using dom that by (auto split: if_splits)
  show ?thesis
    using dom pcs has by (fastforce simp: pc_ok_def seqs_def GetAssociation_def)
qed

theorem heartbeat_schedulers_match_witness:
  "dom (sys_hb (sim_sys 1)) = {''127.0.0.1''} \<and>
   map_option NextSequenceID (GetAssociation ''127.0.0.1'' (sys_conn (sim_sys 1))) = Some 2"
  using heartbeat_schedulers_match [OF sim_sys_reach [of 1]] by (simp add: sim_sys_def)

text \<open>
  C23. A peer that stays silent is noticed. In every infinite run in which the scheduler of
  an association is not halted for ever before its report and the receive loop hands it no
  answer, the scheduler comes to the point where it reports the failure.
\<close>

theorem silent_peer_reported:
  assumes "sys_reach E io (\<sigma> 0)" and "\<forall>i. sys_step E io (\<sigma> i) (\<sigma> (Suc i))" and "sys_hb (\<sigma> 0) a \<noteq> None"
    and "\<forall>i q. sys_run (\<sigma> i) \<noteq> Delivering a q"
    and "\<forall>i. sys_hb (\<sigma> i) a \<noteq> Some Reporting \<longrightarrow> (\<exists>j > i. sys_hb (\<sigma> j) a \<noteq> sys_hb (\<sigma> i) a)"
  shows "\<exists>j. sys_hb (\<sigma> j) a = Some Reporting"
proof -
  let ?left = "\<lambda>i p. hb_left (HeartbeatRetries (Conf (sys_conn (\<sigma> i)))) p"
  have ok: "sys_ok (\<sigma> i)" for i
    by (rule sys_reach_ok [of E io], induction i) (use assms(1,2) in \<open>auto intro: sys_reach.stepped\<close>)
  have "\<exists>j. sys_hb (\<sigma> j) a = Some Reporting" if "sys_hb (\<sigma> i) a = Some p" for i p
    using that
  proof (induction "?left i p" arbitrary: i p rule: less_induct)
    case less
    show ?case
    proof (cases "p = Reporting")
      case False
      have stay: "(Conf (sys_conn (\<sigma> (i + k))) = Conf (sys_conn (\<sigma> i)) \<and> sys_hb (\<sigma> (i + k)) a = Some p)
          \<or> (\<exists>j. sys_hb (\<sigma> j) a = Some Reporting)" for k
      proof (induction k)
        case (Suc k)
        have "\<exists>j. sys_hb (\<sigma> j) a = Some Reporting"
          if "Conf (sys_conn (\<sigma> (Suc (i + k)))) = Conf (sys_conn (\<sigma> i))" "sys_hb (\<sigma> (Suc (i + k))) a = Some p'" "?left i p' < ?left i p" for p'
          by (rule less.hyps) (use that in auto)
        with Suc scheduler_step [OF assms(2)[rule_format, of "i + k"] ok, of a p] False assms(4) show ?case by auto
      qed (use less.prems in simp)
      obtain j where j: "j > i" "sys_hb (\<sigma> j) a \<noteq> sys_hb (\<sigma> i) a" using assms(5)[rule_format, of i] less.prems False by auto
      with stay [of "j - i"] less.prems show ?thesis by auto
    qed (use less.prems in blast)
  qed
  with assms(3) show ?thesis by auto
qed

theorem silent_peer_reported_witness: "\<exists>j. sys_hb (sim_sys j) ''127.0.0.1'' = Some Reporting"
proof (rule silent_peer_reported [where E = sim_upf_env and io = sim_io])
  show "\<forall>i. sys_hb (sim_sys i) ''127.0.0.1'' \<noteq> Some Reporting \<longrightarrow>
      (\<exists>j > i. sys_hb (sim_sys j) ''127.0.0.1'' \<noteq> sys_hb (sim_sys i) ''127.0.0.1'')"
  proof (intro allI impI)
    fix i assume "sys_hb (sim_sys i) ''127.0.0.1'' \<noteq> Some Reporting"
    then show "\<exists>j > i. sys_hb (sim_sys j) ''127.0.0.1'' \<noteq> sys_hb (sim_sys i) ''127.0.0.1''"
      by (intro exI [of _ "Suc (Suc i)"]) (simp add: sim_sys_def split: if_splits)
  qed
qed (use sim_start sim_run in \<open>simp_all add: sim_sys_def\<close>)

text \<open>
  C24. The receive loop can stop for ever. When it holds a heartbeat response for an
  association whose scheduler is about to report a failure, or has none because heartbeats are
  off, then no run from there on handles another message: the loop waits for the scheduler and the
  scheduler for the loop.
\<close>

theorem heartbeat_deadlock:
  assumes "sys_run s = Delivering a q" and "sys_hb s a = None \<or> sys_hb s a = Some Reporting"
    and "(sys_step E io)\<^sup>*\<^sup>* s s'"
  shows "sys_run s' = Delivering a q \<and> sys_hb s' a = sys_hb s a"
  by (rule delivery_stuck [OF assms(3,1,2)])

theorem heartbeat_deadlock_witness:
  "\<exists>s. sys_reach sim_upf_env sim_io s \<and> (\<forall>s'. (sys_step sim_upf_env sim_io)\<^sup>*\<^sup>* s s' \<longrightarrow> sys_run s' = Delivering ''127.0.0.1'' 2)"
proof -
  define c where "c = snd (Handle sim_upf_env sim_io [1] sim_peer sim_requested)"
  have "Handle sim_upf_env sim_io [1] sim_peer sim_requested = (Val (Blocked ''127.0.0.1'' 2), c)"
    unfolding c_def Handle_def
    by (simp add: sim_io_def pfcpHandlers_def HandlePfcpHeartbeatResponse_def sim_peer_string GetAssociation_def sim_requested Let_def sim_elem_def)
  then have "sys_step sim_upf_env sim_io (sim_sys 2) ((sim_sys 2)\<lparr>sys_conn := c, sys_run := Delivering ''127.0.0.1'' 2\<rparr>)"
    by (intro sys_step.answered [where buf = "[1]" and addr = sim_peer]) (simp_all add: sim_sys_def)
  then have r: "sys_reach sim_upf_env sim_io ((sim_sys 2)\<lparr>sys_conn := c, sys_run := Delivering ''127.0.0.1'' 2\<rparr>)" (is "sys_reach _ _ ?s")
    by (rule sys_reach.stepped [OF sim_sys_reach])
  show ?thesis
    using heartbeat_deadlock [of ?s "''127.0.0.1''" 2 sim_upf_env sim_io] r by (intro exI [of _ ?s]) (simp add: sim_sys_def)
qed

end
