(* ===== verification/Running_System.thy ===== *)
theory Running_System
  imports Heartbeat_Properties
begin

text \<open>
  The invariant of the rules under concurrency: the receive loop with its handlers, the heartbeat
  schedulers and the deletion of associations that they start, interleaved in any order.
\<close>

section \<open>Runs with permitted messages\<close>

text \<open>
  The states of the running system that are reached from a start over loaded tables when every datagram that parses
  is a message that \<open>P\<close> permits, for its sender and the state it meets: a step handles such a datagram, or handles none that
  parses (a tick, a step of a scheduler, bytes that are no message).
\<close>

definition permitted ::
  "'ie pfcp_io \<Rightarrow> ('ie in_msg \<Rightarrow> string \<Rightarrow> ('m, 'b) PfcpConnection \<Rightarrow> bool) \<Rightarrow> 8 word list \<Rightarrow> UDPAddr \<Rightarrow> ('m, 'b) PfcpConnection \<Rightarrow> bool" where
  "permitted io P buf addr c \<longleftrightarrow> (\<forall>msg. message_Parse io buf = Some msg \<longrightarrow> P msg (IP_String (ua_IP addr)) c)"

inductive run_reach ::
  "('ie, 'm, 'b, 'z) upf_env_scheme \<Rightarrow> 'ie pfcp_io \<Rightarrow> ('ie in_msg \<Rightarrow> string \<Rightarrow> ('m, 'b) PfcpConnection \<Rightarrow> bool) \<Rightarrow> ('m, 'b) upf_sys \<Rightarrow> bool"
  for E io P where
  booted: "bpf_env_ok E \<Longrightarrow> Map_isArray E (FarMap b) \<Longrightarrow> Map_isArray E (QerMap b) \<Longrightarrow> Map_isArray E (UrrMap b) \<Longrightarrow>
    Load_trackers E b = (Val (), b') \<Longrightarrow> NewPfcpConnection conf addrV4 now nodeID n3 n9 b' rm = Val c \<Longrightarrow>
    run_reach E io P \<lparr>sys_conn = SetRemoteNodes ns c, sys_run = Selecting, sys_hb = Map.empty\<rparr>"
| handled: "run_reach E io P s \<Longrightarrow> sys_step E io s s' \<Longrightarrow> Handle E io buf addr (sys_conn s) = (r, sys_conn s') \<Longrightarrow>
    permitted io P buf addr (sys_conn s) \<Longrightarrow> run_reach E io P s'"
| other: "run_reach E io P s \<Longrightarrow> sys_step E (io\<lparr>message_Parse := Map.empty\<rparr>) s s' \<Longrightarrow> run_reach E io P s'"

section \<open>The invariant\<close>

lemma conn_ok_fields [simp]:
  "conn_ok E (c\<lparr>PfcpMessageRx := x\<rparr>) = conn_ok E c" "conn_ok E (c\<lparr>PfcpMessageTx := x\<rparr>) = conn_ok E c"
  "conn_ok E (c\<lparr>sentMessages := m\<rparr>) = conn_ok E c" "conn_ok E (SetRemoteNodes ns c) = conn_ok E c"
  by (rule conn_ok_cong; simp add: SetRemoteNodes_def)+

lemma handler_conn_ok:
  assumes "ranges_ok E" and "pfcpHandlers E msg = Some h" and "orderly E msg addr c" and "conn_ok E c"
  shows "conn_ok E (snd (h addr c))"
proof -
  have hb: "snd (HandlePfcpHeartbeatRequest E r c) = c" "snd (HandlePfcpHeartbeatResponse E r addr c) = c" for r
    by (simp_all add: HandlePfcpHeartbeatRequest_def HandlePfcpHeartbeatResponse_def split: res.split option.split)
  show ?thesis
  proof (cases msg)
    case (SessEstablishmentRequest r)
    with assms show ?thesis using establish_ok [OF assms(4), of addr r] by (auto simp: pfcpHandlers_def)
  next
    case (SessModificationRequest r)
    with assms show ?thesis using modification_ok [OF assms(4), of addr r] by (auto simp: pfcpHandlers_def)
  qed (use assms in \<open>auto simp: pfcpHandlers_def hb setup_ok update_ok setup_response_ok deletion_ok\<close>)
qed

lemma Handle_conn_ok:
  assumes "ranges_ok E" and "permitted io (orderly E) buf addr c" and "conn_ok E c" and "Handle E io buf addr c = (r, c')"
  shows "conn_ok E c'"
proof (cases "message_Parse io buf")
  case None
  with assms show ?thesis by (auto simp: Handle_def)
next
  case (Some msg)
  let ?c = "c\<lparr>PfcpMessageRx := inc_label (MessageTypeName E (MessageType msg)) (PfcpMessageRx c)\<rparr>"
  show ?thesis
  proof (cases "pfcpHandlers E msg")
    case None
    with Some assms show ?thesis by (auto simp: Handle_def Let_def)
  next
    case h: (Some h)
    obtain q1 c1 where q1: "h (IP_String (ua_IP addr)) ?c = (q1, c1)" by fastforce
    have "orderly E msg (IP_String (ua_IP addr)) c" using assms(2) Some by (simp add: permitted_def)
    then have "orderly E msg (IP_String (ua_IP addr)) ?c"
      by (simp add: orderly_def seids_left_def names_own_rules_def cong: in_msg.case_cong)
    from handler_conn_ok [OF assms(1) h this] q1 assms(3) have "conn_ok E c1" by simp
    with assms(4) Some h q1 show ?thesis
      by (auto simp: Handle_def Let_def SendMessage_def split: res.splits handled.splits prod.splits option.splits if_splits)
  qed
qed

lemma conn_rules_sequence:
  assumes "NodeAssociations c a = Some x" and "NodeAssociations d = (NodeAssociations c)(a \<mapsto> x\<lparr>NextSequenceID := n\<rparr>)"
  shows "conn_rules g d = conn_rules g c"
  using assms by (auto simp: conn_rules_def fun_eq_iff split: option.split)

lemma conn_ok_sequence:
  assumes "NodeAssociations c a = Some x" and "conn_ok E c"
    and "NodeAssociations d = (NodeAssociations c)(a \<mapsto> x\<lparr>NextSequenceID := n\<rparr>)" "mapOperations d = mapOperations c"
  shows "conn_ok E d"
  using assms conn_okD [OF assms(2)] unfolding conn_ok_def by (auto simp: conn_rules_sequence [OF assms(1,3)] split: if_splits)

lemma RefreshAssociations_conn_ok [simp]: "conn_ok E (RefreshAssociations reach c) = conn_ok E c"
proof -
  have "conn_ok E (fold (\<lambda>node c. if GetAssociation node c = None then sendAssociationSetupRequest reach node c else c) ns d) = conn_ok E d" for ns d
    by (induction ns arbitrary: d) (simp_all add: sendAssociationSetupRequest_def Let_def)
  then show ?thesis by (simp add: RefreshAssociations_def)
qed

lemma sys_step_conn_ok:
  assumes "ranges_ok E" and "sys_step E io s s'" and "message_Parse io = Map.empty" and "conn_ok E (sys_conn s)"
    and "\<forall>p. sys_run s' \<noteq> Crashed p"
  shows "conn_ok E (sys_conn s')"
proof -
  have quiet: "permitted io (orderly E) buf addr (sys_conn s)" for buf addr by (simp add: permitted_def assms(3))
  from assms(2) show ?thesis
  proof cases
    case (received buf addr e c')
    then show ?thesis using Handle_conn_ok [OF assms(1) quiet assms(4)] by simp
  next
    case (answered buf addr a q c')
    then show ?thesis using Handle_conn_ok [OF assms(1) quiet assms(4)] by simp
  next
    case (reported a c')
    then obtain as where "NodeAssociations (sys_conn s) a = Some as"
      by (auto simp: DeleteAssociation_def GetAssociation_def split: option.splits)
    from deleteAssociation_effect(1) [OF assms(1,4) this reported(4)] reported show ?thesis by simp
  next
    case (requested a n association seq c')
    have "NodeAssociations c' = (NodeAssociations (sys_conn s))(a \<mapsto> association\<lparr>NextSequenceID := seq\<rparr>)" "mapOperations c' = mapOperations (sys_conn s)"
      using requested(5) by (auto simp: hb_request_def NewSequenceID_def SendHeartbeatRequest_def SendMessage_def)
    from conn_ok_sequence [OF requested(4) assms(4) this] requested show ?thesis by simp
  qed (use assms in auto)
qed

lemma sys_step_crashed: "sys_step E io s s' \<Longrightarrow> sys_run s \<noteq> Crashed p"
  by (auto elim!: sys_stepE)

lemma run_reach_ok:
  assumes "ranges_ok E" and "run_reach E io (orderly E) s" and "\<forall>p. sys_run s \<noteq> Crashed p"
  shows "conn_ok E (sys_conn s)"
  using assms(2,3)
proof (induction rule: run_reach.induct)
  case (booted b b' conf addrV4 now nodeID n3 n9 rm c ns)
  from Load_trackers_ok(1-3) [OF booted(1,5,2-4)] booted(6) have "conn_ok E c" by (rule NewPfcpConnection_ok)
  then show ?case by simp
next
  case (handled s s' buf addr r)
  then have "conn_ok E (sys_conn s)" using sys_step_crashed by blast
  with handled show ?case using Handle_conn_ok [OF assms(1)] by blast
next
  case (other s s')
  then have "conn_ok E (sys_conn s)" using sys_step_crashed by blast
  then show ?case using sys_step_conn_ok [OF assms(1) other.hyps(2)] other.prems by simp
qed

section \<open>A run with a session\<close>

definition sim_io_session :: "sim_ie pfcp_io" where
  "sim_io_session = sim_io\<lparr>message_Parse := (\<lambda>buf. if buf = [0] then Some (AssocSetupRequest sim_setup)
     else if buf = [2] then Some (SessEstablishmentRequest (sim_establish 7)) else None)\<rparr>"

definition sim_served :: "(kmap, u32 list) PfcpConnection" where
  "sim_served = snd (Handle sim_upf_env sim_io_session [2] sim_peer sim_peered)"

definition sim_serving :: "(kmap, u32 list) upf_sys" where
  "sim_serving = \<lparr>sys_conn = sim_served, sys_run = Selecting, sys_hb = [''127.0.0.1'' \<mapsto> Starting 0]\<rparr>"

lemma sim_peered_more: "mapOperations sim_peered = sim_loaded" "conn_ResourceManager sim_peered = Some sim_rm"
    "clockReads sim_peered = 0"
  unfolding sim_peered_def Handle_def
  by (simp_all add: sim_io_def pfcpHandlers_def sim_peer_string HandlePfcpAssociationSetupRequest_def sim_setup_def sim_node_def
      saveAssociation_def Let_def default_config_def lift_reply_def sim_boot_def sim_c0_def SendMessage_def count_rx_def)

lemma sim_session_peered:
  "Handle sim_upf_env sim_io_session [0] sim_peer sim_boot = (Val (Finished (Some ErrLibrary)), sim_peered)"
proof -
  have send: "SendMessage sim_io_session = SendMessage sim_io" by (intro ext) (simp add: SendMessage_def sim_io_session_def)
  have parse: "message_Parse sim_io_session [0] = message_Parse sim_io [0]" by (simp add: sim_io_session_def sim_io_def)
  have "Handle sim_upf_env sim_io_session [0] sim_peer sim_boot = Handle sim_upf_env sim_io [0] sim_peer sim_boot"
    unfolding Handle_def send parse by (rule refl)
  with sim_peered(1) show ?thesis by simp
qed

lemma sim_served:
  "\<exists>e. Handle sim_upf_env sim_io_session [2] sim_peer sim_peered = (Val (Finished e), sim_served)"
  "NodeAssociations sim_served = [''127.0.0.1'' \<mapsto> (sim_assoc 2 [2 \<mapsto> sim_session 2 7 0])\<lparr>na_Addr := ''127.0.0.1''\<rparr>]"
  "mapOperations sim_served = sim_tables [0] [1, 2, 3]" "heartbeatSchedulers sim_served = [''127.0.0.1'']"
  unfolding sim_served_def Handle_def HandlePfcpSessionEstablishmentRequest_def
  by (simp_all add: sim_io_session_def sim_io_def pfcpHandlers_def sim_peer_string HandlePfcpSessionEstablishmentRequest_def
      sim_peered sim_peered_more lift_reply_def SendMessage_def count_rx_def
      sim_handler_eval sim_state_defs sim_loaded sim_eval Let_def fun_eq_iff)
    (simp add: leave_ctx_def from_ctx_def sim_peered)

lemma sim_run_reach: "run_reach sim_upf_env sim_io_session (orderly sim_upf_env) sim_serving"
proof -
  let ?boot = "\<lparr>sys_conn = sim_boot, sys_run = Selecting, sys_hb = Map.empty\<rparr>"
  let ?peered = "\<lparr>sys_conn = sim_peered, sys_run = Selecting, sys_hb = [''127.0.0.1'' \<mapsto> Starting 0]\<rparr>"
  have "ParseIP ''127.0.0.1'' = Some [0,0,0,0,0,0,0,0,0,0,255,255,127,0,0,1]" by code_simp
  then have new: "NewPfcpConnection (default_config\<lparr>HeartbeatRetries := 1\<rparr>) (Some [127, 0, 0, 1]) 0 ''upf'' ''127.0.0.1'' ''127.0.0.1''
      sim_loaded (Some sim_rm) = Val sim_boot"
    by (simp add: sim_boot_def sim_c0_def NewPfcpConnection_def featureOctets_def default_config_def)
  have "run_reach sim_upf_env sim_io_session (orderly sim_upf_env) \<lparr>sys_conn = SetRemoteNodes [] sim_boot, sys_run = Selecting, sys_hb = Map.empty\<rparr>"
    by (rule run_reach.booted [OF sim_upf_env_ok(1) _ _ _ sim_loaded(1) new]) (simp_all add: sim_objects_def sim_array_map_def)
  then have boot: "run_reach sim_upf_env sim_io_session (orderly sim_upf_env) ?boot" by (simp add: SetRemoteNodes_def sim_boot_def sim_c0_def)
  have "start_schedulers sim_boot sim_peered Map.empty = [''127.0.0.1'' \<mapsto> Starting 0]"
    by (simp add: start_schedulers_def sim_peered sim_boot_def sim_c0_def)
  with sys_step.received [of ?boot, OF _ ] sim_session_peered have "sys_step sim_upf_env sim_io_session ?boot ?peered" by fastforce
  with boot have peered: "run_reach sim_upf_env sim_io_session (orderly sim_upf_env) ?peered"
    by (rule run_reach.handled [where buf = "[0]" and addr = sim_peer]) (use sim_session_peered in \<open>simp_all add: permitted_def sim_io_session_def\<close>)
  obtain e where e: "Handle sim_upf_env sim_io_session [2] sim_peer sim_peered = (Val (Finished e), sim_served)" using sim_served(1) by blast
  have "start_schedulers sim_peered sim_served h = h" for h by (simp add: start_schedulers_def sim_peered sim_served)
  with sys_step.received [of ?peered] e have "sys_step sim_upf_env sim_io_session ?peered sim_serving" by (fastforce simp: sim_serving_def)
  with peered show ?thesis
    by (rule run_reach.handled [where buf = "[2]" and addr = sim_peer]) (use e in \<open>simp_all add: sim_serving_def permitted_def sim_io_session_def sim_peer_string
      sim_peered NewNodeAssociation_def\<close>)
qed

section \<open>Properties\<close>

text \<open>
  C2. In every interleaving of received datagrams, ticks, steps of the heartbeat schedulers and deletions of silent peers
  that starts over loaded tables, in which modifications update and remove only rules that their session has and
  no association uses up its \<open>2^64\<close> SEIDs (\<open>orderly\<close>; the handlers do not check it), and as long as the receive loop has not
  panicked: each FAR, QER and URR of each session owns an identifier of its table that is not free and that no other rule of any
  session has, and the forwarding plane's table holds its contents there.
\<close>

theorem running_rules_owned:
  assumes "ranges_ok E" and "run_reach E io (orderly E) s" and "\<forall>p. sys_run s \<noteq> Crashed p"
  shows "owns (far_free E (mapOperations (sys_conn s))) (far_lookup E (mapOperations (sys_conn s)))
      (maxSize (farIdTracker (mapOperations (sys_conn s)))) (conn_rules session_fars (sys_conn s))
    \<and> owns (qer_free E (mapOperations (sys_conn s))) (qer_lookup E (mapOperations (sys_conn s)))
      (maxSize (qerIdTracker (mapOperations (sys_conn s)))) (conn_rules session_qers (sys_conn s))
    \<and> owns (urr_free E (mapOperations (sys_conn s))) (urr_lookup E (mapOperations (sys_conn s)))
      (maxSize (urrIdTracker (mapOperations (sys_conn s)))) (conn_rules session_urrs (sys_conn s))"
  using rules_okD(2,4,6) [OF conn_okD(1) [OF run_reach_ok [OF assms]]] by blast

theorem running_rules_owned_witness:
  "conn_rules session_fars (sys_conn sim_serving) (''127.0.0.1'', 2, 1) = Some (0, sim_far) \<and>
   0 \<notin> far_free sim_upf_env (mapOperations (sys_conn sim_serving)) \<and>
   far_lookup sim_upf_env (mapOperations (sys_conn sim_serving)) 0 = Some sim_far"
proof -
  have "conn_rules session_fars (sys_conn sim_serving) (''127.0.0.1'', 2, 1) = Some (0, sim_far)"
    by (simp add: sim_serving_def sim_served conn_rules_def session_fars_def far_entry_def sim_state_defs)
  with running_rules_owned [OF sim_ranges_ok sim_run_reach] show ?thesis by (auto simp: owns_def sim_serving_def)
qed

end
