(* ===== verification/Rejected_Establishment.thy ===== *)
theory Rejected_Establishment
  imports Sim_Connection
begin

text \<open>
  What an establishment that fails in the middle leaves behind. The handler has no rollback
  (\<open>cmd/core/pfcp_session_handlers.go\<close>, \<open>#TODO: Implement rollback on error\<close>): rules that were
  created before the error keep their identifiers, and the session that knows them is dropped.
\<close>

section \<open>One rejected request\<close>

text \<open>A request whose FAR is good and whose first QER has no identifier.\<close>

definition half_good :: "('ie, 'm, 'b, 'z) upf_env_scheme \<Rightarrow> 'ie SessionEstablishmentRequest \<Rightarrow> bool" where
  "half_good E req \<longleftrightarrow> (\<exists>n. validateRequest E (seq_NodeID req) (seq_CPFSEID req) = Val n) \<and> seq_CreatePDR req = [] \<and>
     (\<exists>far v. seq_CreateFAR req = [far] \<and> composeFarInfo E far zero_FarInfo = Val v) \<and>
     (\<exists>qer qers. seq_CreateQER req = qer # qers \<and> ie_QERID E qer = None)"

lemma half_good_rules:
  assumes "half_good E req" and "far_ok E (rc_mapOperations h)"
  shows "\<exists>e h'. establish_rules E u req h = (Err e, h') \<and> far_ok E (rc_mapOperations h') \<and>
    card (far_free E (rc_mapOperations h')) = card (far_free E (rc_mapOperations h)) - 1"
proof -
  obtain far v qer qers where req: "seq_CreateFAR req = [far]" "composeFarInfo E far zero_FarInfo = Val v"
    "seq_CreateQER req = qer # qers" "ie_QERID E qer = None" using assms(1) by (auto simp: half_good_def)
  obtain r b where new: "NewFar E v (rc_mapOperations h) = (r, b)" by fastforce
  show ?thesis
  proof (cases r)
    case (Val i)
    from far.new_Val [OF assms(2) new [unfolded Val]] far.free_fin [OF assms(2)] have
      "far_ok E b" "card (far_free E b) = card (far_free E (rc_mapOperations h)) - 1" by simp_all
    with req new Val show ?thesis
      by (simp add: establish_rules_def create_far_def create_qer_def bind_op_def lift_res_def on_tables_def on_session_def or_err_def)
  next
    case (Err e)
    with far.new_Err [OF assms(2) new [unfolded Err]] assms(2) req new show ?thesis
      by (simp add: establish_rules_def create_far_def bind_op_def lift_res_def on_tables_def)
  qed (use far.new_no_panic [OF assms(2)] new in blast)
qed

lemma half_good_rejected:
  assumes "half_good E req" and "far_ok E (mapOperations c)" and "NodeAssociations c addr = Some a"
  shows "\<exists>m c'. HandlePfcpSessionEstablishmentRequest E req addr c = (Val (Some m, None), c') \<and>
    NewCause CauseRuleCreationModificationFailure \<in> set (ies_of m) \<and> far_ok E (mapOperations c') \<and>
    card (far_free E (mapOperations c')) = card (far_free E (mapOperations c)) - 1 \<and>
    NodeAssociations c' = (NodeAssociations c)(addr \<mapsto> a\<lparr>NextSessionID := NextSessionID a + 1\<rparr>)"
proof -
  obtain n where n: "validateRequest E (seq_NodeID req) (seq_CPFSEID req) = Val n" and pdrs: "seq_CreatePDR req = []"
    using assms(1) by (auto simp: half_good_def)
  let ?c = "c\<lparr>NodeAssociations := (NodeAssociations c)(addr \<mapsto> a\<lparr>NextSessionID := NextSessionID a + 1\<rparr>)\<rparr>"
  obtain e h where "establish_rules E (FeatureUEIP (Conf ?c)) req (handler_ctx (NewSession (NextSessionID a + 1) n) ?c) = (Err e, h)"
    "far_ok E (rc_mapOperations h)" "card (far_free E (rc_mapOperations h)) = card (far_free E (mapOperations c)) - 1"
    using half_good_rules [OF assms(1), of "handler_ctx (NewSession (NextSessionID a + 1) n) ?c" "FeatureUEIP (Conf ?c)"] assms(2) by auto
  with n pdrs assms(3) show ?thesis
    by (simp add: HandlePfcpSessionEstablishmentRequest_def NewLocalSEID_def Let_def print_pdrs_def)
qed

section \<open>A full table\<close>

lemma create_far_full:
  assumes "far_ok E (rc_mapOperations h)" and "far_free E (rc_mapOperations h) = {}"
  shows "create_far E far h \<noteq> (Val u, h')"
  using far.new_Val [OF assms(1)] assms(2)
  by (auto simp: create_far_def bind_op_def lift_res_def on_tables_def on_session_def split: res.splits prod.splits)

lemma full_table_rejects:
  assumes "far_ok E (mapOperations c)" and "far_free E (mapOperations c) = {}" and "seq_CreateFAR req \<noteq> []"
  shows "\<not> accepted (fst (HandlePfcpSessionEstablishmentRequest E req addr c))"
proof -
  have "establish_rules E u req (handler_ctx s d) \<noteq> (Val (), h)" if "mapOperations d = mapOperations c" for u s d h
    using assms that create_far_full [of E "handler_ctx s d" "hd (seq_CreateFAR req)"]
    by (cases "seq_CreateFAR req") (auto simp: establish_rules_def bind_op_def split: res.splits prod.splits)
  then show ?thesis
    by (auto simp: HandlePfcpSessionEstablishmentRequest_def accepted_def Let_def NewLocalSEID_def split: res.split option.split prod.split)
qed

section \<open>Many rejected requests\<close>

abbreviation repeated ::
  "('ie, 'm, 'b, 'z) upf_env_scheme \<Rightarrow> 'ie SessionEstablishmentRequest \<Rightarrow> string \<Rightarrow> nat \<Rightarrow> ('m, 'b) PfcpConnection \<Rightarrow> ('m, 'b) PfcpConnection" where
  "repeated E req addr n \<equiv> (\<lambda>c. snd (HandlePfcpSessionEstablishmentRequest E req addr c)) ^^ n"

lemma half_good_repeated:
  assumes "half_good E req" and "far_ok E (mapOperations c)" and "NodeAssociations c addr = Some a"
  shows "far_ok E (mapOperations (repeated E req addr n c)) \<and>
    card (far_free E (mapOperations (repeated E req addr n c))) = card (far_free E (mapOperations c)) - n \<and>
    NodeAssociations (repeated E req addr n c) = (NodeAssociations c)(addr \<mapsto> a\<lparr>NextSessionID := NextSessionID a + of_nat n\<rparr>)"
proof (induction n)
  case (Suc n)
  let ?d = "repeated E req addr n c"
  from Suc have "NodeAssociations ?d addr = Some (a\<lparr>NextSessionID := NextSessionID a + of_nat n\<rparr>)" by simp
  from half_good_rejected [OF assms(1) _ this] Suc obtain m c' where
    "HandlePfcpSessionEstablishmentRequest E req addr ?d = (Val (Some m, None), c')" "far_ok E (mapOperations c')"
    "card (far_free E (mapOperations c')) = card (far_free E (mapOperations ?d)) - 1"
    "NodeAssociations c' = (NodeAssociations ?d)(addr \<mapsto> a\<lparr>NextSessionID := NextSessionID a + of_nat n + 1\<rparr>)" by auto
  with Suc show ?case by (simp add: fun_eq_iff add.assoc add.commute [of "1 :: u64"])
qed (use assms in \<open>simp add: fun_upd_idem\<close>)

section \<open>Properties\<close>

text \<open>
  C20. Rejected establishments use up the FAR table. Each request with one good FAR and a QER
  without identifier is refused and adds no session, but takes one FAR identifier away. After
  as many of them as there were free identifiers, every establishment with a FAR, from
  whichever peer, is refused.
\<close>

theorem rejected_establishments_exhaust_fars:
  assumes "ranges_ok E" and "conn_reach E (orderly E) c" and "NodeAssociations c addr = Some a" and "half_good E req"
  shows "card (far_free E (mapOperations (repeated E req addr n c))) = card (far_free E (mapOperations c)) - n
    \<and> NodeAssociations (repeated E req addr n c) = (NodeAssociations c)(addr \<mapsto> a\<lparr>NextSessionID := NextSessionID a + of_nat n\<rparr>)
    \<and> (card (far_free E (mapOperations c)) \<le> n \<longrightarrow> (\<forall>req' addr'. seq_CreateFAR req' \<noteq> [] \<longrightarrow>
         \<not> accepted (fst (HandlePfcpSessionEstablishmentRequest E req' addr' (repeated E req addr n c)))))"
proof -
  have "far_ok E (mapOperations c)" by (rule rules_okD(1) [OF conn_okD(1) [OF conn_reach_ok [OF assms(2,1)]]])
  note r = half_good_repeated [OF assms(4) this assms(3), of n]
  have "far_free E (mapOperations (repeated E req addr n c)) = {}" if "card (far_free E (mapOperations c)) \<le> n"
    using r that far.free_fin by fastforce
  with r full_table_rejects show ?thesis by blast
qed

text \<open>The table of the test environment has four entries.\<close>

theorem rejected_establishments_exhaust_fars_witness:
  "\<not> accepted (fst (HandlePfcpSessionEstablishmentRequest sim_upf_env (sim_establish 7) ''smf''
     (repeated sim_upf_env ((sim_establish 7)\<lparr>seq_CreateQER := [Sim (T_other 7) None None [] None None None None]\<rparr>) ''smf'' 4 sim_c1)))"
proof -
  let ?req = "(sim_establish 7)\<lparr>seq_CreateQER := [Sim (T_other 7) None None [] None None None None]\<rparr>"
  have "half_good sim_upf_env ?req"
    by (simp add: half_good_def sim_handler_eval sim_eval)
  moreover have "card (far_free sim_upf_env (mapOperations sim_c1)) \<le> 4"
    by (simp add: sim_loaded tracker_free_def)
  ultimately show ?thesis
    using rejected_establishments_exhaust_fars [OF sim_ranges_ok sim_reach(1), where addr = "''smf''" and req = ?req and n = 4]
    by (simp add: sim_establish_def)
qed

end
