(* ===== verification/Session_Registry.thy ===== *)
theory Session_Registry
  imports Sim_Connection
begin

text \<open>
  What a control plane may rely on, stated without rules, tables and pools: a registry
  of associations, each with the last SEID it gave out and the remote SEIDs of its sessions. The
  connection refines it: \<open>registry\<close> maps a connection to its abstract state, and every step
  of the connection is one of the abstract steps.
\<close>

section \<open>The abstract registry\<close>

type_synonym registry = "string \<rightharpoonup> u64 \<times> (u64 \<rightharpoonup> u64)"

inductive reg_step :: "registry \<Rightarrow> registry \<Rightarrow> bool" where
  stutter: "reg_step r r"
| associate: "r a = None \<Longrightarrow> reg_step r (r(a \<mapsto> (1, Map.empty)))"
| refuse: "r a = Some (n, ss) \<Longrightarrow> n < n' \<Longrightarrow> reg_step r (r(a \<mapsto> (n', ss)))"
| establish: "r a = Some (n, ss) \<Longrightarrow> n < n' \<Longrightarrow> reg_step r (r(a \<mapsto> (n', ss(n' \<mapsto> remote))))"
| modify: "r a = Some (n, ss) \<Longrightarrow> ss q \<noteq> None \<Longrightarrow> reg_step r (r(a \<mapsto> (n, ss(q \<mapsto> remote))))"
| delete: "r a = Some (n, ss) \<Longrightarrow> ss q \<noteq> None \<Longrightarrow> reg_step r (r(a \<mapsto> (n, ss(q := None))))"
| release: "r a \<noteq> None \<Longrightarrow> reg_step r (r(a := None))"

text \<open>SEIDs of sessions were given out, so a new one was never in use before in its association.\<close>

definition reg_ok :: "registry \<Rightarrow> bool" where
  "reg_ok r \<longleftrightarrow> (\<forall>a n ss q. r a = Some (n, ss) \<and> ss q \<noteq> None \<longrightarrow> q \<le> n)"

lemma reg_step_ok: "reg_step r r' \<Longrightarrow> reg_ok r \<Longrightarrow> reg_ok r'"
proof (induction rule: reg_step.induct)
  case (refuse r a n ss n')
  then have "q \<le> n'" if "ss q \<noteq> None" for q using that unfolding reg_ok_def by (meson le_less_trans less_imp_le)
  with refuse show ?case by (auto simp: reg_ok_def)
next
  case (establish r a n ss n' remote)
  then have "q \<le> n'" if "ss q \<noteq> None" for q using that unfolding reg_ok_def by (meson le_less_trans less_imp_le)
  with establish show ?case by (auto simp: reg_ok_def)
qed (auto simp: reg_ok_def split: if_splits)

lemma reg_run_ok: "reg_step\<^sup>*\<^sup>* r r' \<Longrightarrow> reg_ok r \<Longrightarrow> reg_ok r'"
  by (induction rule: rtranclp_induct) (auto intro: reg_step_ok)

section \<open>Abstraction\<close>

definition assoc_abs :: "NodeAssociation \<Rightarrow> u64 \<times> (u64 \<rightharpoonup> u64)" where
  "assoc_abs a = (NextSessionID a, \<lambda>q. map_option RemoteSEID (Sessions a q))"

definition registry :: "('m, 'b) PfcpConnection \<Rightarrow> registry" where
  "registry c a = map_option assoc_abs (NodeAssociations c a)"

lemma registry_cong: "NodeAssociations c = NodeAssociations d \<Longrightarrow> registry c = registry d"
  by (simp add: registry_def fun_eq_iff)

lemma registry_upd:
  "registry (c\<lparr>NodeAssociations := (NodeAssociations c)(addr \<mapsto> a)\<rparr>) = (registry c)(addr \<mapsto> assoc_abs a)"
  by (simp add: registry_def fun_eq_iff)

lemma registry_keep [simp]:
  "registry (count_rx E t k c) = registry c" "registry (leave_ctx h c) = registry c" "registry (ReleaseResources E n c) = registry c"
  by (rule registry_cong, simp add: ReleaseResources_def Let_def split: option.split)+

lemma assoc_abs_sessions:
  "assoc_abs (a\<lparr>Sessions := (Sessions a)(q \<mapsto> s)\<rparr>) = (NextSessionID a, (snd (assoc_abs a))(q \<mapsto> RemoteSEID s))"
  "assoc_abs (a\<lparr>Sessions := (Sessions a)(q := None)\<rparr>) = (NextSessionID a, (snd (assoc_abs a))(q := None))"
  "assoc_abs (a\<lparr>NextSessionID := n\<rparr>) = (n, snd (assoc_abs a))"
  by (auto simp: assoc_abs_def fun_eq_iff)

lemma registry_put:
  assumes "NodeAssociations c addr = Some a"
  shows "registry (put_session addr q s c) = (registry c)(addr \<mapsto> (NextSessionID a, (snd (assoc_abs a))(q \<mapsto> RemoteSEID s)))"
  using assms by (simp add: put_session_def registry_upd assoc_abs_sessions)

lemma registry_at: "NodeAssociations c addr = Some a \<Longrightarrow> registry c addr = Some (NextSessionID a, snd (assoc_abs a))"
  by (simp add: registry_def assoc_abs_def)

section \<open>The steps\<close>

lemma saveAssociation_refines: "reg_step (registry c) (registry (saveAssociation n addr c))"
proof (cases "NodeAssociations c addr")
  case None
  then have "registry (saveAssociation n addr c) = (registry c)(addr \<mapsto> (1, Map.empty))"
    by (auto simp: saveAssociation_def Let_def registry_def assoc_abs_def NewNodeAssociation_def fun_eq_iff)
  with None show ?thesis by (simp add: reg_step.associate registry_def)
qed (simp add: saveAssociation_def reg_step.stutter)

lemma association_handlers_refine:
  "reg_step (registry c) (registry (snd (HandlePfcpAssociationSetupRequest E asq addr c)))"
  "reg_step (registry c) (registry (snd (HandlePfcpAssociationSetupResponse E asr addr c)))"
  "reg_step (registry c) (registry (snd (HandlePfcpAssociationUpdateRequest E auq addr c)))"
  by (simp_all add: HandlePfcpAssociationSetupRequest_def HandlePfcpAssociationSetupResponse_def
      HandlePfcpAssociationUpdateRequest_def Let_def saveAssociation_refines reg_step.stutter split: option.split res.split)

lemma establishment_refines:
  assumes "\<And>a. NodeAssociations c addr = Some a \<Longrightarrow> NextSessionID a \<noteq> - 1"
  shows "reg_step (registry c) (registry (snd (HandlePfcpSessionEstablishmentRequest E req addr c)))"
proof (cases "NodeAssociations c addr")
  case (Some a)
  let ?n = "NextSessionID a + 1"
  let ?c = "c\<lparr>NodeAssociations := (NodeAssociations c)(addr \<mapsto> a\<lparr>NextSessionID := ?n\<rparr>)\<rparr>"
  have n: "NextSessionID a < ?n" using plus_one_greater [OF assms [OF Some]] .
  have c: "registry ?c = (registry c)(addr \<mapsto> (?n, snd (assoc_abs a)))" by (simp add: registry_upd assoc_abs_sessions)
  have "reg_step (registry c) (registry ?c)"
    unfolding c by (rule reg_step.refuse, rule registry_at [OF Some], rule n)
  moreover have "reg_step (registry c) (registry (put_session addr ?n s (leave_ctx h ?c)))" for s h
    using reg_step.establish [of "registry c" addr "NextSessionID a" "snd (assoc_abs a)" ?n "RemoteSEID s"] registry_at [OF Some] n
    by (subst registry_put [where a = "a\<lparr>NextSessionID := ?n\<rparr>"]) (simp_all add: c assoc_abs_sessions)
  ultimately show ?thesis
    unfolding HandlePfcpSessionEstablishmentRequest_def Let_def NewLocalSEID_def
    by (simp add: Some reg_step.stutter split: res.split prod.split)
qed (simp add: HandlePfcpSessionEstablishmentRequest_def Let_def reg_step.stutter split: res.split)

lemma modification_refines:
  "reg_step (registry c) (registry (snd (HandlePfcpSessionModificationRequest E req addr c)))"
proof (cases "NodeAssociations c addr")
  case (Some a)
  show ?thesis
  proof (cases "Sessions a (smq_SEID req)")
    case s: (Some s)
    have m: "reg_step (registry c) ((registry c)(addr \<mapsto> (NextSessionID a, (snd (assoc_abs a))(smq_SEID req \<mapsto> x))))" for x
      by (rule reg_step.modify, rule registry_at [OF Some]) (simp add: assoc_abs_def s)
    have "reg_step (registry c) (registry (put_session addr (smq_SEID req) y c))" for y
      by (simp add: registry_put [OF Some] m)
    moreover have "reg_step (registry c) (registry (put_session addr (smq_SEID req) z
        (leave_ctx h (put_session addr (smq_SEID req) y c))))" for y z h
      by (subst registry_put [where a = "a\<lparr>Sessions := (Sessions a)(smq_SEID req \<mapsto> y)\<rparr>"])
         (simp_all add: registry_upd m put_session_def Some assoc_abs_sessions)
    ultimately show ?thesis
      unfolding HandlePfcpSessionModificationRequest_def Let_def
      by (simp add: Some s split: res.split prod.split)
  qed (simp add: HandlePfcpSessionModificationRequest_def Let_def Some reg_step.stutter)
qed (simp add: HandlePfcpSessionModificationRequest_def Let_def reg_step.stutter)

lemma deletion_refines:
  "reg_step (registry c) (registry (snd (HandlePfcpSessionDeletionRequest E req addr c)))"
proof (cases "NodeAssociations c addr")
  case (Some a)
  show ?thesis
  proof (cases "Sessions a (sdq_SEID req)")
    case s: (Some s)
    have "reg_step (registry c) ((registry c)(addr \<mapsto> (NextSessionID a, (snd (assoc_abs a))(sdq_SEID req := None))))"
      by (rule reg_step.delete, rule registry_at [OF Some]) (simp add: assoc_abs_def s)
    moreover have "registry ((leave_ctx h c)\<lparr>NodeAssociations := (NodeAssociations c)(addr \<mapsto> x)\<rparr>) = (registry c)(addr \<mapsto> assoc_abs x)" for h x
      by (simp add: registry_def fun_eq_iff)
    ultimately show ?thesis
      unfolding HandlePfcpSessionDeletionRequest_def Let_def
      by (simp add: Some s assoc_abs_sessions reg_step.stutter split: res.split prod.split)
  qed (simp add: HandlePfcpSessionDeletionRequest_def Let_def Some reg_step.stutter)
qed (simp add: HandlePfcpSessionDeletionRequest_def Let_def reg_step.stutter)

lemma release_refines:
  assumes "DeleteAssociation E addr c = (Val (), c')"
  shows "reg_step (registry c) (registry c')"
proof -
  obtain as where as: "NodeAssociations c addr = Some as"
    using assms by (auto simp: DeleteAssociation_def GetAssociation_def split: option.splits)
  let ?f = "for_range (\<lambda>(_, session). DeleteSession E session) (rangeSessions E (Sessions as))"
  have k: "NodeAssociations (snd (?f c)) = NodeAssociations c"
    by (rule for_range_keeps [where I = "\<lambda>d. NodeAssociations d = NodeAssociations c"])
       (simp_all add: DeleteSession_def case_prod_unfold from_ctx_def split: prod.split)
  obtain c1 where "?f c = (Val (), c1)" "c' = c1\<lparr>NodeAssociations := (NodeAssociations c1)(addr := None)\<rparr>"
    using assms as by (auto simp: DeleteAssociation_def GetAssociation_def bind_op_eq_Val)
  with k have "registry c' = (registry c)(addr := None)" by (simp add: registry_def fun_eq_iff)
  with reg_step.release [of "registry c" addr] as show ?thesis by (simp add: registry_def)
qed

lemma step_refines:
  assumes "conn_step E seids_left c c'"
  shows "reg_step (registry c) (registry c')"
  using assms
proof cases
  case (associated asq addr r)
  then show ?thesis using association_handlers_refine(1) [of c E asq addr] by simp
next
  case (updated auq addr r)
  then show ?thesis using association_handlers_refine(3) [of c E auq addr] by simp
next
  case (answered asr addr r)
  then show ?thesis using association_handlers_refine(2) [of c E asr addr] by simp
next
  case (established seq addr r)
  then show ?thesis using establishment_refines [of c addr E seq] by simp
next
  case (modified smq addr r)
  then show ?thesis using modification_refines [of c E smq addr] by simp
next
  case (deleted sdq addr r)
  then show ?thesis using deletion_refines [of c E sdq addr] by simp
next
  case (released addr)
  then show ?thesis by (rule release_refines)
qed

lemma reg_step_seids:
  assumes "reg_step r r'" and "r a = Some (n, ss)" "r' a = Some (n', ss')"
  shows "n \<le> n' \<and> (\<forall>q. ss' q \<noteq> None \<longrightarrow> ss q \<noteq> None \<or> n < q)"
  using assms by (cases rule: reg_step.cases) (auto split: if_splits)

text \<open>Steps of the connection during which an address has its association.\<close>

inductive keeps_running ::
  "string \<Rightarrow> ('ie, 'm, 'b, 'z) upf_env_scheme \<Rightarrow> ('m, 'b) PfcpConnection \<Rightarrow> ('m, 'b) PfcpConnection \<Rightarrow> bool"
  for a E where
  here: "keeps_running a E c c"
| onward: "keeps_running a E c c' \<Longrightarrow> conn_step E seids_left c' c'' \<Longrightarrow> NodeAssociations c'' a \<noteq> None \<Longrightarrow> keeps_running a E c c''"

lemma sim_c3_kept: "NodeAssociations sim_c3 ''smf'' \<noteq> None"
  by simp

section \<open>Properties\<close>

text \<open>
  C21. The connection refines the registry: whichever request a step of the connection handles,
  seen through \<open>registry\<close> it adds an association, gives out a larger SEID with or without a
  session, changes or removes one existing session, removes one association with all
  its sessions, or does nothing.
\<close>

theorem connection_refines_registry:
  assumes "conn_step E seids_left c c'"
  shows "reg_step (registry c) (registry c')"
  by (rule step_refines [OF assms])

theorem connection_refines_registry_witness: "reg_step (registry sim_c1) (registry sim_c2)"
proof -
  have "seids_left (SessEstablishmentRequest (sim_establish 7)) ''smf'' sim_c1" by (simp add: NewNodeAssociation_def)
  with sim_c2 have "conn_step sim_upf_env seids_left sim_c1 sim_c2" by (blast intro: conn_step.established)
  then show ?thesis by (rule connection_refines_registry)
qed

text \<open>
  C25. A SEID is not given out twice while its association exists: after any number of steps
  that leave the association in place, a session that the association did not have before
  has a SEID larger than every SEID given out before.
\<close>

theorem seids_not_reused:
  assumes "keeps_running addr E c c'" and "NodeAssociations c addr = Some a" "NodeAssociations c' addr = Some a'"
  shows "NextSessionID a \<le> NextSessionID a' \<and>
    (\<forall>q. Sessions a' q \<noteq> None \<longrightarrow> Sessions a q \<noteq> None \<or> NextSessionID a < q)"
proof -
  have "\<exists>n ss. registry c' addr = Some (n, ss) \<and> NextSessionID a \<le> n \<and>
      (\<forall>q. ss q \<noteq> None \<longrightarrow> Sessions a q \<noteq> None \<or> NextSessionID a < q)"
    using assms(1,2)
  proof (induction rule: keeps_running.induct)
    case (onward c c' c'')
    then obtain n ss where i: "registry c' addr = Some (n, ss)" "NextSessionID a \<le> n"
        "\<forall>q. ss q \<noteq> None \<longrightarrow> Sessions a q \<noteq> None \<or> NextSessionID a < q" by blast
    obtain n' ss' where r: "registry c'' addr = Some (n', ss')" using onward.hyps(3) by (auto simp: registry_def assoc_abs_def)
    from reg_step_seids [OF step_refines [OF onward.hyps(2)] i(1) r] i r show ?case by (meson order.trans le_less_trans)
  qed (auto simp: registry_def assoc_abs_def)
  with assms(3) show ?thesis by (auto simp: registry_def assoc_abs_def)
qed

theorem seids_not_reused_witness:
  "Sessions (sim_assoc 3 [2 \<mapsto> sim_session 2 7 0, 3 \<mapsto> sim_session 3 2 1]) 3 \<noteq> None \<and>
   NextSessionID (sim_assoc 2 [2 \<mapsto> sim_session 2 7 0]) < 3"
proof -
  have "seids_left (SessEstablishmentRequest (sim_establish 2)) ''smf'' sim_c2" by (simp add: sim_assoc_def)
  with sim_c3 have "conn_step sim_upf_env seids_left sim_c2 sim_c3" by (blast intro: conn_step.established)
  then have "keeps_running ''smf'' sim_upf_env sim_c2 sim_c3" by (rule keeps_running.onward [OF keeps_running.here _ sim_c3_kept])
  from seids_not_reused [OF this, of "sim_assoc 2 [2 \<mapsto> sim_session 2 7 0]"
      "sim_assoc 3 [2 \<mapsto> sim_session 2 7 0, 3 \<mapsto> sim_session 3 2 1]"] show ?thesis
    by (auto simp: sim_assoc_def)
qed

end
