(* ===== verification/Request_Log.thy ===== *)
theory Request_Log
  imports Session_Handlers
begin

text \<open>
  The text that is logged for a request (\<open>cmd/core/display_utils.go\<close>). The session handlers call
  these functions before they work on a request, so a panic here ends the program; their
  model has only \<open>print_pdrs\<close>, the part that can panic. Here is the whole, and the proof
  that nothing was lost.

  The accessors that only the log uses are fields of \<open>log_env\<close>; a value that the code formats with a
  method of its library type is given as text. The buffering rule of a request (BAR), which no
  handler uses, is an argument.
\<close>

section \<open>Data\<close>

record 'ie log_env =
  lg_BARID :: "'ie \<Rightarrow> u8 option"
  lg_DownlinkDataNotificationDelay :: "'ie \<Rightarrow> string option"
  lg_SuggestedBufferingPacketsCount :: "'ie \<Rightarrow> u8 option"
  lg_MTEDTControlInformation :: "'ie \<Rightarrow> u8 option"
  lg_MeasurementMethod :: "'ie \<Rightarrow> u8 option"
  lg_VolumeThreshold :: "'ie \<Rightarrow> string option"
  lg_TimeThreshold :: "'ie \<Rightarrow> string option"
  lg_MonitoringTime :: "'ie \<Rightarrow> string option"
  lg_NetworkInstance :: "'ie \<Rightarrow> string option"
  lg_OuterHeaderCreation :: "'ie \<Rightarrow> string option"
  lg_RedirectInformation :: "'ie \<Rightarrow> (string \<times> string) option"
  lg_HeaderEnrichment :: "'ie \<Rightarrow> (string \<times> string) option"
  lg_DuplicatingParameters :: "'ie \<Rightarrow> string option"
  lg_SourceInterface :: "'ie \<Rightarrow> u8 option"
  lg_FTEID_addresses :: "'ie \<Rightarrow> string \<times> string"
  lg_bytes :: "bytes \<Rightarrow> string"
  lg_Time :: "Time \<Rightarrow> string"

definition newline :: string where
  "newline = [CHR 0x0A]"

definition writeLineTabbed :: "string \<Rightarrow> nat \<Rightarrow> string \<Rightarrow> string" where
  "writeLineTabbed s tab sb = sb @ concat (replicate tab ''  '') @ s @ newline"

definition dec :: "'w::len word \<Rightarrow> string" where
  "dec n = show_nat (unat n)"

text \<open>\<open>if v, err := \<dots>; err == nil { writeLineTabbed(\<dots>) }\<close>.\<close>

definition line_if :: "'a option \<Rightarrow> ('a \<Rightarrow> string) \<Rightarrow> nat \<Rightarrow> string \<Rightarrow> string" where
  "line_if v text tab sb = (case v of None \<Rightarrow> sb | Some x \<Rightarrow> writeLineTabbed (text x) tab sb)"

section \<open>Rules\<close>

definition bar_details :: "'ie log_env \<Rightarrow> 'ie \<Rightarrow> string \<Rightarrow> string" where
  "bar_details G bar sb =
     (let sb = line_if (lg_DownlinkDataNotificationDelay G bar) (\<lambda>d. ''Downlink Data Notification Delay: '' @ d @ '' '') 2 sb;
          sb = line_if (lg_SuggestedBufferingPacketsCount G bar) (\<lambda>n. ''Suggested Buffering Packets Count: '' @ dec n @ '' '') 2 sb
      in line_if (lg_MTEDTControlInformation G bar) (\<lambda>n. ''MT EDI: '' @ dec n @ '' '') 2 sb)"

definition displayBar :: "'ie log_env \<Rightarrow> 'ie \<Rightarrow> string \<Rightarrow> string" where
  "displayBar G bar sb = bar_details G bar (sb @ ''BAR ID: '' @ dec (or_zero (lg_BARID G bar)) @ newline)"

definition displayUrr :: "('ie, 'm, 'b, 'z) upf_env_scheme \<Rightarrow> 'ie log_env \<Rightarrow> 'ie \<Rightarrow> string \<Rightarrow> string" where
  "displayUrr E G urr sb =
     (let sb = sb @ ''URR ID: '' @ dec (or_zero (ie_URRID E urr)) @ '' '' @ newline;
          sb = line_if (lg_MeasurementMethod G urr) (\<lambda>n. ''Measurement Method: '' @ dec n @ '' '') 2 sb;
          sb = line_if (lg_VolumeThreshold G urr) (\<lambda>v. ''Volume Threshold: '' @ v @ '' '') 2 sb;
          sb = line_if (lg_TimeThreshold G urr) (\<lambda>v. ''Time Threshold: '' @ v @ '' '') 2 sb
      in line_if (lg_MonitoringTime G urr) (\<lambda>v. ''Monitoring Time: '' @ v @ '' '') 2 sb)"

definition displayQer :: "('ie, 'm, 'b, 'z) upf_env_scheme \<Rightarrow> 'ie \<Rightarrow> string \<Rightarrow> string" where
  "displayQer E qer sb =
     (let sb = sb @ ''QER ID: '' @ dec (or_zero (ie_QERID E qer)) @ '' '' @ newline;
          sb = line_if (ie_GateStatusDL E qer) (\<lambda>n. ''Gate Status DL: '' @ dec n @ '' '') 2 sb;
          sb = line_if (ie_GateStatusUL E qer) (\<lambda>n. ''Gate Status UL: '' @ dec n @ '' '') 2 sb;
          sb = line_if (ie_MBRDL E qer) (\<lambda>n. ''Max Bitrate DL: '' @ dec (ucast n :: u32) @ '' '') 2 sb;
          sb = line_if (ie_MBRUL E qer) (\<lambda>n. ''Max Bitrate UL: '' @ dec (ucast n :: u32) @ '' '') 2 sb
      in line_if (ie_QFI E qer) (\<lambda>n. ''QFI: '' @ dec n @ '' '') 2 sb)"

definition displayForwardingParameter :: "'ie log_env \<Rightarrow> 'ie \<Rightarrow> string \<Rightarrow> string" where
  "displayForwardingParameter G p sb =
     (let sb = line_if (lg_NetworkInstance G p) (\<lambda>v. ''Network Instance: '' @ v @ '' '') 3 sb;
          sb = line_if (lg_OuterHeaderCreation G p) (\<lambda>v. ''Outer Header Creation: '' @ v @ '' '') 3 sb;
          sb = line_if (lg_RedirectInformation G p) (\<lambda>(a, _). ''Redirect Information, server address: '' @ a @ '' '') 3 sb;
          sb = line_if (lg_RedirectInformation G p) (\<lambda>(_, b). ''Redirect Information, other server address: '' @ b @ '' '') 3 sb
      in line_if (lg_HeaderEnrichment G p) (\<lambda>(n, v). ''Header Enrichment: '' @ n @ '' : '' @ v @ '' '') 3 sb)"

text \<open>The two bytes of the marking, as \<open>binary.BigEndian.PutUint16\<close> writes them.\<close>

definition BigEndian_PutUint16 :: "u16 \<Rightarrow> bytes" where
  "BigEndian_PutUint16 n = [ucast (drop_bit 8 n), ucast n]"

definition hex :: "u8 \<Rightarrow> string" where
  "hex b = show_base 16 (unat b)"

definition displayFar :: "('ie, 'm, 'b, 'z) upf_env_scheme \<Rightarrow> 'ie log_env \<Rightarrow> 'ie \<Rightarrow> string \<Rightarrow> string" where
  "displayFar E G far sb =
     (let sb = sb @ ''FAR ID: '' @ dec (or_zero (ie_FARID E far)) @ '' '' @ newline;
          sb = line_if (ie_ApplyAction E far) (\<lambda>a. ''Apply Action: '' @ lg_bytes G a @ '' '') 2 sb;
          sb = (case ie_ForwardingParameters E far of
                  None \<Rightarrow> sb
                | Some ps \<Rightarrow> fold (displayForwardingParameter G) ps (writeLineTabbed ''Forwarding Parameters:'' 2 sb));
          sb = (case ie_UpdateForwardingParameters E far of
                  None \<Rightarrow> sb
                | Some ps \<Rightarrow> fold (displayForwardingParameter G) ps (writeLineTabbed ''Update forwarding Parameters:'' 2 sb));
          sb = line_if (lg_DuplicatingParameters G far) (\<lambda>v. ''Duplicating Parameters: '' @ v @ '' '') 2 sb;
          sb = line_if (lg_BARID G far) (\<lambda>n. ''BAR ID: '' @ dec n @ '' '') 2 sb
      in case GetTransportLevelMarking E far of
           Val t \<Rightarrow>
             (let buf = BigEndian_PutUint16 t;
                  sb = writeLineTabbed (''Transport Level Marking: '' @ dec t) 2 sb;
                  sb = writeLineTabbed (''DSCP: '' @ hex (buf ! 0)) 3 sb
              in writeLineTabbed (''ToS or Traffic Class mask: '' @ hex (buf ! 1)) 3 sb)
         | _ \<Rightarrow> sb)"

text \<open>\<open>if i := findIEindex(pdi, t); i != -1 { \<dots> pdi[i] \<dots> }\<close>.\<close>

definition found :: "('ie, 'm, 'b, 'z) upf_env_scheme \<Rightarrow> 'ie list \<Rightarrow> ie_type \<Rightarrow> ('ie \<Rightarrow> string \<Rightarrow> string) \<Rightarrow> string \<Rightarrow> string res" where
  "found E pdi t f sb =
     (let i = findIEindex E pdi t
      in if i \<noteq> - 1 then bind_res (index_slice pdi i) (\<lambda>x. Val (f x sb)) else Val sb)"

definition displayPdi :: "('ie, 'm, 'b, 'z) upf_env_scheme \<Rightarrow> 'ie log_env \<Rightarrow> 'ie list \<Rightarrow> string \<Rightarrow> string res" where
  "displayPdi E G pdi sb =
     bind_res (index_slice pdi (findIEindex E pdi T_SourceInterface)) (\<lambda>src.
     bind_res (found E pdi T_FTEID (\<lambda>x sb.
         case ie_FTEID E x of
           None \<Rightarrow> sb
         | Some fteid \<Rightarrow>
             (case lg_FTEID_addresses G x of (v4, v6) \<Rightarrow>
                writeLineTabbed (''Ipv6: '' @ v6 @ '' '') 2 (writeLineTabbed (''Ipv4: '' @ v4 @ '' '') 2
                  (writeLineTabbed (''TEID: '' @ dec (ft_TEID fteid) @ '' '') 2 sb))))
         (writeLineTabbed (''Source Interface: '' @ dec (or_zero (lg_SourceInterface G src)) @ '' '') 2 sb)) (\<lambda>sb.
     bind_res (found E pdi T_UEIPAddress (\<lambda>x sb.
         case ie_UEIPAddress E x of
           None \<Rightarrow> sb
         | Some ueIp \<Rightarrow>
             (let sb = line_if (ue_IPv4Address ueIp) (\<lambda>a. ''UE IPv4 Address: '' @ IP_String (Some a) @ '' '') 2 sb
              in line_if (ue_IPv6Address ueIp) (\<lambda>a. ''UE IPv6 Address: '' @ IP_String (Some a) @ '' '') 2 sb)) sb) (\<lambda>sb.
     found E pdi T_SDFFilter (\<lambda>x. line_if (ie_SDFFilter_FlowDescription E x) (\<lambda>d. ''SDF Filter: '' @ d @ '' '') 2) sb)))"

definition displayPdr_text :: "('ie, 'm, 'b, 'z) upf_env_scheme \<Rightarrow> 'ie log_env \<Rightarrow> 'ie \<Rightarrow> string \<Rightarrow> string res" where
  "displayPdr_text E G pdr sb =
     (let sb = sb @ ''PDR ID: '' @ dec (or_zero (ie_PDRID E pdr)) @ '' '' @ newline;
          sb = line_if (ie_OuterHeaderRemovalDescription E pdr) (\<lambda>n. ''Outer Header Removal: '' @ dec n @ '' '') 2 sb;
          sb = line_if (ie_FARID E pdr) (\<lambda>n. ''FAR ID: '' @ dec n @ '' '') 2 sb;
          sb = fold (\<lambda>x sb. if ie_Type E x = T_QERID then line_if (ie_QERID E x) (\<lambda>n. ''QER ID: '' @ dec n @ '' '') 2 sb else sb)
                 (ie_ChildIEs E pdr) sb;
          sb = line_if (ie_URRID E pdr) (\<lambda>n. ''URR ID: '' @ dec n @ '' '') 2 sb;
          sb = line_if (lg_BARID G pdr) (\<lambda>n. ''BAR ID: '' @ dec n @ '' '') 2 sb
      in case ie_PDI E pdr of None \<Rightarrow> Val sb | Some pdi \<Rightarrow> displayPdi E G pdi sb)"

section \<open>Requests\<close>

definition rules_text :: "string \<Rightarrow> ('ie \<Rightarrow> string \<Rightarrow> string) \<Rightarrow> 'ie list \<Rightarrow> string \<Rightarrow> string" where
  "rules_text verb display ies sb = fold (\<lambda>i sb. display i (sb @ verb)) ies sb"

primrec pdrs_text ::
  "('ie, 'm, 'b, 'z) upf_env_scheme \<Rightarrow> 'ie log_env \<Rightarrow> string \<Rightarrow> 'ie list \<Rightarrow> string \<Rightarrow> string res" where
  "pdrs_text E G verb [] sb = Val sb"
| "pdrs_text E G verb (p # ps) sb = bind_res (displayPdr_text E G p (sb @ verb)) (pdrs_text E G verb ps)"

definition bar_text :: "(string \<Rightarrow> 'ie \<Rightarrow> string) \<Rightarrow> 'ie option \<Rightarrow> string \<Rightarrow> string" where
  "bar_text f bar sb = (case bar of None \<Rightarrow> sb | Some b \<Rightarrow> f sb b)"

definition printAssociationSetupRequest ::
  "('ie, 'm, 'b, 'z) upf_env_scheme \<Rightarrow> 'ie log_env \<Rightarrow> 'ie AssociationSetupRequest \<Rightarrow> string res" where
  "printAssociationSetupRequest E G req =
     (case asq_NodeID req of
        None \<Rightarrow> Panic NilDereference
      | Some n \<Rightarrow>
          (let sb = writeLineTabbed ''Association Setup Request:'' 0 newline;
               sb = line_if (ie_NodeID E n) (\<lambda>i. ''Node ID: '' @ i) 1 sb
           in case asq_RecoveryTimeStamp req of
                None \<Rightarrow> Val sb
              | Some ts \<Rightarrow>
                  (case ie_RecoveryTimeStamp E (Some ts) of
                     Panic p \<Rightarrow> Panic p
                   | Err _ \<Rightarrow> Val sb
                   | Val t \<Rightarrow> Val (writeLineTabbed (''Recovery Time: '' @ lg_Time G t) 1 sb))))"

definition printAssociationUpdateRequest ::
  "('ie, 'm, 'b, 'z) upf_env_scheme \<Rightarrow> 'ie AssociationUpdateRequest \<Rightarrow> string res" where
  "printAssociationUpdateRequest E req =
     (case auq_NodeID req of
        None \<Rightarrow> Panic NilDereference
      | Some n \<Rightarrow> Val (line_if (ie_NodeID E n) (\<lambda>i. ''Node ID: '' @ i) 1 (writeLineTabbed ''Association Update Request:'' 0 newline)))"

definition printSessionEstablishmentRequest ::
  "('ie, 'm, 'b, 'z) upf_env_scheme \<Rightarrow> 'ie log_env \<Rightarrow> 'ie option \<Rightarrow> 'ie SessionEstablishmentRequest \<Rightarrow> string res" where
  "printSessionEstablishmentRequest E G createBAR req =
     bind_res (pdrs_text E G ''  Create'' (seq_CreatePDR req) (writeLineTabbed ''Session Establishment Request:'' 0 newline)) (\<lambda>sb.
       let sb = rules_text ''  Create'' (displayFar E G) (seq_CreateFAR req) sb;
           sb = rules_text ''  Create'' (displayQer E) (seq_CreateQER req) sb;
           sb = rules_text ''  Create'' (displayUrr E G) (seq_CreateURR req) sb
       in Val (bar_text (\<lambda>sb bar. displayBar G bar (sb @ ''  Create'')) createBAR sb))"

definition printSessionModificationRequest ::
  "('ie, 'm, 'b, 'z) upf_env_scheme \<Rightarrow> 'ie log_env \<Rightarrow> 'ie option \<Rightarrow> 'ie option \<Rightarrow> 'ie option \<Rightarrow> 'ie SessionModificationRequest \<Rightarrow> string res" where
  "printSessionModificationRequest E G createBAR updateBAR removeBAR req =
     bind_res (pdrs_text E G ''  Create'' (smq_CreatePDR req) (writeLineTabbed ''Session Modification Request:'' 0 newline)) (\<lambda>sb.
       let sb = rules_text ''  Create'' (displayFar E G) (smq_CreateFAR req) sb;
           sb = rules_text ''  Create'' (displayQer E) (smq_CreateQER req) sb;
           sb = rules_text ''  Create'' (displayUrr E G) (smq_CreateURR req) sb;
           sb = bar_text (\<lambda>sb bar. displayBar G bar (sb @ ''  Create'')) createBAR sb
       in bind_res (pdrs_text E G ''  Update'' (smq_UpdatePDR req) sb) (\<lambda>sb.
       let sb = rules_text ''  Update'' (displayFar E G) (smq_UpdateFAR req) sb;
           sb = rules_text ''  Update'' (displayQer E) (smq_UpdateQER req) sb;
           sb = rules_text ''  Update'' (displayUrr E G) (smq_UpdateURR req) sb;
           sb = bar_text (\<lambda>sb bar. bar_details G bar (line_if (lg_BARID G bar) (\<lambda>n. ''BAR ID: '' @ dec n @ '' '') 2
                  (writeLineTabbed ''Update BAR:'' 1 sb))) updateBAR sb
       in bind_res (pdrs_text E G ''  Remove'' (smq_RemovePDR req) sb) (\<lambda>sb.
       let sb = rules_text ''  Remove'' (displayFar E G) (smq_RemoveFAR req) sb;
           sb = rules_text ''  Remove'' (displayQer E) (smq_RemoveQER req) sb;
           sb = rules_text ''  Remove'' (displayUrr E G) (smq_RemoveURR req) sb
       in Val (bar_text (\<lambda>sb bar. line_if (lg_BARID G bar) (\<lambda>n. ''BAR ID: '' @ dec n @ '' '') 2 (writeLineTabbed ''Remove BAR:'' 1 sb))
            removeBAR sb))))"

definition printSessionDeleteRequest :: "SessionDeletionRequest \<Rightarrow> string" where
  "printSessionDeleteRequest req =
     writeLineTabbed (''SEID: '' @ dec (sdq_SEID req)) 1 (writeLineTabbed ''Session Deletion Request:'' 0 newline)"

section \<open>When there is a text\<close>

text \<open>Results that agree but for their values.\<close>

definition same_end :: "'a res \<Rightarrow> 'c res \<Rightarrow> bool" where
  "same_end r q \<longleftrightarrow> map_res (\<lambda>_. ()) r = map_res (\<lambda>_. ()) q"

lemma same_end_bind:
  "same_end r q \<Longrightarrow> (\<And>a. r = Val a \<Longrightarrow> same_end (f a) (g ())) \<Longrightarrow> same_end (bind_res r f) (bind_res q (\<lambda>_ :: unit. g ()))"
  by (cases r; cases q) (auto simp: same_end_def)

lemma same_end_Val [simp]: "same_end (Val a) (Val b)"
  by (simp add: same_end_def)

lemma found_Val:
  "found E pdi t f sb = Val (if findIEindex E pdi t = - 1 then sb else f (pdi ! nat (findIEindex E pdi t)) sb)"
  by (simp add: found_def Let_def index_slice_found)

lemma displayPdi_end: "same_end (displayPdi E G pdi sb) (index_slice pdi (findIEindex E pdi T_SourceInterface))"
  by (cases "index_slice pdi (findIEindex E pdi T_SourceInterface)") (simp_all add: displayPdi_def found_Val same_end_def)

lemma displayPdr_end: "same_end (displayPdr_text E G pdr sb) (displayPdr E pdr)"
proof (cases "ie_PDI E pdr")
  case (Some pdi)
  have "same_end (displayPdi E G pdi s) (bind_res (index_slice pdi (findIEindex E pdi T_SourceInterface)) (\<lambda>_. Val ()))" for s
    using displayPdi_end [of E G pdi s] by (cases "index_slice pdi (findIEindex E pdi T_SourceInterface)") (simp_all add: same_end_def)
  with Some show ?thesis by (simp add: displayPdr_text_def displayPdr_def Let_def)
qed (simp add: displayPdr_text_def displayPdr_def Let_def)

lemma print_pdrs_Cons: "print_pdrs E (p # ps) = bind_res (displayPdr E p) (\<lambda>_. print_pdrs E ps)"
  by (simp add: print_pdrs_def)

lemma print_pdrs_append: "print_pdrs E (ps @ qs) = bind_res (print_pdrs E ps) (\<lambda>_. print_pdrs E qs)"
proof (induction ps)
  case (Cons p ps)
  then show ?case by (cases "displayPdr E p") (simp_all add: print_pdrs_Cons)
qed (simp add: print_pdrs_def)

lemma pdrs_text_end: "same_end (pdrs_text E G verb ps sb) (print_pdrs E ps)"
proof (induction ps arbitrary: sb)
  case (Cons p ps)
  then show ?case by (simp add: print_pdrs_Cons) (rule same_end_bind [OF displayPdr_end])
qed (simp add: print_pdrs_def)

text \<open>
  Logging a request gives a text exactly when the model of the handlers lets the request pass its
  printing, and panics exactly where that model panics: the text of FARs, QERs, URRs and
  BARs never fails, and of a PDR only the read of the source interface can.
\<close>

lemma request_log_end:
  "same_end (printSessionEstablishmentRequest E G createBAR req) (print_pdrs E (seq_CreatePDR req))
 \<and> same_end (printSessionModificationRequest E G createBAR updateBAR removeBAR mreq)
     (print_pdrs E (smq_CreatePDR mreq @ smq_UpdatePDR mreq @ smq_RemovePDR mreq))"
proof
  have "same_end (printSessionEstablishmentRequest E G createBAR req) (bind_res (print_pdrs E (seq_CreatePDR req)) (\<lambda>_. Val ()))"
    unfolding printSessionEstablishmentRequest_def Let_def by (intro same_end_bind pdrs_text_end) simp
  moreover have "bind_res r (\<lambda>_. Val ()) = r" for r by (cases r) simp_all
  ultimately show "same_end (printSessionEstablishmentRequest E G createBAR req) (print_pdrs E (seq_CreatePDR req))" by simp
  have "same_end (printSessionModificationRequest E G createBAR updateBAR removeBAR mreq)
      (bind_res (print_pdrs E (smq_CreatePDR mreq)) (\<lambda>_. bind_res (print_pdrs E (smq_UpdatePDR mreq)) (\<lambda>_.
         bind_res (print_pdrs E (smq_RemovePDR mreq)) (\<lambda>_. Val ()))))"
    unfolding printSessionModificationRequest_def Let_def by (intro same_end_bind pdrs_text_end) simp
  then show "same_end (printSessionModificationRequest E G createBAR updateBAR removeBAR mreq)
     (print_pdrs E (smq_CreatePDR mreq @ smq_UpdatePDR mreq @ smq_RemovePDR mreq))"
    by (cases "print_pdrs E (smq_RemovePDR mreq)") (simp_all add: print_pdrs_append)
qed

text \<open>
  Printing the PDRs of a request, which every session handler does before it works on
  them, panics exactly when one of them has a PDI without source interface.
\<close>

lemma print_pdrs_panic_iff:
  "is_panic (print_pdrs E pdrs) \<longleftrightarrow> (\<exists>pdr pdi. pdr \<in> set pdrs \<and> ie_PDI E pdr = Some pdi \<and> T_SourceInterface \<notin> ie_Type E ` set pdi)"
proof -
  have d: "is_panic (displayPdr E pdr) \<longleftrightarrow> (\<exists>pdi. ie_PDI E pdr = Some pdi \<and> T_SourceInterface \<notin> ie_Type E ` set pdi)" for pdr
    by (cases "ie_PDI E pdr"; cases "findIEindex E (the (ie_PDI E pdr)) T_SourceInterface = - 1")
       (auto simp: displayPdr_def is_panic_bind findIEindex_absent [symmetric] index_slice_def dest: findIEindex_nonneg)
  have v: "\<not> is_panic (displayPdr E pdr) \<Longrightarrow> displayPdr E pdr = Val ()" for pdr
    by (auto simp: displayPdr_def index_slice_def split: option.split)
  show ?thesis
  proof (induction pdrs)
    case Nil
    then show ?case by (simp add: print_pdrs_def)
  next
    case (Cons x xs)
    have "print_pdrs E (x # xs) = bind_res (displayPdr E x) (\<lambda>_. print_pdrs E xs)" by (simp add: print_pdrs_def)
    with Cons v [of x] d [of x] show ?case by (cases "is_panic (displayPdr E x)") (auto simp: is_panic_bind)
  qed
qed

end
