(* ===== verification/Malformed_Pdr.thy ===== *)
theory Malformed_Pdr
  imports Running_System Request_Log
begin

text \<open>
  A request that ends the program: the handlers log a request before they work on it, and the text of a PDR reads the
  source interface of its PDI without looking whether there is one.
\<close>

lemma displayPdr_panic: "displayPdr E pdr = Panic p \<Longrightarrow> p = IndexOutOfRange"
  by (auto simp: displayPdr_def index_slice_def split: option.splits if_splits)

lemma print_pdrs_panic: "print_pdrs E pdrs = Panic p \<Longrightarrow> p = IndexOutOfRange"
proof (induction pdrs)
  case (Cons x xs)
  then show ?case by (cases "displayPdr E x") (auto simp: print_pdrs_Cons displayPdr_panic)
qed (simp add: print_pdrs_def)

lemma print_pdrs_without_interface:
  assumes "pdr \<in> set pdrs" "ie_PDI E pdr = Some pdi" "T_SourceInterface \<notin> ie_Type E ` set pdi"
  shows "print_pdrs E pdrs = Panic IndexOutOfRange"
proof -
  have "is_panic (print_pdrs E pdrs)" using print_pdrs_panic_iff [of E pdrs] assms by blast
  then show ?thesis using print_pdrs_panic [of E pdrs] by (cases "print_pdrs E pdrs") simp_all
qed

lemma crash_is_final: "sys_run s = Crashed p \<Longrightarrow> \<not> sys_step E io s s'"
  using sys_step_crashed by blast

section \<open>Properties\<close>

text \<open>
  C29. A PDI without source interface ends the program. When a peer with an association sends an establishment that
  passes the checks of its mandatory elements, or a modification of one of its sessions, and a PDR of the request has a PDI
  without source interface element, then handling the datagram panics with an index out of range, whatever the
  rest of the request says; this is a step of the running system, and after it there is none.
\<close>

theorem pdi_without_source_interface_crashes:
  assumes "sys_run s = Selecting" "message_Parse io buf = Some msg" "NodeAssociations (sys_conn s) (IP_String (ua_IP addr)) = Some a"
    and "msg = SessEstablishmentRequest req \<and> seq_NodeID req = Some n \<and> ie_NodeID E n \<noteq> None \<and> seq_CPFSEID req = Some q \<and> ie_FSEID E q \<noteq> None \<and>
        pdr \<in> set (seq_CreatePDR req)
      \<or> msg = SessModificationRequest mreq \<and> Sessions a (smq_SEID mreq) \<noteq> None \<and>
        pdr \<in> set (smq_CreatePDR mreq @ smq_UpdatePDR mreq @ smq_RemovePDR mreq)"
    and "ie_PDI E pdr = Some pdi" "T_SourceInterface \<notin> ie_Type E ` set pdi"
  shows "\<exists>c' s'. Handle E io buf addr (sys_conn s) = (Panic IndexOutOfRange, c') \<and>
    s' = s\<lparr>sys_conn := c', sys_run := Crashed IndexOutOfRange\<rparr> \<and> sys_step E io s s' \<and> (\<forall>s''. \<not> sys_step E io s' s'')"
proof -
  have "\<exists>c'. Handle E io buf addr (sys_conn s) = (Panic IndexOutOfRange, c')"
    using assms(4)
  proof (elim disjE conjE)
    assume "msg = SessEstablishmentRequest req" "seq_NodeID req = Some n" "ie_NodeID E n \<noteq> None" "seq_CPFSEID req = Some q" "ie_FSEID E q \<noteq> None"
      "pdr \<in> set (seq_CreatePDR req)"
    with assms(2,3) print_pdrs_without_interface [OF _ assms(5,6), of "seq_CreatePDR req"] show ?thesis
      by (auto simp: Handle_def Let_def pfcpHandlers_def lift_reply_def HandlePfcpSessionEstablishmentRequest_def validateRequest_def NewLocalSEID_def)
  next
    assume "msg = SessModificationRequest mreq" "Sessions a (smq_SEID mreq) \<noteq> None"
      "pdr \<in> set (smq_CreatePDR mreq @ smq_UpdatePDR mreq @ smq_RemovePDR mreq)"
    with assms(2,3) print_pdrs_without_interface [OF _ assms(5,6), of "smq_CreatePDR mreq @ smq_UpdatePDR mreq @ smq_RemovePDR mreq"] show ?thesis
      by (auto simp: Handle_def Let_def pfcpHandlers_def lift_reply_def HandlePfcpSessionModificationRequest_def)
  qed
  then obtain c' where h: "Handle E io buf addr (sys_conn s) = (Panic IndexOutOfRange, c')" by blast
  have "sys_step E io s (s\<lparr>sys_conn := c', sys_run := Crashed IndexOutOfRange\<rparr>)" by (rule sys_step.panicked [OF assms(1) h])
  then show ?thesis using h by (intro exI conjI allI crash_is_final [where p = IndexOutOfRange]) (rule h, rule refl, assumption, simp)
qed

text \<open>An establishment whose PDR has an F-TEID in its PDI and nothing else.\<close>

definition sim_bare :: "sim_ie SessionEstablishmentRequest" where
  "sim_bare = (sim_establish 7)\<lparr>seq_CreatePDR := [sim_pdr 1 1 [sim_fteid \<lparr>ft_TEID = 5, ft_HasCh = False, ft_HasChID = False, ft_ChooseID = 0\<rparr>]]\<rparr>"

definition sim_io_bare :: "sim_ie pfcp_io" where
  "sim_io_bare = sim_io\<lparr>message_Parse := (\<lambda>buf. if buf = [3] then Some (SessEstablishmentRequest sim_bare) else None)\<rparr>"

theorem pdi_without_source_interface_crashes_witness:
  "\<exists>c'. Handle sim_upf_env sim_io_bare [3] sim_peer sim_served = (Panic IndexOutOfRange, c')"
proof -
  let ?pdr = "sim_pdr 1 1 [sim_fteid \<lparr>ft_TEID = 5, ft_HasCh = False, ft_HasChID = False, ft_ChooseID = 0\<rparr>]"
  have "ie_PDI sim_upf_env ?pdr \<noteq> None" by (simp add: sim_pdr_def is_pdr_def)
  then obtain pdi where pdi: "ie_PDI sim_upf_env ?pdr = Some pdi" by blast
  then have none: "T_SourceInterface \<notin> ie_Type sim_upf_env ` set pdi" by (auto simp: sim_pdr_def is_pdr_def sim_fteid_def)
  have parse: "message_Parse sim_io_bare [3] = Some (SessEstablishmentRequest sim_bare)" by (simp add: sim_io_bare_def)
  have ids: "seq_NodeID sim_bare = Some sim_node" "ie_NodeID sim_upf_env sim_node \<noteq> None" "seq_CPFSEID sim_bare = Some (sim_elem (T_other 57) 7)"
    "ie_FSEID sim_upf_env (sim_elem (T_other 57) 7) \<noteq> None" "?pdr \<in> set (seq_CreatePDR sim_bare)"
    by (simp_all add: sim_bare_def sim_establish_def sim_node_def sim_elem_def)
  have run: "sys_run sim_serving = Selecting" by (simp add: sim_serving_def)
  have peer: "NodeAssociations (sys_conn sim_serving) (IP_String (ua_IP sim_peer)) = Some ((sim_assoc 2 [2 \<mapsto> sim_session 2 7 0])\<lparr>na_Addr := ''127.0.0.1''\<rparr>)"
    by (simp add: sim_serving_def sim_served sim_peer_string)
  have "\<exists>c' s'. Handle sim_upf_env sim_io_bare [3] sim_peer (sys_conn sim_serving) = (Panic IndexOutOfRange, c') \<and>
      s' = sim_serving\<lparr>sys_conn := c', sys_run := Crashed IndexOutOfRange\<rparr> \<and> sys_step sim_upf_env sim_io_bare sim_serving s' \<and>
      (\<forall>s''. \<not> sys_step sim_upf_env sim_io_bare s' s'')"
    by (rule pdi_without_source_interface_crashes [OF run parse peer _ pdi none]) (use ids in blast)
  then show ?thesis unfolding sim_serving_def by auto
qed

end
