(* ===== verification/Fp_Stats.thy ===== *)
theory Fp_Stats
  imports Upf_Prelude
begin

text \<open>
  The statistics of the forwarding plane (\<open>cmd/ebpf/stats.go\<close>) and the metrics made of
  them (\<open>cmd/core/metrics.go\<close>).

  The forwarding plane counts per CPU in two maps; \<open>fp_maps\<close> is what a lookup in them gives at
  one moment, one structure per CPU, or an error. Conversion to \<open>float64\<close> and the counters of
  the metrics library are parameters (\<open>prom\<close>); \<open>prom_counts\<close> says that a counter grows by
  the amount added to it as long as it stays up to \<open>2^53\<close>, where \<open>float64\<close> has every integer.
\<close>

section \<open>Data\<close>

record UpfCounters =
  RxArp :: u64
  RxIcmp :: u64
  RxIcmp6 :: u64
  RxIp4 :: u64
  RxIp6 :: u64
  RxTcp :: u64
  RxUdp :: u64
  RxOther :: u64
  RxGtpEcho :: u64
  RxGtpPdu :: u64
  RxGtpOther :: u64
  RxGtpUnexp :: u64

record IpEntrypointUpfStatistic =
  st_UpfCounters :: UpfCounters
  st_XdpActions :: "u64 list"

record IpEntrypointRouteStat =
  FibLookupIp4Cache :: u64
  FibLookupIp4Ok :: u64
  FibLookupIp4ErrorDrop :: u64
  FibLookupIp4ErrorPass :: u64
  FibLookupIp6Cache :: u64
  FibLookupIp6Ok :: u64
  FibLookupIp6ErrorDrop :: u64
  FibLookupIp6ErrorPass :: u64

record fp_maps =
  UpfExtStat :: "IpEntrypointUpfStatistic list option"
  UpfRouteStat :: "IpEntrypointRouteStat list option"

record UpfXdpActionStatistic =
  upfCountersPrevious :: UpfCounters
  upfRoutePrevious :: IpEntrypointRouteStat

definition zero_UpfCounters :: UpfCounters where
  "zero_UpfCounters = \<lparr>RxArp = 0, RxIcmp = 0, RxIcmp6 = 0, RxIp4 = 0, RxIp6 = 0, RxTcp = 0, RxUdp = 0, RxOther = 0,
     RxGtpEcho = 0, RxGtpPdu = 0, RxGtpOther = 0, RxGtpUnexp = 0\<rparr>"

definition zero_RouteStat :: IpEntrypointRouteStat where
  "zero_RouteStat = \<lparr>FibLookupIp4Cache = 0, FibLookupIp4Ok = 0, FibLookupIp4ErrorDrop = 0, FibLookupIp4ErrorPass = 0,
     FibLookupIp6Cache = 0, FibLookupIp6Ok = 0, FibLookupIp6ErrorDrop = 0, FibLookupIp6ErrorPass = 0\<rparr>"

section \<open>Sums and differences\<close>

definition UpfCounters_Add :: "UpfCounters \<Rightarrow> UpfCounters \<Rightarrow> UpfCounters" where
  "UpfCounters_Add current new = current\<lparr>
     RxArp := RxArp current + RxArp new,
     RxIcmp := RxIcmp current + RxIcmp new,
     RxIcmp6 := RxIcmp6 current + RxIcmp6 new,
     RxIp4 := RxIp4 current + RxIp4 new,
     RxIp6 := RxIp6 current + RxIp6 new,
     RxTcp := RxTcp current + RxTcp new,
     RxUdp := RxUdp current + RxUdp new,
     RxOther := RxOther current + RxOther new,
     RxGtpEcho := RxGtpEcho current + RxGtpEcho new,
     RxGtpPdu := RxGtpPdu current + RxGtpPdu new,
     RxGtpOther := RxGtpOther current + RxGtpOther new\<rparr>"

definition UpfCounters_Delta :: "UpfCounters \<Rightarrow> UpfCounters \<Rightarrow> UpfCounters" where
  "UpfCounters_Delta current new = zero_UpfCounters\<lparr>
     RxArp := RxArp new - RxArp current,
     RxIcmp := RxIcmp new - RxIcmp current,
     RxIcmp6 := RxIcmp6 new - RxIcmp6 current,
     RxIp4 := RxIp4 new - RxIp4 current,
     RxIp6 := RxIp6 new - RxIp6 current,
     RxTcp := RxTcp new - RxTcp current,
     RxUdp := RxUdp new - RxUdp current,
     RxOther := RxOther new - RxOther current,
     RxGtpEcho := RxGtpEcho new - RxGtpEcho current,
     RxGtpPdu := RxGtpPdu new - RxGtpPdu current,
     RxGtpOther := RxGtpOther new - RxGtpOther current\<rparr>"

definition RouteStat_Add :: "IpEntrypointRouteStat \<Rightarrow> IpEntrypointRouteStat \<Rightarrow> IpEntrypointRouteStat" where
  "RouteStat_Add current new = current\<lparr>
     FibLookupIp4Cache := FibLookupIp4Cache current + FibLookupIp4Cache new,
     FibLookupIp4Ok := FibLookupIp4Ok current + FibLookupIp4Ok new,
     FibLookupIp4ErrorDrop := FibLookupIp4ErrorDrop current + FibLookupIp4ErrorDrop new,
     FibLookupIp4ErrorPass := FibLookupIp4ErrorPass current + FibLookupIp4ErrorPass new,
     FibLookupIp6Cache := FibLookupIp6Cache current + FibLookupIp6Cache new,
     FibLookupIp6Ok := FibLookupIp6Ok current + FibLookupIp6Ok new,
     FibLookupIp6ErrorDrop := FibLookupIp6ErrorDrop current + FibLookupIp6ErrorDrop new,
     FibLookupIp6ErrorPass := FibLookupIp6ErrorPass current + FibLookupIp6ErrorPass new\<rparr>"

definition RouteStat_Delta :: "IpEntrypointRouteStat \<Rightarrow> IpEntrypointRouteStat \<Rightarrow> IpEntrypointRouteStat" where
  "RouteStat_Delta current new = zero_RouteStat\<lparr>
     FibLookupIp4Cache := FibLookupIp4Cache new - FibLookupIp4Cache current,
     FibLookupIp4Ok := FibLookupIp4Ok new - FibLookupIp4Ok current,
     FibLookupIp4ErrorDrop := FibLookupIp4ErrorDrop new - FibLookupIp4ErrorDrop current,
     FibLookupIp4ErrorPass := FibLookupIp4ErrorPass new - FibLookupIp4ErrorPass current,
     FibLookupIp6Cache := FibLookupIp6Cache new - FibLookupIp6Cache current,
     FibLookupIp6Ok := FibLookupIp6Ok new - FibLookupIp6Ok current,
     FibLookupIp6ErrorDrop := FibLookupIp6ErrorDrop new - FibLookupIp6ErrorDrop current,
     FibLookupIp6ErrorPass := FibLookupIp6ErrorPass new - FibLookupIp6ErrorPass current\<rparr>"

section \<open>Getters\<close>

text \<open>An index past the array of actions would panic.\<close>

definition getUpfXdpStatisticField :: "fp_maps \<Rightarrow> nat \<Rightarrow> u64 res" where
  "getUpfXdpStatisticField m field =
     (case UpfExtStat m of
        None \<Rightarrow> Val 0
      | Some statistics \<Rightarrow>
          foldl (\<lambda>r statistic. bind_res r (\<lambda>totalValue.
              if field < length (st_XdpActions statistic) then Val (totalValue + st_XdpActions statistic ! field)
              else Panic IndexOutOfRange)) (Val 0) statistics)"

definition GetAborted :: "fp_maps \<Rightarrow> u64 res" where
  "GetAborted m = getUpfXdpStatisticField m 0"

definition GetDrop :: "fp_maps \<Rightarrow> u64 res" where
  "GetDrop m = getUpfXdpStatisticField m 1"

definition GetPass :: "fp_maps \<Rightarrow> u64 res" where
  "GetPass m = getUpfXdpStatisticField m 2"

definition GetTx :: "fp_maps \<Rightarrow> u64 res" where
  "GetTx m = getUpfXdpStatisticField m 3"

definition GetRedirect :: "fp_maps \<Rightarrow> u64 res" where
  "GetRedirect m = getUpfXdpStatisticField m 4"

definition GetUpfExtStat :: "fp_maps \<Rightarrow> UpfCounters" where
  "GetUpfExtStat m =
     (case UpfExtStat m of
        None \<Rightarrow> zero_UpfCounters
      | Some statistics \<Rightarrow> foldl (\<lambda>counters statistic. UpfCounters_Add counters (st_UpfCounters statistic)) zero_UpfCounters statistics)"

definition GetUpfExtStatDelta :: "fp_maps \<Rightarrow> UpfXdpActionStatistic \<Rightarrow> UpfCounters \<times> UpfXdpActionStatistic" where
  "GetUpfExtStatDelta m stat =
     (case UpfExtStat m of
        None \<Rightarrow> (zero_UpfCounters, stat)
      | Some statistics \<Rightarrow>
          (let counters = foldl (\<lambda>counters statistic. UpfCounters_Add counters (st_UpfCounters statistic)) zero_UpfCounters statistics;
               delta = UpfCounters_Delta (upfCountersPrevious stat) counters
           in (delta, stat\<lparr>upfCountersPrevious := counters\<rparr>)))"

definition GetUpfRouteStat :: "fp_maps \<Rightarrow> IpEntrypointRouteStat" where
  "GetUpfRouteStat m =
     (case UpfRouteStat m of
        None \<Rightarrow> zero_RouteStat
      | Some statistics \<Rightarrow> foldl RouteStat_Add zero_RouteStat statistics)"

definition GetUpfRouteStatDelta :: "fp_maps \<Rightarrow> UpfXdpActionStatistic \<Rightarrow> IpEntrypointRouteStat \<times> UpfXdpActionStatistic" where
  "GetUpfRouteStatDelta m stat =
     (case UpfRouteStat m of
        None \<Rightarrow> (zero_RouteStat, stat)
      | Some statistics \<Rightarrow>
          (let counters = foldl RouteStat_Add zero_RouteStat statistics;
               delta = RouteStat_Delta (upfRoutePrevious stat) counters
           in (delta, stat\<lparr>upfRoutePrevious := counters\<rparr>)))"

section \<open>Metrics\<close>

record ('f, 'c) prom =
  float64 :: "u64 \<Rightarrow> 'f"
  Counter_Add :: "'f \<Rightarrow> 'c \<Rightarrow> 'c"

record 'c metrics =
  UpfRx :: "string \<Rightarrow> 'c"
  UpfRoute :: "string \<Rightarrow> 'c"

text \<open>The labels in the order of the code, with their fields.\<close>

definition rx_values :: "UpfCounters \<Rightarrow> (string \<times> u64) list" where
  "rx_values c =
     [(''arp'', RxArp c), (''icmp'', RxIcmp c), (''icmp6'', RxIcmp6 c), (''ip4'', RxIp4 c), (''ip6'', RxIp6 c),
      (''tcp'', RxTcp c), (''udp'', RxUdp c), (''other'', RxOther c), (''gtp-echo'', RxGtpEcho c),
      (''gtp-pdu'', RxGtpPdu c), (''gtp-other'', RxGtpOther c), (''gtp-unexp'', RxGtpUnexp c)]"

definition route_values :: "IpEntrypointRouteStat \<Rightarrow> (string \<times> u64) list" where
  "route_values r =
     [(''ip4-cache'', FibLookupIp4Cache r), (''ip4-ok'', FibLookupIp4Ok r),
      (''ip4-error-drop'', FibLookupIp4ErrorDrop r), (''ip4-error-pass'', FibLookupIp4ErrorPass r),
      (''ip6-cache'', FibLookupIp6Cache r), (''ip6-ok'', FibLookupIp6Ok r),
      (''ip6-error-drop'', FibLookupIp6ErrorDrop r), (''ip6-error-pass'', FibLookupIp6ErrorPass r)]"

definition rx_add :: "('f, 'c) prom \<Rightarrow> string \<times> u64 \<Rightarrow> (string \<Rightarrow> 'c) \<Rightarrow> string \<Rightarrow> 'c" where
  "rx_add P = (\<lambda>(label, n) v. v(label := Counter_Add P (float64 P n) (v label)))"

text \<open>
  The statistics come by value: what the two calls store as previous counters is lost when
  the function returns.
\<close>

definition GatherMetrics :: "('f, 'c) prom \<Rightarrow> fp_maps \<Rightarrow> UpfXdpActionStatistic \<Rightarrow> 'c metrics \<Rightarrow> 'c metrics" where
  "GatherMetrics P m stats mets =
     (let (RxPacketCounters, stats) = GetUpfExtStatDelta m stats;
          mets = mets\<lparr>UpfRx := fold (rx_add P) (rx_values RxPacketCounters) (UpfRx mets)\<rparr>;
          (RouteStats, stats) = GetUpfRouteStatDelta m stats
      in mets\<lparr>UpfRoute := fold (rx_add P) (route_values RouteStats) (UpfRoute mets)\<rparr>)"

text \<open>One request to \<open>/metrics\<close> after the other, over what the maps hold at each of them.\<close>

definition scrapes :: "('f, 'c) prom \<Rightarrow> UpfXdpActionStatistic \<Rightarrow> fp_maps list \<Rightarrow> 'c metrics \<Rightarrow> 'c metrics" where
  "scrapes P stats ms mets = fold (\<lambda>m. GatherMetrics P m stats) ms mets"

section \<open>Totals and deltas\<close>

lemmas counter_defs = UpfCounters_Add_def UpfCounters_Delta_def zero_UpfCounters_def
lemmas route_defs = RouteStat_Add_def RouteStat_Delta_def zero_RouteStat_def

text \<open>Which field a label of \<open>UpfRx\<close> and of \<open>UpfRoute\<close> stands for.\<close>

definition rx_field :: "string \<Rightarrow> UpfCounters \<Rightarrow> u64" where
  "rx_field l c = (case map_of (rx_values c) l of None \<Rightarrow> 0 | Some n \<Rightarrow> n)"

definition route_field :: "string \<Rightarrow> IpEntrypointRouteStat \<Rightarrow> u64" where
  "route_field l r = (case map_of (route_values r) l of None \<Rightarrow> 0 | Some n \<Rightarrow> n)"

lemma Delta_zero: "RxGtpUnexp c = 0 \<Longrightarrow> UpfCounters_Delta zero_UpfCounters c = c"
  "RouteStat_Delta zero_RouteStat r = r"
  by (simp_all add: counter_defs route_defs)

lemma Add_Delta:
  "RxGtpUnexp b = 0 \<Longrightarrow> UpfCounters_Add (UpfCounters_Delta a b) (UpfCounters_Delta b c) = UpfCounters_Delta a c"
  by (simp add: counter_defs)

lemma Add_unexp [simp]: "RxGtpUnexp (UpfCounters_Add a b) = RxGtpUnexp a"
  by (simp add: counter_defs)

lemma GetUpfExtStat_unexp: "RxGtpUnexp (GetUpfExtStat m) = 0"
proof -
  have "RxGtpUnexp (foldl (\<lambda>c s. UpfCounters_Add c (st_UpfCounters s)) c xs) = RxGtpUnexp c" for c and xs :: "IpEntrypointUpfStatistic list"
    by (induction xs arbitrary: c) simp_all
  moreover have "RxGtpUnexp zero_UpfCounters = 0" by (simp add: zero_UpfCounters_def)
  ultimately show ?thesis by (simp add: GetUpfExtStat_def split: option.split)
qed

lemma GetUpfExtStatDelta_eq:
  "UpfExtStat m \<noteq> None \<Longrightarrow> GetUpfExtStatDelta m stat =
     (UpfCounters_Delta (upfCountersPrevious stat) (GetUpfExtStat m), stat\<lparr>upfCountersPrevious := GetUpfExtStat m\<rparr>)"
  by (auto simp: GetUpfExtStatDelta_def GetUpfExtStat_def Let_def)

text \<open>The deltas of a sequence of readings, each remembering the previous one.\<close>

primrec deltas :: "fp_maps list \<Rightarrow> UpfXdpActionStatistic \<Rightarrow> UpfCounters list \<times> UpfXdpActionStatistic" where
  "deltas [] stat = ([], stat)"
| "deltas (m # ms) stat =
     (case GetUpfExtStatDelta m stat of (d, stat) \<Rightarrow> (case deltas ms stat of (ds, stat) \<Rightarrow> (d # ds, stat)))"

lemma deltas_telescope:
  assumes "\<forall>m \<in> set ms. UpfExtStat m \<noteq> None" and "RxGtpUnexp (upfCountersPrevious stat) = 0"
  shows "foldl UpfCounters_Add (UpfCounters_Delta a (upfCountersPrevious stat)) (fst (deltas ms stat)) =
    UpfCounters_Delta a (if ms = [] then upfCountersPrevious stat else GetUpfExtStat (last ms))"
  using assms
proof (induction ms arbitrary: stat)
  case (Cons m ms)
  have "RxGtpUnexp (upfCountersPrevious (stat\<lparr>upfCountersPrevious := GetUpfExtStat m\<rparr>)) = 0" by (simp add: GetUpfExtStat_unexp)
  from Cons.IH [OF _ this] Cons.prems show ?case
    by (auto simp: GetUpfExtStatDelta_eq Add_Delta case_prod_unfold)
qed simp

section \<open>The metrics\<close>

definition fresh_stats :: UpfXdpActionStatistic where
  "fresh_stats = \<lparr>upfCountersPrevious = zero_UpfCounters, upfRoutePrevious = zero_RouteStat\<rparr>"

text \<open>What is documented of the library's counters, which are of type \<open>float64\<close>: up to \<open>2^53\<close> they count exactly.\<close>

definition prom_counts :: "('f, 'c) prom \<Rightarrow> ('c \<Rightarrow> nat) \<Rightarrow> bool" where
  "prom_counts P reading \<longleftrightarrow>
     (\<forall>n c. reading c + unat n \<le> 2 ^ 53 \<longrightarrow> reading (Counter_Add P (float64 P n) c) = reading c + unat n)"

lemma rx_add_fold:
  assumes "prom_counts P reading" and "distinct (map fst xs)"
    and "reading (v l) + unat (case map_of xs l of None \<Rightarrow> 0 | Some n \<Rightarrow> n) \<le> 2 ^ 53"
  shows "reading (fold (rx_add P) xs v l) = reading (v l) + unat (case map_of xs l of None \<Rightarrow> 0 | Some n \<Rightarrow> n)"
  using assms(2,3)
proof (induction xs arbitrary: v)
  case (Cons x xs)
  obtain k n where x: "x = (k, n)" by fastforce
  have none: "map_of xs k = None" using Cons.prems(1) by (simp add: x map_of_eq_None_iff)
  show ?case
  proof (cases "k = l")
    case True
    then have b: "reading (v l) + unat n \<le> 2 ^ 53" using Cons.prems(2) by (simp add: x)
    with assms(1) have "reading (Counter_Add P (float64 P n) (v l)) = reading (v l) + unat n"
      unfolding prom_counts_def by blast
    with Cons.IH [of "rx_add P x v"] Cons.prems(1) True none b show ?thesis by (simp add: x rx_add_def fun_upd_def)
  next
    case False
    then show ?thesis using Cons.IH [of "rx_add P x v"] Cons.prems by (simp add: x rx_add_def fun_upd_def)
  qed
qed simp

lemma GatherMetrics_fresh:
  assumes "prom_counts P reading"
  shows "reading (UpfRx mets l) + unat (rx_field l (GetUpfExtStat m)) \<le> 2 ^ 53 \<Longrightarrow>
      reading (UpfRx (GatherMetrics P m fresh_stats mets) l) = reading (UpfRx mets l) + unat (rx_field l (GetUpfExtStat m))"
    and "reading (UpfRoute mets k) + unat (route_field k (GetUpfRouteStat m)) \<le> 2 ^ 53 \<Longrightarrow>
      reading (UpfRoute (GatherMetrics P m fresh_stats mets) k) = reading (UpfRoute mets k) + unat (route_field k (GetUpfRouteStat m))"
proof -
  have d: "fst (GetUpfExtStatDelta m fresh_stats) = GetUpfExtStat m"
    by (cases "UpfExtStat m") (simp_all add: GetUpfExtStatDelta_eq Delta_zero GetUpfExtStat_unexp fresh_stats_def,
        simp add: GetUpfExtStatDelta_def GetUpfExtStat_def)
  have r: "fst (GetUpfRouteStatDelta m s) = GetUpfRouteStat m" if "upfRoutePrevious s = zero_RouteStat" for s
    using that by (simp add: GetUpfRouteStatDelta_def GetUpfRouteStat_def Let_def Delta_zero split: option.split)
  have s: "upfRoutePrevious (snd (GetUpfExtStatDelta m fresh_stats)) = zero_RouteStat"
    by (simp add: GetUpfExtStatDelta_def Let_def fresh_stats_def split: option.split)
  show "reading (UpfRx (GatherMetrics P m fresh_stats mets) l) = reading (UpfRx mets l) + unat (rx_field l (GetUpfExtStat m))"
    if "reading (UpfRx mets l) + unat (rx_field l (GetUpfExtStat m)) \<le> 2 ^ 53"
    unfolding GatherMetrics_def Let_def case_prod_unfold d rx_field_def
    using rx_add_fold [OF assms, of "rx_values (GetUpfExtStat m)" "UpfRx mets" l] that [unfolded rx_field_def] by (simp add: rx_values_def [THEN arg_cong, of "\<lambda>xs. distinct (map fst xs)"])
  show "reading (UpfRoute (GatherMetrics P m fresh_stats mets) k) = reading (UpfRoute mets k) + unat (route_field k (GetUpfRouteStat m))"
    if "reading (UpfRoute mets k) + unat (route_field k (GetUpfRouteStat m)) \<le> 2 ^ 53"
    unfolding GatherMetrics_def Let_def case_prod_unfold r [OF s] route_field_def
    using rx_add_fold [OF assms, of "route_values (GetUpfRouteStat m)" "UpfRoute mets" k] that [unfolded route_field_def] by (simp add: route_values_def [THEN arg_cong, of "\<lambda>xs. distinct (map fst xs)"])
qed

lemma scrapes_fresh:
  assumes "prom_counts P reading"
  shows "reading (UpfRx mets l) + (\<Sum>m \<leftarrow> ms. unat (rx_field l (GetUpfExtStat m))) \<le> 2 ^ 53 \<Longrightarrow>
      reading (UpfRx (scrapes P fresh_stats ms mets) l) = reading (UpfRx mets l) + (\<Sum>m \<leftarrow> ms. unat (rx_field l (GetUpfExtStat m)))"
    and "reading (UpfRoute mets k) + (\<Sum>m \<leftarrow> ms. unat (route_field k (GetUpfRouteStat m))) \<le> 2 ^ 53 \<Longrightarrow>
      reading (UpfRoute (scrapes P fresh_stats ms mets) k) = reading (UpfRoute mets k) + (\<Sum>m \<leftarrow> ms. unat (route_field k (GetUpfRouteStat m)))"
  by (induction ms arbitrary: mets) (simp_all add: scrapes_def GatherMetrics_fresh [OF assms])

text \<open>The total of a counter over the CPUs, modulo \<open>2^64\<close>; 0 when the maps cannot be read.\<close>

definition rx_total :: "(UpfCounters \<Rightarrow> u64) \<Rightarrow> fp_maps \<Rightarrow> u64" where
  "rx_total f m = (case UpfExtStat m of None \<Rightarrow> 0 | Some ss \<Rightarrow> \<Sum>s \<leftarrow> ss. f (st_UpfCounters s))"

definition route_total :: "(IpEntrypointRouteStat \<Rightarrow> u64) \<Rightarrow> fp_maps \<Rightarrow> u64" where
  "route_total f m = (case UpfRouteStat m of None \<Rightarrow> 0 | Some ss \<Rightarrow> \<Sum>s \<leftarrow> ss. f s)"

lemma rx_total_sum:
  assumes "\<And>a b. f (UpfCounters_Add a b) = f a + f b" "f zero_UpfCounters = 0"
  shows "f (GetUpfExtStat m) = rx_total f m"
proof -
  have "f (foldl (\<lambda>c s. UpfCounters_Add c (st_UpfCounters s)) c xs) = f c + (\<Sum>s \<leftarrow> xs. f (st_UpfCounters s))"
    for c and xs :: "IpEntrypointUpfStatistic list"
    by (induction xs arbitrary: c) (simp_all add: assms(1))
  then show ?thesis by (simp add: GetUpfExtStat_def rx_total_def assms(2) split: option.split)
qed

lemma route_total_sum:
  assumes "\<And>a b. f (RouteStat_Add a b) = f a + f b" "f zero_RouteStat = 0"
  shows "f (GetUpfRouteStat m) = route_total f m"
proof -
  have "f (foldl RouteStat_Add c xs) = f c + (\<Sum>s \<leftarrow> xs. f s)" for c xs
    by (induction xs arbitrary: c) (simp_all add: assms(1))
  then show ?thesis by (simp add: GetUpfRouteStat_def route_total_def assms(2) split: option.split)
qed

text \<open>What the labels of the two metrics stand for; nothing is ever counted for the last one of the first.\<close>

definition rx_labels :: "(string \<times> (UpfCounters \<Rightarrow> u64)) list" where
  "rx_labels = [(''arp'', RxArp), (''icmp'', RxIcmp), (''icmp6'', RxIcmp6), (''ip4'', RxIp4), (''ip6'', RxIp6), (''tcp'', RxTcp),
     (''udp'', RxUdp), (''other'', RxOther), (''gtp-echo'', RxGtpEcho), (''gtp-pdu'', RxGtpPdu), (''gtp-other'', RxGtpOther),
     (''gtp-unexp'', \<lambda>_. 0)]"

definition route_labels :: "(string \<times> (IpEntrypointRouteStat \<Rightarrow> u64)) list" where
  "route_labels = [(''ip4-cache'', FibLookupIp4Cache), (''ip4-ok'', FibLookupIp4Ok), (''ip4-error-drop'', FibLookupIp4ErrorDrop),
     (''ip4-error-pass'', FibLookupIp4ErrorPass), (''ip6-cache'', FibLookupIp6Cache), (''ip6-ok'', FibLookupIp6Ok),
     (''ip6-error-drop'', FibLookupIp6ErrorDrop), (''ip6-error-pass'', FibLookupIp6ErrorPass)]"

lemma rx_label_total: "(l, f) \<in> set rx_labels \<Longrightarrow> rx_field l (GetUpfExtStat m) = rx_total f m"
proof -
  assume lf: "(l, f) \<in> set rx_labels"
  have "rx_field l c = f c" if "RxGtpUnexp c = 0" for c
  proof -
    have "rx_values c = map (\<lambda>(l, f). (l, f c)) rx_labels" using that by (simp add: rx_values_def rx_labels_def)
    then have "(l, f c) \<in> set (rx_values c)" using lf by force
    moreover have "distinct (map fst (rx_values c))" by (simp add: rx_values_def)
    ultimately show ?thesis by (simp add: rx_field_def)
  qed
  moreover have "f (GetUpfExtStat m) = rx_total f m"
    by (rule rx_total_sum) (use lf in \<open>auto simp: rx_labels_def UpfCounters_Add_def zero_UpfCounters_def\<close>)
  ultimately show ?thesis by (simp add: GetUpfExtStat_unexp)
qed

lemma route_label_total: "(l, f) \<in> set route_labels \<Longrightarrow> route_field l (GetUpfRouteStat m) = route_total f m"
proof -
  assume lf: "(l, f) \<in> set route_labels"
  have "route_field l c = f c" for c
  proof -
    have "route_values c = map (\<lambda>(l, f). (l, f c)) route_labels" by (simp add: route_values_def route_labels_def)
    then have "(l, f c) \<in> set (route_values c)" using lf by force
    moreover have "distinct (map fst (route_values c))" by (simp add: route_values_def)
    ultimately show ?thesis by (simp add: route_field_def)
  qed
  moreover have "f (GetUpfRouteStat m) = route_total f m"
    by (rule route_total_sum) (use lf in \<open>auto simp: route_labels_def RouteStat_Add_def zero_RouteStat_def\<close>)
  ultimately show ?thesis by simp
qed

section \<open>Properties\<close>

text \<open>
  Deltas add up: over any sequence of readings, each taken against the one before, the
  sum of the deltas is the difference between the last total and the total before the first,
  modulo \<open>2^64\<close> and whether or not a counter wrapped around.
\<close>

theorem counter_deltas_add_up:
  assumes "\<forall>m \<in> set ms. UpfExtStat m \<noteq> None" and "ms \<noteq> []" and "RxGtpUnexp (upfCountersPrevious stat) = 0"
  shows "foldl UpfCounters_Add zero_UpfCounters (fst (deltas ms stat)) =
    UpfCounters_Delta (upfCountersPrevious stat) (GetUpfExtStat (last ms))"
proof -
  have "UpfCounters_Delta (upfCountersPrevious stat) (upfCountersPrevious stat) = zero_UpfCounters" by (simp add: counter_defs)
  with deltas_telescope [OF assms(1,3), of "upfCountersPrevious stat"] assms(2) show ?thesis by simp
qed

definition sim_reading :: "u64 \<Rightarrow> fp_maps" where
  "sim_reading n = \<lparr>UpfExtStat = Some [\<lparr>st_UpfCounters = zero_UpfCounters\<lparr>RxTcp := n, RxGtpUnexp := 4\<rparr>, st_XdpActions = [0, 0, n, 0, 0, 0, 0, 0]\<rparr>],
     UpfRouteStat = Some [zero_RouteStat]\<rparr>"

theorem counter_deltas_add_up_witness:
  "RxTcp (foldl UpfCounters_Add zero_UpfCounters (fst (deltas [sim_reading (- 2), sim_reading 5] fresh_stats))) = 5"
  by (subst counter_deltas_add_up) (simp_all add: sim_reading_def fresh_stats_def GetUpfExtStat_def counter_defs)

text \<open>
  C38. Each request to \<open>/metrics\<close> adds the full totals over the CPUs to the metrics, not what came since
  the request before: the statistics are handed over by value, so their previous counters
  stay zero. After several requests the counter of each label has the sum of all totals read of the field
  that the label stands for, as long as this sum is at most \<open>2^53\<close>, up to which \<open>float64\<close> counts exactly.
\<close>

theorem metrics_overcount:
  assumes "prom_counts P reading"
    and "(l, f) \<in> set rx_labels" "reading (UpfRx mets l) + (\<Sum>m \<leftarrow> ms. unat (rx_total f m)) \<le> 2 ^ 53"
    and "(k, g) \<in> set route_labels" "reading (UpfRoute mets k) + (\<Sum>m \<leftarrow> ms. unat (route_total g m)) \<le> 2 ^ 53"
  shows "reading (UpfRx (scrapes P fresh_stats ms mets) l) = reading (UpfRx mets l) + (\<Sum>m \<leftarrow> ms. unat (rx_total f m))
    \<and> reading (UpfRoute (scrapes P fresh_stats ms mets) k) = reading (UpfRoute mets k) + (\<Sum>m \<leftarrow> ms. unat (route_total g m))"
  using scrapes_fresh(1) [OF assms(1), of mets l ms] scrapes_fresh(2) [OF assms(1), of mets k ms] assms(3,5)
  by (simp add: rx_label_total [OF assms(2)] route_label_total [OF assms(4)])

text \<open>A counter that stops at \<open>2^53\<close>, as adding 1 to a \<open>float64\<close> does.\<close>

theorem metrics_overcount_witness:
  "UpfRx (scrapes \<lparr>float64 = unat, Counter_Add = (\<lambda>n c. min (c + n) (2 ^ 53))\<rparr> fresh_stats [sim_reading 7, sim_reading 7, sim_reading 7]
     \<lparr>UpfRx = (\<lambda>_. 0), UpfRoute = (\<lambda>_. 0)\<rparr>) ''tcp'' = 21"
proof -
  let ?P = "\<lparr>float64 = unat, Counter_Add = (\<lambda>n c. min (c + n) (2 ^ 53))\<rparr>"
  have "prom_counts ?P (\<lambda>n. n)" by (simp add: prom_counts_def)
  from metrics_overcount [OF this, where l = "''tcp''" and f = RxTcp and k = "''ip4-ok''" and g = FibLookupIp4Ok
      and mets = "\<lparr>UpfRx = (\<lambda>_. 0), UpfRoute = (\<lambda>_. 0)\<rparr>" and ms = "[sim_reading 7, sim_reading 7, sim_reading 7]"]
  show ?thesis by (simp add: rx_labels_def route_labels_def rx_total_def route_total_def sim_reading_def zero_RouteStat_def)
qed

text \<open>
  The totals of the eleven counters that \<open>Add\<close> sums are sums over the CPUs; the twelfth,
  the GTP packets of unexpected type, is always reported as zero.
\<close>

lemma unexpected_gtp_never_counted:
  "RxGtpUnexp (GetUpfExtStat m) = 0 \<and> RxGtpUnexp (fst (GetUpfExtStatDelta m stat)) = 0"
  by (simp add: GetUpfExtStat_unexp) (simp add: GetUpfExtStatDelta_def Let_def counter_defs split: option.split)

lemma ext_stat_totals:
  "RxTcp (GetUpfExtStat m) = (case UpfExtStat m of None \<Rightarrow> 0 | Some ss \<Rightarrow> \<Sum>s \<leftarrow> ss. RxTcp (st_UpfCounters s))"
  "RxGtpPdu (GetUpfExtStat m) = (case UpfExtStat m of None \<Rightarrow> 0 | Some ss \<Rightarrow> \<Sum>s \<leftarrow> ss. RxGtpPdu (st_UpfCounters s))"
proof -
  have "RxTcp (foldl (\<lambda>c s. UpfCounters_Add c (st_UpfCounters s)) c xs) = RxTcp c + (\<Sum>s \<leftarrow> xs. RxTcp (st_UpfCounters s))"
    "RxGtpPdu (foldl (\<lambda>c s. UpfCounters_Add c (st_UpfCounters s)) c xs) = RxGtpPdu c + (\<Sum>s \<leftarrow> xs. RxGtpPdu (st_UpfCounters s))"
    for c and xs :: "IpEntrypointUpfStatistic list"
    by (induction xs arbitrary: c) (simp_all add: UpfCounters_Add_def)
  then show "RxTcp (GetUpfExtStat m) = (case UpfExtStat m of None \<Rightarrow> 0 | Some ss \<Rightarrow> \<Sum>s \<leftarrow> ss. RxTcp (st_UpfCounters s))"
  "RxGtpPdu (GetUpfExtStat m) = (case UpfExtStat m of None \<Rightarrow> 0 | Some ss \<Rightarrow> \<Sum>s \<leftarrow> ss. RxGtpPdu (st_UpfCounters s))"
    by (simp_all add: GetUpfExtStat_def zero_UpfCounters_def split: option.split)
qed

lemma xdp_field_total:
  assumes "UpfExtStat m = Some ss" and "\<forall>s \<in> set ss. field < length (st_XdpActions s)"
  shows "getUpfXdpStatisticField m field = Val (\<Sum>s \<leftarrow> ss. st_XdpActions s ! field)"
proof -
  have "foldl (\<lambda>r s. bind_res r (\<lambda>t. if field < length (st_XdpActions s) then Val (t + st_XdpActions s ! field)
      else Panic IndexOutOfRange)) (Val t) ss = Val (t + (\<Sum>s \<leftarrow> ss. st_XdpActions s ! field))" for t
    using assms(2) by (induction ss arbitrary: t) (simp_all add: add.assoc)
  then show ?thesis by (simp add: getUpfXdpStatisticField_def assms(1))
qed

end
