(* ===== verification/Rest_Api.thy ===== *)
theory Rest_Api
  imports Fp_Stats Sim_Connection "HOL-Library.List_Lexorder" "HOL-Library.Char_ord"
begin

text \<open>
  The REST interface (\<open>cmd/api/rest\<close>, and \<open>ListQerMapContents\<close> of \<open>cmd/ebpf/utils.go\<close>).

  A handler is a function of the path parameter, of the query strings or of the decoded body,
  and of the state it reads. Its response is the list of JSON values it writes, each with its
  status: a handler may write more than one. Decoding the body and the router belong to the web
  framework; a body that cannot be decoded is \<^term>\<open>None\<close>. The order in which \<open>range\<close> visits the
  associations is a parameter, as elsewhere for the maps of a session.

  The two handlers of uplink PDRs, which work on the bytes of a map entry, are in \<open>Rest_Uplink\<close>, the
  routes in \<open>Rest_Routes\<close>.
\<close>

section \<open>Responses\<close>

datatype 'a json = Body 'a | Failure goerror | Text string

type_synonym 'a response = "(nat \<times> 'a json) list"

abbreviation StatusOK :: nat where "StatusOK \<equiv> 200"
abbreviation StatusCreated :: nat where "StatusCreated \<equiv> 201"
abbreviation StatusBadRequest :: nat where "StatusBadRequest \<equiv> 400"
abbreviation StatusNotFound :: nat where "StatusNotFound \<equiv> 404"
abbreviation StatusInternalServerError :: nat where "StatusInternalServerError \<equiv> 500"

text \<open>\<open>strconv.Atoi\<close> on a platform with 64-bit integers: a sign, decimal digits, and no overflow.\<close>

definition Atoi :: "string \<Rightarrow> int option" where
  "Atoi s =
     (let neg = (s \<noteq> [] \<and> hd s = CHR ''-'');
          digits = (if s \<noteq> [] \<and> (hd s = CHR ''-'' \<or> hd s = CHR ''+'') then tl s else s);
          v = (if neg then - int (dec_val digits) else int (dec_val digits))
      in if digits \<noteq> [] \<and> list_all is_digit digits \<and> - (2 ^ 63) \<le> v \<and> v < 2 ^ 63 then Some v else None)"

section \<open>Rules\<close>

record FarMapElement =
  fe_Id :: u32
  fe_Action :: u8
  fe_OuterHeaderCreation :: u8
  fe_Teid :: u32
  fe_RemoteIP :: u32
  fe_TransportLevelMarking :: u16

record QerMapElement =
  qe_Id :: u32
  qe_GateStatusUL :: u8
  qe_GateStatusDL :: u8
  qe_Qfi :: u8
  qe_MaxBitrateUL :: u32
  qe_MaxBitrateDL :: u32

definition getFarValue :: "('m, 'b, 'z) bpf_env_scheme \<Rightarrow> string \<Rightarrow> ('m, 'b) BpfObjects \<Rightarrow> FarMapElement response" where
  "getFarValue E param b =
     (case Atoi param of
        None \<Rightarrow> [(StatusBadRequest, Failure ErrLibrary)]
      | Some n \<Rightarrow>
          (case Map_Lookup (far_ops E) (FarMap b) (word_of_int n) of
             None \<Rightarrow> [(StatusNotFound, Failure ErrLibrary)]
           | Some value \<Rightarrow>
               [(StatusOK, Body \<lparr>fe_Id = word_of_int n, fe_Action = fi_Action value,
                   fe_OuterHeaderCreation = fi_OuterHeaderCreation value, fe_Teid = fi_Teid value,
                   fe_RemoteIP = fi_RemoteIP value, fe_TransportLevelMarking = fi_TransportLevelMarking value\<rparr>)]))"

definition setFarValue ::
  "('m, 'b, 'z) bpf_env_scheme \<Rightarrow> FarMapElement option \<Rightarrow> ('m, 'b) BpfObjects \<Rightarrow> FarMapElement response \<times> ('m, 'b) BpfObjects" where
  "setFarValue E body b =
     (case body of
        None \<Rightarrow> ([(StatusBadRequest, Failure ErrLibrary)], b)
      | Some farElement \<Rightarrow>
          (case Map_Put (far_ops E) (FarMap b) (fe_Id farElement)
                  \<lparr>fi_Action = fe_Action farElement, fi_OuterHeaderCreation = fe_OuterHeaderCreation farElement,
                   fi_Teid = fe_Teid farElement, fi_RemoteIP = fe_RemoteIP farElement,
                   fi_TransportLevelMarking = fe_TransportLevelMarking farElement\<rparr> of
             (Some e, m) \<Rightarrow> ([(StatusInternalServerError, Failure e)], b\<lparr>FarMap := m\<rparr>)
           | (None, m) \<Rightarrow> ([(StatusCreated, Body farElement)], b\<lparr>FarMap := m\<rparr>)))"

definition qer_element :: "u32 \<Rightarrow> QerInfo \<Rightarrow> QerMapElement" where
  "qer_element i value = \<lparr>qe_Id = i, qe_GateStatusUL = qi_GateStatusUL value, qe_GateStatusDL = qi_GateStatusDL value,
     qe_Qfi = qi_Qfi value, qe_MaxBitrateUL = qi_MaxBitrateUL value, qe_MaxBitrateDL = qi_MaxBitrateDL value\<rparr>"

definition getQerValue :: "('m, 'b, 'z) bpf_env_scheme \<Rightarrow> string \<Rightarrow> ('m, 'b) BpfObjects \<Rightarrow> QerMapElement response" where
  "getQerValue E param b =
     (case Atoi param of
        None \<Rightarrow> [(StatusBadRequest, Failure ErrLibrary)]
      | Some n \<Rightarrow>
          (case Map_Lookup (qer_ops E) (QerMap b) (word_of_int n) of
             None \<Rightarrow> [(StatusNotFound, Failure ErrLibrary)]
           | Some value \<Rightarrow> [(StatusOK, Body (qer_element (word_of_int n) value))]))"

definition setQerValue ::
  "('m, 'b, 'z) bpf_env_scheme \<Rightarrow> QerMapElement option \<Rightarrow> ('m, 'b) BpfObjects \<Rightarrow> QerMapElement response \<times> ('m, 'b) BpfObjects" where
  "setQerValue E body b =
     (case body of
        None \<Rightarrow> ([(StatusBadRequest, Failure ErrLibrary)], b)
      | Some qerElement \<Rightarrow>
          (case Map_Put (qer_ops E) (QerMap b) (qe_Id qerElement)
                  \<lparr>qi_GateStatusUL = qe_GateStatusUL qerElement, qi_GateStatusDL = qe_GateStatusDL qerElement,
                   qi_Qfi = qe_Qfi qerElement, qi_MaxBitrateUL = qe_MaxBitrateUL qerElement,
                   qi_MaxBitrateDL = qe_MaxBitrateDL qerElement, qi_StartUL = 0, qi_StartDL = 0\<rparr> of
             (Some e, m) \<Rightarrow> ([(StatusInternalServerError, Failure e)], b\<lparr>QerMap := m\<rparr>)
           | (None, m) \<Rightarrow> ([(StatusCreated, Body qerElement)], b\<lparr>QerMap := m\<rparr>)))"

text \<open>
  The loop of \<open>ListQerMapContents\<close> from index \<open>i\<close> on, with \<open>left\<close> entries to go. The error of
  \<open>m.Info()\<close> is ignored: without the information its nil pointer is dereferenced.
\<close>

primrec list_qers ::
  "('m, 'b, 'z) bpf_env_scheme \<Rightarrow> 'm \<Rightarrow> nat \<Rightarrow> u32 \<Rightarrow> QerMapElement list \<Rightarrow> QerMapElement list res" where
  "list_qers E m 0 i contextMap = Val contextMap"
| "list_qers E m (Suc left) i contextMap =
     (case Map_Lookup (qer_ops E) m i of
        None \<Rightarrow> Err ErrLibrary
      | Some value \<Rightarrow> list_qers E m left (i + 1) (contextMap @ [qer_element i value]))"

definition ListQerMapContents :: "('m, 'b, 'z) bpf_env_scheme \<Rightarrow> 'm \<Rightarrow> QerMapElement list res" where
  "ListQerMapContents E m =
     (if \<not> Map_isArray E m then Err (ErrText ''map is not a hash'')
      else (case Map_MaxEntries E m of
          None \<Rightarrow> Panic NilDereference
        | Some n \<Rightarrow> list_qers E m (unat n) 0 []))"

definition listQerMapContent :: "('m, 'b, 'z) bpf_env_scheme \<Rightarrow> ('m, 'b) BpfObjects \<Rightarrow> QerMapElement list response res" where
  "listQerMapContent E b =
     (case ListQerMapContents E (QerMap b) of
        Panic p \<Rightarrow> Panic p
      | Err e \<Rightarrow> Val [(StatusInternalServerError, Failure e)]
      | Val elements \<Rightarrow> Val [(StatusOK, Body elements)])"

section \<open>Associations and sessions\<close>

record NodeAssociationNoSession =
  ns_ID :: string
  ns_Addr :: string
  ns_NextSessionID :: u64

type_synonym node_range = "(string \<rightharpoonup> NodeAssociation) \<Rightarrow> (string \<times> NodeAssociation) list"

definition listPfcpAssociations ::
  "node_range \<Rightarrow> ('m, 'b) PfcpConnection \<Rightarrow> (string \<rightharpoonup> NodeAssociationNoSession) response" where
  "listPfcpAssociations rangeNodes c =
     [(StatusOK, Body (fold (\<lambda>(k, v) m. m(k \<mapsto> \<lparr>ns_ID = na_ID v, ns_Addr = na_Addr v, ns_NextSessionID = NextSessionID v\<rparr>))
        (rangeNodes (NodeAssociations c)) Map.empty))]"

definition listPfcpAssociationsFull :: "('m, 'b) PfcpConnection \<Rightarrow> (string \<rightharpoonup> NodeAssociation) response" where
  "listPfcpAssociationsFull c = [(StatusOK, Body (NodeAssociations c))]"

definition GetAllSessions ::
  "('ie, 'm, 'b, 'z) upf_env_scheme \<Rightarrow> node_range \<Rightarrow> (string \<rightharpoonup> NodeAssociation) \<Rightarrow> Session list" where
  "GetAllSessions E rangeNodes nodeMap =
     concat (map (\<lambda>(_, nodeAssoc). map snd (rangeSessions E (Sessions nodeAssoc))) (rangeNodes nodeMap))"

text \<open>A loop that returns from the function at the first hit.\<close>

primrec first_hit :: "('x \<Rightarrow> 'a option) \<Rightarrow> 'x list \<Rightarrow> 'a option" where
  "first_hit f [] = None"
| "first_hit f (x # xs) = (case f x of Some y \<Rightarrow> Some y | None \<Rightarrow> first_hit f xs)"

definition FilterSessionsByIP ::
  "('ie, 'm, 'b, 'z) upf_env_scheme \<Rightarrow> node_range \<Rightarrow> (string \<rightharpoonup> NodeAssociation) \<Rightarrow> IP \<Rightarrow> Session option" where
  "FilterSessionsByIP E rangeNodes nodeMap filterByIP =
     first_hit (\<lambda>(_, nodeAssoc).
       first_hit (\<lambda>(_, session).
         first_hit (\<lambda>(_, pdr). if IP_Equal (sp_Ipv4 pdr) filterByIP then Some session else None)
           (rangePDRs E (PDRs session)))
         (rangeSessions E (Sessions nodeAssoc)))
       (rangeNodes nodeMap)"

definition FilterSessionsByTeid ::
  "('ie, 'm, 'b, 'z) upf_env_scheme \<Rightarrow> node_range \<Rightarrow> (string \<rightharpoonup> NodeAssociation) \<Rightarrow> u32 \<Rightarrow> Session option" where
  "FilterSessionsByTeid E rangeNodes nodeMap filterByTeid =
     first_hit (\<lambda>(_, nodeAssoc).
       first_hit (\<lambda>(_, session).
         first_hit (\<lambda>(_, pdr). if sp_Teid pdr = filterByTeid then Some session else None)
           (rangePDRs E (PDRs session)))
         (rangeSessions E (Sessions nodeAssoc)))
       (rangeNodes nodeMap)"

definition append_opt :: "'a list \<Rightarrow> 'a option \<Rightarrow> 'a list" where
  "append_opt xs x = (case x of None \<Rightarrow> xs | Some y \<Rightarrow> xs @ [y])"

definition listPfcpSessionsFiltered ::
  "('ie, 'm, 'b, 'z) upf_env_scheme \<Rightarrow> node_range \<Rightarrow> string \<Rightarrow> string \<Rightarrow> ('m, 'b) PfcpConnection \<Rightarrow> Session list response" where
  "listPfcpSessionsFiltered E rangeNodes sIp sTeid c =
     (let nodes = NodeAssociations c
      in if sIp = [] \<and> sTeid = [] then [(StatusOK, Body (GetAllSessions E rangeNodes nodes))]
         else
           let (sessions, written) =
                 (if sIp = [] then ([], [])
                  else case ParseIP sIp of
                      None \<Rightarrow> ([], [(StatusBadRequest, Text ''Failed to parse IP'')])
                    | Some ip \<Rightarrow> (append_opt [] (FilterSessionsByIP E rangeNodes nodes (Some ip)), []));
               (sessions, written) =
                 (if sTeid = [] then (sessions, written)
                  else case Atoi sTeid of
                      None \<Rightarrow> (sessions, written @ [(StatusBadRequest, Text ''Failed to parse TEID'')])
                    | Some teid \<Rightarrow> (append_opt sessions (FilterSessionsByTeid E rangeNodes nodes (word_of_int teid)), written))
           in written @ [(StatusOK, Body sessions)])"

section \<open>Configuration\<close>

definition displayConfig :: "UpfConfig \<Rightarrow> UpfConfig response" where
  "displayConfig cfg = [(StatusOK, Body cfg)]"

text \<open>\<open>h.Cfg\<close> points to the configuration the program runs with.\<close>

definition editConfig ::
  "(string \<Rightarrow> 'l option) \<Rightarrow> ('l \<Rightarrow> string) \<Rightarrow> UpfConfig option \<Rightarrow> 'l \<times> UpfConfig \<Rightarrow> (nat \<times> goerror option) \<times> 'l \<times> UpfConfig" where
  "editConfig zerolog_ParseLevel Level_String body s =
     (case body of
        None \<Rightarrow> ((StatusBadRequest, Some ErrLibrary), s)
      | Some conf \<Rightarrow>
          (let s = (fst s, conf)
           in case SetConfig zerolog_ParseLevel Level_String conf s of
                (Err e, s) \<Rightarrow> ((StatusBadRequest, Some e), s)
              | (_, s) \<Rightarrow> ((StatusOK, None), s)))"

section \<open>Statistics\<close>

record XdpStats =
  xs_Aborted :: u64
  xs_Drop :: u64
  xs_Pass :: u64
  xs_Tx :: u64
  xs_Redirect :: u64

definition displayXdpStatistics :: "fp_maps \<Rightarrow> XdpStats response res" where
  "displayXdpStatistics m =
     bind_res (GetAborted m) (\<lambda>a. bind_res (GetDrop m) (\<lambda>d. bind_res (GetPass m) (\<lambda>p. bind_res (GetTx m) (\<lambda>t.
     bind_res (GetRedirect m) (\<lambda>r.
       Val [(StatusOK, Body \<lparr>xs_Aborted = a, xs_Drop = d, xs_Pass = p, xs_Tx = t, xs_Redirect = r\<rparr>)])))))"

text \<open>\<open>PacketStats\<close> and \<open>RouteStats\<close> have the fields of the counters they are copied from.\<close>

definition displayPacketStats :: "fp_maps \<Rightarrow> UpfCounters response" where
  "displayPacketStats m =
     (let packets = GetUpfExtStat m
      in [(StatusOK, Body \<lparr>RxArp = RxArp packets, RxIcmp = RxIcmp packets, RxIcmp6 = RxIcmp6 packets, RxIp4 = RxIp4 packets,
            RxIp6 = RxIp6 packets, RxTcp = RxTcp packets, RxUdp = RxUdp packets, RxOther = RxOther packets,
            RxGtpEcho = RxGtpEcho packets, RxGtpPdu = RxGtpPdu packets, RxGtpOther = RxGtpOther packets,
            RxGtpUnexp = RxGtpUnexp packets\<rparr>)])"

definition displayRouteStats :: "fp_maps \<Rightarrow> IpEntrypointRouteStat response" where
  "displayRouteStats m =
     (let route = GetUpfRouteStat m
      in [(StatusOK, Body \<lparr>FibLookupIp4Cache = FibLookupIp4Cache route, FibLookupIp4Ok = FibLookupIp4Ok route,
            FibLookupIp4ErrorDrop = FibLookupIp4ErrorDrop route, FibLookupIp4ErrorPass = FibLookupIp4ErrorPass route,
            FibLookupIp6Cache = FibLookupIp6Cache route, FibLookupIp6Ok = FibLookupIp6Ok route,
            FibLookupIp6ErrorDrop = FibLookupIp6ErrorDrop route, FibLookupIp6ErrorPass = FibLookupIp6ErrorPass route\<rparr>)])"

text \<open>
  The metrics that \<open>RegisterMetrics\<close> registers are functions: this is what they give when they
  are asked, with the conversion of counts to \<open>float64\<close> as a parameter.
\<close>

definition RegisterMetrics ::
  "('f, 'c) prom \<Rightarrow> (nat \<Rightarrow> 'f) \<Rightarrow> fp_maps \<Rightarrow> ('m, 'b) PfcpConnection \<Rightarrow> (string \<times> 'f res) list" where
  "RegisterMetrics P int_float64 stats conn =
     [(''upf_xdp_aborted'', map_res (float64 P) (GetAborted stats)),
      (''upf_xdp_drop'', map_res (float64 P) (GetDrop stats)),
      (''upf_xdp_pass'', map_res (float64 P) (GetPass stats)),
      (''upf_xdp_tx'', map_res (float64 P) (GetTx stats)),
      (''upf_xdp_redirect'', map_res (float64 P) (GetRedirect stats)),
      (''upf_pfcp_sessions'', Val (int_float64 (GetSessionCount conn))),
      (''upf_pfcp_associations'', Val (int_float64 (GetAssiciationCount conn)))]"

section \<open>Lemmas\<close>

lemma first_hit_Some: "first_hit f xs = Some y \<Longrightarrow> \<exists>x \<in> set xs. f x = Some y"
  by (induction xs) (auto split: option.splits)

lemma first_hit_None: "first_hit f xs = None \<longleftrightarrow> (\<forall>x \<in> set xs. f x = None)"
  by (induction xs) (auto split: option.splits)

text \<open>Both filters are the same search, for another test on PDRs.\<close>

definition search ::
  "('ie, 'm, 'b, 'z) upf_env_scheme \<Rightarrow> node_range \<Rightarrow> (string \<rightharpoonup> NodeAssociation) \<Rightarrow> (SPDRInfo \<Rightarrow> bool) \<Rightarrow> Session option" where
  "search E rangeNodes nodeMap P =
     first_hit (\<lambda>(_, nodeAssoc). first_hit (\<lambda>(_, session).
         first_hit (\<lambda>(_, pdr). if P pdr then Some session else None) (rangePDRs E (PDRs session)))
         (rangeSessions E (Sessions nodeAssoc))) (rangeNodes nodeMap)"

lemma search_eq:
  "FilterSessionsByIP E rangeNodes nodeMap ip = search E rangeNodes nodeMap (\<lambda>pdr. IP_Equal (sp_Ipv4 pdr) ip)"
  "FilterSessionsByTeid E rangeNodes nodeMap teid = search E rangeNodes nodeMap (\<lambda>pdr. sp_Teid pdr = teid)"
  by (simp_all add: FilterSessionsByIP_def FilterSessionsByTeid_def search_def)

definition has_session :: "(string \<rightharpoonup> NodeAssociation) \<Rightarrow> Session \<Rightarrow> bool" where
  "has_session nodeMap s \<longleftrightarrow> (\<exists>addr a q. nodeMap addr = Some a \<and> Sessions a q = Some s)"

definition nodes_finite :: "(string \<rightharpoonup> NodeAssociation) \<Rightarrow> bool" where
  "nodes_finite nodeMap \<longleftrightarrow> finite (dom nodeMap) \<and>
     (\<forall>addr a. nodeMap addr = Some a \<longrightarrow> finite (dom (Sessions a)) \<and> (\<forall>q s. Sessions a q = Some s \<longrightarrow> session_finite s))"

lemma search_correct:
  assumes "ranges_ok E" and "nodes_finite nodeMap" and "enumerates (rangeNodes nodeMap) nodeMap"
  shows "search E rangeNodes nodeMap P = Some s \<Longrightarrow> has_session nodeMap s \<and> (\<exists>pdr \<in> ran (PDRs s). P pdr)"
    and "search E rangeNodes nodeMap P = None \<Longrightarrow> has_session nodeMap s \<Longrightarrow> pdr \<in> ran (PDRs s) \<Longrightarrow> \<not> P pdr"
proof -
  have n: "(k, a) \<in> set (rangeNodes nodeMap) \<longleftrightarrow> nodeMap k = Some a" for k a by (rule enumerates_mem [OF assms(3)])
  have q: "(q, s) \<in> set (rangeSessions E (Sessions a)) \<longleftrightarrow> Sessions a q = Some s" if "nodeMap k = Some a" for k a q s
    using assms(2) that by (intro enumerates_mem ranges_okD(5) [OF assms(1)]) (auto simp: nodes_finite_def)
  have p: "(i, x) \<in> set (rangePDRs E (PDRs s)) \<longleftrightarrow> PDRs s i = Some x" if "nodeMap k = Some a" "Sessions a q = Some s" for k a q s i x
    using assms(2) that by (intro enumerates_mem ranges_okD(1) [OF assms(1)]) (auto simp: nodes_finite_def session_finite_def)
  let ?h1 = "\<lambda>s. first_hit (\<lambda>(_, pdr). if P pdr then Some s else None) (rangePDRs E (PDRs s))"
  let ?h2 = "\<lambda>a. first_hit (\<lambda>(_, s). ?h1 s) (rangeSessions E (Sessions a))"
  show "has_session nodeMap s \<and> (\<exists>pdr \<in> ran (PDRs s). P pdr)" if h: "search E rangeNodes nodeMap P = Some s"
  proof -
    obtain k a where a: "(k, a) \<in> set (rangeNodes nodeMap)" "?h2 a = Some s" using first_hit_Some [OF h [unfolded search_def]] by auto
    obtain q s' where s: "(q, s') \<in> set (rangeSessions E (Sessions a))" "?h1 s' = Some s" using first_hit_Some [OF a(2)] by auto
    obtain i x where x: "(i, x) \<in> set (rangePDRs E (PDRs s'))" "P x" "s' = s" using first_hit_Some [OF s(2)] by (auto split: if_splits)
    have k: "nodeMap k = Some a" using a n by simp
    then have q': "Sessions a q = Some s" using s x q by simp
    then have "PDRs s i = Some x" using x p [OF k q'] by simp
    with k q' x show ?thesis by (auto simp: has_session_def ran_def)
  qed
  show "\<not> P pdr" if h: "search E rangeNodes nodeMap P = None" and s: "has_session nodeMap s" and pdr: "pdr \<in> ran (PDRs s)"
  proof -
    obtain k a q' where k: "nodeMap k = Some a" "Sessions a q' = Some s" using s by (auto simp: has_session_def)
    obtain i where i: "PDRs s i = Some pdr" using pdr by (auto simp: ran_def)
    have "\<forall>x \<in> set (rangeNodes nodeMap). (case x of (_, a) \<Rightarrow> ?h2 a) = None" using h unfolding search_def first_hit_None .
    from bspec [OF this, of "(k, a)"] have "?h2 a = None" using n k(1) by simp
    then have "\<forall>x \<in> set (rangeSessions E (Sessions a)). (case x of (_, s) \<Rightarrow> ?h1 s) = None" unfolding first_hit_None .
    from bspec [OF this, of "(q', s)"] have "?h1 s = None" using q [OF k(1)] k(2) by simp
    then have "\<forall>x \<in> set (rangePDRs E (PDRs s)). (case x of (_, pdr) \<Rightarrow> if P pdr then Some s else None) = None" unfolding first_hit_None .
    from bspec [OF this, of "(i, pdr)"] show ?thesis using p [OF k] i by (simp split: if_splits)
  qed
qed

lemma all_sessions:
  assumes "ranges_ok E" and "nodes_finite nodeMap" and "enumerates (rangeNodes nodeMap) nodeMap"
  shows "set (GetAllSessions E rangeNodes nodeMap) = {s. has_session nodeMap s}"
    and "length (GetAllSessions E rangeNodes nodeMap) = (\<Sum>a \<in> dom nodeMap. card (dom (Sessions (the (nodeMap a)))))"
proof -
  have e: "enumerates (rangeSessions E (Sessions a)) (Sessions a)" if "nodeMap k = Some a" for k a
    using assms(2) that by (intro ranges_okD(5) [OF assms(1)]) (auto simp: nodes_finite_def)
  have "x \<in> set (GetAllSessions E rangeNodes nodeMap) \<longleftrightarrow> (\<exists>k a q. (k, a) \<in> set (rangeNodes nodeMap) \<and> (q, x) \<in> set (rangeSessions E (Sessions a)))" for x
    unfolding GetAllSessions_def by force
  then show "set (GetAllSessions E rangeNodes nodeMap) = {s. has_session nodeMap s}"
    unfolding has_session_def enumerates_mem [OF assms(3)] using e [THEN enumerates_mem] by simp blast
  have l: "length (rangeSessions E (Sessions a)) = card (dom (Sessions a))" if "nodeMap k = Some a" for k a
  proof -
    have "card (set (map fst (rangeSessions E (Sessions a)))) = length (map fst (rangeSessions E (Sessions a)))"
      using e [OF that] by (intro distinct_card) (simp add: enumerates_def)
    with enumerates_keys [OF e [OF that]] show ?thesis by simp
  qed
  have "length (GetAllSessions E rangeNodes nodeMap) = (\<Sum>x \<leftarrow> rangeNodes nodeMap. length (rangeSessions E (Sessions (snd x))))"
    by (simp add: GetAllSessions_def length_concat comp_def case_prod_unfold)
  also have "\<dots> = (\<Sum>x \<leftarrow> rangeNodes nodeMap. card (dom (Sessions (the (nodeMap (fst x))))))"
    using enumerates_mem [OF assms(3)] l by (intro arg_cong [where f = sum_list] map_cong) auto
  also have "\<dots> = (\<Sum>k \<leftarrow> map fst (rangeNodes nodeMap). card (dom (Sessions (the (nodeMap k)))))" by (simp add: comp_def)
  also have "\<dots> = (\<Sum>k \<in> set (map fst (rangeNodes nodeMap)). card (dom (Sessions (the (nodeMap k)))))"
    using assms(3) by (intro sum_list_distinct_conv_sum_set) (simp add: enumerates_def)
  finally show "length (GetAllSessions E rangeNodes nodeMap) = (\<Sum>a \<in> dom nodeMap. card (dom (Sessions (the (nodeMap a)))))"
    using enumerates_keys [OF assms(3)] by simp
qed

lemma list_qers_acc:
  "list_qers E m left i acc = bind_res (list_qers E m left i []) (\<lambda>xs. Val (acc @ xs))"
proof (induction left arbitrary: i acc)
  case (Suc left)
  show ?case
  proof (cases "Map_Lookup (qer_ops E) m i")
    case (Some v)
    show ?thesis
      using Suc [of "i + 1" "acc @ [qer_element i v]"] Suc [of "i + 1" "[qer_element i v]"] Some
      by (cases "list_qers E m left (i + 1) []") simp_all
  qed simp
qed simp

lemma list_qers_all:
  assumes "\<forall>j < left. Map_Lookup (qer_ops E) m (i + of_nat j) \<noteq> None"
  shows "list_qers E m left i [] =
    Val (map (\<lambda>j. qer_element (i + of_nat j) (the (Map_Lookup (qer_ops E) m (i + of_nat j)))) [0..<left])"
  using assms
proof (induction left arbitrary: i)
  case (Suc left)
  obtain v where v: "Map_Lookup (qer_ops E) m i = Some v" using Suc.prems [rule_format, of 0] by auto
  have "\<forall>j < left. Map_Lookup (qer_ops E) m (i + 1 + of_nat j) \<noteq> None"
  proof (intro allI impI)
    fix j assume "j < left"
    then show "Map_Lookup (qer_ops E) m (i + 1 + of_nat j) \<noteq> None" using Suc.prems [rule_format, of "Suc j"] by (simp add: add.assoc)
  qed
  from Suc.IH [OF this] v show ?case
    by (subst upt_conv_Cons) (simp_all add: list_qers_acc [of E m left "i + 1" "[qer_element i v]"] map_Suc_upt [symmetric] add.assoc del: upt_Suc)
qed simp

section \<open>Properties\<close>

text \<open>
  A FAR that was written through the interface is read back as it was written, under
  every spelling of its identifier and under every integer that is equal to it modulo
  \<open>2^32\<close>; every other FAR reads as before. The same holds of QERs.
\<close>

theorem rest_rule_roundtrip:
  assumes "bpf_env_ok E" and "Atoi param = Some n"
  shows "(setFarValue E (Some far) b = ([(201, Body far)], b') \<longrightarrow>
      getFarValue E param b' = (if word_of_int n = fe_Id far then [(200, Body far)] else getFarValue E param b)) \<and>
    (setQerValue E (Some qer) b = ([(201, Body qer)], b') \<longrightarrow>
      getQerValue E param b' = (if word_of_int n = qe_Id qer then [(200, Body qer)] else getQerValue E param b))"
proof (intro conjI impI)
  have ok: "map_ops_ok (far_ops E)" "map_ops_ok (qer_ops E)" using assms(1) by (simp_all add: bpf_env_ok_def)
  assume h: "setFarValue E (Some far) b = ([(201, Body far)], b')"
  define v where "v = \<lparr>fi_Action = fe_Action far, fi_OuterHeaderCreation = fe_OuterHeaderCreation far, fi_Teid = fe_Teid far,
    fi_RemoteIP = fe_RemoteIP far, fi_TransportLevelMarking = fe_TransportLevelMarking far\<rparr>"
  obtain m where m: "Map_Put (far_ops E) (FarMap b) (fe_Id far) v = (None, m)" "b' = b\<lparr>FarMap := m\<rparr>"
    using h by (auto simp: setFarValue_def v_def split: prod.splits option.splits)
  then have "Map_Lookup (far_ops E) m = (Map_Lookup (far_ops E) (FarMap b))(fe_Id far \<mapsto> v)" using map_ops_okD(1) [OF ok(1)] by blast
  with m(2) show "getFarValue E param b' = (if word_of_int n = fe_Id far then [(200, Body far)] else getFarValue E param b)"
    by (simp add: getFarValue_def assms(2) v_def)
next
  have ok: "map_ops_ok (qer_ops E)" using assms(1) by (simp add: bpf_env_ok_def)
  assume h: "setQerValue E (Some qer) b = ([(201, Body qer)], b')"
  define v where "v = \<lparr>qi_GateStatusUL = qe_GateStatusUL qer, qi_GateStatusDL = qe_GateStatusDL qer, qi_Qfi = qe_Qfi qer,
    qi_MaxBitrateUL = qe_MaxBitrateUL qer, qi_MaxBitrateDL = qe_MaxBitrateDL qer, qi_StartUL = 0, qi_StartDL = 0\<rparr>"
  obtain m where m: "Map_Put (qer_ops E) (QerMap b) (qe_Id qer) v = (None, m)" "b' = b\<lparr>QerMap := m\<rparr>"
    using h by (auto simp: setQerValue_def v_def split: prod.splits option.splits)
  then have "Map_Lookup (qer_ops E) m = (Map_Lookup (qer_ops E) (QerMap b))(qe_Id qer \<mapsto> v)" using map_ops_okD(1) [OF ok] by blast
  with m(2) show "getQerValue E param b' = (if word_of_int n = qe_Id qer then [(200, Body qer)] else getQerValue E param b)"
    by (simp add: getQerValue_def assms(2) v_def qer_element_def)
qed

theorem rest_rule_roundtrip_witness:
  "let far = \<lparr>fe_Id = 3, fe_Action = 2, fe_OuterHeaderCreation = 0, fe_Teid = 9, fe_RemoteIP = 0, fe_TransportLevelMarking = 0\<rparr>;
       b' = snd (setFarValue sim_upf_env (Some far) sim_loaded)
   in getFarValue sim_upf_env ''4294967299'' b' = [(200, Body far)]"
proof -
  let ?far = "\<lparr>fe_Id = 3, fe_Action = 2, fe_OuterHeaderCreation = 0, fe_Teid = 9, fe_RemoteIP = 0, fe_TransportLevelMarking = 0\<rparr>"
  have a: "Atoi ''4294967299'' = Some 4294967299"
    by (simp add: Atoi_def dec_val_def is_digit_def digit_val_def char_code_def)
  have s: "setFarValue sim_upf_env (Some ?far) sim_loaded = ([(201, Body ?far)], snd (setFarValue sim_upf_env (Some ?far) sim_loaded))"
    by (simp add: prod_eq_iff setFarValue_def sim_loaded(2) sim_objects_def sim_array_map_def sim_bpf_env_def sim_array_def)
  show ?thesis
    using rest_rule_roundtrip [OF sim_upf_env_ok(1) a, of ?far sim_loaded "snd (setFarValue sim_upf_env (Some ?far) sim_loaded)"] s
    by (simp add: Let_def)
qed

text \<open>
  The list of sessions has every session of every association, and as many entries as
  the connection counts sessions. A session that the search for an address or a TEID returns
  exists and has a PDR with it; when the search returns none, no session has one.
\<close>

theorem session_queries:
  assumes "ranges_ok E" and "nodes_finite (NodeAssociations c)" and "enumerates (rangeNodes (NodeAssociations c)) (NodeAssociations c)"
  shows "set (GetAllSessions E rangeNodes (NodeAssociations c)) = {s. has_session (NodeAssociations c) s}
    \<and> length (GetAllSessions E rangeNodes (NodeAssociations c)) = GetSessionCount c
    \<and> (case FilterSessionsByTeid E rangeNodes (NodeAssociations c) teid of
         Some s \<Rightarrow> has_session (NodeAssociations c) s \<and> (\<exists>pdr \<in> ran (PDRs s). sp_Teid pdr = teid)
       | None \<Rightarrow> \<forall>s. has_session (NodeAssociations c) s \<longrightarrow> (\<forall>pdr \<in> ran (PDRs s). sp_Teid pdr \<noteq> teid))
    \<and> (case FilterSessionsByIP E rangeNodes (NodeAssociations c) ip of
         Some s \<Rightarrow> has_session (NodeAssociations c) s \<and> (\<exists>pdr \<in> ran (PDRs s). IP_Equal (sp_Ipv4 pdr) ip)
       | None \<Rightarrow> \<forall>s. has_session (NodeAssociations c) s \<longrightarrow> (\<forall>pdr \<in> ran (PDRs s). \<not> IP_Equal (sp_Ipv4 pdr) ip))"
proof -
  note c = search_correct [where rangeNodes = rangeNodes, OF assms]
  have "case search E rangeNodes (NodeAssociations c) P of
      Some s \<Rightarrow> has_session (NodeAssociations c) s \<and> (\<exists>pdr \<in> ran (PDRs s). P pdr)
    | None \<Rightarrow> \<forall>s. has_session (NodeAssociations c) s \<longrightarrow> (\<forall>pdr \<in> ran (PDRs s). \<not> P pdr)" for P
    using c(1) [of P] c(2) [of P] by (auto split: option.split)
  with all_sessions [where rangeNodes = rangeNodes, OF assms] show ?thesis unfolding search_eq GetSessionCount_def by simp
qed

theorem session_queries_witness: "length (GetAllSessions sim_upf_env ascending (NodeAssociations sim_c3)) = 2"
proof -
  have f: "nodes_finite (NodeAssociations sim_c3)"
    by (auto simp: nodes_finite_def sim_assoc_def sim_session_def session_finite_def split: if_splits)
  have e: "enumerates (ascending (NodeAssociations sim_c3)) (NodeAssociations sim_c3)"
    by (rule enumerates_ascending) simp
  have "GetSessionCount sim_c3 = 2" by (simp add: GetSessionCount_def sim_assoc_def)
  with session_queries [where rangeNodes = ascending, OF sim_ranges_ok f e] show ?thesis by simp
qed

text \<open>
  C39. A change of the configuration takes effect in every field, whether it is accepted or
  answered with an error, and without the checks of the start: only the level of the logger
  is treated differently.
\<close>

theorem editConfig_replaces_all:
  "snd (snd (editConfig L S (Some conf) s)) = conf\<lparr>LoggingLevel := LoggingLevel (snd (snd (editConfig L S (Some conf) s)))\<rparr>
   \<and> (LoggingLevel conf = [] \<or> L (LoggingLevel conf) = None \<longrightarrow>
       fst (fst (editConfig L S (Some conf) s)) = 400 \<and> snd (snd (editConfig L S (Some conf) s)) = conf)"
  by (auto simp: editConfig_def SetConfig_def SetLoggerLevel_def Let_def split: option.split)

theorem editConfig_replaces_all_witness:
  "HeartbeatRetries (snd (snd (editConfig (\<lambda>_. None) (\<lambda>_. []) (Some (default_config\<lparr>HeartbeatRetries := 0\<rparr>)) ((), default_config)))) = 0
   \<and> fst (fst (editConfig (\<lambda>_. None) (\<lambda>_. []) (Some (default_config\<lparr>HeartbeatRetries := 0\<rparr>)) ((), default_config))) = 400"
  using editConfig_replaces_all [of "\<lambda>_. None" "\<lambda>_. []" "default_config\<lparr>HeartbeatRetries := 0\<rparr>" "((), default_config)"] by simp

text \<open>The list of QERs has exactly the entries of the table, in order, and is never cut short.\<close>

lemma list_qers_complete:
  assumes "bpf_env_ok E" and "Map_isArray E m" and "Map_MaxEntries E m = Some n"
  shows "ListQerMapContents E m = Val (map (\<lambda>i. qer_element (of_nat i) (the (Map_Lookup (qer_ops E) m (of_nat i)))) [0..<unat n])"
proof -
  have "Map_Lookup (qer_ops E) m (0 + of_nat j) \<noteq> None" if "j < unat n" for j
  proof -
    have "of_nat j < n" using that by (simp add: word_less_nat_alt unat_of_nat take_bit_nat_eq_self order.strict_trans [OF that unsigned_less])
    then show ?thesis using assms by (auto simp: bpf_env_ok_def array_ops_ok_def)
  qed
  then show ?thesis using list_qers_all [of "unat n" E m 0] assms by (simp add: ListQerMapContents_def)
qed

text \<open>An address that cannot be parsed is answered twice: with the error, and with an empty list and success.\<close>

lemma bad_address_answered_twice:
  "sIp \<noteq> [] \<Longrightarrow> ParseIP sIp = None \<Longrightarrow>
   listPfcpSessionsFiltered E rangeNodes sIp [] c = [(400, Text ''Failed to parse IP''), (200, Body [])]"
  by (simp add: listPfcpSessionsFiltered_def Let_def)

lemma listed_associations:
  assumes "enumerates (rangeNodes (NodeAssociations c)) (NodeAssociations c)"
  shows "listPfcpAssociations rangeNodes c = [(200, Body (\<lambda>k. map_option (\<lambda>v. \<lparr>ns_ID = na_ID v, ns_Addr = na_Addr v,
    ns_NextSessionID = NextSessionID v\<rparr>) (NodeAssociations c k)))]"
proof -
  let ?f = "\<lambda>v. \<lparr>ns_ID = na_ID v, ns_Addr = na_Addr v, ns_NextSessionID = NextSessionID v\<rparr>"
  have "fold (\<lambda>(k, v) m. m(k \<mapsto> ?f v)) xs m0 k = (case map_of xs k of None \<Rightarrow> m0 k | Some v \<Rightarrow> Some (?f v))"
    if "distinct (map fst xs)" for xs :: "(string \<times> NodeAssociation) list" and m0 k
    using that
  proof (induction xs arbitrary: m0)
    case (Cons x xs)
    obtain k' v' where x: "x = (k', v')" by fastforce
    have "map_of xs k' = None" using Cons.prems by (simp add: x map_of_eq_None_iff)
    with Cons x show ?case by (simp split: option.split)
  qed simp
  with assms show ?thesis
    by (auto simp: listPfcpAssociations_def enumerates_def fun_eq_iff split: option.split)
qed

end
