(* ===== verification/Xdp_Packet.thy ===== *)
theory Xdp_Packet
  imports Ebpf_Objects Fp_Stats
begin

text \<open>
  Packets of the XDP program (\<open>cmd/ebpf/xdp/utils\<close>: \<open>packet_context.h\<close>, \<open>parsers.h\<close>, \<open>csum.h\<close>,
  \<open>gtpu.h\<close>, \<open>gtp_utils.h\<close>, \<open>icmp.h\<close>): parsing, encapsulation, decapsulation, replies.

  A frame is the list of bytes between \<open>data\<close> and \<open>data_end\<close>. A header pointer of the
  context is an offset into the frame, and a null pointer is \<^term>\<open>None\<close>. The program runs on a
  little-endian machine: a field that the code reads without conversion is \<open>le\<close> of its
  bytes, and one that it converts with \<open>bpf_ntohs\<close> or \<open>bpf_ntohl\<close> is \<open>be\<close>. A result of
  \<open>-1\<close> is \<^term>\<open>None\<close>. The helpers of the kernel are the record \<open>xdp_env\<close>.
\<close>

unbundle bit_operations_syntax

section \<open>Bytes and words\<close>

primrec le :: "bytes \<Rightarrow> 'a::len word" where
  "le [] = 0"
| "le (b # bs) = ucast b OR push_bit 8 (le bs)"

definition be :: "bytes \<Rightarrow> 'a::len word" where
  "be bs = le (rev bs)"

primrec put_le :: "nat \<Rightarrow> 'a::len word \<Rightarrow> bytes" where
  "put_le 0 w = []"
| "put_le (Suc n) w = ucast w # put_le n (drop_bit 8 w)"

definition put_be :: "nat \<Rightarrow> 'a::len word \<Rightarrow> bytes" where
  "put_be n w = rev (put_le n w)"

text \<open>The \<open>n\<close> bytes at an offset, and a write of bytes there.\<close>

definition bytes_at :: "nat \<Rightarrow> nat \<Rightarrow> bytes \<Rightarrow> bytes" where
  "bytes_at off n f = take n (drop off f)"

definition write_at :: "nat \<Rightarrow> bytes \<Rightarrow> bytes \<Rightarrow> bytes" where
  "write_at off bs f = take off f @ bs @ drop (off + length bs) f"

section \<open>State\<close>

record packet_context =
  data :: nat
  eth :: "nat option"
  ip4 :: "nat option"
  ip6 :: "nat option"
  udp :: "nat option"
  tcp :: "nat option"
  gtp :: "nat option"

record n3_n6_counters =
  rx_n3 :: u64
  tx_n3 :: u64
  rx_n6 :: u64
  tx_n6 :: u64

record upf_statistic =
  upf_counters :: UpfCounters
  upf_n3_n6_counter :: n3_n6_counters
  xdp_actions :: "u64 list"

text \<open>
  The state of the program while it works on one frame: the frame, the context, the maps it
  shares with the Go program, the statistics of its CPU, and how often it has read the clock.
\<close>

record ('m, 'b) xdp_state =
  frame :: bytes
  ctx :: packet_context
  objs :: "('m, 'b) BpfObjects"
  statistic :: upf_statistic
  route_stat :: "IpEntrypointRouteStat option"
  clock_reads :: nat

record fib_params =
  fp_family :: nat
  fp_tos :: u8
  fp_l4_protocol :: u8
  fp_tot_len :: u16
  fp_src :: bytes
  fp_dst :: bytes
  fp_ifindex :: nat

record fib_result =
  fr_ifindex :: nat
  fr_smac :: bytes
  fr_dmac :: bytes

datatype xdp_action = XDP_ABORTED | XDP_DROP | XDP_PASS | XDP_TX | XDP_REDIRECT

text \<open>
  What the kernel gives the program: \<open>bpf_xdp_adjust_head\<close> of a frame (\<^term>\<open>None\<close> when it
  fails), \<open>bpf_csum_diff\<close> of a block of bytes, the clock, the routing table and redirection,
  with the interface the frame came from; and the global configuration.
\<close>

record xdp_env =
  bpf_xdp_adjust_head :: "int \<Rightarrow> bytes \<Rightarrow> bytes option"
  bpf_csum_diff :: "bytes \<Rightarrow> u64"
  bpf_ktime_get_ns :: "nat \<Rightarrow> u64"
  bpf_fib_lookup :: "fib_params \<Rightarrow> int \<times> fib_result"
  bpf_redirect :: "nat \<Rightarrow> xdp_action"
  ingress_ifindex :: nat
  n3_ipv4_address :: u32
  n9_ipv4_address :: u32

definition adjust_ok :: "xdp_env \<Rightarrow> bool" where
  "adjust_ok K \<longleftrightarrow>
     (\<forall>n f f'. bpf_xdp_adjust_head K (int n) f = Some f' \<longrightarrow> n \<le> length f \<and> f' = drop n f) \<and>
     (\<forall>n f f'. bpf_xdp_adjust_head K (- int n) f = Some f' \<longrightarrow> (\<exists>bs. length bs = n \<and> f' = bs @ f))"

section \<open>Parsers\<close>

definition empty_context :: "nat \<Rightarrow> packet_context" where
  "empty_context d = \<lparr>data = d, eth = None, ip4 = None, ip6 = None, udp = None, tcp = None, gtp = None\<rparr>"

text \<open>A parser works on a frame and a context: the context of the packet or that of the inner packet.\<close>

definition parse_ethernet :: "bytes \<Rightarrow> packet_context \<Rightarrow> u16 option \<times> packet_context" where
  "parse_ethernet f c =
     (if data c + 14 > length f then (None, c)
      else (Some (be (bytes_at (data c + 12) 2 f)), c\<lparr>data := data c + 14, eth := Some (data c)\<rparr>))"

definition parse_ip4 :: "bytes \<Rightarrow> packet_context \<Rightarrow> u8 option \<times> packet_context" where
  "parse_ip4 f c =
     (if data c + 20 > length f then (None, c)
      else (Some (f ! (data c + 9)),
            c\<lparr>data := data c + unat (f ! data c AND 0x0F) * 4, ip4 := Some (data c)\<rparr>))"

definition parse_ip6 :: "bytes \<Rightarrow> packet_context \<Rightarrow> u8 option \<times> packet_context" where
  "parse_ip6 f c =
     (if data c + 40 > length f then (None, c)
      else (Some (f ! (data c + 6)), c\<lparr>data := data c + 40, ip6 := Some (data c)\<rparr>))"

definition parse_udp :: "bytes \<Rightarrow> packet_context \<Rightarrow> u16 option \<times> packet_context" where
  "parse_udp f c =
     (if data c + 8 > length f then (None, c)
      else (Some (be (bytes_at (data c + 2) 2 f)), c\<lparr>data := data c + 8, udp := Some (data c)\<rparr>))"

definition parse_tcp :: "bytes \<Rightarrow> packet_context \<Rightarrow> u16 option \<times> packet_context" where
  "parse_tcp f c =
     (if data c + 20 > length f then (None, c)
      else (Some (be (bytes_at (data c + 2) 2 f)), c\<lparr>data := data c + 20, tcp := Some (data c)\<rparr>))"

abbreviation (input) IPPROTO_ICMP :: u8 where "IPPROTO_ICMP \<equiv> 1"
abbreviation (input) IPPROTO_TCP :: u8 where "IPPROTO_TCP \<equiv> 6"
abbreviation (input) IPPROTO_UDP :: u8 where "IPPROTO_UDP \<equiv> 17"
abbreviation (input) IPPROTO_ICMPV6 :: u8 where "IPPROTO_ICMPV6 \<equiv> 58"
abbreviation (input) ETH_P_IP :: u16 where "ETH_P_IP \<equiv> 0x0800"
abbreviation (input) ETH_P_IPV6 :: u16 where "ETH_P_IPV6 \<equiv> 0x86DD"
abbreviation (input) ETH_P_ARP :: u16 where "ETH_P_ARP \<equiv> 0x0806"
abbreviation (input) GTP_UDP_PORT :: u16 where "GTP_UDP_PORT \<equiv> 2152"

definition parse_l4 :: "u8 \<Rightarrow> bytes \<Rightarrow> packet_context \<Rightarrow> u16 option \<times> packet_context" where
  "parse_l4 ip_protocol f c =
     (if ip_protocol = IPPROTO_UDP then parse_udp f c
      else if ip_protocol = IPPROTO_TCP then parse_tcp f c
      else (Some 0, c))"

text \<open>Any of the bits E, S and PN of a GTP header: four more bytes, and an extension of four.\<close>

definition gtp_has_ext :: "bytes \<Rightarrow> nat \<Rightarrow> bool" where
  "gtp_has_ext f g \<longleftrightarrow> f ! g AND 0x07 \<noteq> 0"

definition parse_gtp :: "bytes \<Rightarrow> packet_context \<Rightarrow> u8 option \<times> packet_context" where
  "parse_gtp f c =
     (if data c + 8 > length f then (None, c)
      else (Some (f ! (data c + 1)),
            c\<lparr>data := data c + 8 + (if gtp_has_ext f (data c) then 8 else 0), gtp := Some (data c)\<rparr>))"

text \<open>The version nibble of an IP packet, as the two bytes of an Ethernet type.\<close>

definition guess_eth_protocol :: "u8 \<Rightarrow> u16 option" where
  "guess_eth_protocol b =
     (let ip_version = drop_bit 4 b
      in if ip_version = 6 then Some ETH_P_IPV6 else if ip_version = 4 then Some ETH_P_IP else None)"

text \<open>The context of a new frame; \<open>context_reset\<close> leaves the TCP pointer as it is.\<close>

definition context_reset :: "packet_context \<Rightarrow> packet_context" where
  "context_reset c = c\<lparr>data := 0, eth := None, ip4 := None, ip6 := None, udp := None, gtp := None\<rparr>"

definition context_reinit :: "bytes \<Rightarrow> packet_context \<Rightarrow> bool \<times> packet_context" where
  "context_reinit f c =
     (case parse_ethernet f (context_reset c) of
        (ethertype, c) \<Rightarrow>
          if ethertype = Some ETH_P_IPV6 then (case parse_ip6 f c of (r, c) \<Rightarrow> (r \<noteq> None, c))
          else if ethertype = Some ETH_P_IP then (case parse_ip4 f c of (r, c) \<Rightarrow> (r \<noteq> None, c))
          else (False, c))"

section \<open>Checksums\<close>

definition csum_fold_helper :: "u64 \<Rightarrow> u16" where
  "csum_fold_helper csum = NOT (ucast (((\<lambda>c :: u64. (c AND 0xFFFF) + drop_bit 16 c) ^^ (4 :: nat)) csum))"

definition ipv4_csum :: "xdp_env \<Rightarrow> bytes \<Rightarrow> u16" where
  "ipv4_csum K bs = csum_fold_helper (bpf_csum_diff K bs)"

definition ipv4_csum_replace :: "u16 \<Rightarrow> u16 \<Rightarrow> u16 \<Rightarrow> u16" where
  "ipv4_csum_replace check old new =
     (let csum = NOT check;
          csum = csum + (NOT old);
          csum = csum + (if csum < (NOT old) then 1 else 0);
          csum = csum + new;
          csum = csum + (if csum < new then 1 else 0)
      in NOT csum)"

text \<open>\<open>iph->check = 0; iph->check = ipv4_csum(iph, sizeof(*iph))\<close>.\<close>

definition set_ip_check :: "xdp_env \<Rightarrow> nat \<Rightarrow> bytes \<Rightarrow> bytes" where
  "set_ip_check K i f =
     (let f = write_at (i + 10) [0, 0] f
      in write_at (i + 10) (put_le 2 (ipv4_csum K (bytes_at i 20 f))) f)"

section \<open>Replies\<close>

definition swap_mac :: "nat \<Rightarrow> bytes \<Rightarrow> bytes" where
  "swap_mac e f = write_at e (bytes_at (e + 6) 6 f @ bytes_at e 6 f) f"

definition swap_port :: "nat \<Rightarrow> bytes \<Rightarrow> bytes" where
  "swap_port u f = write_at (u + 6) [0, 0] (write_at u (bytes_at (u + 2) 2 f @ bytes_at u 2 f) f)"

definition swap_ip :: "nat \<Rightarrow> bytes \<Rightarrow> bytes" where
  "swap_ip i f = write_at (i + 12) (bytes_at (i + 16) 4 f @ bytes_at (i + 12) 4 f) f"

definition insert_recovery :: "nat \<Rightarrow> bytes \<Rightarrow> nat \<times> bytes" where
  "insert_recovery g f =
     (if gtp_has_ext f g \<and> g + 8 + 4 > length f then (0, f)
      else let recovery = (if gtp_has_ext f g then g + 8 + 4 else g + 8)
           in if recovery + 2 > length f then (0, f) else (2, write_at recovery [14, 0] f))"

text \<open>A big-endian 16-bit field that grows by some bytes.\<close>

definition add_be16 :: "nat \<Rightarrow> nat \<Rightarrow> bytes \<Rightarrow> bytes" where
  "add_be16 off n f = write_at off (put_be 2 (be (bytes_at off 2 f) + of_nat n :: u16)) f"

definition handle_echo_request :: "xdp_env \<Rightarrow> nat \<Rightarrow> nat \<Rightarrow> nat \<Rightarrow> nat \<Rightarrow> bytes \<Rightarrow> bytes" where
  "handle_echo_request K e i u g f =
     (let f = write_at (g + 1) [2] f;
          f = swap_mac e (swap_port u (swap_ip i f));
          (recovery_length, f) = insert_recovery g f
      in if recovery_length = 0 then f
         else set_ip_check K i (add_be16 (i + 2) recovery_length
                (add_be16 (u + 4) recovery_length (add_be16 (g + 2) recovery_length f))))"

text \<open>
  \<open>prepare_icmp_echo_reply\<close>: \<^term>\<open>None\<close> when the frame is too short or the message is no echo request.
\<close>

definition prepare_icmp_echo_reply :: "nat \<Rightarrow> nat \<Rightarrow> bytes \<Rightarrow> bytes option \<times> bytes" where
  "prepare_icmp_echo_reply e i f =
     (let f = swap_mac e f
      in if i + 20 > length f then (None, f)
         else let f = swap_ip i f
              in if i + 28 > length f then (None, f)
                 else if f ! (i + 20) \<noteq> 8 then (None, f)
                 else let old = le (bytes_at (i + 20) 2 f);
                          f = write_at (i + 20) [0, 0] f;
                          f = write_at (i + 22) (put_le 2 (ipv4_csum_replace (le (bytes_at (i + 22) 2 f)) old 0)) f
                      in (Some f, f))"

section \<open>Tunnels\<close>

definition fill_ip_header :: "u32 \<Rightarrow> u32 \<Rightarrow> u8 \<Rightarrow> nat \<Rightarrow> bytes" where
  "fill_ip_header saddr daddr tos tot_len =
     [0x45, tos] @ put_be 2 (of_nat tot_len :: u16) @ [0, 0, 0x40, 0, 64, IPPROTO_UDP, 0, 0] @ put_le 4 saddr @ put_le 4 daddr"

definition fill_udp_header :: "nat \<Rightarrow> bytes" where
  "fill_udp_header len = put_be 2 GTP_UDP_PORT @ put_be 2 GTP_UDP_PORT @ put_be 2 (of_nat len :: u16) @ [0, 0]"

definition fill_gtp_header :: "u32 \<Rightarrow> nat \<Rightarrow> bytes" where
  "fill_gtp_header teid len = [0x34, 255] @ put_be 2 (of_nat len :: u16) @ put_be 4 teid"

definition fill_gtp_ext_header :: bytes where
  "fill_gtp_ext_header = [0, 0, 0, 0x85]"

definition fill_gtp_ext_header_psc :: "u8 \<Rightarrow> u8 \<Rightarrow> bytes" where
  "fill_gtp_ext_header_psc qfi pdu_type = [1, push_bit 4 pdu_type, qfi AND 0x3F, 0]"

text \<open>The length of the IP packet, as its header has it.\<close>

definition ip_packet_len :: "packet_context \<Rightarrow> bytes \<Rightarrow> nat option" where
  "ip_packet_len c f =
     (case ip4 c of
        Some i \<Rightarrow> Some (unat (be (bytes_at (i + 2) 2 f) :: u16))
      | None \<Rightarrow> (case ip6 c of
          Some i \<Rightarrow> Some (unat (be (bytes_at (i + 4) 2 f) :: u16) + 40)
        | None \<Rightarrow> None))"

text \<open>
  \<open>add_gtp_over_ip4_headers\<close> on a frame with an IP header: 44 bytes are made room for in front,
  the Ethernet header is copied there, and five headers follow it. Past the checks of the
  pointers, which come after each other in the source, every header lies within the frame.
\<close>

definition add_gtp_over_ip4_headers ::
  "xdp_env \<Rightarrow> u32 \<Rightarrow> u32 \<Rightarrow> u8 \<Rightarrow> u8 \<Rightarrow> u32 \<Rightarrow> packet_context \<Rightarrow> bytes \<Rightarrow> (packet_context \<times> bytes) option" where
  "add_gtp_over_ip4_headers K saddr daddr tos qfi teid c f =
     (case ip_packet_len c f of
        None \<Rightarrow> None
      | Some n \<Rightarrow>
          (case bpf_xdp_adjust_head K (- 44) f of
             None \<Rightarrow> None
           | Some f \<Rightarrow>
               if 44 + 14 > length f then None
               else let f = write_at 0 (bytes_at 44 12 f @ put_be 2 ETH_P_IP) f;
                        f = write_at 14 (fill_ip_header saddr daddr tos (n + 44)) f;
                        f = write_at 34 (fill_udp_header (n + 8 + 16)) f;
                        f = write_at 42 (fill_gtp_header teid (8 + n)) f;
                        f = write_at 50 fill_gtp_ext_header f;
                        f = write_at 54 (fill_gtp_ext_header_psc qfi 0) f;
                        f = write_at 24 (put_le 2 (ipv4_csum K (bytes_at 14 20 f))) f
                    in Some (c\<lparr>data := 0, eth := Some 0, ip4 := Some 14, ip6 := None, udp := Some 34, gtp := Some 42\<rparr>, f)))"

definition update_gtp_tunnel :: "xdp_env \<Rightarrow> u32 \<Rightarrow> u32 \<Rightarrow> u32 \<Rightarrow> nat \<Rightarrow> nat \<Rightarrow> nat \<Rightarrow> bytes \<Rightarrow> bytes" where
  "update_gtp_tunnel K srcip dstip teid i u g f =
     (let f = write_at (g + 4) (put_be 4 teid) f;
          f = write_at (i + 16) (put_le 4 dstip) (write_at (i + 12) (put_le 4 srcip) f)
      in write_at (u + 6) [0, 0] (set_ip_check K i f))"

text \<open>
  \<open>remove_gtp_header\<close>: the encapsulation is taken to be 20 bytes of IP, 8 of UDP, 8 of GTP and 8 of
  extension; its last 14 bytes become the new Ethernet header. The context is that of the
  new frame also when its IP header cannot be parsed.
\<close>

definition remove_gtp_header :: "xdp_env \<Rightarrow> packet_context \<Rightarrow> bytes \<Rightarrow> bool \<times> packet_context \<times> bytes" where
  "remove_gtp_header K c f =
     (case gtp c of
        None \<Rightarrow> (False, c, f)
      | Some g \<Rightarrow>
          (let gtp_encap_size = 36 + (if gtp_has_ext f g then 8 else 0)
           in if 14 > length f \<or> gtp_encap_size + 14 > length f \<or> gtp_encap_size + 15 > length f then (False, c, f)
              else case guess_eth_protocol (f ! (gtp_encap_size + 14)) of
                  None \<Rightarrow> (False, c, f)
                | Some eth_proto \<Rightarrow>
                    (let f = write_at gtp_encap_size (bytes_at 0 12 f @ put_be 2 eth_proto) f
                     in case bpf_xdp_adjust_head K (int gtp_encap_size) f of
                          None \<Rightarrow> (False, c, f)
                        | Some f \<Rightarrow> (case context_reinit f c of (ok, c) \<Rightarrow> (ok, c, f)))))"

section \<open>Lemmas on bytes\<close>

lemma length_put_le [simp]: "length (put_le n w) = n"
  by (induction n arbitrary: w) simp_all

lemma length_put_be [simp]: "length (put_be n w) = n"
  by (simp add: put_be_def)

lemma bit_le:
  "bit (le bs :: 'a::len word) i \<longleftrightarrow> i < LENGTH('a) \<and> i div 8 < length bs \<and> bit (bs ! (i div 8)) (i mod 8)"
proof (induction bs arbitrary: i)
  case (Cons b bs)
  show ?case
  proof (cases "i < 8")
    case True
    then show ?thesis by (auto simp: bit_or_iff bit_push_bit_iff bit_ucast_iff)
  next
    case False
    then have "i div 8 = Suc ((i - 8) div 8)" "i mod 8 = (i - 8) mod 8" using le_div_geq [of 8 i] le_mod_geq [of 8 i] by simp_all
    moreover have "\<not> bit b i" using False bit_imp_le_length [of b i] by auto
    ultimately show ?thesis using False Cons [of "i - 8"] by (auto simp: bit_or_iff bit_push_bit_iff bit_ucast_iff)
  qed
qed simp

lemma bit_put_le: "j < n \<Longrightarrow> bit (put_le n w ! j) k \<longleftrightarrow> k < 8 \<and> bit w (8 * j + k)"
proof (induction n arbitrary: w j)
  case (Suc n)
  then show ?case
    by (cases j) (auto simp: bit_ucast_iff bit_drop_bit_eq algebra_simps dest: bit_imp_le_length)
qed simp

lemma le_put_le: "LENGTH('a) \<le> 8 * n \<Longrightarrow> le (put_le n (w :: 'a::len word)) = w"
proof (rule bit_word_eqI)
  fix i assume n: "LENGTH('a) \<le> 8 * n" and i: "i < LENGTH('a)"
  then have "i div 8 < n" by linarith
  with i show "bit (le (put_le n w) :: 'a word) i = bit w i" by (simp add: bit_le bit_put_le)
qed

lemma be_put_be: "LENGTH('a) \<le> 8 * n \<Longrightarrow> be (put_be n (w :: 'a::len word)) = w"
  by (simp add: be_def put_be_def le_put_le)

lemma length_write_at [simp]: "off + length bs \<le> length f \<Longrightarrow> length (write_at off bs f) = length f"
  by (simp add: write_at_def)

text \<open>Reads and writes in a frame that is put together of parts.\<close>

lemma bytes_at_append:
  "length a \<le> off \<Longrightarrow> bytes_at off n (a @ b) = bytes_at (off - length a) n b"
  "off + n \<le> length a \<Longrightarrow> bytes_at off n (a @ b) = bytes_at off n a"
  by (simp_all add: bytes_at_def)

lemma bytes_at_all: "length a = n \<Longrightarrow> bytes_at 0 n (a @ b) = a" "length a = n \<Longrightarrow> bytes_at 0 n a = a"
  by (simp_all add: bytes_at_def)

lemma write_at_append:
  "length a \<le> off \<Longrightarrow> write_at off bs (a @ b) = a @ write_at (off - length a) bs b"
  "off + length bs \<le> length a \<Longrightarrow> write_at off bs (a @ b) = write_at off bs a @ b"
  by (simp_all add: write_at_def)

lemma write_at_all: "length a = length bs \<Longrightarrow> write_at 0 bs (a @ b) = bs @ b"
  by (simp add: write_at_def)

lemma write_next: "length p = off \<Longrightarrow> write_at off bs (p @ r) = p @ bs @ drop (length bs) r"
  by (simp add: write_at_def)

lemma length_headers [simp]:
  "length (fill_ip_header s d t n) = 20" "length (fill_udp_header n) = 8" "length (fill_gtp_header teid n) = 8"
  "length fill_gtp_ext_header = 4" "length (fill_gtp_ext_header_psc q p) = 4"
  by (simp_all add: fill_ip_header_def fill_udp_header_def fill_gtp_header_def fill_gtp_ext_header_def fill_gtp_ext_header_psc_def)

end
