(* ===== verification/Rest_Uplink.thy ===== *)
theory Rest_Uplink
  imports Rest_Api Xdp_Packet
begin

text \<open>
  The handlers of uplink PDRs of the REST interface (\<open>cmd/api/rest/uplink_pdr.go\<close>). They pass the address of a
  Go structure \<open>PdrInfo\<close> to the map, which holds structures \<open>pdr_info\<close> of the XDP program: the bytes of
  one are taken for the bytes of the other.
\<close>

section \<open>Layouts\<close>

text \<open>The first 18 bytes of a \<open>struct pdr_info\<close>; those after them are not looked at here.\<close>

definition pdr_info_bytes :: "IpEntrypointPdrInfo \<Rightarrow> bytes" where
  "pdr_info_bytes v = put_le 4 (ep_far_id v) @ put_le 4 (ep_qer_id v) @ put_le 4 (ep_urr1_id v) @ put_le 4 (ep_urr2_id v) @
     [ep_outer_header_removal v, ep_sdf_mode v]"

definition pdr_info_of :: "bytes \<Rightarrow> sdf_rules \<Rightarrow> IpEntrypointPdrInfo" where
  "pdr_info_of bs r = \<lparr>ep_far_id = le (bytes_at 0 4 bs), ep_qer_id = le (bytes_at 4 4 bs), ep_urr1_id = le (bytes_at 8 4 bs),
     ep_urr2_id = le (bytes_at 12 4 bs), ep_outer_header_removal = bs ! 16, ep_sdf_mode = bs ! 17, ep_sdf_rules = r\<rparr>"

text \<open>
  The first 20 bytes of a Go structure \<open>PdrInfo\<close>: after its first field come three bytes of padding.
\<close>

definition PdrInfo_bytes :: "PdrInfo \<Rightarrow> bytes" where
  "PdrInfo_bytes p = [pi_OuterHeaderRemoval p, 0, 0, 0] @ put_le 4 (pi_FarId p) @ put_le 4 (pi_QerId p) @ put_le 4 (pi_Urr1Id p) @ put_le 4 (pi_Urr2Id p)"

section \<open>Handlers\<close>

record PdrElement =
  pe_Id :: u32
  pe_OuterHeaderRemoval :: u8
  pe_FarId :: u32
  pe_QerId :: u32

definition getUplinkPdrValue :: "('m, 'b, 'z) bpf_env_scheme \<Rightarrow> string \<Rightarrow> ('m, 'b) BpfObjects \<Rightarrow> PdrElement response" where
  "getUplinkPdrValue E param b =
     (case Atoi param of
        None \<Rightarrow> [(StatusBadRequest, Failure ErrLibrary)]
      | Some n \<Rightarrow>
          (case Map_Lookup (teid_ops E) (PdrMapTeidIp4 b) (word_of_int n) of
             None \<Rightarrow> [(StatusNotFound, Failure ErrLibrary)]
           | Some v \<Rightarrow>
               (let value = pdr_info_bytes v
                in [(StatusOK, Body \<lparr>pe_Id = word_of_int n, pe_OuterHeaderRemoval = value ! 0,
                      pe_FarId = le (bytes_at 4 4 value), pe_QerId = le (bytes_at 8 4 value)\<rparr>)])))"

text \<open>
  The map copies as many bytes as a \<open>pdr_info\<close> has, more than the Go structure: \<open>beyond\<close> is the rule that the
  memory after it happens to hold.
\<close>

definition setUplinkPdrValue ::
  "('m, 'b, 'z) bpf_env_scheme \<Rightarrow> sdf_rules \<Rightarrow> PdrElement option \<Rightarrow> ('m, 'b) BpfObjects \<Rightarrow> PdrElement response \<times> ('m, 'b) BpfObjects" where
  "setUplinkPdrValue E beyond body b =
     (case body of
        None \<Rightarrow> ([(StatusBadRequest, Failure ErrLibrary)], b)
      | Some pdrElement \<Rightarrow>
          (let value = zero_PdrInfo\<lparr>pi_OuterHeaderRemoval := pe_OuterHeaderRemoval pdrElement, pi_FarId := pe_FarId pdrElement,
                 pi_QerId := pe_QerId pdrElement\<rparr>
           in case Map_Put (teid_ops E) (PdrMapTeidIp4 b) (pe_Id pdrElement) (pdr_info_of (PdrInfo_bytes value) beyond) of
                (Some e, m) \<Rightarrow> ([(StatusInternalServerError, Failure e)], b\<lparr>PdrMapTeidIp4 := m\<rparr>)
              | (None, m) \<Rightarrow> ([(StatusCreated, Body pdrElement)], b\<lparr>PdrMapTeidIp4 := m\<rparr>)))"

section \<open>Lemmas\<close>

lemma put_le_nth: "put_le 4 w ! 0 = ucast w" "put_le 4 w ! Suc 0 = ucast (drop_bit 8 w)"
proof -
  have "put_le 4 w = ucast w # ucast (drop_bit 8 w) # put_le 2 (drop_bit 8 (drop_bit 8 w))" by (simp add: eval_nat_numeral del: drop_bit_drop_bit)
  then show "put_le 4 w ! 0 = ucast w" "put_le 4 w ! Suc 0 = ucast (drop_bit 8 w)" by simp_all
qed

lemma ucast_there_and_back: "ucast (ucast (x :: u8) :: u32) = x"
  by (rule bit_word_eqI) (simp add: bit_ucast_iff)

lemma pdr_info_of_PdrInfo:
  "pdr_info_of (PdrInfo_bytes p) r = \<lparr>ep_far_id = ucast (pi_OuterHeaderRemoval p), ep_qer_id = pi_FarId p, ep_urr1_id = pi_QerId p,
     ep_urr2_id = pi_Urr1Id p, ep_outer_header_removal = ucast (pi_Urr2Id p), ep_sdf_mode = ucast (drop_bit 8 (pi_Urr2Id p)), ep_sdf_rules = r\<rparr>"
proof -
  have "bytes_at 0 4 (PdrInfo_bytes p) = [pi_OuterHeaderRemoval p, 0, 0, 0]" "bytes_at 4 4 (PdrInfo_bytes p) = put_le 4 (pi_FarId p)"
    "bytes_at 8 4 (PdrInfo_bytes p) = put_le 4 (pi_QerId p)" "bytes_at 12 4 (PdrInfo_bytes p) = put_le 4 (pi_Urr1Id p)"
    "PdrInfo_bytes p ! 16 = put_le 4 (pi_Urr2Id p) ! 0" "PdrInfo_bytes p ! 17 = put_le 4 (pi_Urr2Id p) ! Suc 0"
    by (simp_all add: PdrInfo_bytes_def bytes_at_def nth_append nth_Cons')
  then show ?thesis by (simp add: pdr_info_of_def le_put_le put_le_nth)
qed

lemma pdr_info_bytes_parts:
  "pdr_info_bytes v ! 0 = ucast (ep_far_id v)" "le (bytes_at 4 4 (pdr_info_bytes v)) = ep_qer_id v"
  "le (bytes_at 8 4 (pdr_info_bytes v)) = ep_urr1_id v"
proof -
  have "pdr_info_bytes v ! 0 = put_le 4 (ep_far_id v) ! 0" "bytes_at 4 4 (pdr_info_bytes v) = put_le 4 (ep_qer_id v)"
    "bytes_at 8 4 (pdr_info_bytes v) = put_le 4 (ep_urr1_id v)"
    by (simp_all add: pdr_info_bytes_def bytes_at_def nth_append)
  then show "pdr_info_bytes v ! 0 = ucast (ep_far_id v)" "le (bytes_at 4 4 (pdr_info_bytes v)) = ep_qer_id v"
    "le (bytes_at 8 4 (pdr_info_bytes v)) = ep_urr1_id v"
    by (simp_all add: le_put_le put_le_nth)
qed

lemma getUplinkPdrValue_entry:
  "Atoi param = Some n \<Longrightarrow> uplink_lookup E b (word_of_int n) = Some v \<Longrightarrow> getUplinkPdrValue E param b =
     [(200, Body \<lparr>pe_Id = word_of_int n, pe_OuterHeaderRemoval = ucast (ep_far_id v), pe_FarId = ep_qer_id v, pe_QerId = ep_urr1_id v\<rparr>)]"
  by (simp add: getUplinkPdrValue_def pdr_info_bytes_parts Let_def)

section \<open>Properties\<close>

text \<open>
  C36. A PDR that is written through the REST interface reaches the XDP program with other rules: its header
  removal as FAR, its FAR as QER and its QER as URR, although the interface reads it back as it was written.
\<close>

theorem rest_uplink_pdr_shifted:
  assumes "bpf_env_ok E" "setUplinkPdrValue E beyond (Some el) b = ([(201, Body el)], b')"
    and "Atoi param = Some n" "word_of_int n = pe_Id el"
  shows "uplink_lookup E b' (pe_Id el) = Some \<lparr>ep_far_id = ucast (pe_OuterHeaderRemoval el), ep_qer_id = pe_FarId el,
      ep_urr1_id = pe_QerId el, ep_urr2_id = 0, ep_outer_header_removal = 0, ep_sdf_mode = 0, ep_sdf_rules = beyond\<rparr>
    \<and> getUplinkPdrValue E param b' = [(200, Body el)]"
proof -
  let ?v = "\<lparr>ep_far_id = ucast (pe_OuterHeaderRemoval el), ep_qer_id = pe_FarId el, ep_urr1_id = pe_QerId el,
    ep_urr2_id = 0, ep_outer_header_removal = 0, ep_sdf_mode = 0, ep_sdf_rules = beyond\<rparr>"
  have "map_ops_ok (teid_ops E)" using assms(1) by (simp add: bpf_env_ok_def)
  moreover obtain m where "Map_Put (teid_ops E) (PdrMapTeidIp4 b) (pe_Id el) ?v = (None, m)" "b' = b\<lparr>PdrMapTeidIp4 := m\<rparr>"
    using assms(2) by (auto simp: setUplinkPdrValue_def Let_def pdr_info_of_PdrInfo zero_PdrInfo_def split: prod.splits option.splits)
  ultimately have stored: "uplink_lookup E b' (pe_Id el) = Some ?v" using map_ops_okD(1) by fastforce
  then have "getUplinkPdrValue E param b' = [(200, Body el)]"
    using getUplinkPdrValue_entry [OF assms(3), of E b' ?v] by (simp add: assms(4) ucast_there_and_back)
  with stored show ?thesis by blast
qed

theorem rest_uplink_pdr_shifted_witness:
  "let el = \<lparr>pe_Id = 5, pe_OuterHeaderRemoval = 0, pe_FarId = 3, pe_QerId = 1\<rparr>;
       b = snd (setUplinkPdrValue sim_bpf_env zero_sdf_rules (Some el) sim_objects)
   in getUplinkPdrValue sim_bpf_env ''5'' b = [(200, Body el)] \<and>
      map_option ep_far_id (uplink_lookup sim_bpf_env b 5) = Some 0 \<and> map_option ep_qer_id (uplink_lookup sim_bpf_env b 5) = Some 3"
proof -
  let ?el = "\<lparr>pe_Id = 5, pe_OuterHeaderRemoval = 0, pe_FarId = 3, pe_QerId = 1\<rparr>"
  have p: "setUplinkPdrValue sim_bpf_env zero_sdf_rules (Some ?el) sim_objects =
      ([(201, Body ?el)], snd (setUplinkPdrValue sim_bpf_env zero_sdf_rules (Some ?el) sim_objects))"
    by (simp add: prod_eq_iff setUplinkPdrValue_def Let_def sim_eval)
  have "Atoi ''5'' = Some 5" by code_simp
  from rest_uplink_pdr_shifted [OF sim_bpf_env_ok p this] show ?thesis by (simp add: Let_def)
qed

end
