(* ===== verification/Rest_Routes.thy ===== *)
theory Rest_Routes
  imports Rest_Uplink
begin

text \<open>
  The routes of the two web servers (\<open>cmd/api/rest/handler.go\<close>) and what the requests to them change. The tables
  of the source are lists of routes, in its order; matching a request with a route belongs to the web framework.
  \<open>h.BpfObjects\<close>, \<open>h.PfcpSrv\<close> and \<open>h.Cfg\<close> point to the objects that the PFCP connection works with, so a request acts
  on the state of the connection.
\<close>

section \<open>Routes\<close>

datatype http_method = GET | POST | PUT

text \<open>A part of a path: fixed, a parameter, or all that follows.\<close>

datatype segment = Lit string | Param string | Any string

datatype endpoint =
    Health | Swagger | Metrics
  | DisplayXdpStatistics | DisplayPacketStats | DisplayRouteStats
  | DisplayConfig | EditConfig
  | GetUplinkPdrValue | SetUplinkPdrValue
  | ListQerMapContent | GetQerValue | SetQerValue
  | GetFarValue | SetFarValue
  | ListPfcpAssociations | ListPfcpAssociationsFull
  | ListPfcpSessionsFiltered

type_synonym route = "http_method \<times> segment list \<times> endpoint"

definition initDefaultRoutes :: "segment list \<Rightarrow> route list" where
  "initDefaultRoutes grp =
     [(GET, grp @ [Lit ''xdp_stats''], DisplayXdpStatistics),
      (GET, grp @ [Lit ''packet_stats''], DisplayPacketStats),
      (GET, grp @ [Lit ''route_stats''], DisplayRouteStats)] @
     (let config = grp @ [Lit ''config'']
      in [(GET, config, DisplayConfig), (POST, config, EditConfig)]) @
     (let pdrMap = grp @ [Lit ''uplink_pdr_map'']
      in [(GET, pdrMap @ [Param ''id''], GetUplinkPdrValue), (PUT, pdrMap @ [Param ''id''], SetUplinkPdrValue)]) @
     (let qerMap = grp @ [Lit ''qer_map'']
      in [(GET, qerMap, ListQerMapContent), (GET, qerMap @ [Param ''id''], GetQerValue), (PUT, qerMap @ [Param ''id''], SetQerValue)]) @
     (let farMap = grp @ [Lit ''far_map'']
      in [(GET, farMap @ [Param ''id''], GetFarValue), (PUT, farMap @ [Param ''id''], SetFarValue)]) @
     (let associations = grp @ [Lit ''pfcp_associations'']
      in [(GET, associations, ListPfcpAssociations), (GET, associations @ [Lit ''full''], ListPfcpAssociationsFull)]) @
     (let sessions = grp @ [Lit ''pfcp_sessions'']
      in [(GET, sessions, ListPfcpSessionsFiltered)])"

definition InitRoutes :: "route list" where
  "InitRoutes =
     (let v1 = [Lit ''api'', Lit ''v1'']
      in (GET, v1 @ [Lit ''health''], Health) # initDefaultRoutes v1) @ [(GET, [Lit ''swagger'', Any ''any''], Swagger)]"

text \<open>The metrics that are registered first, and the one route of the second server.\<close>

definition InitMetricsRoute ::
  "('f, 'c) prom \<Rightarrow> (nat \<Rightarrow> 'f) \<Rightarrow> fp_maps \<Rightarrow> ('m, 'b) PfcpConnection \<Rightarrow> (string \<times> 'f res) list \<times> route list" where
  "InitMetricsRoute P int_float64 stats conn = (RegisterMetrics P int_float64 stats conn, [(GET, [Lit ''metrics''], Metrics)])"

section \<open>Requests\<close>

text \<open>
  The state that the handlers work on, and a request: the path parameter, the two query strings, and the body as it
  decodes for each of the types that a handler may ask for.
\<close>

record ('m, 'b, 'l, 'c) ApiHandler =
  LogLevel :: 'l
  PfcpSrv :: "('m, 'b) PfcpConnection"
  StatMaps :: fp_maps
  ForwardPlaneStats :: UpfXdpActionStatistic
  Exported :: "'c metrics"

record request =
  rq_id :: string
  rq_ip :: string
  rq_teid :: string
  rq_conf :: "UpfConfig option"
  rq_pdr :: "PdrElement option"
  rq_qer :: "QerMapElement option"
  rq_far :: "FarMapElement option"

datatype answer =
    Answer_text "string response" | Answer_xdp "XdpStats response res" | Answer_packets "UpfCounters response"
  | Answer_routes "IpEntrypointRouteStat response" | Answer_config "UpfConfig response" | Answer_edit "nat \<times> goerror option"
  | Answer_pdr "PdrElement response" | Answer_qers "QerMapElement list response res" | Answer_qer "QerMapElement response"
  | Answer_far "FarMapElement response" | Answer_associations "(string \<rightharpoonup> NodeAssociationNoSession) response"
  | Answer_full "(string \<rightharpoonup> NodeAssociation) response" | Answer_sessions "Session list response" | Answer_page

text \<open>What the handlers need beside the state: see the components they belong to.\<close>

record ('f, 'c, 'l) api_env =
  ae_range :: node_range
  ae_ParseLevel :: "string \<Rightarrow> 'l option"
  ae_LevelString :: "'l \<Rightarrow> string"
  ae_prom :: "('f, 'c) prom"
  ae_beyond :: sdf_rules

definition on_objects ::
  "(('m, 'b) BpfObjects \<Rightarrow> 'r \<times> ('m, 'b) BpfObjects) \<Rightarrow> ('m, 'b, 'l, 'c) ApiHandler \<Rightarrow> 'r \<times> ('m, 'b, 'l, 'c) ApiHandler" where
  "on_objects f h = (case f (mapOperations (PfcpSrv h)) of
     (r, b) \<Rightarrow> (r, h\<lparr>PfcpSrv := (PfcpSrv h)\<lparr>mapOperations := b\<rparr>\<rparr>))"

fun serve ::
  "('ie, 'm, 'b, 'z) upf_env_scheme \<Rightarrow> ('f, 'c, 'l) api_env \<Rightarrow> endpoint \<Rightarrow> request \<Rightarrow> ('m, 'b, 'l, 'c) ApiHandler \<Rightarrow>
     answer \<times> ('m, 'b, 'l, 'c) ApiHandler" where
  "serve E A Health rq h = (Answer_text [(StatusOK, Body ''OK'')], h)"
| "serve E A Swagger rq h = (Answer_page, h)"
| "serve E A Metrics rq h = (Answer_page, h\<lparr>Exported := GatherMetrics (ae_prom A) (StatMaps h) (ForwardPlaneStats h) (Exported h)\<rparr>)"
| "serve E A DisplayXdpStatistics rq h = (Answer_xdp (displayXdpStatistics (StatMaps h)), h)"
| "serve E A DisplayPacketStats rq h = (Answer_packets (displayPacketStats (StatMaps h)), h)"
| "serve E A DisplayRouteStats rq h = (Answer_routes (displayRouteStats (StatMaps h)), h)"
| "serve E A DisplayConfig rq h = (Answer_config (displayConfig (Conf (PfcpSrv h))), h)"
| "serve E A EditConfig rq h =
     (case editConfig (ae_ParseLevel A) (ae_LevelString A) (rq_conf rq) (LogLevel h, Conf (PfcpSrv h)) of
        (r, level, conf) \<Rightarrow> (Answer_edit r, h\<lparr>LogLevel := level, PfcpSrv := (PfcpSrv h)\<lparr>Conf := conf\<rparr>\<rparr>))"
| "serve E A GetUplinkPdrValue rq h = (Answer_pdr (getUplinkPdrValue E (rq_id rq) (mapOperations (PfcpSrv h))), h)"
| "serve E A SetUplinkPdrValue rq h = apfst Answer_pdr (on_objects (setUplinkPdrValue E (ae_beyond A) (rq_pdr rq)) h)"
| "serve E A ListQerMapContent rq h = (Answer_qers (listQerMapContent E (mapOperations (PfcpSrv h))), h)"
| "serve E A GetQerValue rq h = (Answer_qer (getQerValue E (rq_id rq) (mapOperations (PfcpSrv h))), h)"
| "serve E A SetQerValue rq h = apfst Answer_qer (on_objects (setQerValue E (rq_qer rq)) h)"
| "serve E A GetFarValue rq h = (Answer_far (getFarValue E (rq_id rq) (mapOperations (PfcpSrv h))), h)"
| "serve E A SetFarValue rq h = apfst Answer_far (on_objects (setFarValue E (rq_far rq)) h)"
| "serve E A ListPfcpAssociations rq h = (Answer_associations (listPfcpAssociations (ae_range A) (PfcpSrv h)), h)"
| "serve E A ListPfcpAssociationsFull rq h = (Answer_full (listPfcpAssociationsFull (PfcpSrv h)), h)"
| "serve E A ListPfcpSessionsFiltered rq h =
     (Answer_sessions (listPfcpSessionsFiltered E (ae_range A) (rq_ip rq) (rq_teid rq) (PfcpSrv h)), h)"

section \<open>Lemmas\<close>

lemma routes_distinct: "distinct (map (\<lambda>(m, p, _). (m, p)) InitRoutes)"
  by code_simp

text \<open>The state of sessions and pools: all of the connection but the configuration and the rule maps.\<close>

definition same_sessions :: "('m, 'b) PfcpConnection \<Rightarrow> ('m, 'b) PfcpConnection \<Rightarrow> bool" where
  "same_sessions c c' \<longleftrightarrow> NodeAssociations c' = NodeAssociations c \<and> conn_ResourceManager c' = conn_ResourceManager c \<and>
     farIdTracker (mapOperations c') = farIdTracker (mapOperations c) \<and> qerIdTracker (mapOperations c') = qerIdTracker (mapOperations c) \<and>
     urrIdTracker (mapOperations c') = urrIdTracker (mapOperations c) \<and> UrrMap (mapOperations c') = UrrMap (mapOperations c) \<and>
     PdrMapDownlinkIp4 (mapOperations c') = PdrMapDownlinkIp4 (mapOperations c) \<and>
     PdrMapDownlinkIp6 (mapOperations c') = PdrMapDownlinkIp6 (mapOperations c)"

lemma set_same:
  "same_sessions c (c\<lparr>mapOperations := snd (setFarValue E x (mapOperations c))\<rparr>)"
  "same_sessions c (c\<lparr>mapOperations := snd (setQerValue E y (mapOperations c))\<rparr>)"
  "same_sessions c (c\<lparr>mapOperations := snd (setUplinkPdrValue E r z (mapOperations c))\<rparr>)"
  by (simp_all add: same_sessions_def setFarValue_def setQerValue_def setUplinkPdrValue_def Let_def split: option.split prod.split)

lemma serve_same: "same_sessions (PfcpSrv h) (PfcpSrv (snd (serve E A e rq h)))"
  by (cases e) (simp_all add: on_objects_def case_prod_unfold apfst_def map_prod_def set_same, simp_all add: same_sessions_def)

lemma get_endpoints:
  "(GET, p, e) \<in> set InitRoutes \<Longrightarrow> e \<notin> {Metrics, EditConfig, SetUplinkPdrValue, SetQerValue, SetFarValue}"
  by (auto simp: InitRoutes_def initDefaultRoutes_def Let_def)

section \<open>Properties\<close>

text \<open>
  C35. No request to the REST interface changes an association, a session, a pool or a rule table's identifiers, or
  the downlink PDRs and the URRs; and a request with method GET changes nothing at all.
\<close>

theorem rest_requests_frame:
  assumes "(m, p, e) \<in> set InitRoutes" "serve E A e rq h = (r, h')"
  shows "same_sessions (PfcpSrv h) (PfcpSrv h') \<and> (m = GET \<longrightarrow> h' = h)"
proof
  show "same_sessions (PfcpSrv h) (PfcpSrv h')" using serve_same [of h E A e rq] assms(2) by simp
  show "m = GET \<longrightarrow> h' = h"
  proof
    assume "m = GET"
    with assms(1) have "e \<notin> {Metrics, EditConfig, SetUplinkPdrValue, SetQerValue, SetFarValue}" using get_endpoints by blast
    then show "h' = h" using assms(2) by (cases e) auto
  qed
qed

text \<open>A FAR written by a request while two sessions exist.\<close>

definition sim_api_env :: "(nat, nat, string) api_env" where
  "sim_api_env = \<lparr>ae_range = ascending, ae_ParseLevel = Some, ae_LevelString = (\<lambda>l. l),
     ae_prom = \<lparr>float64 = unat, Counter_Add = (+)\<rparr>, ae_beyond = zero_sdf_rules\<rparr>"

definition sim_api :: "(kmap, u32 list, string, nat) ApiHandler" where
  "sim_api = \<lparr>LogLevel = ''info'', PfcpSrv = sim_c3, StatMaps = \<lparr>UpfExtStat = None, UpfRouteStat = None\<rparr>,
     ForwardPlaneStats = \<lparr>upfCountersPrevious = zero_UpfCounters, upfRoutePrevious = zero_RouteStat\<rparr>,
     Exported = \<lparr>UpfRx = (\<lambda>_. 0), UpfRoute = (\<lambda>_. 0)\<rparr>\<rparr>"

definition sim_put_far :: request where
  "sim_put_far = \<lparr>rq_id = ''0'', rq_ip = [], rq_teid = [], rq_conf = None, rq_pdr = None, rq_qer = None,
     rq_far = Some \<lparr>fe_Id = 0, fe_Action = 1, fe_OuterHeaderCreation = 0, fe_Teid = 0, fe_RemoteIP = 0, fe_TransportLevelMarking = 0\<rparr>\<rparr>"

theorem rest_requests_frame_witness:
  "NodeAssociations (PfcpSrv (snd (serve sim_upf_env sim_api_env SetFarValue sim_put_far sim_api))) = NodeAssociations sim_c3"
proof -
  have r: "(PUT, [Lit ''api'', Lit ''v1'', Lit ''far_map'', Param ''id''], SetFarValue) \<in> set InitRoutes"
    by (simp add: InitRoutes_def initDefaultRoutes_def Let_def)
  have "serve sim_upf_env sim_api_env SetFarValue sim_put_far sim_api =
      (fst (serve sim_upf_env sim_api_env SetFarValue sim_put_far sim_api), snd (serve sim_upf_env sim_api_env SetFarValue sim_put_far sim_api))"
    by (simp only: prod.collapse)
  from rest_requests_frame [OF r this] show ?thesis by (simp only: same_sessions_def) (simp add: sim_api_def)
qed

end
