(* ===== verification/Gtp_Path.thy ===== *)
theory Gtp_Path
  imports Upf_Prelude "HOL-Library.List_Lexorder" "HOL-Library.Char_ord"
begin

text \<open>
  The GTP path manager (\<open>cmd/core/gtp_path_manager.go\<close>): at each tick an echo request goes
  to every peer, with the next sequence number of that peer.

  Encoding and decoding of GTP headers, address resolution and sockets are libraries and the
  network: fields of \<open>gtp_net\<close>. A tick has its own environment, because the network answers
  differently every time; inside a tick each peer is asked once. The goroutine, its ticker and the
  context that stops it are the sequence of ticks \<open>run_ticks\<close>.
\<close>

section \<open>Data\<close>

record GTPv1U =
  gtp_Version :: u8
  gtp_MessageType :: u8
  gtp_MessageLength :: u16
  gtp_TEID :: u32
  gtp_SequenceNumberFlag :: bool
  gtp_SequenceNumber :: u16

record gtp_net =
  SerializeLayers :: "GTPv1U \<Rightarrow> bytes option"
  gtp_ResolveUDPAddr :: "string \<Rightarrow> bool"
  DialUDP :: "string \<Rightarrow> string \<Rightarrow> bool"
  Conn_Write :: "string \<Rightarrow> bytes \<Rightarrow> bool"
  Conn_Read :: "string \<Rightarrow> bytes \<Rightarrow> bytes option"
  NewPacket :: "bytes \<Rightarrow> GTPv1U option"
  rangePeers :: "(string \<rightharpoonup> u16) \<Rightarrow> (string \<times> u16) list"

record GtpPathManager =
  localAddress :: string
  peers :: "string \<rightharpoonup> u16"

section \<open>Operations\<close>

definition NewGtpPathManager :: "string \<Rightarrow> GtpPathManager" where
  "NewGtpPathManager addr = \<lparr>localAddress = addr, peers = Map.empty\<rparr>"

definition AddGtpPath :: "string \<Rightarrow> GtpPathManager \<Rightarrow> GtpPathManager" where
  "AddGtpPath gtpPeerAddress g = g\<lparr>peers := (peers g)(gtpPeerAddress \<mapsto> 0)\<rparr>"

definition echo_request :: "u16 \<Rightarrow> GTPv1U" where
  "echo_request s = \<lparr>gtp_Version = 1, gtp_MessageType = 1, gtp_MessageLength = 4, gtp_TEID = 0,
     gtp_SequenceNumberFlag = True, gtp_SequenceNumber = s\<rparr>"

text \<open>The elapsed time that the code returns is only logged.\<close>

definition sendEcho :: "gtp_net \<Rightarrow> string \<Rightarrow> u16 \<Rightarrow> GtpPathManager \<Rightarrow> unit res" where
  "sendEcho N gtpPeerAddress s g =
     (case SerializeLayers N (echo_request s) of
        None \<Rightarrow> Err (ErrText ''serializing input packet failed'')
      | Some request \<Rightarrow>
          if \<not> gtp_ResolveUDPAddr N (localAddress g) then Err (ErrText ''can't resolve local UDP address'')
          else if \<not> gtp_ResolveUDPAddr N gtpPeerAddress then Err (ErrText ''can't resolve remote UDP address'')
          else if \<not> DialUDP N (localAddress g) gtpPeerAddress then Err (ErrText ''can't create UDP connection'')
          else if \<not> Conn_Write N gtpPeerAddress request then Err (ErrText ''can't send echo request'')
          else (case Conn_Read N gtpPeerAddress request of
              None \<Rightarrow> Err (ErrText ''can't read echo response'')
            | Some response \<Rightarrow>
                (case NewPacket N response of
                   None \<Rightarrow> Err (ErrText ''unexpected gtp echo response'')
                 | Some gtp \<Rightarrow>
                     if gtp_MessageType gtp \<noteq> 2 then Err (ErrText ''unexpected gtp echo response'')
                     else if gtp_TEID gtp \<noteq> 0 then Err (ErrText ''unexpected gtp echo response TEID'')
                     else Val ())))"

definition check_peer :: "gtp_net \<Rightarrow> string \<times> u16 \<Rightarrow> GtpPathManager \<Rightarrow> GtpPathManager" where
  "check_peer N = (\<lambda>(peer, sequenceNumber) g.
     case sendEcho N peer sequenceNumber g of
       Val _ \<Rightarrow> g\<lparr>peers := (peers g)(peer \<mapsto> sequenceNumber + 1)\<rparr>
     | _ \<Rightarrow> g)"

definition tick :: "gtp_net \<Rightarrow> GtpPathManager \<Rightarrow> GtpPathManager" where
  "tick N g = fold (check_peer N) (rangePeers N (peers g)) g"

definition run_ticks :: "gtp_net list \<Rightarrow> GtpPathManager \<Rightarrow> GtpPathManager" where
  "run_ticks Ns g = fold tick Ns g"

section \<open>Lemmas\<close>

definition peers_ok :: "gtp_net \<Rightarrow> bool" where
  "peers_ok N \<longleftrightarrow> (\<forall>m. finite (dom m) \<longrightarrow> enumerates (rangePeers N m) m)"

lemma sendEcho_local: "localAddress g = localAddress h \<Longrightarrow> sendEcho N p s g = sendEcho N p s h"
  by (cases "SerializeLayers N (echo_request s)") (simp_all add: sendEcho_def)

lemma check_peer_local [simp]: "localAddress (check_peer N x g) = localAddress g"
  by (simp add: check_peer_def split: prod.split res.split)

lemma fold_check_peer_local [simp]: "localAddress (fold (check_peer N) xs g) = localAddress g"
  by (induction xs arbitrary: g) simp_all

lemma fold_check_peer:
  assumes "distinct (map fst xs)"
  shows "peers (fold (check_peer N) xs g) p = (case map_of xs p of
       None \<Rightarrow> peers g p
     | Some n \<Rightarrow> if sendEcho N p n g = Val () then Some (n + 1) else peers g p)"
  using assms
proof (induction xs arbitrary: g)
  case (Cons x xs)
  obtain q n where x: "x = (q, n)" by fastforce
  have fresh: "map_of xs q = None" using Cons.prems by (simp add: x map_of_eq_None_iff)
  have e: "sendEcho N p' n' (check_peer N x g) = sendEcho N p' n' g" for p' n'
    by (rule sendEcho_local) simp
  have "peers (check_peer N x g) p = (if p = q \<and> sendEcho N q n g = Val () then Some (n + 1) else peers g p)"
    by (auto simp: check_peer_def x split: res.split)
  with Cons.IH [of "check_peer N x g"] Cons.prems fresh e show ?case by (auto simp: x split: option.split)
qed simp

lemma tick_effect:
  assumes "peers_ok N" and "finite (dom (peers g))"
  shows "localAddress (tick N g) = localAddress g" and "dom (peers (tick N g)) = dom (peers g)"
    and "peers g p = Some n \<Longrightarrow> peers (tick N g) p = Some (if sendEcho N p n g = Val () then n + 1 else n)"
proof -
  have en: "enumerates (rangePeers N (peers g)) (peers g)" using assms by (simp add: peers_ok_def)
  then have d: "distinct (map fst (rangePeers N (peers g)))" and m: "map_of (rangePeers N (peers g)) = peers g"
    by (simp_all add: enumerates_def)
  note f = fold_check_peer [OF d, of N g, unfolded m, folded tick_def]
  show "localAddress (tick N g) = localAddress g" by (simp add: tick_def)
  show "peers g p = Some n \<Longrightarrow> peers (tick N g) p = Some (if sendEcho N p n g = Val () then n + 1 else n)" by (simp add: f)
  show "dom (peers (tick N g)) = dom (peers g)"
    by (auto simp: dom_def f split: option.splits if_splits)
qed

text \<open>How many of the ticks got a good answer from a peer.\<close>

primrec echoes :: "gtp_net list \<Rightarrow> string \<Rightarrow> GtpPathManager \<Rightarrow> nat" where
  "echoes [] p g = 0"
| "echoes (N # Ns) p g =
     (if sendEcho N p (the (peers g p)) g = Val () then 1 else 0) + echoes Ns p (tick N g)"

section \<open>Properties\<close>

text \<open>
  The sequence number of a path counts the good answers, modulo \<open>2^16\<close>: whatever other
  peers do and in whichever order they are visited, after any number of ticks it is the first
  one plus the number of ticks in which the peer answered.
\<close>

theorem echo_sequence_counts_answers:
  assumes "\<forall>N \<in> set Ns. peers_ok N" and "finite (dom (peers g))" and "peers g p = Some n"
  shows "peers (run_ticks Ns g) p = Some (n + of_nat (echoes Ns p g)) \<and> dom (peers (run_ticks Ns g)) = dom (peers g)"
  using assms
proof (induction Ns arbitrary: g n)
  case (Cons N Ns)
  have ok: "peers_ok N" using Cons.prems(1) by simp
  note t = tick_effect [OF ok Cons.prems(2)]
  let ?n = "if sendEcho N p n g = Val () then n + 1 else n"
  have "peers (run_ticks Ns (tick N g)) p = Some (?n + of_nat (echoes Ns p (tick N g))) \<and>
      dom (peers (run_ticks Ns (tick N g))) = dom (peers (tick N g))"
    by (rule Cons.IH) (use Cons.prems t in simp_all)
  then show ?case using t(2) Cons.prems(3) by (simp add: run_ticks_def add.commute add.left_commute)
qed (simp add: run_ticks_def)

definition sim_net :: "bool \<Rightarrow> gtp_net" where
  "sim_net up = \<lparr>SerializeLayers = (\<lambda>_. Some [50, 1]), gtp_ResolveUDPAddr = (\<lambda>_. True), DialUDP = (\<lambda>_ _. True),
     Conn_Write = (\<lambda>_ _. True), Conn_Read = (\<lambda>_ _. if up then Some [50, 2] else None),
     NewPacket = (\<lambda>_. Some \<lparr>gtp_Version = 1, gtp_MessageType = 2, gtp_MessageLength = 4, gtp_TEID = 0,
        gtp_SequenceNumberFlag = True, gtp_SequenceNumber = 77\<rparr>),
     rangePeers = ascending\<rparr>"

theorem echo_sequence_counts_answers_witness:
  "peers (run_ticks [sim_net True, sim_net False, sim_net True] \<lparr>localAddress = '':2152'', peers = [''peer'' \<mapsto> 65535]\<rparr>) ''peer'' = Some 1"
proof -
  have ok: "peers_ok (sim_net up)" for up by (simp add: peers_ok_def sim_net_def enumerates_ascending)
  let ?g = "\<lparr>localAddress = '':2152'', peers = [''peer'' \<mapsto> 65535]\<rparr>"
  have e: "sendEcho (sim_net up) p n g = Val () \<longleftrightarrow> up" for up p n g by (simp add: sendEcho_def sim_net_def)
  have "echoes [sim_net True, sim_net False, sim_net True] ''peer'' ?g = 2" by (simp add: e)
  with echo_sequence_counts_answers [of "[sim_net True, sim_net False, sim_net True]" ?g "''peer''" 65535] ok show ?thesis by (simp add: e)
qed

text \<open>
  The sequence number of the answer is not compared with that of the request: here the peer
  answers with 77 whatever it was asked.
\<close>

lemma echo_answer_sequence_ignored:
  "sendEcho (N\<lparr>NewPacket := \<lambda>b. map_option (gtp_SequenceNumber_update f) (NewPacket N b)\<rparr>) p s g = sendEcho N p s g"
  by (simp add: sendEcho_def split: option.split)

end
