(* ===== verification/Startup.thy ===== *)
theory Startup
  imports Heartbeat Gtp_Path
begin

text \<open>
  Starting the program: loading the forwarding plane with the configured sizes of its maps
  (\<open>cmd/ebpf/objects.go\<close>), \<open>Init\<close> of \<open>cmd/config/startup.go\<close>, and the part of \<open>cmd/main.go\<close>
  that builds the components from each other.

  The BPF library is a record of parameters (\<open>loader\<close>); \<open>loader_ok\<close> has what its documentation
  says of the calls used. The operating system (limits, interfaces, sockets) is the record
  \<open>host\<close>. A call of \<open>log.Fatal\<close> ends the program; it is an error of the model.
\<close>

section \<open>Maps of the forwarding plane\<close>

record MapSpec =
  ms_Name :: string
  ms_Type :: nat
  ms_KeySize :: u32
  ms_ValueSize :: u32
  ms_MaxEntries :: u32
  ms_Flags :: u32

record 'm loader =
  MkdirAll :: "string \<Rightarrow> bool"
  LoadIpEntrypoint :: "(string \<rightharpoonup> MapSpec) option"
  NewMap :: "MapSpec \<Rightarrow> 'm option"
  LoadAndAssign :: "(string \<rightharpoonup> MapSpec) \<Rightarrow> (string \<rightharpoonup> 'm) \<Rightarrow> (string \<Rightarrow> 'm) option"
  rangeMapSizes :: "(string \<rightharpoonup> u32) \<Rightarrow> (string \<times> u32) list"
  Map_Info :: "'m \<Rightarrow> MapSpec option"
  Map_Unpin :: "'m \<Rightarrow> bool"
  Map_Close :: "'m \<Rightarrow> bool"
  BindMap :: "'m \<Rightarrow> bool"
  nil_Map :: 'm

record BpfMapSizes =
  qerMapSize :: u32
  farMapSize :: u32
  pdrMapSize :: u32
  urrMapSize :: u32

definition NewBpfObjects :: BpfMapSizes where
  "NewBpfObjects = \<lparr>qerMapSize = 1024, farMapSize = 1024, pdrMapSize = 1024, urrMapSize = 1024\<rparr>"

definition SetPdrMapSize :: "u32 \<Rightarrow> BpfMapSizes \<Rightarrow> BpfMapSizes" where
  "SetPdrMapSize n b = b\<lparr>pdrMapSize := n\<rparr>"

definition SetFarMapSize :: "u32 \<Rightarrow> BpfMapSizes \<Rightarrow> BpfMapSizes" where
  "SetFarMapSize n b = b\<lparr>farMapSize := n\<rparr>"

definition SetQerMapSize :: "u32 \<Rightarrow> BpfMapSizes \<Rightarrow> BpfMapSizes" where
  "SetQerMapSize n b = b\<lparr>qerMapSize := n\<rparr>"

definition SetUrrMapSize :: "u32 \<Rightarrow> BpfMapSizes \<Rightarrow> BpfMapSizes" where
  "SetUrrMapSize n b = b\<lparr>urrMapSize := n\<rparr>"

definition desiredMapSizes :: "BpfMapSizes \<Rightarrow> string \<rightharpoonup> u32" where
  "desiredMapSizes b =
     [''qer_map'' \<mapsto> qerMapSize b, ''far_map'' \<mapsto> farMapSize b, ''pdr_map_downlink_ip4'' \<mapsto> pdrMapSize b,
      ''pdr_map_downlink_ip6'' \<mapsto> pdrMapSize b, ''pdr_map_teid_ip4'' \<mapsto> pdrMapSize b, ''urr_map'' \<mapsto> urrMapSize b]"

text \<open>One round of the loop over the sizes: a map that the specification lacks is passed over.\<close>

definition make_map ::
  "'m loader \<Rightarrow> string \<times> u32 \<Rightarrow> ((string \<rightharpoonup> MapSpec) \<times> (string \<rightharpoonup> 'm), unit) op" where
  "make_map L = (\<lambda>(mapName, sz) (spec, replacements).
     case spec mapName of
       None \<Rightarrow> (Val (), (spec, replacements))
     | Some specMap \<Rightarrow>
         (let specMap = specMap\<lparr>ms_MaxEntries := sz\<rparr>;
              spec = spec(mapName \<mapsto> specMap)
          in case NewMap L specMap of
               None \<Rightarrow> (Err ErrLibrary, (spec, replacements))
             | Some m \<Rightarrow> (Val (), (spec, replacements(mapName \<mapsto> m)))))"

definition Load ::
  "('m, 'b, 'z) bpf_env_scheme \<Rightarrow> 'm loader \<Rightarrow> BpfMapSizes \<Rightarrow> (('m, 'b) BpfObjects, unit) op" where
  "Load E L sizes b =
     (if \<not> MkdirAll L ''/sys/fs/bpf/upf_pipeline'' then (Err ErrLibrary, b)
      else (case LoadIpEntrypoint L of
          None \<Rightarrow> (Err ErrLibrary, b)
        | Some spec \<Rightarrow>
            (case for_range (make_map L) (rangeMapSizes L (desiredMapSizes sizes)) (spec, Map.empty) of
               (Panic p, _) \<Rightarrow> (Panic p, b)
             | (Err e, _) \<Rightarrow> (Err e, b)
             | (Val _, (spec, replacements)) \<Rightarrow>
                 (case LoadAndAssign L spec replacements of
                    None \<Rightarrow> (Err ErrLibrary, b)
                  | Some objs \<Rightarrow>
                      Load_trackers E (b\<lparr>FarMap := objs ''far_map'', QerMap := objs ''qer_map'', UrrMap := objs ''urr_map'',
                        PdrMapTeidIp4 := objs ''pdr_map_teid_ip4'', PdrMapDownlinkIp4 := objs ''pdr_map_downlink_ip4'',
                        PdrMapDownlinkIp6 := objs ''pdr_map_downlink_ip6''\<rparr>)))))"

text \<open>Loops that end at the first error.\<close>

definition LoadAllObjects :: "('s, unit) op list \<Rightarrow> ('s, unit) op" where
  "LoadAllObjects loaders = for_range (\<lambda>loader. loader) loaders"

definition CloseAllObjects :: "('s, unit) op list \<Rightarrow> ('s, unit) op" where
  "CloseAllObjects closers = for_range (\<lambda>closer. closer) closers"

text \<open>The new map replaces the old one even when it could not be made: then it is the nil map.\<close>

definition ResizeEbpfMap :: "'m loader \<Rightarrow> u32 \<Rightarrow> ('m, unit) op" where
  "ResizeEbpfMap L newSize eMap =
     (case Map_Info L eMap of
        None \<Rightarrow> (Err ErrLibrary, eMap)
      | Some mapInfo \<Rightarrow>
          (let mapSpec = mapInfo\<lparr>ms_MaxEntries := newSize\<rparr>
           in if \<not> Map_Unpin L eMap then (Err ErrLibrary, eMap)
              else if \<not> Map_Close L eMap then (Err ErrLibrary, eMap)
              else (case NewMap L mapSpec of
                  None \<Rightarrow> (Err ErrLibrary, nil_Map L)
                | Some m \<Rightarrow> (if BindMap L m then Val () else Err ErrLibrary, m))))"

definition on_map ::
  "(('m, 'b) BpfObjects \<Rightarrow> 'm) \<Rightarrow> ('m \<Rightarrow> ('m, 'b) BpfObjects \<Rightarrow> ('m, 'b) BpfObjects) \<Rightarrow> ('m, unit) op \<Rightarrow> (('m, 'b) BpfObjects, unit) op" where
  "on_map get put f b = (case f (get b) of (r, m) \<Rightarrow> (r, put m b))"

definition ResizeAllMaps :: "'m loader \<Rightarrow> u32 \<Rightarrow> u32 \<Rightarrow> u32 \<Rightarrow> u32 \<Rightarrow> (('m, 'b) BpfObjects, unit) op" where
  "ResizeAllMaps L qerSize farSize pdrSize urrSize =
     seq_ops
       [on_map QerMap (\<lambda>m b. b\<lparr>QerMap := m\<rparr>) (ResizeEbpfMap L qerSize),
        on_map FarMap (\<lambda>m b. b\<lparr>FarMap := m\<rparr>) (ResizeEbpfMap L farSize),
        on_map PdrMapDownlinkIp4 (\<lambda>m b. b\<lparr>PdrMapDownlinkIp4 := m\<rparr>) (ResizeEbpfMap L pdrSize),
        on_map PdrMapDownlinkIp6 (\<lambda>m b. b\<lparr>PdrMapDownlinkIp6 := m\<rparr>) (ResizeEbpfMap L pdrSize),
        on_map PdrMapTeidIp4 (\<lambda>m b. b\<lparr>PdrMapTeidIp4 := m\<rparr>) (ResizeEbpfMap L pdrSize),
        on_map UrrMap (\<lambda>m b. b\<lparr>UrrMap := m\<rparr>) (ResizeEbpfMap L urrSize)]"

section \<open>The program\<close>

datatype XDPAttachFlags = XDPGenericMode | XDPDriverMode | XDPOffloadMode

definition StringToXDPAttachMode :: "string \<Rightarrow> XDPAttachFlags" where
  "StringToXDPAttachMode Mode =
     (if Mode = ''generic'' then XDPGenericMode
      else if Mode = ''native'' then XDPDriverMode
      else if Mode = ''offload'' then XDPOffloadMode
      else XDPGenericMode)"

record 'l host =
  validator_Struct :: "UpfConfig \<Rightarrow> bool"
  zerolog_ParseLevel :: "string \<Rightarrow> 'l option"
  Level_String :: "'l \<Rightarrow> string"
  GlobalLevel :: 'l
  IncreaseResourceLimits :: bool
  GlobalConfig_Set :: "u32 \<Rightarrow> u32 \<Rightarrow> bool"
  InterfaceByName :: "string \<Rightarrow> bool"
  AttachXDP :: "string \<Rightarrow> XDPAttachFlags \<Rightarrow> bool"
  ListenUDP :: "string \<Rightarrow> IP option"
  host_Now :: Time

definition Init :: "'l host \<Rightarrow> (UpfConfig, unit) op" where
  "Init H conf = Validate (validator_Struct H) conf"

definition configured_sizes :: "UpfConfig \<Rightarrow> BpfMapSizes" where
  "configured_sizes conf =
     (let b = NewBpfObjects;
          b = SetPdrMapSize (PdrMapSize conf) b;
          b = SetFarMapSize (FarMapSize conf) b;
          b = SetQerMapSize (QerMapSize conf) b
      in SetUrrMapSize (UrrMapSize conf) b)"

definition attach_all :: "'l host \<Rightarrow> UpfConfig \<Rightarrow> unit res" where
  "attach_all H conf =
     foldr (\<lambda>ifaceName r.
        if \<not> InterfaceByName H ifaceName then Err ErrLibrary
        else if \<not> AttachXDP H ifaceName (StringToXDPAttachMode (XDPAttachMode conf)) then Err ErrLibrary
        else r) (InterfaceName conf) (Val ())"

text \<open>
  \<open>main\<close> until everything is built; \<^term>\<open>None\<close> when it never gets there. A resource manager
  that could not be made is only logged: the connection then has none.
\<close>

definition start_components ::
  "('ie, 'm, 'b, 'z) upf_env_scheme \<Rightarrow> 'l host \<Rightarrow> UpfConfig \<Rightarrow> ('m, 'b) BpfObjects \<Rightarrow> (('m, 'b) PfcpConnection \<times> GtpPathManager) res option" where
  "start_components E H conf bpfObjects =
     map_option (\<lambda>r.
        let resourceManager = (case r of Val rm \<Rightarrow> Some rm | _ \<Rightarrow> None)
        in case ListenUDP H (PfcpAddress conf) of
             None \<Rightarrow> Err ErrLibrary
           | Some addrV4 \<Rightarrow>
               bind_res (NewPfcpConnection conf addrV4 (host_Now H) (PfcpNodeId conf) (N3Address conf) (N9Address conf)
                  bpfObjects resourceManager) (\<lambda>pfcpConn.
                 Val (SetRemoteNodes (PfcpRemoteNode conf) pfcpConn,
                      fold AddGtpPath (GtpPeer conf) (NewGtpPathManager (N3Address conf @ '':2152'')))))
       (NewResourceManager E (UEIPPool conf) (FTEIDPool conf))"

definition main ::
  "('ie, 'm, 'b, 'z) upf_env_scheme \<Rightarrow> 'm loader \<Rightarrow> 'l host \<Rightarrow> UpfConfig \<Rightarrow> ('m, 'b) BpfObjects \<Rightarrow>
   (('m, 'b) PfcpConnection \<times> GtpPathManager) res option" where
  "main E L H conf b =
     (case Init H conf of
        (Panic p, _) \<Rightarrow> Some (Panic p)
      | (Err e, _) \<Rightarrow> Some (Err e)
      | (Val _, conf) \<Rightarrow>
          (let conf = snd (snd (SetLoggerLevel (zerolog_ParseLevel H) (Level_String H) (LoggingLevel conf) (GlobalLevel H, conf)))
           in if \<not> IncreaseResourceLimits H then Some (Err ErrLibrary)
              else case Load E L (configured_sizes conf) b of
                  (Panic p, _) \<Rightarrow> Some (Panic p)
                | (Err e, _) \<Rightarrow> Some (Err e)
                | (Val _, b) \<Rightarrow>
                    (case bind_res (LittleEndian_Uint32 (To4 (ParseIP (N3Address conf)))) (\<lambda>n3.
                          bind_res (LittleEndian_Uint32 (To4 (ParseIP (N9Address conf)))) (\<lambda>n9.
                            if GlobalConfig_Set H n3 n9 then attach_all H conf else Err ErrLibrary)) of
                       Panic p \<Rightarrow> Some (Panic p)
                     | Err e \<Rightarrow> Some (Err e)
                     | Val _ \<Rightarrow> start_components E H conf b)))"

section \<open>What is loaded\<close>

definition loader_ok :: "('m, 'b, 'z) bpf_env_scheme \<Rightarrow> 'm loader \<Rightarrow> bool" where
  "loader_ok E L \<longleftrightarrow>
     (\<forall>m. finite (dom m) \<longrightarrow> enumerates (rangeMapSizes L m) m) \<and>
     (\<forall>sp m. NewMap L sp = Some m \<longrightarrow> Map_MaxEntries E m = Some (ms_MaxEntries sp) \<and> Map_isArray E m = (ms_Type sp = 2)) \<and>
     (\<forall>spec r objs n m. LoadAndAssign L spec r = Some objs \<longrightarrow> r n = Some m \<longrightarrow> objs n = m)"

text \<open>The FAR, QER and URR maps of the XDP program are arrays (\<open>BPF_MAP_TYPE_ARRAY\<close> is 2).\<close>

definition spec_ok :: "'m loader \<Rightarrow> bool" where
  "spec_ok L \<longleftrightarrow> (\<forall>spec. LoadIpEntrypoint L = Some spec \<longrightarrow>
     (\<forall>n \<in> {''far_map'', ''qer_map'', ''urr_map''}. \<exists>sp. spec n = Some sp \<and> ms_Type sp = 2))"

lemma make_maps_other:
  assumes "for_range (make_map L) xs (spec, r) = (Val (), (spec', r'))" and "n \<notin> fst ` set xs"
  shows "r' n = r n"
  using assms
proof (induction xs arbitrary: spec r)
  case (Cons x xs)
  obtain s1 r1 where one: "make_map L x (spec, r) = (Val (), (s1, r1))" "for_range (make_map L) xs (s1, r1) = (Val (), (spec', r'))"
    using Cons.prems(1) by (auto simp: bind_op_eq_Val)
  have "r1 n = r n" using one(1) Cons.prems(2) by (auto simp: make_map_def Let_def split: option.splits prod.splits)
  with Cons.IH [OF one(2)] Cons.prems(2) show ?case by simp
qed simp

lemma make_maps:
  assumes "for_range (make_map L) xs (spec, r) = (Val (), (spec', r'))" and "distinct (map fst xs)"
    and "(n, sz) \<in> set xs" and "spec n = Some sp"
  shows "\<exists>m. NewMap L (sp\<lparr>ms_MaxEntries := sz\<rparr>) = Some m \<and> r' n = Some m"
  using assms
proof (induction xs arbitrary: spec r)
  case (Cons x xs)
  obtain k z where x: "x = (k, z)" by fastforce
  obtain s1 r1 where one: "make_map L x (spec, r) = (Val (), (s1, r1))" "for_range (make_map L) xs (s1, r1) = (Val (), (spec', r'))"
    using Cons.prems(1) by (auto simp: bind_op_eq_Val)
  show ?case
  proof (cases "k = n")
    case True
    then have "z = sz" using Cons.prems(2,3) by (auto simp: x rev_image_eqI)
    with True one(1) Cons.prems(4) obtain m where "NewMap L (sp\<lparr>ms_MaxEntries := sz\<rparr>) = Some m" "r1 n = Some m"
      by (auto simp: make_map_def x Let_def split: option.splits)
    moreover have "n \<notin> fst ` set xs" using Cons.prems(2) True by (simp add: x)
    ultimately show ?thesis using make_maps_other [OF one(2)] by simp
  next
    case False
    then have "s1 n = Some sp" using one(1) Cons.prems(4) by (auto simp: make_map_def x Let_def split: option.splits)
    moreover have "(n, sz) \<in> set xs" using Cons.prems(3) False by (auto simp: x)
    ultimately show ?thesis using Cons.IH [OF one(2)] Cons.prems(2) by simp
  qed
qed simp

lemma spec_okD: "spec_ok L \<Longrightarrow> LoadIpEntrypoint L = Some spec \<Longrightarrow> n \<in> {''far_map'', ''qer_map'', ''urr_map''} \<Longrightarrow>
   \<exists>sp. spec n = Some sp \<and> ms_Type sp = 2"
  unfolding spec_ok_def by auto

lemma loader_okD:
  assumes "loader_ok E L"
  shows "finite (dom s) \<Longrightarrow> enumerates (rangeMapSizes L s) s"
    and "NewMap L sp = Some m \<Longrightarrow> Map_MaxEntries E m = Some (ms_MaxEntries sp) \<and> Map_isArray E m = (ms_Type sp = 2)"
    and "LoadAndAssign L spec r = Some objs \<Longrightarrow> r n = Some m \<Longrightarrow> objs n = m"
  using assms by (simp_all add: loader_ok_def)

lemma Load_effect:
  assumes "loader_ok E L" and "spec_ok L" and "bpf_env_ok E" and "Load E L sizes b = (Val (), b')"
  shows "maxSize (farIdTracker b') = farMapSize sizes" "maxSize (qerIdTracker b') = qerMapSize sizes"
    "maxSize (urrIdTracker b') = urrMapSize sizes" "far_ok E b'" "qer_ok E b'" "urr_ok E b'"
    "far_free E b' = {i. i < farMapSize sizes}" "qer_free E b' = {i. i < qerMapSize sizes}" "urr_free E b' = {i. i < urrMapSize sizes}"
proof -
  let ?xs = "rangeMapSizes L (desiredMapSizes sizes)"
  obtain spec spec' r objs where l: "LoadIpEntrypoint L = Some spec" "for_range (make_map L) ?xs (spec, Map.empty) = (Val (), (spec', r))"
    "LoadAndAssign L spec' r = Some objs"
    "Load_trackers E (b\<lparr>FarMap := objs ''far_map'', QerMap := objs ''qer_map'', UrrMap := objs ''urr_map'',
       PdrMapTeidIp4 := objs ''pdr_map_teid_ip4'', PdrMapDownlinkIp4 := objs ''pdr_map_downlink_ip4'',
       PdrMapDownlinkIp6 := objs ''pdr_map_downlink_ip6''\<rparr>) = (Val (), b')"
    using assms(4) by (auto simp: Load_def split: if_splits option.splits prod.splits res.splits)
  have en: "enumerates ?xs (desiredMapSizes sizes)" by (rule loader_okD(1) [OF assms(1)]) (simp add: desiredMapSizes_def)
  have one: "Map_MaxEntries E (objs n) = Some sz \<and> Map_isArray E (objs n)"
    if n: "n \<in> {''far_map'', ''qer_map'', ''urr_map''}" "desiredMapSizes sizes n = Some sz" for n sz
  proof -
    obtain sp where sp: "spec n = Some sp" "ms_Type sp = 2" using spec_okD [OF assms(2) l(1) n(1)] by auto
    have d: "distinct (map fst ?xs)" using en by (simp add: enumerates_def)
    have i: "(n, sz) \<in> set ?xs" using en n(2) by (simp add: enumerates_mem)
    from make_maps [OF l(2) d i sp(1)]
    obtain m where m: "NewMap L (sp\<lparr>ms_MaxEntries := sz\<rparr>) = Some m" "r n = Some m" by blast
    have "objs n = m" by (rule loader_okD(3) [OF assms(1) l(3) m(2)])
    moreover have "Map_MaxEntries E m = Some sz \<and> Map_isArray E m" using loader_okD(2) [OF assms(1) m(1)] sp(2) by simp
    ultimately show ?thesis by simp
  qed
  have a: "Map_MaxEntries E (objs ''far_map'') = Some (farMapSize sizes) \<and> Map_isArray E (objs ''far_map'')"
    "Map_MaxEntries E (objs ''qer_map'') = Some (qerMapSize sizes) \<and> Map_isArray E (objs ''qer_map'')"
    "Map_MaxEntries E (objs ''urr_map'') = Some (urrMapSize sizes) \<and> Map_isArray E (objs ''urr_map'')"
    by (rule one; simp add: desiredMapSizes_def)+
  show m: "maxSize (farIdTracker b') = farMapSize sizes" "maxSize (qerIdTracker b') = qerMapSize sizes"
    "maxSize (urrIdTracker b') = urrMapSize sizes"
    using l(4) a by (auto simp: Load_trackers_def Let_def NewIdTracker_def)
  note t = Load_trackers_ok [OF assms(3) l(4)]
  show "far_ok E b'" "qer_ok E b'" "urr_ok E b'" "far_free E b' = {i. i < farMapSize sizes}" "qer_free E b' = {i. i < qerMapSize sizes}"
    "urr_free E b' = {i. i < urrMapSize sizes}"
    using t a by (simp_all add: m)
qed

lemma AddGtpPath_fold: "peers (fold AddGtpPath ps g) p = (if p \<in> set ps then Some 0 else peers g p)"
  by (induction ps arbitrary: g) (auto simp: AddGtpPath_def)

lemma bind_res_eq_Val: "bind_res r f = Val b \<longleftrightarrow> (\<exists>a. r = Val a \<and> f a = Val b)"
  by (cases r) auto

lemma main_returns:
  assumes "main E L H conf b = Some (Val (c, g))"
  obtains conf1 conf2 b' addrV4 rm c0 where "Validate (validator_Struct H) conf = (Val (), conf1)"
    "conf2 = conf1\<lparr>LoggingLevel := LoggingLevel conf2\<rparr>" "Load E L (configured_sizes conf2) b = (Val (), b')"
    "NewPfcpConnection conf2 addrV4 (host_Now H) (PfcpNodeId conf2) (N3Address conf2) (N9Address conf2) b' rm = Val c0"
    "c = SetRemoteNodes (PfcpRemoteNode conf2) c0" "g = fold AddGtpPath (GtpPeer conf2) (NewGtpPathManager (N3Address conf2 @ '':2152''))"
proof -
  obtain conf1 where v: "Init H conf = (Val (), conf1)"
    using assms by (auto simp: main_def split: prod.splits res.splits)
  let ?conf2 = "snd (snd (SetLoggerLevel (zerolog_ParseLevel H) (Level_String H) (LoggingLevel conf1) (GlobalLevel H, conf1)))"
  have lvl: "?conf2 = conf1\<lparr>LoggingLevel := LoggingLevel ?conf2\<rparr>"
    by (simp add: SetLoggerLevel_def split: option.split)
  obtain b' where l: "Load E L (configured_sizes ?conf2) b = (Val (), b')" "start_components E H ?conf2 b' = Some (Val (c, g))"
    using assms v by (auto simp: main_def Let_def split: if_splits prod.splits res.splits)
  then obtain addrV4 rm c0 where
    "NewPfcpConnection ?conf2 addrV4 (host_Now H) (PfcpNodeId ?conf2) (N3Address ?conf2) (N9Address ?conf2) b' rm = Val c0"
    "c = SetRemoteNodes (PfcpRemoteNode ?conf2) c0" "g = fold AddGtpPath (GtpPeer ?conf2) (NewGtpPathManager (N3Address ?conf2 @ '':2152''))"
    by (auto simp: start_components_def Let_def bind_res_eq_Val split: option.splits)
  with v lvl l(1) show ?thesis by (intro that [of conf1 ?conf2 b' addrV4 rm c0]) (simp_all add: Init_def)
qed

section \<open>A loader and a host\<close>

definition sim_loader :: "kmap loader" where
  "sim_loader = \<lparr>MkdirAll = (\<lambda>_. True),
     LoadIpEntrypoint = Some (\<lambda>n. Some \<lparr>ms_Name = n, ms_Type = 2, ms_KeySize = 4, ms_ValueSize = 16, ms_MaxEntries = 1024, ms_Flags = 0\<rparr>),
     NewMap = (\<lambda>sp. Some (sim_array_map\<lparr>km_size := ms_MaxEntries sp, km_array := (ms_Type sp = 2)\<rparr>)),
     LoadAndAssign = (\<lambda>_ r. Some (\<lambda>n. case r n of Some m \<Rightarrow> m | None \<Rightarrow> sim_array_map)),
     rangeMapSizes = ascending,
     Map_Info = (\<lambda>m. Some \<lparr>ms_Name = [], ms_Type = 2, ms_KeySize = 4, ms_ValueSize = 16, ms_MaxEntries = km_size m, ms_Flags = 0\<rparr>),
     Map_Unpin = (\<lambda>_. True), Map_Close = (\<lambda>_. True), BindMap = (\<lambda>_. True), nil_Map = sim_array_map\<rparr>"

definition sim_host :: "string host" where
  "sim_host = \<lparr>validator_Struct = (\<lambda>_. True), zerolog_ParseLevel = Some, Level_String = (\<lambda>l. l), GlobalLevel = ''info'',
     IncreaseResourceLimits = True, GlobalConfig_Set = (\<lambda>_ _. True), InterfaceByName = (\<lambda>_. True), AttachXDP = (\<lambda>_ _. True),
     ListenUDP = (\<lambda>_. Some (Some [127, 0, 0, 1])), host_Now = 0\<rparr>"

lemma sim_loader_ok: "loader_ok sim_upf_env sim_loader" "spec_ok sim_loader"
  by (simp_all add: loader_ok_def spec_ok_def sim_loader_def enumerates_ascending)

lemma sim_Load: "\<exists>b'. Load sim_upf_env sim_loader sizes b = (Val (), b')"
proof -
  have "\<exists>st'. for_range (make_map sim_loader) xs st = (Val (), st')" for xs st
    by (induction xs arbitrary: st)
       (auto simp: make_map_def sim_loader_def bind_op_def Let_def split: option.splits prod.splits res.splits)
  then obtain spec r where "for_range (make_map sim_loader) (rangeMapSizes sim_loader (desiredMapSizes sizes))
      (the (LoadIpEntrypoint sim_loader), Map.empty) = (Val (), (spec, r))"
    by (metis surj_pair)
  then show ?thesis by (simp add: Load_def Load_trackers_def Let_def sim_loader_def)
qed

lemma sim_main:
  "\<exists>c g. main sim_upf_env sim_loader sim_host (default_config\<lparr>MaxSessions := 2, GtpPeer := [''gnb:2152'']\<rparr>) sim_objects = Some (Val (c, g))"
proof -
  let ?c = "default_config\<lparr>MaxSessions := 2, GtpPeer := [''gnb:2152'']\<rparr>"
  have p: "ParseIP ''127.0.0.1'' = Some [0,0,0,0,0,0,0,0,0,0,255,255,127,0,0,1]"
    "To4 (Some [0,0,0,0,0,0,0,0,0,0,255,255,127,0,0,1]) = Some [127, 0, 0, 1]" by code_simp+
  obtain b' where "Load sim_upf_env sim_loader (configured_sizes (snd (Validate (\<lambda>_. True) ?c))) sim_objects = (Val (), b')"
    using sim_Load by blast
  then show ?thesis
    by (simp add: main_def Init_def sim_host_def Validate_def default_config_def Let_def SetLoggerLevel_def p LittleEndian_Uint32_def ip_bytes_def
        attach_all_def start_components_def NewResourceManager_def NewPfcpConnection_def)
qed

section \<open>Properties\<close>



text \<open>An N3 or N9 address that is no IPv4 address does not lead to an error message but to a panic.\<close>

lemma main_panics_on_ipv6:
  assumes "To4 (ParseIP a) = None"
  shows "LittleEndian_Uint32 (To4 (ParseIP a)) = Panic IndexOutOfRange"
  using assms by (simp add: LittleEndian_Uint32_def ip_bytes_def)

text \<open>Resizing the maps of a running program leaves the identifier trackers at the old sizes.\<close>

lemma resize_keeps_trackers:
  assumes "ResizeAllMaps L q f p u b = (r, b')"
  shows "farIdTracker b' = farIdTracker b" "qerIdTracker b' = qerIdTracker b" "urrIdTracker b' = urrIdTracker b"
  using assms by (auto simp: ResizeAllMaps_def on_map_def bind_op_def split: prod.splits res.splits)

end
