(* ===== verification/Main_Loop.thy ===== *)
theory Main_Loop
  imports Startup
begin

text \<open>
  The life of the program after it was started: the end of \<open>main\<close> in \<open>cmd/main.go\<close>, with the two web
  servers (\<open>cmd/server/server.go\<close>), and \<open>ListMapProgArrayContents\<close> of \<open>cmd/ebpf/utils.go\<close>, which no
  part of the program calls.
\<close>

section \<open>Servers and signals\<close>

text \<open>
  What \<open>main\<close> waits for, and what happens in the goroutines of the servers: a server whose \<open>ListenAndServe\<close>
  returns an error calls \<open>log.Fatal\<close>, which ends the process without the deferred calls.
\<close>

datatype main_event = Tick | Stopper | ServerFailed

datatype deferred = Close_bpfObjects | Close_link string | Close_pfcpConn | Stop_gtpPathManager | Stop_ticker

text \<open>The deferred calls, in the order in which \<open>main\<close> comes to their \<open>defer\<close> statements.\<close>

definition deferred_calls :: "UpfConfig \<Rightarrow> deferred list" where
  "deferred_calls conf = [Close_bpfObjects] @ map Close_link (InterfaceName conf) @ [Close_pfcpConn, Stop_gtpPathManager, Stop_ticker]"

text \<open>
  The loop of \<open>main\<close>: \<^term>\<open>None\<close> while it runs; at the end the exit status and the calls that were made, in order.
\<close>

fun main_loop :: "deferred list \<Rightarrow> main_event list \<Rightarrow> (nat \<times> deferred list) option" where
  "main_loop ds [] = None"
| "main_loop ds (Tick # es) = main_loop ds es"
| "main_loop ds (Stopper # es) = Some (0, rev ds)"
| "main_loop ds (ServerFailed # es) = Some (1, [])"

section \<open>Program arrays\<close>

record ProgramInfo =
  pg_ID :: u32
  pg_Name :: string
  pg_RunCount :: "u64 \<times> bool"
  pg_Runtime :: "u64 \<times> bool"

text \<open>Kind, contents and final error of an iteration of a map, and the information about a program.\<close>

record ('m, 'p) prog_env =
  Map_isProgArray :: "'m \<Rightarrow> bool"
  Map_Iterate :: "'m \<Rightarrow> (u32 \<times> 'p) list \<times> goerror option"
  Program_Info :: "'p \<Rightarrow> ProgramInfo option"

record BpfMapProgArrayMember =
  ProgramId :: u32
  ProgramRef :: u32
  ProgramName :: string
  ProgramRunCount :: u32
  ProgramRunCountEnabled :: bool
  ProgramDuration :: u32
  ProgramDurationEnabled :: bool

text \<open>The error of \<open>val.Info()\<close> is ignored: without the information its nil pointer is dereferenced.\<close>

primrec list_programs ::
  "('m, 'p) prog_env \<Rightarrow> (u32 \<times> 'p) list \<Rightarrow> BpfMapProgArrayMember list \<Rightarrow> BpfMapProgArrayMember list res" where
  "list_programs G [] members = Val members"
| "list_programs G (kv # kvs) members =
     (case Program_Info G (snd kv) of
        None \<Rightarrow> Panic NilDereference
      | Some programInfo \<Rightarrow> list_programs G kvs (members @
          [\<lparr>ProgramId = fst kv, ProgramRef = pg_ID programInfo, ProgramName = pg_Name programInfo,
            ProgramRunCount = ucast (fst (pg_RunCount programInfo)), ProgramRunCountEnabled = snd (pg_RunCount programInfo),
            ProgramDuration = ucast (fst (pg_Runtime programInfo)), ProgramDurationEnabled = snd (pg_Runtime programInfo)\<rparr>]))"

text \<open>The list is returned together with the error of the iteration.\<close>

definition ListMapProgArrayContents ::
  "('m, 'p) prog_env \<Rightarrow> 'm \<Rightarrow> (BpfMapProgArrayMember list \<times> goerror option) res" where
  "ListMapProgArrayContents G m =
     (if \<not> Map_isProgArray G m then Val ([], Some (ErrText ''map is not a program array''))
      else (case Map_Iterate G m of
          (kvs, e) \<Rightarrow> map_res (\<lambda>ms. (ms, e)) (list_programs G kvs [])))"

section \<open>Lemmas\<close>

lemma main_loop_signal: "main_loop ds (replicate n Tick @ Stopper # es) = Some (0, rev ds)"
  by (induction n) simp_all

lemma main_loop_ends: "main_loop ds es = Some r \<Longrightarrow> r = (0, rev ds) \<or> r = (1, []) \<and> ServerFailed \<in> set es"
  by (induction ds es rule: main_loop.induct) auto

lemma list_programs_ids:
  "list_programs G kvs members = Val ms \<Longrightarrow> map ProgramId ms = map ProgramId members @ map fst kvs"
  by (induction kvs arbitrary: members) (auto split: option.splits)

text \<open>The listing has one member for each entry of the map, under its key and in the order of the iteration.\<close>

lemma ListMapProgArrayContents_keys:
  "ListMapProgArrayContents G m = Val (ms, e) \<Longrightarrow> Map_isProgArray G m \<Longrightarrow> map ProgramId ms = map fst (fst (Map_Iterate G m))"
  by (cases "Map_Iterate G m"; cases "list_programs G (fst (Map_Iterate G m)) []")
    (auto simp: ListMapProgArrayContents_def dest: list_programs_ids)

section \<open>Properties\<close>

text \<open>
  A signal ends the program with status 0 after all that was opened is closed: the PFCP socket before the XDP
  program is detached, and every link before the maps are closed. The only other end is a web server that cannot
  listen: status 1, and nothing is closed.
\<close>

theorem shutdown_order:
  assumes "main_loop (deferred_calls conf) es = Some (status, calls)"
  shows "status = 0 \<and> calls = [Stop_ticker, Stop_gtpPathManager, Close_pfcpConn] @ map Close_link (rev (InterfaceName conf)) @ [Close_bpfObjects]
    \<or> status = 1 \<and> calls = [] \<and> ServerFailed \<in> set es"
  using main_loop_ends [OF assms] by (auto simp: deferred_calls_def rev_map)

theorem shutdown_order_witness:
  "main_loop (deferred_calls (default_config\<lparr>InterfaceName := [''n3'', ''n6'']\<rparr>)) [Tick, Stopper] =
     Some (0, [Stop_ticker, Stop_gtpPathManager, Close_pfcpConn, Close_link ''n6'', Close_link ''n3'', Close_bpfObjects])"
proof -
  let ?c = "default_config\<lparr>InterfaceName := [''n3'', ''n6'']\<rparr>"
  obtain status calls where r: "main_loop (deferred_calls ?c) [Tick, Stopper] = Some (status, calls)" by simp
  from shutdown_order [OF r] r show ?thesis by auto
qed

end
