(* ===== verification/Config_Init.thy ===== *)
theory Config_Init
  imports Upf_Prelude
begin

text \<open>
  Where the configuration comes from: \<open>init\<close> of \<open>cmd/config/config.go\<close>, which declares the command line
  flags, binds them to keys, sets a default, and reads environment and file.

  The libraries \<open>pflag\<close> and \<open>viper\<close> are the parameter \<open>viper\<close>; \<open>viper_ok\<close> is the order of precedence
  that their documentation promises: a flag of the command line, the environment, the file, a default,
  and last the default of the flag.
\<close>

section \<open>The libraries\<close>

datatype cfg_value = VString string | VStrings "string list" | VUint u32 | VBool bool

record flag =
  fl_Default :: cfg_value
  fl_Given :: "cfg_value option"

text \<open>\<open>'v\<close> is the state of the global \<open>viper\<close>; \<open>pflag_Parse\<close> gives the flags that were declared, after parsing.\<close>

record 'v viper =
  pflag_Parse :: "(string \<times> cfg_value) list \<Rightarrow> string \<rightharpoonup> flag"
  BindPFlag :: "string \<Rightarrow> flag option \<Rightarrow> 'v \<Rightarrow> 'v"
  SetDefault :: "string \<Rightarrow> cfg_value \<Rightarrow> 'v \<Rightarrow> 'v"
  SetConfigFile :: "string \<Rightarrow> 'v \<Rightarrow> 'v"
  SetEnvPrefix :: "string \<Rightarrow> 'v \<Rightarrow> 'v"
  AutomaticEnv :: "'v \<Rightarrow> 'v"
  ReadInConfig :: "'v \<Rightarrow> goerror option \<times> 'v"
  viper_Get :: "'v \<Rightarrow> string \<Rightarrow> cfg_value"

section \<open>Flags and keys\<close>

definition declared_flags :: "(string \<times> cfg_value) list" where
  "declared_flags =
     [(''config'', VString ''./config.yml''),
      (''iface'', VStrings []),
      (''attach'', VString ''generic''),
      (''aaddr'', VString '':8080''),
      (''paddr'', VString ''127.0.0.1:8805''),
      (''nodeid'', VString ''127.0.0.1''),
      (''maddr'', VString '':9090''),
      (''n3addr'', VString ''127.0.0.1''),
      (''n9addr'', VString ''n3addr''),
      (''peer'', VStrings []),
      (''echo'', VUint 10),
      (''qersize'', VUint 0),
      (''farsize'', VUint 0),
      (''urrsize'', VUint 0),
      (''pdrsize'', VUint 0),
      (''maxsessions'', VUint 65535),
      (''hbretries'', VUint 3),
      (''hbinterval'', VUint 5),
      (''hbtimeout'', VUint 5),
      (''loglvl'', VString ''info''),
      (''ueip'', VBool False),
      (''ftup'', VBool False),
      (''ueippool'', VString ''10.60.0.0/24''),
      (''teidpool'', VUint 65535),
      (''pfcprnode'', VStrings []),
      (''astimeout'', VUint 5)]"

definition bound_keys :: "(string \<times> string) list" where
  "bound_keys =
     [(''interface_name'', ''iface''),
      (''xdp_attach_mode'', ''attach''),
      (''api_address'', ''aaddr''),
      (''pfcp_address'', ''paddr''),
      (''pfcp_node_id'', ''nodeid''),
      (''pfcp_remote_node'', ''pfcprnode''),
      (''association_setup_timeout'', ''astimeout''),
      (''metrics_address'', ''maddr''),
      (''n3_address'', ''n3addr''),
      (''n9_address'', ''n9addr''),
      (''gtp_peer'', ''peer''),
      (''gtp_echo_interval'', ''echo''),
      (''qer_map_size'', ''qersize''),
      (''far_map_size'', ''farsize''),
      (''urr_map_size'', ''urrsize''),
      (''pdr_map_size'', ''pdrsize''),
      (''max_sessions'', ''maxsessions''),
      (''heartbeat_retries'', ''hbretries''),
      (''heartbeat_interval'', ''hbinterval''),
      (''heartbeat_timeout'', ''hbtimeout''),
      (''logging_level'', ''loglvl''),
      (''feature_ueip'', ''ueip''),
      (''feature_ftup'', ''ftup''),
      (''ueip_pool'', ''ueippool''),
      (''teid_pool'', ''teidpool'')]"

definition flag_value :: "flag \<Rightarrow> cfg_value" where
  "flag_value f = (case fl_Given f of Some x \<Rightarrow> x | None \<Rightarrow> fl_Default f)"

text \<open>\<open>init\<close>; an error of \<open>ReadInConfig\<close> is only logged.\<close>

definition config_init :: "'v viper \<Rightarrow> 'v \<Rightarrow> 'v" where
  "config_init V v =
     (let flags = pflag_Parse V declared_flags;
          configPath = (case map_option flag_value (flags ''config'') of Some (VString p) \<Rightarrow> p | _ \<Rightarrow> []);
          v = fold (\<lambda>(key, name). BindPFlag V key (flags name)) bound_keys v;
          v = SetDefault V ''n9_address'' (viper_Get V v ''n3_address'') v;
          v = SetConfigFile V configPath v;
          v = AutomaticEnv V (SetEnvPrefix V ''upf'' v)
      in snd (ReadInConfig V v))"

section \<open>What the libraries promise\<close>

record viper_view =
  vv_flags :: "string \<rightharpoonup> flag"
  vv_defaults :: "string \<rightharpoonup> cfg_value"
  vv_env :: "string \<rightharpoonup> cfg_value"
  vv_file :: "string \<rightharpoonup> cfg_value"

fun first_of :: "'a option list \<Rightarrow> 'a \<Rightarrow> 'a" where
  "first_of [] d = d"
| "first_of (Some x # _) d = x"
| "first_of (None # xs) d = first_of xs d"

definition effective :: "viper_view \<Rightarrow> string \<Rightarrow> cfg_value" where
  "effective w key = first_of
     [Option.bind (vv_flags w key) fl_Given, vv_env w key, vv_file w key, vv_defaults w key, map_option fl_Default (vv_flags w key)]
     (VString [])"

text \<open>
  \<open>args\<close> are the flags of the command line, \<open>env\<close> the variables with the prefix, by key, and \<open>file\<close> what the
  file says, nothing when it cannot be read. \<open>view\<close> tells what is in the state of \<open>viper\<close>.
\<close>

definition viper_ok ::
  "(string \<rightharpoonup> cfg_value) \<Rightarrow> (string \<rightharpoonup> cfg_value) \<Rightarrow> (string \<rightharpoonup> cfg_value) \<Rightarrow> ('v \<Rightarrow> viper_view) \<Rightarrow> 'v viper \<Rightarrow> bool" where
  "viper_ok args env file view V \<longleftrightarrow>
     (\<forall>ds n. pflag_Parse V ds n = map_option (\<lambda>d. \<lparr>fl_Default = d, fl_Given = args n\<rparr>) (map_of ds n)) \<and>
     (\<forall>k f v. view (BindPFlag V k (Some f) v) = (view v)\<lparr>vv_flags := (vv_flags (view v))(k \<mapsto> f)\<rparr>) \<and>
     (\<forall>k x v. view (SetDefault V k x v) = (view v)\<lparr>vv_defaults := (vv_defaults (view v))(k \<mapsto> x)\<rparr>) \<and>
     (\<forall>p v. view (SetConfigFile V p v) = view v) \<and> (\<forall>p v. view (SetEnvPrefix V p v) = view v) \<and>
     (\<forall>v. view (AutomaticEnv V v) = (view v)\<lparr>vv_env := env\<rparr>) \<and>
     (\<forall>v. view (snd (ReadInConfig V v)) = (view v)\<lparr>vv_file := file\<rparr>) \<and>
     (\<forall>v k. viper_Get V v k = effective (view v) k)"

definition empty_view :: viper_view where
  "empty_view = \<lparr>vv_flags = Map.empty, vv_defaults = Map.empty, vv_env = Map.empty, vv_file = Map.empty\<rparr>"

section \<open>Lemmas\<close>

lemma bound_declared: "(key, name) \<in> set bound_keys \<Longrightarrow> map_of declared_flags name \<noteq> None"
  by (auto simp: bound_keys_def declared_flags_def)

lemma bound_keys_distinct: "distinct (map fst bound_keys)"
  by code_simp

text \<open>The flag of a key.\<close>

definition flag_of :: "(string \<rightharpoonup> cfg_value) \<Rightarrow> string \<rightharpoonup> flag" where
  "flag_of args key = Option.bind (map_of bound_keys key) (\<lambda>name.
     map_option (\<lambda>d. \<lparr>fl_Default = d, fl_Given = args name\<rparr>) (map_of declared_flags name))"

lemma bind_all:
  assumes "viper_ok args env file view V" "set kns \<subseteq> set bound_keys" "distinct (map fst kns)"
  shows "view (fold (\<lambda>(key, name). BindPFlag V key (pflag_Parse V declared_flags name)) kns v) =
    (view v)\<lparr>vv_flags := vv_flags (view v) ++ (\<lambda>key. Option.bind (map_of kns key) (\<lambda>name.
       map_option (\<lambda>d. \<lparr>fl_Default = d, fl_Given = args name\<rparr>) (map_of declared_flags name)))\<rparr>"
  using assms(2,3)
proof (induction kns arbitrary: v)
  case Nil
  then show ?case by simp
next
  case (Cons kn kns)
  obtain key name where kn: "kn = (key, name)" by (cases kn)
  obtain d where d: "map_of declared_flags name = Some d" using bound_declared [of key name] Cons.prems by (auto simp: kn)
  have parse: "pflag_Parse V declared_flags name = Some \<lparr>fl_Default = d, fl_Given = args name\<rparr>"
    using assms(1) d by (simp add: viper_ok_def)
  have fresh: "map_of kns key = None" using Cons.prems(2) by (auto simp: kn map_of_eq_None_iff)
  have "view (BindPFlag V key (Some \<lparr>fl_Default = d, fl_Given = args name\<rparr>) v) =
      (view v)\<lparr>vv_flags := (vv_flags (view v))(key \<mapsto> \<lparr>fl_Default = d, fl_Given = args name\<rparr>)\<rparr>"
    using assms(1) by (simp add: viper_ok_def)
  then show ?case
    using Cons.IH [of "BindPFlag V key (Some \<lparr>fl_Default = d, fl_Given = args name\<rparr>) v"] Cons.prems parse fresh
    by (auto simp: kn d map_add_def fun_eq_iff split: option.split)
qed

lemma config_init_view:
  assumes "viper_ok args env file view V" "view v = empty_view"
  shows "view (config_init V v) =
    \<lparr>vv_flags = flag_of args,
     vv_defaults = [''n9_address'' \<mapsto> (case args ''n3addr'' of Some x \<Rightarrow> x | None \<Rightarrow> VString ''127.0.0.1'')],
     vv_env = env, vv_file = file\<rparr>"
proof -
  let ?v = "fold (\<lambda>(key, name). BindPFlag V key (pflag_Parse V declared_flags name)) bound_keys v"
  have w: "view ?v = \<lparr>vv_flags = flag_of args, vv_defaults = Map.empty, vv_env = Map.empty, vv_file = Map.empty\<rparr>"
    using bind_all [OF assms(1) subset_refl bound_keys_distinct, of v] assms(2) by (simp add: empty_view_def flag_of_def [abs_def])
  have f: "flag_of args ''n3_address'' = Some \<lparr>fl_Default = VString ''127.0.0.1'', fl_Given = args ''n3addr''\<rparr>"
    by (simp add: flag_of_def bound_keys_def declared_flags_def)
  have g: "viper_Get V ?v ''n3_address'' = (case args ''n3addr'' of Some x \<Rightarrow> x | None \<Rightarrow> VString ''127.0.0.1'')"
    using assms(1) w f by (simp add: viper_ok_def effective_def split: option.split)
  show ?thesis
    using assms(1) w g unfolding config_init_def Let_def viper_ok_def by simp
qed

section \<open>Properties\<close>

text \<open>
  C37. The address of the N9 interface does not follow that of the N3 interface. When no flag, variable or file
  sets it, it is the N3 address of the command line, and 127.0.0.1 without one, whatever N3 address the
  environment or the file sets.
\<close>

theorem n9_ignores_configured_n3:
  assumes "viper_ok args env file view V" "view v = empty_view"
    and "args ''n9addr'' = None" "env ''n9_address'' = None" "file ''n9_address'' = None"
    and "args ''n3addr'' = None" "env ''n3_address'' = Some a \<or> env ''n3_address'' = None \<and> file ''n3_address'' = Some a"
  shows "viper_Get V (config_init V v) ''n3_address'' = a \<and>
    viper_Get V (config_init V v) ''n9_address'' = VString ''127.0.0.1''"
proof -
  have flags: "flag_of args ''n3_address'' = Some \<lparr>fl_Default = VString ''127.0.0.1'', fl_Given = args ''n3addr''\<rparr>"
    "flag_of args ''n9_address'' = Some \<lparr>fl_Default = VString ''n3addr'', fl_Given = args ''n9addr''\<rparr>"
    by (simp_all add: flag_of_def bound_keys_def declared_flags_def)
  have get: "viper_Get V u k = effective (view u) k" for u k using assms(1) by (simp add: viper_ok_def)
  show ?thesis
    unfolding get config_init_view [OF assms(1,2)] effective_def using assms(3-7) by (auto simp: flags)
qed

text \<open>A state that is its own view, and a file that sets the N3 address.\<close>

definition sim_viper :: "viper_view viper" where
  "sim_viper = \<lparr>pflag_Parse = (\<lambda>ds n. map_option (\<lambda>d. \<lparr>fl_Default = d, fl_Given = None\<rparr>) (map_of ds n)),
     BindPFlag = (\<lambda>k f w. case f of Some f \<Rightarrow> w\<lparr>vv_flags := (vv_flags w)(k \<mapsto> f)\<rparr> | None \<Rightarrow> w),
     SetDefault = (\<lambda>k x w. w\<lparr>vv_defaults := (vv_defaults w)(k \<mapsto> x)\<rparr>), SetConfigFile = (\<lambda>_ w. w), SetEnvPrefix = (\<lambda>_ w. w),
     AutomaticEnv = (\<lambda>w. w\<lparr>vv_env := Map.empty\<rparr>),
     ReadInConfig = (\<lambda>w. (None, w\<lparr>vv_file := [''n3_address'' \<mapsto> VString ''10.0.0.1'']\<rparr>)), viper_Get = effective\<rparr>"

theorem n9_ignores_configured_n3_witness:
  "viper_Get sim_viper (config_init sim_viper empty_view) ''n3_address'' = VString ''10.0.0.1'' \<and>
   viper_Get sim_viper (config_init sim_viper empty_view) ''n9_address'' = VString ''127.0.0.1''"
proof -
  have "viper_ok Map.empty Map.empty [''n3_address'' \<mapsto> VString ''10.0.0.1''] (\<lambda>w. w) sim_viper"
    by (simp add: viper_ok_def sim_viper_def)
  then show ?thesis by (rule n9_ignores_configured_n3) simp_all
qed

end
