(* ===== verification/Xdp_Entrypoint.thy ===== *)
theory Xdp_Entrypoint
  imports Xdp_Packet
begin

text \<open>
  The XDP program \<open>upf_ip_entrypoint_func\<close> (\<open>cmd/ebpf/xdp/n3n6_entrypoint.c\<close>) with the rules it applies
  (\<open>sdf_filter.h\<close>, \<open>qer.h\<close>, \<open>urr.h\<close>) and the routing of what it sends (\<open>routing.h\<close>).

  It reads the maps that the Go program writes, the same \<open>BpfObjects\<close> as there. A write through a
  pointer into a map value is a write of the changed value under its key.
  The build without \<open>ENABLE_LOG\<close> and \<open>ENABLE_ROUTE_CACHE\<close> is modelled, which is the default.
\<close>

section \<open>SDF filters\<close>

definition get_sdf_protocol :: "u8 \<Rightarrow> u8" where
  "get_sdf_protocol ip_protocol =
     (if ip_protocol = IPPROTO_ICMP then 0
      else if ip_protocol = IPPROTO_TCP then 2
      else if ip_protocol = IPPROTO_UDP then 3
      else 1)"

text \<open>Source and destination port: of the UDP header, else of the TCP header, else 0.\<close>

definition packet_ports :: "bytes \<Rightarrow> packet_context \<Rightarrow> u16 \<times> u16" where
  "packet_ports f c =
     (case udp c of
        Some u \<Rightarrow> (be (bytes_at u 2 f), be (bytes_at (u + 2) 2 f))
      | None \<Rightarrow> (case tcp c of
          Some t \<Rightarrow> (be (bytes_at t 2 f), be (bytes_at (t + 2) 2 f))
        | None \<Rightarrow> (0, 0)))"

definition ports_match :: "bytes \<Rightarrow> packet_context \<Rightarrow> sdf_filter \<Rightarrow> bool" where
  "ports_match f c sdf =
     (case packet_ports f c of
        (s, d) \<Rightarrow> lower_bound (src_port sdf) \<le> s \<and> s \<le> upper_bound (src_port sdf) \<and>
                  lower_bound (dst_port sdf) \<le> d \<and> d \<le> upper_bound (dst_port sdf))"

text \<open>\<open>bpf_htonl\<close> of a \<open>__u128\<close>: its low 32 bits, in the other byte order.\<close>

definition htonl_low :: "bytes \<Rightarrow> u32" where
  "htonl_low bs = be (take 4 bs)"

definition match_sdf_filter_ipv4 :: "bytes \<Rightarrow> packet_context \<Rightarrow> sdf_filter \<Rightarrow> bool" where
  "match_sdf_filter_ipv4 f c sdf =
     (case ip4 c of
        None \<Rightarrow> False
      | Some i \<Rightarrow>
          (protocol sdf = 1 \<or> protocol sdf = get_sdf_protocol (f ! (i + 9))) \<and>
          le (bytes_at (i + 12) 4 f) AND htonl_low (sn_mask (src_addr sdf)) = htonl_low (sn_ip (src_addr sdf)) \<and>
          le (bytes_at (i + 16) 4 f) AND htonl_low (sn_mask (dst_addr sdf)) = htonl_low (sn_ip (dst_addr sdf)) \<and>
          ports_match f c sdf)"

text \<open>Here the address of the filter is also cut to 32 bits, but compared with all 128 bits of the packet.\<close>

definition match_sdf_filter_ipv6 :: "bytes \<Rightarrow> packet_context \<Rightarrow> sdf_filter \<Rightarrow> bool" where
  "match_sdf_filter_ipv6 f c sdf =
     (case ip6 c of
        None \<Rightarrow> False
      | Some i \<Rightarrow>
          (protocol sdf = 1 \<or> protocol sdf = get_sdf_protocol (f ! (i + 6))) \<and>
          (le (bytes_at (i + 8) 16 f) :: 128 word) AND le (sn_mask (src_addr sdf)) = ucast (htonl_low (sn_ip (src_addr sdf))) \<and>
          (le (bytes_at (i + 24) 16 f) :: 128 word) AND le (sn_mask (dst_addr sdf)) = ucast (htonl_low (sn_ip (dst_addr sdf))) \<and>
          ports_match f c sdf)"

section \<open>QERs and URRs\<close>

text \<open>\<open>limit_rate_sliding_window\<close>: whether the packet may pass, and the new start of the window.\<close>

definition limit_rate_sliding_window :: "u64 \<Rightarrow> u64 \<Rightarrow> u64 \<Rightarrow> u64 \<Rightarrow> bool \<times> u64" where
  "limit_rate_sliding_window now packet_size windows_start rate =
     (if rate = 0 then (True, windows_start)
      else let tx_time = packet_size * 8 * (1000000000 div rate)
           in if windows_start + tx_time > now then (False, windows_start)
              else if windows_start + 5000000 < now then (True, now - 5000000 + tx_time)
              else (True, windows_start + tx_time))"

definition update_urr ::
  "('m, 'b, 'z) bpf_env_scheme \<Rightarrow> u32 \<Rightarrow> u64 \<Rightarrow> u64 \<Rightarrow> ('m, 'b) xdp_state \<Rightarrow> ('m, 'b) xdp_state" where
  "update_urr E urr_id uplink_bytes downlink_bytes s =
     (case Map_Lookup (urr_ops E) (UrrMap (objs s)) urr_id of
        None \<Rightarrow> s
      | Some urr \<Rightarrow>
          s\<lparr>objs := (objs s)\<lparr>UrrMap := snd (Map_Put (urr_ops E) (UrrMap (objs s)) urr_id
             \<lparr>ui_UplinkVolume = ui_UplinkVolume urr + uplink_bytes, ui_DownlinkVolume = ui_DownlinkVolume urr + downlink_bytes\<rparr>)\<rparr>\<rparr>)"

text \<open>
  The part that uplink and downlink have in common: the QER with its gate and its rate limit. The
  clock is read only for a rate that is not 0.
\<close>

definition apply_qer ::
  "('m, 'b, 'z) bpf_env_scheme \<Rightarrow> xdp_env \<Rightarrow> bool \<Rightarrow> u32 \<Rightarrow> ('m, 'b) xdp_state \<Rightarrow> QerInfo option \<times> ('m, 'b) xdp_state" where
  "apply_qer E K uplink qer_id s =
     (case Map_Lookup (qer_ops E) (QerMap (objs s)) qer_id of
        None \<Rightarrow> (None, s)
      | Some qer \<Rightarrow>
          if (if uplink then qi_GateStatusUL qer else qi_GateStatusDL qer) \<noteq> 0 then (None, s)
          else let rate = ucast (if uplink then qi_MaxBitrateUL qer else qi_MaxBitrateDL qer);
                   start = (if uplink then qi_StartUL qer else qi_StartDL qer);
                   (pass, start) = limit_rate_sliding_window (bpf_ktime_get_ns K (clock_reads s)) (of_nat (length (frame s))) start rate;
                   qer = (if uplink then qer\<lparr>qi_StartUL := start\<rparr> else qer\<lparr>qi_StartDL := start\<rparr>);
                   s = (if rate = 0 then s else s\<lparr>clock_reads := Suc (clock_reads s)\<rparr>);
                   s = (if rate = 0 \<or> \<not> pass then s
                        else s\<lparr>objs := (objs s)\<lparr>QerMap := snd (Map_Put (qer_ops E) (QerMap (objs s)) qer_id qer)\<rparr>\<rparr>)
               in (if pass then Some qer else None, s))"

section \<open>Routing\<close>

text \<open>What a result of the routing table leads to.\<close>

definition forward_to :: "xdp_env \<Rightarrow> nat \<Rightarrow> fib_result \<Rightarrow> ('m, 'b) xdp_state \<Rightarrow> xdp_action \<times> ('m, 'b) xdp_state" where
  "forward_to K e r s =
     (if fr_ifindex r = ingress_ifindex K then XDP_TX else bpf_redirect K (fr_ifindex r),
      s\<lparr>frame := write_at e (fr_dmac r @ fr_smac r) (frame s)\<rparr>)"

definition count_route :: "(IpEntrypointRouteStat \<Rightarrow> IpEntrypointRouteStat) \<Rightarrow> ('m, 'b) xdp_state \<Rightarrow> ('m, 'b) xdp_state" where
  "count_route g s = s\<lparr>route_stat := map_option g (route_stat s)\<rparr>"

abbreviation (input) AF_INET :: nat where "AF_INET \<equiv> 2"
abbreviation (input) BPF_FIB_LKUP_RET_SUCCESS :: int where "BPF_FIB_LKUP_RET_SUCCESS \<equiv> 0"

definition route_ipv4 :: "xdp_env \<Rightarrow> nat \<Rightarrow> nat \<Rightarrow> ('m, 'b) xdp_state \<Rightarrow> xdp_action \<times> ('m, 'b) xdp_state" where
  "route_ipv4 K e i s =
     (if route_stat s = None then (XDP_ABORTED, s)
      else let f = frame s;
               (rc, r) = bpf_fib_lookup K
                 \<lparr>fp_family = AF_INET, fp_tos = f ! (i + 1), fp_l4_protocol = f ! (i + 9), fp_tot_len = be (bytes_at (i + 2) 2 f),
                  fp_src = bytes_at (i + 12) 4 f, fp_dst = bytes_at (i + 16) 4 f, fp_ifindex = ingress_ifindex K\<rparr>
           in if rc = BPF_FIB_LKUP_RET_SUCCESS
              then forward_to K e r (count_route (\<lambda>t. t\<lparr>FibLookupIp4Ok := FibLookupIp4Ok t + 1\<rparr>) s)
              else if rc \<in> {1, 2, 3}
              then (XDP_DROP, count_route (\<lambda>t. t\<lparr>FibLookupIp4ErrorDrop := FibLookupIp4ErrorDrop t + 1\<rparr>) s)
              else (XDP_PASS, count_route (\<lambda>t. t\<lparr>FibLookupIp4ErrorPass := FibLookupIp4ErrorPass t + 1\<rparr>) s))"

definition route_ipv6 :: "xdp_env \<Rightarrow> nat \<Rightarrow> nat \<Rightarrow> ('m, 'b) xdp_state \<Rightarrow> xdp_action \<times> ('m, 'b) xdp_state" where
  "route_ipv6 K e i s =
     (if route_stat s = None then (XDP_ABORTED, s)
      else let f = frame s;
               (rc, r) = bpf_fib_lookup K
                 \<lparr>fp_family = AF_INET, fp_tos = 0, fp_l4_protocol = f ! (i + 6), fp_tot_len = be (bytes_at (i + 4) 2 f),
                  fp_src = bytes_at (i + 8) 16 f, fp_dst = bytes_at (i + 24) 16 f, fp_ifindex = ingress_ifindex K\<rparr>
           in if rc = BPF_FIB_LKUP_RET_SUCCESS
              then forward_to K e r (count_route (\<lambda>t. t\<lparr>FibLookupIp6Ok := FibLookupIp6Ok t + 1\<rparr>) s)
              else if rc \<in> {1, 2, 3}
              then (XDP_DROP, count_route (\<lambda>t. t\<lparr>FibLookupIp6ErrorDrop := FibLookupIp6ErrorDrop t + 1\<rparr>) s)
              else (XDP_PASS, count_route (\<lambda>t. t\<lparr>FibLookupIp6ErrorPass := FibLookupIp6ErrorPass t + 1\<rparr>) s))"

section \<open>Counters\<close>

definition count_rx_packet :: "(UpfCounters \<Rightarrow> UpfCounters) \<Rightarrow> ('m, 'b) xdp_state \<Rightarrow> ('m, 'b) xdp_state" where
  "count_rx_packet g s = s\<lparr>statistic := (statistic s)\<lparr>upf_counters := g (upf_counters (statistic s))\<rparr>\<rparr>"

definition count_n3_n6 :: "(n3_n6_counters \<Rightarrow> n3_n6_counters) \<Rightarrow> ('m, 'b) xdp_state \<Rightarrow> ('m, 'b) xdp_state" where
  "count_n3_n6 g s = s\<lparr>statistic := (statistic s)\<lparr>upf_n3_n6_counter := g (upf_n3_n6_counter (statistic s))\<rparr>\<rparr>"

abbreviation (input) DEFAULT_XDP_ACTION :: xdp_action where "DEFAULT_XDP_ACTION \<equiv> XDP_PASS"
abbreviation (input) FAR_FORW :: u8 where "FAR_FORW \<equiv> 2"
abbreviation (input) OHC_GTP_U_UDP_IPv4 :: u8 where "OHC_GTP_U_UDP_IPv4 \<equiv> 1"

section \<open>Downlink\<close>

definition send_to_gtp_tunnel ::
  "xdp_env \<Rightarrow> u32 \<Rightarrow> u32 \<Rightarrow> u8 \<Rightarrow> u8 \<Rightarrow> u32 \<Rightarrow> ('m, 'b) xdp_state \<Rightarrow> xdp_action \<times> ('m, 'b) xdp_state" where
  "send_to_gtp_tunnel K srcip dstip tos qfi teid s =
     (case add_gtp_over_ip4_headers K srcip dstip tos qfi teid (ctx s) (frame s) of
        None \<Rightarrow> (XDP_ABORTED, s)
      | Some (c, f) \<Rightarrow>
          route_ipv4 K 0 14 (count_n3_n6 (\<lambda>t. t\<lparr>tx_n3 := tx_n3 t + 1\<rparr>) (s\<lparr>ctx := c, frame := f\<rparr>)))"

text \<open>
  Which FAR and QER a PDR leads to: those of the filter when it matches, else the default ones;
  \<^term>\<open>None\<close> when there is only a filter (\<open>sdf_mode & 1\<close>) and it does not match.
\<close>

definition select_rules :: "IpEntrypointPdrInfo \<Rightarrow> bool \<Rightarrow> (u32 \<times> u32 \<times> u8) option" where
  "select_rules pdr matches =
     (if ep_sdf_mode pdr = 0 then Some (ep_far_id pdr, ep_qer_id pdr, ep_outer_header_removal pdr)
      else if matches
      then Some (sr_far_id (ep_sdf_rules pdr), sr_qer_id (ep_sdf_rules pdr), sr_outer_header_removal (ep_sdf_rules pdr))
      else if ep_sdf_mode pdr AND 1 \<noteq> 0 then None
      else Some (ep_far_id pdr, ep_qer_id pdr, ep_outer_header_removal pdr))"

text \<open>From the PDR on, the IPv4 and the IPv6 handler of downlink packets do the same.\<close>

definition handle_n6_packet ::
  "('m, 'b, 'z) bpf_env_scheme \<Rightarrow> xdp_env \<Rightarrow> bool \<Rightarrow> IpEntrypointPdrInfo option \<Rightarrow> ('m, 'b) xdp_state \<Rightarrow> xdp_action \<times> ('m, 'b) xdp_state" where
  "handle_n6_packet E K matches pdr s =
     (case pdr of
        None \<Rightarrow> (DEFAULT_XDP_ACTION, s)
      | Some pdr \<Rightarrow>
          (case select_rules pdr matches of
             None \<Rightarrow> (DEFAULT_XDP_ACTION, s)
           | Some (far_id, qer_id, _) \<Rightarrow>
               (case Map_Lookup (far_ops E) (FarMap (objs s)) far_id of
                  None \<Rightarrow> (XDP_DROP, s)
                | Some far \<Rightarrow>
                    if fi_Action far AND FAR_FORW = 0 then (XDP_DROP, s)
                    else if fi_OuterHeaderCreation far AND OHC_GTP_U_UDP_IPv4 = 0 then (XDP_DROP, s)
                    else (case apply_qer E K False qer_id s of
                        (None, s) \<Rightarrow> (XDP_DROP, s)
                      | (Some qer, s) \<Rightarrow>
                          (let packet_size = of_nat (length (frame s));
                               tos = ucast (drop_bit 8 (fi_TransportLevelMarking far));
                               s = update_urr E (ep_urr2_id pdr) 0 packet_size (update_urr E (ep_urr1_id pdr) 0 packet_size s)
                           in send_to_gtp_tunnel K (n3_ipv4_address K) (fi_RemoteIP far) tos (qi_Qfi qer) (fi_Teid far) s)))))"

definition handle_n6_packet_ipv4 ::
  "('m, 'b, 'z) bpf_env_scheme \<Rightarrow> xdp_env \<Rightarrow> nat \<Rightarrow> ('m, 'b) xdp_state \<Rightarrow> xdp_action \<times> ('m, 'b) xdp_state" where
  "handle_n6_packet_ipv4 E K i s =
     (let pdr = Map_Lookup (ip4_ops E) (PdrMapDownlinkIp4 (objs s)) (Some (bytes_at (i + 16) 4 (frame s)))
      in handle_n6_packet E K
           (case pdr of None \<Rightarrow> False | Some p \<Rightarrow> match_sdf_filter_ipv4 (frame s) (ctx s) (sr_sdf_filter (ep_sdf_rules p))) pdr s)"

definition handle_n6_packet_ipv6 ::
  "('m, 'b, 'z) bpf_env_scheme \<Rightarrow> xdp_env \<Rightarrow> nat \<Rightarrow> ('m, 'b) xdp_state \<Rightarrow> xdp_action \<times> ('m, 'b) xdp_state" where
  "handle_n6_packet_ipv6 E K i s =
     (let pdr = Map_Lookup (ip6_ops E) (PdrMapDownlinkIp6 (objs s)) (Some (bytes_at (i + 24) 16 (frame s)))
      in handle_n6_packet E K
           (case pdr of None \<Rightarrow> False | Some p \<Rightarrow> match_sdf_filter_ipv6 (frame s) (ctx s) (sr_sdf_filter (ep_sdf_rules p))) pdr s)"

section \<open>Uplink\<close>

text \<open>
  The filter on the inner packet: \<^term>\<open>None\<close> when the packet is passed on because it cannot be
  parsed, else whether the filter matches. Another inner protocol than IP matches no filter.
\<close>

definition inner_match :: "bytes \<Rightarrow> nat \<Rightarrow> sdf_filter \<Rightarrow> bool option" where
  "inner_match f d sdf =
     (if d + 1 > length f then None
      else (case guess_eth_protocol (f ! d) of
          None \<Rightarrow> Some False
        | Some p \<Rightarrow>
            if p = ETH_P_IP
            then (case parse_ip4 f (empty_context d) of
                (None, _) \<Rightarrow> None
              | (Some ip_protocol, c) \<Rightarrow>
                  (case parse_l4 ip_protocol f c of
                     (None, _) \<Rightarrow> None
                   | (Some _, c) \<Rightarrow> Some (match_sdf_filter_ipv4 f c sdf)))
            else (case parse_ip6 f (empty_context d) of
                (None, _) \<Rightarrow> None
              | (Some ip_protocol, c) \<Rightarrow>
                  (case parse_l4 ip_protocol f c of
                     (None, _) \<Rightarrow> None
                   | (Some _, c) \<Rightarrow> Some (match_sdf_filter_ipv6 f c sdf)))))"

definition is_local_ip :: "xdp_env \<Rightarrow> u32 \<Rightarrow> bool" where
  "is_local_ip K ip \<longleftrightarrow> ip = n3_ipv4_address K \<or> ip = n9_ipv4_address K"

text \<open>The end of an uplink packet: an answer to a ping of the UPF itself, or routing.\<close>

definition finish_uplink ::
  "('m, 'b, 'z) bpf_env_scheme \<Rightarrow> xdp_env \<Rightarrow> ('m, 'b) xdp_state \<Rightarrow> xdp_action \<times> ('m, 'b) xdp_state" where
  "finish_uplink E K s =
     (case (eth (ctx s), ip4 (ctx s), ip6 (ctx s)) of
        (Some e, Some i, _) \<Rightarrow>
          if is_local_ip K (le (bytes_at (i + 16) 4 (frame s))) \<and> frame s ! (i + 9) = IPPROTO_ICMP
          then (case prepare_icmp_echo_reply e i (frame s) of
              (None, f) \<Rightarrow> (XDP_ABORTED, s\<lparr>frame := f\<rparr>)
            | (Some f, _) \<Rightarrow> handle_n6_packet_ipv4 E K i (s\<lparr>frame := f\<rparr>))
          else route_ipv4 K e i (count_n3_n6 (\<lambda>t. t\<lparr>tx_n6 := tx_n6 t + 1\<rparr>) s)
      | (Some e, None, Some i) \<Rightarrow> route_ipv6 K e i (count_n3_n6 (\<lambda>t. t\<lparr>tx_n6 := tx_n6 t + 1\<rparr>) s)
      | _ \<Rightarrow> (XDP_ABORTED, s))"

text \<open>The last steps of an uplink packet that the QER let pass: volumes, the outer headers, and routing.\<close>

definition forward_uplink ::
  "('m, 'b, 'z) bpf_env_scheme \<Rightarrow> xdp_env \<Rightarrow> IpEntrypointPdrInfo \<Rightarrow> FarInfo \<Rightarrow> u8 \<Rightarrow> nat \<Rightarrow> ('m, 'b) xdp_state \<Rightarrow>
     xdp_action \<times> ('m, 'b) xdp_state" where
  "forward_uplink E K pdr far outer_header_removal g s =
     (let packet_size = of_nat (length (frame s));
          s = update_urr E (ep_urr2_id pdr) packet_size 0 (update_urr E (ep_urr1_id pdr) packet_size 0 s)
      in if fi_OuterHeaderCreation far AND OHC_GTP_U_UDP_IPv4 \<noteq> 0
         then (case (ip4 (ctx s), udp (ctx s)) of
             (Some i, Some u) \<Rightarrow>
               finish_uplink E K (s\<lparr>frame := update_gtp_tunnel K (n9_ipv4_address K) (fi_RemoteIP far) (fi_Teid far) i u g (frame s)\<rparr>)
           | _ \<Rightarrow> (XDP_ABORTED, s))
         else if outer_header_removal = 0 \<or> outer_header_removal = 6
         then (case remove_gtp_header K (ctx s) (frame s) of
             (ok, c, f) \<Rightarrow>
               (let s = s\<lparr>ctx := c, frame := f\<rparr>
                in if ok then finish_uplink E K s else (XDP_ABORTED, s)))
         else finish_uplink E K s)"

definition handle_gtp_packet ::
  "('m, 'b, 'z) bpf_env_scheme \<Rightarrow> xdp_env \<Rightarrow> ('m, 'b) xdp_state \<Rightarrow> xdp_action \<times> ('m, 'b) xdp_state" where
  "handle_gtp_packet E K s =
     (case gtp (ctx s) of
        None \<Rightarrow> (DEFAULT_XDP_ACTION, s)
      | Some g \<Rightarrow>
          (case Map_Lookup (teid_ops E) (PdrMapTeidIp4 (objs s)) (be (bytes_at (g + 4) 4 (frame s))) of
             None \<Rightarrow> (DEFAULT_XDP_ACTION, s)
           | Some pdr \<Rightarrow>
               (case (if ep_sdf_mode pdr = 0 then Some False
                      else inner_match (frame s) (data (ctx s)) (sr_sdf_filter (ep_sdf_rules pdr))) of
                  None \<Rightarrow> (DEFAULT_XDP_ACTION, s)
                | Some matches \<Rightarrow>
                    (case select_rules pdr matches of
                       None \<Rightarrow> (DEFAULT_XDP_ACTION, s)
                     | Some (far_id, qer_id, outer_header_removal) \<Rightarrow>
                         (case Map_Lookup (far_ops E) (FarMap (objs s)) far_id of
                            None \<Rightarrow> (XDP_DROP, s)
                          | Some far \<Rightarrow>
                              if fi_Action far AND FAR_FORW = 0 then (XDP_DROP, s)
                              else (case apply_qer E K True qer_id s of
                                  (None, s) \<Rightarrow> (XDP_DROP, s)
                                | (Some qer, s) \<Rightarrow>
                                    forward_uplink E K pdr far outer_header_removal g s))))))"

definition handle_gtpu ::
  "('m, 'b, 'z) bpf_env_scheme \<Rightarrow> xdp_env \<Rightarrow> ('m, 'b) xdp_state \<Rightarrow> xdp_action \<times> ('m, 'b) xdp_state" where
  "handle_gtpu E K s =
     (case parse_gtp (frame s) (ctx s) of
        (pdu_type, c) \<Rightarrow>
          (let s = s\<lparr>ctx := c\<rparr>
           in if pdu_type = Some 255 then handle_gtp_packet E K (count_rx_packet (\<lambda>t. t\<lparr>RxGtpPdu := RxGtpPdu t + 1\<rparr>) s)
              else if pdu_type = Some 1
              then (let s = count_rx_packet (\<lambda>t. t\<lparr>RxGtpEcho := RxGtpEcho t + 1\<rparr>) s
                    in case (eth c, ip4 c, udp c, gtp c) of
                         (Some e, Some i, Some u, Some g) \<Rightarrow> (XDP_TX, s\<lparr>frame := handle_echo_request K e i u g (frame s)\<rparr>)
                       | _ \<Rightarrow> (XDP_ABORTED, s))
              else if pdu_type = Some 2 then (XDP_PASS, s)
              else if pdu_type \<in> {Some 26, Some 31, Some 254}
              then (DEFAULT_XDP_ACTION, count_rx_packet (\<lambda>t. t\<lparr>RxGtpOther := RxGtpOther t + 1\<rparr>) s)
              else (DEFAULT_XDP_ACTION, count_rx_packet (\<lambda>t. t\<lparr>RxGtpUnexp := RxGtpUnexp t + 1\<rparr>) s)))"

section \<open>Entry point\<close>

definition to_n6 ::
  "(nat \<Rightarrow> ('m, 'b) xdp_state \<Rightarrow> xdp_action \<times> ('m, 'b) xdp_state) \<Rightarrow> nat \<Rightarrow> ('m, 'b) xdp_state \<Rightarrow> xdp_action \<times> ('m, 'b) xdp_state" where
  "to_n6 handle i s = handle i (count_n3_n6 (\<lambda>t. t\<lparr>rx_n6 := rx_n6 t + 1\<rparr>) s)"

definition handle_ip4 ::
  "('m, 'b, 'z) bpf_env_scheme \<Rightarrow> xdp_env \<Rightarrow> ('m, 'b) xdp_state \<Rightarrow> xdp_action \<times> ('m, 'b) xdp_state" where
  "handle_ip4 E K s =
     (let i = data (ctx s)
      in case parse_ip4 (frame s) (ctx s) of
           (l4_protocol, c) \<Rightarrow>
             (let s = s\<lparr>ctx := c\<rparr>
              in if l4_protocol = Some IPPROTO_ICMP
                 then to_n6 (handle_n6_packet_ipv4 E K) i (count_rx_packet (\<lambda>t. t\<lparr>RxIcmp := RxIcmp t + 1\<rparr>) s)
                 else if l4_protocol = Some IPPROTO_UDP
                 then (case parse_udp (frame s) c of
                     (port, c) \<Rightarrow>
                       (let s = count_rx_packet (\<lambda>t. t\<lparr>RxUdp := RxUdp t + 1\<rparr>) (s\<lparr>ctx := c\<rparr>)
                        in if port = Some GTP_UDP_PORT \<and> is_local_ip K (le (bytes_at (i + 16) 4 (frame s)))
                           then handle_gtpu E K (count_n3_n6 (\<lambda>t. t\<lparr>rx_n3 := rx_n3 t + 1\<rparr>) s)
                           else to_n6 (handle_n6_packet_ipv4 E K) i s))
                 else if l4_protocol = Some IPPROTO_TCP
                 then to_n6 (handle_n6_packet_ipv4 E K) i
                        (count_rx_packet (\<lambda>t. t\<lparr>RxTcp := RxTcp t + 1\<rparr>) (s\<lparr>ctx := snd (parse_tcp (frame s) c)\<rparr>))
                 else (DEFAULT_XDP_ACTION, count_rx_packet (\<lambda>t. t\<lparr>RxOther := RxOther t + 1\<rparr>) s)))"

definition handle_ip6 ::
  "('m, 'b, 'z) bpf_env_scheme \<Rightarrow> xdp_env \<Rightarrow> ('m, 'b) xdp_state \<Rightarrow> xdp_action \<times> ('m, 'b) xdp_state" where
  "handle_ip6 E K s =
     (let i = data (ctx s)
      in case parse_ip6 (frame s) (ctx s) of
           (l4_protocol, c) \<Rightarrow>
             (let s = s\<lparr>ctx := c\<rparr>
              in if l4_protocol = Some IPPROTO_ICMPV6 then (XDP_PASS, count_rx_packet (\<lambda>t. t\<lparr>RxIcmp6 := RxIcmp6 t + 1\<rparr>) s)
                 else if l4_protocol = Some IPPROTO_UDP
                 then to_n6 (handle_n6_packet_ipv6 E K) i (count_rx_packet (\<lambda>t. t\<lparr>RxUdp := RxUdp t + 1\<rparr>) s)
                 else if l4_protocol = Some IPPROTO_TCP
                 then to_n6 (handle_n6_packet_ipv6 E K) i
                        (count_rx_packet (\<lambda>t. t\<lparr>RxTcp := RxTcp t + 1\<rparr>) (s\<lparr>ctx := snd (parse_tcp (frame s) c)\<rparr>))
                 else (DEFAULT_XDP_ACTION, count_rx_packet (\<lambda>t. t\<lparr>RxOther := RxOther t + 1\<rparr>) s)))"

definition process_packet ::
  "('m, 'b, 'z) bpf_env_scheme \<Rightarrow> xdp_env \<Rightarrow> ('m, 'b) xdp_state \<Rightarrow> xdp_action \<times> ('m, 'b) xdp_state" where
  "process_packet E K s =
     (case parse_ethernet (frame s) (ctx s) of
        (l3_protocol, c) \<Rightarrow>
          (let s = s\<lparr>ctx := c\<rparr>
           in if l3_protocol = Some ETH_P_IPV6 then handle_ip6 E K (count_rx_packet (\<lambda>t. t\<lparr>RxIp6 := RxIp6 t + 1\<rparr>) s)
              else if l3_protocol = Some ETH_P_IP then handle_ip4 E K (count_rx_packet (\<lambda>t. t\<lparr>RxIp4 := RxIp4 t + 1\<rparr>) s)
              else if l3_protocol = Some ETH_P_ARP then (XDP_PASS, count_rx_packet (\<lambda>t. t\<lparr>RxArp := RxArp t + 1\<rparr>) s)
              else (DEFAULT_XDP_ACTION, s)))"

primrec action_code :: "xdp_action \<Rightarrow> nat" where
  "action_code XDP_ABORTED = 0"
| "action_code XDP_DROP = 1"
| "action_code XDP_PASS = 2"
| "action_code XDP_TX = 3"
| "action_code XDP_REDIRECT = 4"

text \<open>
  The statistics map has one entry per CPU that always exists, so the branch that makes it is not taken.
\<close>

definition upf_ip_entrypoint_func ::
  "('m, 'b, 'z) bpf_env_scheme \<Rightarrow> xdp_env \<Rightarrow> ('m, 'b) xdp_state \<Rightarrow> xdp_action \<times> ('m, 'b) xdp_state" where
  "upf_ip_entrypoint_func E K s =
     (case process_packet E K (s\<lparr>ctx := empty_context 0\<rparr>) of
        (action, s) \<Rightarrow>
          (action, s\<lparr>statistic := (statistic s)\<lparr>xdp_actions :=
             (xdp_actions (statistic s))[action_code action := xdp_actions (statistic s) ! action_code action + 1]\<rparr>\<rparr>))"

end
