(* ===== verification/Inet_Checksum.thy ===== *)
theory Inet_Checksum
  imports Xdp_Packet
begin

text \<open>
  Internet checksums (\<open>cmd/ebpf/xdp/utils/csum.h\<close>): what they are about, and that the program's folding of a
  sum and its change of a checksum by difference compute them.
\<close>

section \<open>Sums of 16-bit words\<close>

text \<open>
  The sum that Internet checksums are about; a checksum is right if the sum with it is a multiple of 65535.
\<close>

fun word_sum :: "bytes \<Rightarrow> nat" where
  "word_sum [] = 0"
| "word_sum [a] = unat a"
| "word_sum (a # b # bs) = unat (le [a, b] :: u16) + word_sum bs"

lemma word_sum_append: "even (length xs) \<Longrightarrow> word_sum (xs @ ys) = word_sum xs + word_sum ys"
  by (induction xs rule: word_sum.induct) simp_all

lemma unat_u16: "unat (x :: u16) < 65536"
  using unsigned_less [of x] by simp

lemma unat_NOT: "unat (NOT (x :: u16)) = 65535 - unat x"
proof -
  have "NOT x = - 1 - x" by (simp add: not_eq_complement)
  moreover have "unat (- 1 - x) = unat (- 1 :: u16) - unat x" by (rule unat_sub) simp
  moreover have "unat (- 1 :: u16) = 65535" by (simp add: unsigned_minus_1_eq_mask mask_eq_exp_minus_1)
  ultimately show ?thesis by simp
qed

text \<open>Addition with the carry added at the low end.\<close>

lemma end_around_carry:
  "int (unat ((a :: u16) + b + (if a + b < b then 1 else 0))) mod 65535 = (int (unat a) + int (unat b)) mod 65535"
proof -
  have l: "unat a < 65536" "unat b < 65536" by (rule unat_u16)+
  show ?thesis
  proof (cases "unat a + unat b < 65536")
    case True
    then have "unat (a + b) = unat a + unat b" by (simp add: unat_word_ariths)
    then show ?thesis by (simp add: word_less_nat_alt)
  next
    case False
    then have s: "unat (a + b) = unat a + unat b - 65536" using l by (simp add: unat_word_ariths mod_if)
    then have c: "a + b < b" using l False by (simp add: word_less_nat_alt)
    have "unat (a + b) + 1 < 65536" using s l False by linarith
    then have "unat (a + b + 1) = unat (a + b) + 1" by (simp add: unat_word_ariths(1) [of "a + b"])
    then have "int (unat (a + b + 1)) = (int (unat a) + int (unat b)) - 65535" using False s by simp
    then show ?thesis using c by simp
  qed
qed

lemma csum_replace:
  "int (unat (ipv4_csum_replace check old new)) mod 65535 = (int (unat check) + int (unat old) - int (unat new)) mod 65535"
proof -
  define c1 where "c1 = (NOT check) + (NOT old) + (if (NOT check) + (NOT old) < (NOT old) then 1 else 0)"
  define c2 where "c2 = c1 + new + (if c1 + new < new then 1 else 0)"
  have r: "ipv4_csum_replace check old new = NOT c2" by (simp add: ipv4_csum_replace_def Let_def c1_def c2_def)
  have l: "unat check \<le> 65535" "unat old \<le> 65535" "unat c2 \<le> 65535"
    using unat_u16 [of check] unat_u16 [of old] unat_u16 [of c2] by simp_all
  have "int (unat c1) mod 65535 = (65535 - int (unat check) + (65535 - int (unat old))) mod 65535"
    unfolding c1_def end_around_carry using l by (simp only: unat_NOT of_nat_diff of_nat_numeral)
  then obtain k where k: "int (unat c1) = 65535 - int (unat check) + (65535 - int (unat old)) + 65535 * k"
    by (metis mod_eqE)
  have "int (unat c2) mod 65535 = (int (unat c1) + int (unat new)) mod 65535"
    unfolding c2_def by (rule end_around_carry)
  then obtain j where j: "int (unat c2) = int (unat c1) + int (unat new) + 65535 * j" by (metis mod_eqE)
  have "int (unat (NOT c2)) = 65535 - int (unat c2)" using l(3) by (simp only: unat_NOT of_nat_diff of_nat_numeral)
  also have "\<dots> = (int (unat check) + int (unat old) - int (unat new)) + 65535 * (- 1 - k - j)" using k j by simp
  finally show ?thesis unfolding r by (simp only: mod_mult_self2)
qed

lemma le_put_le2: "le (put_le 2 (w :: u16)) = w"
  by (rule le_put_le) simp

section \<open>A checksum from a sum\<close>

text \<open>
  What the kernel documents of \<open>bpf_csum_diff\<close> from nothing to the 20 bytes of an IP header: a sum of its 16-bit
  words with the carries added at the low end, of 32 bits.
\<close>

definition csum_ok :: "xdp_env \<Rightarrow> bool" where
  "csum_ok K \<longleftrightarrow> (\<forall>bs. length bs = 20 \<longrightarrow> unat (bpf_csum_diff K bs) < 2 ^ 32 \<and> unat (bpf_csum_diff K bs) mod 65535 = word_sum bs mod 65535)"

definition fold_once :: "nat \<Rightarrow> nat" where
  "fold_once n = n mod 65536 + n div 65536"

lemma unat_fold_once: "unat ((c AND 0xFFFF) + drop_bit 16 c) = fold_once (unat (c :: u64))"
proof -
  have "c AND 0xFFFF = take_bit 16 c" by (simp add: take_bit_eq_mask mask_eq_exp_minus_1)
  then have a: "unat (c AND 0xFFFF) = unat c mod 65536" by (simp add: unsigned_take_bit_eq) (simp add: take_bit_eq_mod)
  have d: "unat (drop_bit 16 c) = unat c div 65536" by (simp add: drop_bit_eq_div unat_div)
  have "unat c < 2 ^ 64" using unsigned_less [of c] by simp
  then have "unat c div 65536 < 281474976710656" by (simp add: div_less_iff_less_mult)
  moreover have "unat c mod 65536 < 65536" by simp
  ultimately have "unat c mod 65536 + unat c div 65536 < 2 ^ 64" by simp
  then show ?thesis by (simp add: unat_word_ariths a d fold_once_def)
qed

lemma fold_once_mod: "fold_once n mod 65535 = n mod 65535"
proof -
  have "n = fold_once n + 65535 * (n div 65536)" using mult_div_mod_eq [of 65536 n] by (simp add: fold_once_def)
  then have "n mod 65535 = (fold_once n + 65535 * (n div 65536)) mod 65535" by simp
  then show ?thesis by simp
qed

lemma fold_once_small: "n < 2 ^ 32 \<Longrightarrow> fold_once n \<le> 131070" "n \<le> 131070 \<Longrightarrow> fold_once n \<le> 65535" "n \<le> 65535 \<Longrightarrow> fold_once n = n"
proof -
  assume "n < 2 ^ 32"
  then have "n div 65536 < 65536" by (simp add: div_less_iff_less_mult)
  moreover have "n mod 65536 < 65536" by simp
  ultimately show "fold_once n \<le> 131070" unfolding fold_once_def by linarith
next
  assume "n \<le> 131070"
  then show "fold_once n \<le> 65535" using mult_div_mod_eq [of 65536 n] by (cases "n < 65536") (auto simp: fold_once_def div_if)
qed (simp add: fold_once_def)

lemma csum_fold:
  assumes "unat c < 2 ^ 32"
  shows "(unat (csum_fold_helper c) + unat c) mod 65535 = 0"
proof -
  define f where "f = (\<lambda>c :: u64. (c AND 0xFFFF) + drop_bit 16 c)"
  define d where "d = (f ^^ 4) c"
  have s: "unat (f x) = fold_once (unat x)" for x unfolding f_def by (rule unat_fold_once)
  have d4: "unat d = fold_once (fold_once (fold_once (fold_once (unat c))))" by (simp add: d_def numeral_eq_Suc s)
  have b: "fold_once (fold_once (unat c)) \<le> 65535" using fold_once_small(1) [OF assms] by (rule fold_once_small(2))
  then have d2: "unat d = fold_once (fold_once (unat c))" unfolding d4 by (simp add: fold_once_small(3))
  then have m: "unat d mod 65535 = unat c mod 65535" by (simp add: fold_once_mod)
  have u: "unat (ucast d :: u16) = unat d" using b d2 by (simp add: unsigned_ucast_eq take_bit_eq_mod)
  have "csum_fold_helper c = NOT (ucast d)" by (simp add: csum_fold_helper_def d_def f_def)
  then have "unat (csum_fold_helper c) = 65535 - unat d" by (simp add: unat_NOT u)
  then have "unat (csum_fold_helper c) + unat d = 65535" using b d2 by simp
  then have "(unat (csum_fold_helper c) + unat d) mod 65535 = 0" by simp
  then show ?thesis using m by (metis mod_add_right_eq)
qed

end
