(* ===== verification/Xdp_Tunnels.thy ===== *)
theory Xdp_Tunnels
  imports Xdp_Entrypoint Inet_Checksum
begin

text \<open>
  What the XDP program makes of a packet, byte for byte: the tunnel it adds to a downlink packet, the
  tunnel it takes off an uplink packet, and that the second undoes the first.
\<close>

section \<open>Adding a tunnel\<close>

text \<open>The headers in front of an IP packet of length \<open>n\<close>.\<close>

definition tunnel_header :: "xdp_env \<Rightarrow> u32 \<Rightarrow> u32 \<Rightarrow> u8 \<Rightarrow> u8 \<Rightarrow> u32 \<Rightarrow> nat \<Rightarrow> bytes" where
  "tunnel_header K saddr daddr tos qfi teid n =
     (let h = fill_ip_header saddr daddr tos (n + 44)
      in write_at 10 (put_le 2 (ipv4_csum K h)) h @ fill_udp_header (n + 24) @ fill_gtp_header teid (n + 8)
           @ fill_gtp_ext_header @ fill_gtp_ext_header_psc qfi 0)"

lemma length_tunnel_header [simp]: "length (tunnel_header K saddr daddr tos qfi teid n) = 44"
  by (simp add: tunnel_header_def Let_def)

lemma add_tunnel:
  assumes "length e = 12" "length t = 2" and "ip_packet_len c (e @ t @ ip) = Some n"
    and "bpf_xdp_adjust_head K (- 44) (e @ t @ ip) = Some (room @ e @ t @ ip)" "length room = 44"
  shows "add_gtp_over_ip4_headers K saddr daddr tos qfi teid c (e @ t @ ip) =
    Some (c\<lparr>data := 0, eth := Some 0, ip4 := Some 14, ip6 := None, udp := Some 34, gtp := Some 42\<rparr>,
          e @ [8, 0] @ tunnel_header K saddr daddr tos qfi teid n @ ip)"
proof -
  let ?h = "fill_ip_header saddr daddr tos (n + 44)" and ?u = "fill_udp_header (n + 24)" and ?g = "fill_gtp_header teid (n + 8)"
  let ?x = fill_gtp_ext_header and ?p = "fill_gtp_ext_header_psc qfi 0"
  define z where "z = room @ e @ t"
  have z: "length z = 58" "bpf_xdp_adjust_head K (- 44) (e @ t @ ip) = Some (z @ ip)" "bytes_at 44 12 (z @ ip) = e"
    using assms by (simp_all add: z_def bytes_at_def)
  have type: "put_be 2 ETH_P_IP = [8, 0]" by code_simp
  have w0: "write_at 0 (e @ [8, 0]) (z @ ip) = e @ [8, 0] @ drop 14 z @ ip"
    using assms(1) z(1) by (simp add: write_at_def)
  have w1: "write_at 14 ?h (e @ [8, 0] @ drop 14 z @ ip) = e @ [8, 0] @ ?h @ drop 34 z @ ip"
    using assms(1) z(1) write_next [of "e @ [8, 0]" 14 ?h] by simp
  have w2: "write_at 34 ?u (e @ [8, 0] @ ?h @ drop 34 z @ ip) = e @ [8, 0] @ ?h @ ?u @ drop 42 z @ ip"
    using assms(1) z(1) write_next [of "e @ [8, 0] @ ?h" 34 ?u] by simp
  have w3: "write_at 42 ?g (e @ [8, 0] @ ?h @ ?u @ drop 42 z @ ip) = e @ [8, 0] @ ?h @ ?u @ ?g @ drop 50 z @ ip"
    using assms(1) z(1) write_next [of "e @ [8, 0] @ ?h @ ?u" 42 ?g] by simp
  have w4: "write_at 50 ?x (e @ [8, 0] @ ?h @ ?u @ ?g @ drop 50 z @ ip) = e @ [8, 0] @ ?h @ ?u @ ?g @ ?x @ drop 54 z @ ip"
    using assms(1) z(1) write_next [of "e @ [8, 0] @ ?h @ ?u @ ?g" 50 ?x] by simp
  have w5: "write_at 54 ?p (e @ [8, 0] @ ?h @ ?u @ ?g @ ?x @ drop 54 z @ ip) = e @ [8, 0] @ ?h @ ?u @ ?g @ ?x @ ?p @ ip"
    using assms(1) z(1) write_next [of "e @ [8, 0] @ ?h @ ?u @ ?g @ ?x" 54 ?p] by simp
  have c: "bytes_at 14 20 (e @ [8, 0] @ ?h @ ?u @ ?g @ ?x @ ?p @ ip) = ?h"
    using assms(1) by (simp add: bytes_at_def)
  have w6: "write_at 24 k (e @ [8, 0] @ ?h @ ?u @ ?g @ ?x @ ?p @ ip) = e @ [8, 0] @ write_at 10 k ?h @ ?u @ ?g @ ?x @ ?p @ ip"
    if "length k = 2" for k
    using assms(1) that write_at_append(1) [of "e @ [8, 0]" 24 k] by (simp add: write_at_append(2))
  have n: "n + 8 + 16 = n + 24" "8 + n = n + 8" "\<not> 44 + 14 > length (z @ ip)" using z(1) by simp_all
  show ?thesis
    unfolding add_gtp_over_ip4_headers_def assms(3) option.case Let_def z(2,3) n type w0 w1 w2 w3 w4 w5 c w6 [OF length_put_le]
      tunnel_header_def if_False append_assoc using z(1) by simp
qed

text \<open>
  What the specifications say of the 44 bytes in front of an IP packet of \<open>n\<close> bytes in a GTP-U tunnel: an IPv4 header of five
  words (RFC 791) with the addresses of the tunnel, the given type of service, UDP as protocol and a right checksum; a UDP
  header (RFC 768) from and to port 2152, without checksum; a GTP-U header (TS 29.281) of version 1 for a G-PDU with
  the TEID and one extension; and the PDU session container (TS 38.415) of type 0, downlink, with the QFI. Lengths count
  from the start of their header, that of GTP from its end.
\<close>

definition be_val :: "bytes \<Rightarrow> nat" where
  "be_val bs = foldl (\<lambda>n b. 256 * n + unat b) 0 bs"

definition gtpu_tunnel :: "bytes \<Rightarrow> u32 \<Rightarrow> u32 \<Rightarrow> u8 \<Rightarrow> u8 \<Rightarrow> u32 \<Rightarrow> nat \<Rightarrow> bool" where
  "gtpu_tunnel h src dst tos qfi teid n \<longleftrightarrow> length h = 44 \<and>
     h ! 0 = 0x45 \<and> h ! 1 = tos \<and> be_val (bytes_at 2 2 h) = (n + 44) mod 65536 \<and> bytes_at 4 4 h = [0, 0, 0x40, 0] \<and>
     h ! 8 = 64 \<and> h ! 9 = 17 \<and> word_sum (bytes_at 0 20 h) mod 65535 = 0 \<and> le (bytes_at 12 4 h) = src \<and> le (bytes_at 16 4 h) = dst \<and>
     be_val (bytes_at 20 2 h) = 2152 \<and> be_val (bytes_at 22 2 h) = 2152 \<and> be_val (bytes_at 24 2 h) = (n + 24) mod 65536 \<and>
     bytes_at 26 2 h = [0, 0] \<and>
     h ! 28 = 0x34 \<and> h ! 29 = 255 \<and> be_val (bytes_at 30 2 h) = (n + 8) mod 65536 \<and> be_val (bytes_at 32 4 h) = unat teid \<and>
     bytes_at 36 4 h = [0, 0, 0, 0x85] \<and> h ! 40 = 1 \<and> h ! 41 = 0 \<and> unat (h ! 42) = unat qfi mod 64 \<and> h ! 43 = 0"

lemma be_val_put_be: "8 * n \<le> LENGTH('a) \<Longrightarrow> be_val (put_be n (w :: 'a::len word)) = unat w mod 256 ^ n"
proof (induction n arbitrary: w)
  case (Suc n)
  have "unat (drop_bit 8 w) = unat w div 256" by (rule bit_eqI) (simp add: bit_simps flip: drop_bit_eq_div [of 8, simplified])
  moreover have "unat (ucast w :: u8) = unat w mod 256" by (simp add: unsigned_ucast_eq take_bit_eq_mod)
  ultimately show ?case using Suc by (simp add: be_val_def put_be_def mod_mult2_eq)
qed (simp add: be_val_def put_be_def)

lemma be_val_16: "be_val (put_be 2 (of_nat m :: u16)) = m mod 65536"
  by (simp add: be_val_put_be unat_of_nat)

text \<open>The checksum makes the sum of the outer IP header a multiple of 65535.\<close>

lemma two_bytes_sum: "length xs = 2 \<Longrightarrow> word_sum xs = unat (le xs :: u16)"
  by (auto simp: length_Suc_conv numeral_2_eq_2)

lemma header_checksum:
  assumes "csum_ok K" and "length a = 10" "length b = 8"
  shows "word_sum (a @ put_le 2 (ipv4_csum K (a @ [0, 0] @ b)) @ b) mod 65535 = 0"
proof -
  let ?h = "a @ [0, 0] @ b"
  have "word_sum [0, 0] = 0" by (simp add: two_bytes_sum)
  moreover have "word_sum ([0, 0] @ b) = word_sum [0, 0] + word_sum b" by (rule word_sum_append) simp
  ultimately have z: "word_sum ?h = word_sum a + word_sum b" using assms(2) by (simp add: word_sum_append del: word_sum.simps append_Cons)
  have "length ?h = 20" using assms by simp
  then have d: "unat (bpf_csum_diff K ?h) < 2 ^ 32" "unat (bpf_csum_diff K ?h) mod 65535 = word_sum ?h mod 65535"
    using assms(1) unfolding csum_ok_def by blast+
  have "(unat (ipv4_csum K ?h) + unat (bpf_csum_diff K ?h)) mod 65535 = 0"
    unfolding ipv4_csum_def by (rule csum_fold [OF d(1)])
  then have "(unat (ipv4_csum K ?h) + word_sum ?h) mod 65535 = 0" using mod_add_cong [OF refl d(2)] by simp
  then have "(unat (ipv4_csum K ?h) + (word_sum a + word_sum b)) mod 65535 = 0" by (simp only: z)
  moreover have "word_sum (a @ put_le 2 (ipv4_csum K ?h) @ b) = unat (ipv4_csum K ?h) + (word_sum a + word_sum b)"
    using assms(2) by (simp add: word_sum_append two_bytes_sum [OF length_put_le] le_put_le2 del: append_Cons append_Nil)
  ultimately show ?thesis by simp
qed

lemma tunnel_header_ok:
  assumes "csum_ok K"
  shows "gtpu_tunnel (tunnel_header K saddr daddr tos qfi teid n) saddr daddr tos qfi teid n"
proof -
  define u where "u = fill_udp_header (n + 24) @ fill_gtp_header teid (n + 8) @ fill_gtp_ext_header @ fill_gtp_ext_header_psc qfi 0"
  define a where "a = [0x45, tos] @ put_be 2 (of_nat (n + 44) :: u16) @ [0, 0, 0x40, 0, 64, IPPROTO_UDP]"
  define b where "b = put_le 4 saddr @ put_le 4 daddr"
  define ck where "ck = put_le 2 (ipv4_csum K (a @ [0, 0] @ b))"
  have h: "fill_ip_header saddr daddr tos (n + 44) = a @ [0, 0] @ b" "length a = 10" "length b = 8" "length ck = 2" "length u = 24"
    by (simp_all add: a_def b_def ck_def u_def fill_ip_header_def)
  have t: "tunnel_header K saddr daddr tos qfi teid n = a @ ck @ b @ u"
    using h(2-5) unfolding tunnel_header_def Let_def h(1) u_def [symmetric] ck_def [symmetric] by (simp add: write_at_def)
  have udp: "be_val (bytes_at 0 2 u) = 2152" "be_val (bytes_at 2 2 u) = 2152" "be_val (bytes_at 4 2 u) = (n + 24) mod 65536" "bytes_at 6 2 u = [0, 0]"
    using be_val_16 [of 2152] be_val_16 [of "n + 24"] by (simp_all add: u_def fill_udp_header_def bytes_at_def)
  have u32_val: "be_val (put_be 4 teid) = unat teid" using unat32_lt [of teid] by (simp add: be_val_put_be)
  have gtp: "u ! 8 = 0x34" "u ! 9 = 255" "be_val (bytes_at 10 2 u) = (n + 8) mod 65536" "be_val (bytes_at 12 4 u) = unat teid"
    "bytes_at 16 4 u = [0, 0, 0, 0x85]"
    using u32_val be_val_16 [of "n + 8"]
    by (simp_all add: u_def fill_udp_header_def fill_gtp_header_def fill_gtp_ext_header_def bytes_at_def nth_append)
  have "qfi AND 0x3F = take_bit 6 qfi" by (simp add: take_bit_eq_mask mask_eq_exp_minus_1)
  then have "unat (qfi AND 0x3F) = unat qfi mod 64" by (simp add: unsigned_take_bit_eq) (simp add: take_bit_eq_mod)
  then have psc: "u ! 20 = 1" "u ! 21 = 0" "unat (u ! 22) = unat qfi mod 64" "u ! 23 = 0"
    by (simp_all add: u_def fill_gtp_ext_header_def fill_gtp_ext_header_psc_def nth_append)
  have ip: "a ! 0 = 0x45" "a ! 1 = tos" "be_val (bytes_at 2 2 a) = (n + 44) mod 65536" "bytes_at 4 4 a = [0, 0, 0x40, 0]" "a ! 8 = 64" "a ! 9 = 17"
    "le (bytes_at 0 4 b) = saddr" "le (bytes_at 4 4 b) = daddr"
    using be_val_16 [of "n + 44"] by (simp_all add: a_def b_def bytes_at_def nth_append le_put_le)
  have f: "bytes_at k m (a @ ck @ b @ u) = bytes_at k m a" "(a @ ck @ b @ u) ! j = a ! j" if "k + m \<le> 10" "j < 10" for k m j
    using that h by (simp_all add: bytes_at_def nth_append)
  have s: "bytes_at (12 + k) m (a @ ck @ b @ u) = bytes_at k m b" if "k + m \<le> 8" for k m using that h by (simp add: bytes_at_def)
  have l: "bytes_at (20 + k) m (a @ ck @ b @ u) = bytes_at k m u" "(a @ ck @ b @ u) ! (20 + j) = u ! j" for k m j
    using h by (simp_all add: bytes_at_def nth_append)
  have w: "bytes_at 0 20 (a @ ck @ b @ u) = a @ ck @ b" using h by (simp add: bytes_at_def)
  show ?thesis
    unfolding t gtpu_tunnel_def w
    using ip udp gtp psc header_checksum [OF assms h(2,3), folded ck_def] h(2-5) f [of 2 2 0] f [of 4 4 1] f [of 0 0 8] f [of 0 0 9] s [of 0 4] s [of 4 4]
      l(1) [of 0 2] l(1) [of 2 2] l(1) [of 4 2] l(1) [of 6 2] l(1) [of 10 2] l(1) [of 12 4] l(1) [of 16 4]
      l(2) [of 8] l(2) [of 9] l(2) [of 20] l(2) [of 21] l(2) [of 22] l(2) [of 23] by simp
qed

section \<open>Taking a tunnel off\<close>

lemma reinit_ip:
  assumes "length e = 12"
  shows "length ip \<ge> 20 \<Longrightarrow> context_reinit (e @ [8, 0] @ ip) c =
      (True, (context_reset c)\<lparr>data := 14 + unat (ip ! 0 AND 0x0F) * 4, eth := Some 0, ip4 := Some 14\<rparr>)"
    and "length ip \<ge> 40 \<Longrightarrow> context_reinit (e @ [0x86, 0xDD] @ ip) c =
      (True, (context_reset c)\<lparr>data := 54, eth := Some 0, ip6 := Some 14\<rparr>)"
proof -
  have t: "be [8, 0] = ETH_P_IP" "be [0x86, 0xDD] = ETH_P_IPV6" by code_simp+
  have r: "bytes_at 12 2 (e @ [a, b] @ ip) = [a, b]" "(e @ a # b # ip) ! 14 = ip ! 0" for a b
    using assms by (simp_all add: bytes_at_def nth_append)
  show "context_reinit (e @ [8, 0] @ ip) c =
      (True, (context_reset c)\<lparr>data := 14 + unat (ip ! 0 AND 0x0F) * 4, eth := Some 0, ip4 := Some 14\<rparr>)" if "length ip \<ge> 20"
    using that assms r t by (simp add: context_reinit_def parse_ethernet_def parse_ip4_def context_reset_def)
  show "context_reinit (e @ [0x86, 0xDD] @ ip) c =
      (True, (context_reset c)\<lparr>data := 54, eth := Some 0, ip6 := Some 14\<rparr>)" if "length ip \<ge> 40"
    using that assms r t by (simp add: context_reinit_def parse_ethernet_def parse_ip6_def context_reset_def)
qed

lemma remove_tunnel:
  assumes "adjust_ok K" and "gtp c = Some g" and "length e = 12" and "ip \<noteq> []" "guess_eth_protocol (ip ! 0) = Some p"
    and "length mid = 38 + (if gtp_has_ext (e @ mid @ ip) g then 8 else 0)"
    and "bpf_xdp_adjust_head K (int (length mid - 2)) (e @ take (length mid - 14) mid @ e @ put_be 2 p @ ip) \<noteq> None"
  shows "remove_gtp_header K c (e @ mid @ ip) =
    (case context_reinit (e @ put_be 2 p @ ip) c of (ok, c) \<Rightarrow> (ok, c, e @ put_be 2 p @ ip))"
proof -
  define n where "n = length mid - 2"
  have n: "36 + (if gtp_has_ext (e @ mid @ ip) g then 8 else 0) = n" "length mid = n + 2" "n \<ge> 36" using assms(6) by (simp_all add: n_def)
  have at: "(e @ mid @ ip) ! (n + 14) = ip ! 0" using n assms(3) by (simp add: nth_append)
  have len: "length (e @ mid @ ip) \<ge> n + 15" using assms(3,4) n by (cases ip) simp_all
  have hd: "bytes_at 0 12 (e @ mid @ ip) = e" using assms(3) by (simp add: bytes_at_def)
  have w: "write_at n (e @ put_be 2 p) (e @ mid @ ip) = e @ take (n - 12) mid @ e @ put_be 2 p @ ip"
    using n(2,3) assms(3) by (simp add: write_at_def)
  obtain f' where f': "bpf_xdp_adjust_head K (int n) (e @ take (n - 12) mid @ e @ put_be 2 p @ ip) = Some f'"
    using assms(7) n(2) by auto
  with assms(1) have "f' = drop n (e @ take (n - 12) mid @ e @ put_be 2 p @ ip)" unfolding adjust_ok_def by blast
  then have "f' = e @ put_be 2 p @ ip" using n(2,3) assms(3) by simp
  with assms(2,5) n(1) len at hd w f' show ?thesis
    unfolding remove_gtp_header_def by (simp add: Let_def del: append_assoc)
qed

section \<open>Steps that leave the packet alone\<close>

lemma update_urr_sel [simp]:
  "frame (update_urr E u a d s) = frame s" "ctx (update_urr E u a d s) = ctx s" "route_stat (update_urr E u a d s) = route_stat s"
  "statistic (update_urr E u a d s) = statistic s" "FarMap (objs (update_urr E u a d s)) = FarMap (objs s)"
  "QerMap (objs (update_urr E u a d s)) = QerMap (objs s)" "PdrMapTeidIp4 (objs (update_urr E u a d s)) = PdrMapTeidIp4 (objs s)"
  "PdrMapDownlinkIp4 (objs (update_urr E u a d s)) = PdrMapDownlinkIp4 (objs s)"
  "PdrMapDownlinkIp6 (objs (update_urr E u a d s)) = PdrMapDownlinkIp6 (objs s)"
  by (simp_all add: update_urr_def split: option.split)

lemma count_sel [simp]:
  "frame (count_rx_packet g s) = frame s" "ctx (count_rx_packet g s) = ctx s" "objs (count_rx_packet g s) = objs s"
  "route_stat (count_rx_packet g s) = route_stat s" "clock_reads (count_rx_packet g s) = clock_reads s"
  "frame (count_n3_n6 h s) = frame s" "ctx (count_n3_n6 h s) = ctx s" "objs (count_n3_n6 h s) = objs s"
  "route_stat (count_n3_n6 h s) = route_stat s" "clock_reads (count_n3_n6 h s) = clock_reads s"
  "frame (count_route k s) = frame s" "ctx (count_route k s) = ctx s" "objs (count_route k s) = objs s"
  by (simp_all add: count_rx_packet_def count_n3_n6_def count_route_def)

text \<open>A QER with an open gate and no rate limit.\<close>

definition open_qer :: "('m, 'b, 'z) bpf_env_scheme \<Rightarrow> bool \<Rightarrow> u32 \<Rightarrow> ('m, 'b) BpfObjects \<Rightarrow> QerInfo \<Rightarrow> bool" where
  "open_qer E uplink qer_id b qer \<longleftrightarrow> Map_Lookup (qer_ops E) (QerMap b) qer_id = Some qer \<and>
     (if uplink then qi_GateStatusUL qer = 0 \<and> qi_MaxBitrateUL qer = 0 else qi_GateStatusDL qer = 0 \<and> qi_MaxBitrateDL qer = 0)"

lemma apply_open_qer: "open_qer E uplink qer_id (objs s) qer \<Longrightarrow> apply_qer E K uplink qer_id s = (Some qer, s)"
  by (auto simp: open_qer_def apply_qer_def limit_rate_sliding_window_def Let_def split: if_splits)

section \<open>An uplink and a downlink packet\<close>

lemma type_bytes: "put_be 2 ETH_P_IP = [8, 0]" "be [8, 0] = ETH_P_IP"
  by code_simp+

text \<open>Routing of a packet that is found in the routing table.\<close>

definition route_of :: "xdp_env \<Rightarrow> u8 \<Rightarrow> u8 \<Rightarrow> u16 \<Rightarrow> bytes \<Rightarrow> bytes \<Rightarrow> int \<times> fib_result" where
  "route_of K tos proto len src dst = bpf_fib_lookup K
     \<lparr>fp_family = AF_INET, fp_tos = tos, fp_l4_protocol = proto, fp_tot_len = len, fp_src = src, fp_dst = dst,
      fp_ifindex = ingress_ifindex K\<rparr>"

definition sent_action :: "xdp_env \<Rightarrow> fib_result \<Rightarrow> xdp_action" where
  "sent_action K r = (if fr_ifindex r = ingress_ifindex K then XDP_TX else bpf_redirect K (fr_ifindex r))"

lemma route_ipv4_found:
  assumes "frame s = e @ [8, 0] @ ip" "length e = 12" "length ip \<ge> 20" "route_stat s \<noteq> None"
    and "route_of K (ip ! 1) (ip ! 9) (be (bytes_at 2 2 ip)) (bytes_at 12 4 ip) (bytes_at 16 4 ip) = (0, r)"
    and "length (fr_dmac r) = 6" "length (fr_smac r) = 6"
  shows "fst (route_ipv4 K 0 14 s) = sent_action K r"
    "frame (snd (route_ipv4 K 0 14 s)) = fr_dmac r @ fr_smac r @ [8, 0] @ ip" "objs (snd (route_ipv4 K 0 14 s)) = objs s"
proof -
  have b: "bytes_at (14 + k) m (e @ [8, 0] @ ip) = bytes_at k m ip" for k m using assms(2) by (simp add: bytes_at_def)
  have i: "(e @ [8, 0] @ ip) ! (14 + k) = ip ! k" for k using assms(2) by (simp add: nth_append)
  have l: "bpf_fib_lookup K \<lparr>fp_family = AF_INET, fp_tos = frame s ! (14 + 1), fp_l4_protocol = frame s ! (14 + 9),
      fp_tot_len = be (bytes_at (14 + 2) 2 (frame s)), fp_src = bytes_at (14 + 12) 4 (frame s), fp_dst = bytes_at (14 + 16) 4 (frame s),
      fp_ifindex = ingress_ifindex K\<rparr> = (0, r)"
    using assms(5) unfolding assms(1) i b route_of_def .
  have w: "write_at 0 (fr_dmac r @ fr_smac r) (e @ [8, 0] @ ip) = fr_dmac r @ fr_smac r @ [8, 0] @ ip"
    using assms(2,6,7) by (simp add: write_at_def)
  obtain rs where rs: "route_stat s = Some rs" using assms(4) by auto
  show "fst (route_ipv4 K 0 14 s) = sent_action K r"
    "frame (snd (route_ipv4 K 0 14 s)) = fr_dmac r @ fr_smac r @ [8, 0] @ ip" "objs (snd (route_ipv4 K 0 14 s)) = objs s"
    unfolding route_ipv4_def Let_def l using w rs assms(1) by (simp_all add: forward_to_def sent_action_def)
qed

lemma entry_ip4:
  assumes "frame s = e @ [8, 0] @ ip" "length e = 12" "length ip \<ge> 20"
  shows "process_packet E K (s\<lparr>ctx := empty_context 0\<rparr>) =
    handle_ip4 E K (count_rx_packet (\<lambda>t. t\<lparr>RxIp4 := RxIp4 t + 1\<rparr>) (s\<lparr>ctx := (empty_context 0)\<lparr>data := 14, eth := Some 0\<rparr>\<rparr>))"
proof -
  have b: "bytes_at 12 2 (e @ [8, 0] @ ip) = [8, 0]" using assms(2) by (simp add: bytes_at_def)
  show ?thesis
    unfolding process_packet_def using assms b [simplified] type_bytes
    by (simp add: parse_ethernet_def empty_context_def Let_def)
qed

lemma entrypoint_frame:
  "fst (upf_ip_entrypoint_func E K s) = fst (process_packet E K (s\<lparr>ctx := empty_context 0\<rparr>))"
  "frame (snd (upf_ip_entrypoint_func E K s)) = frame (snd (process_packet E K (s\<lparr>ctx := empty_context 0\<rparr>)))"
  "objs (snd (upf_ip_entrypoint_func E K s)) = objs (snd (process_packet E K (s\<lparr>ctx := empty_context 0\<rparr>)))"
  by (simp_all add: upf_ip_entrypoint_func_def case_prod_unfold)

text \<open>A packet that is not for a tunnel end of the UPF goes to the downlink handler.\<close>

lemma handle_ip4_n6:
  assumes "frame s = e @ [8, 0] @ ip" "length e = 12" "length ip \<ge> 20" and "data (ctx s) = 14"
    and "ip ! 9 \<in> {IPPROTO_ICMP, IPPROTO_TCP, IPPROTO_UDP}" "ip ! 9 = IPPROTO_UDP \<longrightarrow> \<not> is_local_ip K (le (bytes_at 16 4 ip))"
  shows "\<exists>s'. handle_ip4 E K s = handle_n6_packet_ipv4 E K 14 s' \<and> frame s' = frame s \<and> objs s' = objs s \<and>
    route_stat s' = route_stat s \<and> ip4 (ctx s') = Some 14 \<and> clock_reads s' = clock_reads s"
proof -
  have b: "bytes_at 30 4 (frame s) = bytes_at 16 4 ip" using assms(1,2) by (simp add: bytes_at_def)
  have i: "frame s ! 23 = ip ! 9" using assms(1,2) by (simp add: nth_append)
  have l: "length (frame s) \<ge> 34" using assms(1-3) by simp
  have u: "ip4 (snd (parse_udp f c)) = ip4 c" "ip4 (snd (parse_tcp f c)) = ip4 c" for f c by (simp_all add: parse_udp_def parse_tcp_def)
  show ?thesis
    unfolding handle_ip4_def parse_ip4_def to_n6_def Let_def assms(4)
    using l assms(5,6) by (auto simp: i b u case_prod_unfold)
qed

text \<open>A GTP packet for a tunnel end of the UPF goes to the uplink handler, with all its headers found.\<close>

definition gtp_frame :: "bytes \<Rightarrow> bytes \<Rightarrow> bytes \<Rightarrow> bytes \<Rightarrow> bytes \<Rightarrow> bytes \<Rightarrow> bytes" where
  "gtp_frame e oip ud gh x ip = e @ [8, 0] @ oip @ ud @ gh @ x @ ip"

definition gtp_frame_ok :: "xdp_env \<Rightarrow> bytes \<Rightarrow> bytes \<Rightarrow> bytes \<Rightarrow> bytes \<Rightarrow> bytes \<Rightarrow> bool" where
  "gtp_frame_ok K e oip ud gh x \<longleftrightarrow> length e = 12 \<and> length oip = 20 \<and> length ud = 8 \<and> length gh = 8 \<and>
     length x = (if gh ! 0 AND 0x07 \<noteq> 0 then 8 else 0) \<and> oip ! 0 AND 0x0F = 5 \<and> oip ! 9 = IPPROTO_UDP \<and>
     is_local_ip K (le (bytes_at 16 4 oip)) \<and> be (bytes_at 2 2 ud) = GTP_UDP_PORT \<and> gh ! 1 = 255"

lemma gtp_frame_parts:
  assumes "gtp_frame_ok K e oip ud gh x"
  shows "length (gtp_frame e oip ud gh x ip) = 50 + length x + length ip"
    "gtp_frame e oip ud gh x ip ! 14 = oip ! 0" "gtp_frame e oip ud gh x ip ! 23 = oip ! 9"
    "bytes_at 30 4 (gtp_frame e oip ud gh x ip) = bytes_at 16 4 oip" "bytes_at 36 2 (gtp_frame e oip ud gh x ip) = bytes_at 2 2 ud"
    "gtp_frame e oip ud gh x ip ! 42 = gh ! 0" "gtp_frame e oip ud gh x ip ! 43 = gh ! 1"
    "bytes_at 46 4 (gtp_frame e oip ud gh x ip) = bytes_at 4 4 gh"
  using assms by (simp_all add: gtp_frame_ok_def gtp_frame_def nth_append bytes_at_def)

lemma gtp_frame_ext: "gtp_frame_ok K e oip ud gh x \<Longrightarrow> length x = (if gh ! 0 AND 0x07 \<noteq> 0 then 8 else 0)"
  by (simp add: gtp_frame_ok_def)

lemma handle_ip4_gtp:
  assumes "frame s = gtp_frame e oip ud gh x ip" and "gtp_frame_ok K e oip ud gh x"
    and "ctx s = (empty_context 0)\<lparr>data := 14, eth := Some 0\<rparr>"
  shows "\<exists>s'. handle_ip4 E K s = handle_gtp_packet E K s' \<and> frame s' = frame s \<and> objs s' = objs s \<and> route_stat s' = route_stat s \<and>
    clock_reads s' = clock_reads s \<and> ctx s' = \<lparr>data = 50 + length x, eth = Some 0, ip4 = Some 14, ip6 = None, udp = Some 34,
      tcp = None, gtp = Some 42\<rparr>"
proof -
  note p = gtp_frame_parts [OF assms(2), of ip]
  have ok: "oip ! 0 AND 0x0F = 5" "oip ! 9 = IPPROTO_UDP" "is_local_ip K (le (bytes_at 16 4 oip))" "be (bytes_at 2 2 ud) = GTP_UDP_PORT" "gh ! 1 = 255"
    using assms(2) by (simp_all add: gtp_frame_ok_def)
  define s' where "s' = count_rx_packet (\<lambda>t. t\<lparr>RxGtpPdu := RxGtpPdu t + 1\<rparr>) ((count_n3_n6 (\<lambda>t. t\<lparr>rx_n3 := rx_n3 t + 1\<rparr>)
    (count_rx_packet (\<lambda>t. t\<lparr>RxUdp := RxUdp t + 1\<rparr>) (s\<lparr>ctx := (empty_context 0)\<lparr>data := 42, eth := Some 0, ip4 := Some 14, udp := Some 34\<rparr>\<rparr>)))
      \<lparr>ctx := \<lparr>data = 50 + length x, eth = Some 0, ip4 = Some 14, ip6 = None, udp = Some 34, tcp = None, gtp = Some 42\<rparr>\<rparr>)"
  have "handle_ip4 E K s = handle_gtp_packet E K s'"
    unfolding handle_ip4_def handle_gtpu_def parse_ip4_def parse_udp_def parse_gtp_def gtp_has_ext_def
    by (simp add: assms(1,3) p ok ok(5) [unfolded One_nat_def] gtp_frame_ext [OF assms(2)] Let_def empty_context_def s'_def)
  then show ?thesis by (intro exI [of _ s']) (simp add: s'_def)
qed

lemma downlink_packet_header:
  assumes "frame s = e @ [8, 0] @ ip" "length e = 12" "length ip \<ge> 20"
    and "ip ! 9 \<in> {IPPROTO_ICMP, IPPROTO_TCP, IPPROTO_UDP}" "ip ! 9 = IPPROTO_UDP \<longrightarrow> \<not> is_local_ip K (le (bytes_at 16 4 ip))"
    and "Map_Lookup (ip4_ops E) (PdrMapDownlinkIp4 (objs s)) (Some (bytes_at 16 4 ip)) = Some pdr" "ep_sdf_mode pdr = 0"
    and "Map_Lookup (far_ops E) (FarMap (objs s)) (ep_far_id pdr) = Some far"
    and "fi_Action far AND FAR_FORW \<noteq> 0" "fi_OuterHeaderCreation far AND OHC_GTP_U_UDP_IPv4 \<noteq> 0"
    and "open_qer E False (ep_qer_id pdr) (objs s) qer"
    and "bpf_xdp_adjust_head K (- 44) (frame s) = Some (room @ frame s)" "length room = 44"
    and "n = unat (be (bytes_at 2 2 ip) :: u16)" "tos = ucast (drop_bit 8 (fi_TransportLevelMarking far))" "route_stat s \<noteq> None"
    and "route_of K tos IPPROTO_UDP (of_nat (n + 44)) (put_le 4 (n3_ipv4_address K)) (put_le 4 (fi_RemoteIP far)) = (0, r)"
    and "length (fr_dmac r) = 6" "length (fr_smac r) = 6"
  shows "fst (upf_ip_entrypoint_func E K s) = sent_action K r
    \<and> frame (snd (upf_ip_entrypoint_func E K s)) =
      fr_dmac r @ fr_smac r @ [8, 0] @ tunnel_header K (n3_ipv4_address K) (fi_RemoteIP far) tos (qi_Qfi qer) (fi_Teid far) n @ ip"
proof -
  let ?s = "count_rx_packet (\<lambda>t. t\<lparr>RxIp4 := RxIp4 t + 1\<rparr>) (s\<lparr>ctx := (empty_context 0)\<lparr>data := 14, eth := Some 0\<rparr>\<rparr>)"
  let ?t = "tunnel_header K (n3_ipv4_address K) (fi_RemoteIP far) tos (qi_Qfi qer) (fi_Teid far) n"
  obtain s1 where s1: "handle_ip4 E K ?s = handle_n6_packet_ipv4 E K 14 s1" "frame s1 = frame s" "objs s1 = objs s"
    "route_stat s1 = route_stat s" "ip4 (ctx s1) = Some 14"
    using handle_ip4_n6 [of ?s e ip K E] assms(1-5) by auto
  have b: "bytes_at 30 4 (frame s) = bytes_at 16 4 ip" "bytes_at 16 2 (frame s) = bytes_at 2 2 ip"
    using assms(1,2) by (simp_all add: bytes_at_def)
  define s2 where "s2 = update_urr E (ep_urr2_id pdr) 0 (of_nat (length (frame s))) (update_urr E (ep_urr1_id pdr) 0 (of_nat (length (frame s))) s1)"
  have n6: "handle_n6_packet_ipv4 E K 14 s1 =
      send_to_gtp_tunnel K (n3_ipv4_address K) (fi_RemoteIP far) tos (qi_Qfi qer) (fi_Teid far) s2"
    unfolding handle_n6_packet_ipv4_def handle_n6_packet_def
    using assms(6-11,15) s1 b apply_open_qer [of E False "ep_qer_id pdr" s1 qer K] by (simp add: select_rules_def Let_def s2_def)
  have "add_gtp_over_ip4_headers K (n3_ipv4_address K) (fi_RemoteIP far) tos (qi_Qfi qer) (fi_Teid far) (ctx s2) (frame s2) =
      Some ((ctx s2)\<lparr>data := 0, eth := Some 0, ip4 := Some 14, ip6 := None, udp := Some 34, gtp := Some 42\<rparr>, e @ [8, 0] @ ?t @ ip)"
    using add_tunnel [of e "[8, 0]" "ctx s1" ip n K room] assms(1,2,12-14) s1 b by (simp add: s2_def ip_packet_len_def)
  then have send: "send_to_gtp_tunnel K (n3_ipv4_address K) (fi_RemoteIP far) tos (qi_Qfi qer) (fi_Teid far) s2 =
      route_ipv4 K 0 14 (count_n3_n6 (\<lambda>t. t\<lparr>tx_n3 := tx_n3 t + 1\<rparr>) (s2\<lparr>ctx := (ctx s2)\<lparr>data := 0, eth := Some 0, ip4 := Some 14,
        ip6 := None, udp := Some 34, gtp := Some 42\<rparr>, frame := e @ [8, 0] @ ?t @ ip\<rparr>))"
    by (simp add: send_to_gtp_tunnel_def)
  have h: "(?t @ ip) ! 1 = tos" "(?t @ ip) ! 9 = IPPROTO_UDP" "bytes_at 2 2 (?t @ ip) = put_be 2 (of_nat (n + 44) :: u16)"
    "bytes_at 12 4 (?t @ ip) = put_le 4 (n3_ipv4_address K)" "bytes_at 16 4 (?t @ ip) = put_le 4 (fi_RemoteIP far)"
    by (simp_all add: tunnel_header_def Let_def fill_ip_header_def nth_append bytes_at_def write_at_def)
  note route_ipv4_found [of _ e "?t @ ip" K r]
  from this [of "count_n3_n6 (\<lambda>t. t\<lparr>tx_n3 := tx_n3 t + 1\<rparr>) (s2\<lparr>ctx := (ctx s2)\<lparr>data := 0, eth := Some 0, ip4 := Some 14,
        ip6 := None, udp := Some 34, gtp := Some 42\<rparr>, frame := e @ [8, 0] @ ?t @ ip\<rparr>)"]
  show ?thesis
    unfolding entrypoint_frame entry_ip4 [OF assms(1-3)] s1(1) n6 send h
    using assms(2,16-19) s1(4) by (simp add: s2_def be_put_be)
qed

section \<open>A forwarding plane to try\<close>

text \<open>A kernel that always finds a route out of interface 2, and the rules of one UE.\<close>

definition sim_xdp :: xdp_env where
  "sim_xdp = \<lparr>bpf_xdp_adjust_head = (\<lambda>n f. if n < 0 then Some (replicate (nat (- n)) 0 @ f)
       else if nat n \<le> length f then Some (drop (nat n) f) else None),
     bpf_csum_diff = (\<lambda>bs. of_nat (word_sum bs)), bpf_ktime_get_ns = (\<lambda>n. of_nat n),
     bpf_fib_lookup = (\<lambda>_. (0, \<lparr>fr_ifindex = 2, fr_smac = [2, 0, 0, 0, 0, 1], fr_dmac = [2, 0, 0, 0, 0, 2]\<rparr>)),
     bpf_redirect = (\<lambda>_. XDP_REDIRECT), ingress_ifindex = 1, n3_ipv4_address = le [10, 0, 0, 1], n9_ipv4_address = le [10, 0, 0, 1]\<rparr>"

lemma sim_xdp_ok: "adjust_ok sim_xdp"
  by (auto simp: adjust_ok_def sim_xdp_def split: if_splits)

lemma word_sum_le: "word_sum bs \<le> 65535 * length bs"
proof (induction bs rule: word_sum.induct)
  case (2 a)
  have "unat a < 256" using unsigned_less [of a] by simp
  then show ?case by simp
next
  case (3 a b bs)
  have "unat (le [a, b] :: u16) < 65536" by (rule unat_u16)
  with 3 show ?case by simp
qed simp

lemma sim_csum_ok: "csum_ok sim_xdp"
proof -
  have "unat (of_nat (word_sum bs) :: u64) = word_sum bs \<and> word_sum bs < 2 ^ 32" if "length bs = 20" for bs
    using word_sum_le [of bs] that by (simp add: unat_of_nat)
  then show ?thesis by (simp add: csum_ok_def sim_xdp_def)
qed

definition sim_uplink_far :: FarInfo where
  "sim_uplink_far = zero_FarInfo\<lparr>fi_Action := 2\<rparr>"

definition sim_downlink_far :: FarInfo where
  "sim_downlink_far = \<lparr>fi_Action = 2, fi_OuterHeaderCreation = 1, fi_Teid = 7, fi_RemoteIP = le [10, 0, 0, 9], fi_TransportLevelMarking = 0\<rparr>"

definition sim_plane :: "(kmap, u32 list) BpfObjects" where
  "sim_plane =
     (let b = snd (NewFar sim_bpf_env sim_uplink_far sim_objects);
          b = snd (NewFar sim_bpf_env sim_downlink_far b);
          b = snd (NewQer sim_bpf_env (zero_QerInfo\<lparr>qi_Qfi := 9\<rparr>) b);
          b = snd (PutPdrUplink sim_bpf_env 5 (zero_PdrInfo\<lparr>pi_FarId := 1, pi_QerId := 1\<rparr>) b)
      in snd (PutPdrDownlink sim_bpf_env (Some [10, 60, 0, 1]) (zero_PdrInfo\<lparr>pi_FarId := 2, pi_QerId := 1\<rparr>) b))"

definition sim_packet :: "bytes \<Rightarrow> (kmap, u32 list) xdp_state" where
  "sim_packet f = \<lparr>frame = f, ctx = empty_context 0, objs = sim_plane,
     statistic = \<lparr>upf_counters = zero_UpfCounters, upf_n3_n6_counter = \<lparr>rx_n3 = 0, tx_n3 = 0, rx_n6 = 0, tx_n6 = 0\<rparr>,
       xdp_actions = replicate 8 0\<rparr>,
     route_stat = Some zero_RouteStat, clock_reads = 0\<rparr>"

text \<open>Addresses of an Ethernet header, a ping from the UE, and the headers of its tunnel.\<close>

definition sim_macs :: bytes where
  "sim_macs = [2, 0, 0, 0, 0, 3, 2, 0, 0, 0, 0, 4]"

definition sim_ping :: "u8 list \<Rightarrow> u8 list \<Rightarrow> bytes" where
  "sim_ping src dst = [0x45, 0, 0, 28, 0, 0, 0, 0, 64, 1, 0, 0] @ src @ dst @ [8, 0, 0, 0, 0, 0, 0, 0]"

definition sim_outer :: bytes where
  "sim_outer = [0x45, 0, 0, 64, 0, 0, 0, 0, 64, 17, 0, 0, 10, 0, 0, 9, 10, 0, 0, 1]"

definition sim_udp :: bytes where
  "sim_udp = [8, 104, 8, 104, 0, 44, 0, 0]"

definition sim_gtp :: bytes where
  "sim_gtp = [0x30, 255, 0, 28, 0, 0, 0, 5]"

lemma sim_plane_lookups:
  "Map_Lookup (far_ops sim_bpf_env) (FarMap sim_plane) 1 = Some sim_uplink_far"
  "Map_Lookup (far_ops sim_bpf_env) (FarMap sim_plane) 2 = Some sim_downlink_far"
  "Map_Lookup (qer_ops sim_bpf_env) (QerMap sim_plane) 1 = Some (zero_QerInfo\<lparr>qi_Qfi := 9\<rparr>)"
  "Map_Lookup (teid_ops sim_bpf_env) (PdrMapTeidIp4 sim_plane) 5 = Some (zero_IpEntrypointPdrInfo\<lparr>ep_far_id := 1, ep_qer_id := 1\<rparr>)"
  "Map_Lookup (ip4_ops sim_bpf_env) (PdrMapDownlinkIp4 sim_plane) (Some [10, 60, 0, 1]) =
     Some (zero_IpEntrypointPdrInfo\<lparr>ep_far_id := 2, ep_qer_id := 1\<rparr>)"
  by (simp_all add: sim_plane_def Let_def sim_eval zero_PdrInfo_def PutPdrUplink_def PutPdrDownlink_def pdrToStore_def ToIpEntrypointPdrInfo_def
      zero_IpEntrypointPdrInfo_def)

lemma sim_packet_sel [simp]:
  "frame (sim_packet f) = f" "objs (sim_packet f) = sim_plane" "route_stat (sim_packet f) \<noteq> None" "length sim_macs = 12"
  by (simp_all add: sim_packet_def sim_macs_def)

lemma sim_route: "route_of sim_xdp t p l a d = (0, \<lparr>fr_ifindex = 2, fr_smac = [2, 0, 0, 0, 0, 1], fr_dmac = [2, 0, 0, 0, 0, 2]\<rparr>)"
  by (simp add: route_of_def sim_xdp_def)

lemma sim_open_qer: "open_qer sim_bpf_env uplink 1 sim_plane (zero_QerInfo\<lparr>qi_Qfi := 9\<rparr>)"
  unfolding open_qer_def sim_plane_lookups by (simp add: zero_QerInfo_def)

lemma sim_gtp_frame_ok: "gtp_frame_ok sim_xdp sim_macs sim_outer sim_udp sim_gtp []"
  by code_simp

section \<open>Properties\<close>

text \<open>
  C13. Taking off undoes putting on: a tunnel that one UPF added is removed by another one, or by itself,
  with the Ethernet frame of the start as the result.
\<close>

theorem tunnel_roundtrip:
  assumes "adjust_ok K" "adjust_ok K'" and "\<forall>g. length g = length f \<longrightarrow> bpf_xdp_adjust_head K' 44 g \<noteq> None" and "length e = 12"
    and "ip \<noteq> []" "guess_eth_protocol (ip ! 0) = Some p"
    and "add_gtp_over_ip4_headers K saddr daddr tos qfi teid c (e @ put_be 2 p @ ip) = Some (c', f)"
  shows "snd (snd (remove_gtp_header K' c' f)) = e @ put_be 2 p @ ip"
proof -
  obtain n g where n: "ip_packet_len c (e @ put_be 2 p @ ip) = Some n"
    and g: "bpf_xdp_adjust_head K (- 44) (e @ put_be 2 p @ ip) = Some g"
    using assms(7) by (auto simp: add_gtp_over_ip4_headers_def split: option.splits)
  obtain room where room: "length room = 44" "g = room @ e @ put_be 2 p @ ip"
    using assms(1) g unfolding adjust_ok_def by (metis of_nat_numeral)
  define mid where "mid = [8, 0] @ tunnel_header K saddr daddr tos qfi teid n"
  have f: "c' = c\<lparr>data := 0, eth := Some 0, ip4 := Some 14, ip6 := None, udp := Some 34, gtp := Some 42\<rparr>" "f = e @ mid @ ip"
    using add_tunnel [OF assms(4) _ n, of K room] g room assms(7) by (simp_all add: mid_def)
  have "(e @ mid @ ip) ! 42 = 0x34"
    using assms(4) by (simp add: mid_def tunnel_header_def Let_def fill_gtp_header_def fill_udp_header_def nth_append)
  then have x: "gtp_has_ext (e @ mid @ ip) 42" by (simp add: gtp_has_ext_def)
  have len: "length mid = 46" by (simp add: mid_def)
  have "remove_gtp_header K' c' f = (case context_reinit (e @ put_be 2 p @ ip) c' of (ok, c) \<Rightarrow> (ok, c, e @ put_be 2 p @ ip))"
    unfolding f(2) by (rule remove_tunnel [OF assms(2) _ assms(4-6), of _ 42]) (use f x len assms(3,4) in simp_all)
  then show ?thesis by (simp add: case_prod_unfold)
qed

theorem tunnel_roundtrip_witness:
  "\<exists>c f. add_gtp_over_ip4_headers sim_xdp 1 2 0 9 7 ((empty_context 14)\<lparr>ip4 := Some 14\<rparr>)
       (sim_macs @ [8, 0] @ sim_ping [8, 8, 8, 8] [10, 60, 0, 1]) = Some (c, f) \<and>
     snd (snd (remove_gtp_header sim_xdp c f)) = sim_macs @ [8, 0] @ sim_ping [8, 8, 8, 8] [10, 60, 0, 1]"
proof -
  let ?f = "sim_macs @ put_be 2 ETH_P_IP @ sim_ping [8, 8, 8, 8] [10, 60, 0, 1]"
  have g: "guess_eth_protocol (sim_ping [8, 8, 8, 8] [10, 60, 0, 1] ! 0) = Some ETH_P_IP" by code_simp
  obtain c f where a: "add_gtp_over_ip4_headers sim_xdp 1 2 0 9 7 ((empty_context 14)\<lparr>ip4 := Some 14\<rparr>) ?f = Some (c, f)" and len: "length f = 86"
    using add_tunnel [of sim_macs "[8, 0]" "(empty_context 14)\<lparr>ip4 := Some 14\<rparr>" "sim_ping [8, 8, 8, 8] [10, 60, 0, 1]" _ sim_xdp "replicate 44 0"]
    by (auto simp: ip_packet_len_def type_bytes sim_xdp_def sim_macs_def sim_ping_def)
  have "\<forall>g. length g = length f \<longrightarrow> bpf_xdp_adjust_head sim_xdp 44 g \<noteq> None" using len by (simp add: sim_xdp_def)
  from tunnel_roundtrip [OF sim_xdp_ok sim_xdp_ok this _ _ g a] a show ?thesis
    by (auto simp: type_bytes sim_macs_def sim_ping_def)
qed



text \<open>
  An uplink packet whose TEID has a PDR with removal of the outer header, a FAR that forwards and an
  open QER, leaves the UPF as the inner IP packet, byte for byte, behind an Ethernet header with the
  addresses of the routing table.
\<close>

theorem uplink_packet_decapsulated:
  assumes "frame s = gtp_frame e oip ud gh x ip" and "gtp_frame_ok K e oip ud gh x"
    and "Map_Lookup (teid_ops E) (PdrMapTeidIp4 (objs s)) (be (bytes_at 4 4 gh)) = Some pdr" "ep_sdf_mode pdr = 0"
    and "ep_outer_header_removal pdr = 0 \<or> ep_outer_header_removal pdr = 6"
    and "Map_Lookup (far_ops E) (FarMap (objs s)) (ep_far_id pdr) = Some far"
    and "fi_Action far AND FAR_FORW \<noteq> 0" "fi_OuterHeaderCreation far AND OHC_GTP_U_UDP_IPv4 = 0"
    and "open_qer E True (ep_qer_id pdr) (objs s) qer" and "route_stat s \<noteq> None"
    and "length ip \<ge> 20" "guess_eth_protocol (ip ! 0) = Some ETH_P_IP"
    and "\<not> (is_local_ip K (le (bytes_at 16 4 ip)) \<and> ip ! 9 = IPPROTO_ICMP)"
    and "adjust_ok K" "\<forall>g. length g = length (frame s) \<longrightarrow> bpf_xdp_adjust_head K (int (36 + length x)) g \<noteq> None"
    and "route_of K (ip ! 1) (ip ! 9) (be (bytes_at 2 2 ip)) (bytes_at 12 4 ip) (bytes_at 16 4 ip) = (0, r)"
    and "length (fr_dmac r) = 6" "length (fr_smac r) = 6"
  shows "fst (upf_ip_entrypoint_func E K s) = sent_action K r
    \<and> frame (snd (upf_ip_entrypoint_func E K s)) = fr_dmac r @ fr_smac r @ [8, 0] @ ip"
proof -
  let ?s = "count_rx_packet (\<lambda>t. t\<lparr>RxIp4 := RxIp4 t + 1\<rparr>) (s\<lparr>ctx := (empty_context 0)\<lparr>data := 14, eth := Some 0\<rparr>\<rparr>)"
  let ?c = "\<lparr>data = 50 + length x, eth = Some 0, ip4 = Some 14, ip6 = None, udp = Some 34, tcp = None, gtp = Some 42\<rparr>"
  define mid where "mid = [8, 0] @ oip @ ud @ gh @ x"
  have e: "length e = 12" "length oip = 20" and f: "frame s = e @ [8, 0] @ (oip @ ud @ gh @ x @ ip)" "frame s = e @ mid @ ip"
    using assms(1,2) by (simp_all add: gtp_frame_ok_def gtp_frame_def mid_def)
  note p = gtp_frame_parts [OF assms(2), of ip]
  obtain s1 where s1: "handle_ip4 E K ?s = handle_gtp_packet E K s1" "frame s1 = frame s" "objs s1 = objs s"
    "route_stat s1 = route_stat s" "ctx s1 = ?c"
    using handle_ip4_gtp [of ?s e oip ud gh x ip K E] assms(1,2) by auto
  define s2 where "s2 = update_urr E (ep_urr2_id pdr) (of_nat (length (frame s))) 0 (update_urr E (ep_urr1_id pdr) (of_nat (length (frame s))) 0 s1)"
  have len: "length mid = 38 + (if gtp_has_ext (e @ mid @ ip) 42 then 8 else 0)" "length mid = 38 + length x"
    using p(6) gtp_frame_ext [OF assms(2)] assms(2) f(2) assms(1) by (simp_all add: gtp_has_ext_def mid_def gtp_frame_ok_def)
  have rm: "remove_gtp_header K ?c (e @ mid @ ip) = (case context_reinit (e @ put_be 2 ETH_P_IP @ ip) ?c of
      (ok, c) \<Rightarrow> (ok, c, e @ put_be 2 ETH_P_IP @ ip))"
    by (rule remove_tunnel [of _ _ 42]) (use assms(11,12,14,15) e len f(2) in \<open>auto simp: less_imp_le\<close>)
  define c2 where "c2 = (context_reset ?c)\<lparr>data := 14 + unat (ip ! 0 AND 0x0F) * 4, eth := Some 0, ip4 := Some 14\<rparr>"
  have c2: "eth c2 = Some 0" "ip4 c2 = Some 14" by (simp_all add: c2_def)
  have gtp: "handle_gtp_packet E K s1 = finish_uplink E K (s2\<lparr>ctx := c2, frame := e @ [8, 0] @ ip\<rparr>)"
    unfolding handle_gtp_packet_def forward_uplink_def
    using assms(3-9) s1(2,3,5) p(8) assms(1) apply_open_qer [of E True "ep_qer_id pdr" s1 qer K] rm reinit_ip(1) [OF e(1) assms(11)] f(2)
    by (simp add: select_rules_def Let_def s2_def type_bytes c2_def)
  have d: "bytes_at 30 4 (e @ [8, 0] @ ip) = bytes_at 16 4 ip" "(e @ [8, 0] @ ip) ! 23 = ip ! 9"
    using e by (simp_all add: bytes_at_def nth_append)
  have fin: "finish_uplink E K (s2\<lparr>ctx := c2, frame := e @ [8, 0] @ ip\<rparr>) =
      route_ipv4 K 0 14 (count_n3_n6 (\<lambda>t. t\<lparr>tx_n6 := tx_n6 t + 1\<rparr>) (s2\<lparr>ctx := c2, frame := e @ [8, 0] @ ip\<rparr>))"
    unfolding finish_uplink_def using assms(13) d [simplified] c2 by auto
  have "length (oip @ ud @ gh @ x @ ip) \<ge> 20" using e by simp
  note start = entry_ip4 [OF f(1) e(1) this]
  show ?thesis
    unfolding entrypoint_frame start s1(1) gtp fin
    using route_ipv4_found [of "count_n3_n6 (\<lambda>t. t\<lparr>tx_n6 := tx_n6 t + 1\<rparr>) (s2\<lparr>ctx := c2, frame := e @ [8, 0] @ ip\<rparr>)" e ip K r]
      e assms(10,11,16-18) s1(4) by (simp add: s2_def)
qed

theorem uplink_packet_decapsulated_witness:
  "frame (snd (upf_ip_entrypoint_func sim_bpf_env sim_xdp
       (sim_packet (gtp_frame sim_macs sim_outer sim_udp sim_gtp [] (sim_ping [10, 60, 0, 1] [8, 8, 8, 8]))))) =
     [2, 0, 0, 0, 0, 2, 2, 0, 0, 0, 0, 1, 8, 0] @ sim_ping [10, 60, 0, 1] [8, 8, 8, 8]"
proof -
  let ?ip = "sim_ping [10, 60, 0, 1] [8, 8, 8, 8]"
  have b: "be (bytes_at 4 4 sim_gtp) = (5 :: u32)" "length ?ip = 28" "guess_eth_protocol (?ip ! 0) = Some ETH_P_IP"
    "\<not> is_local_ip sim_xdp (le (bytes_at 16 4 ?ip))" by code_simp+
  have len: "length (gtp_frame sim_macs sim_outer sim_udp sim_gtp [] ?ip) = 78" by code_simp
  have "fst (upf_ip_entrypoint_func sim_bpf_env sim_xdp (sim_packet (gtp_frame sim_macs sim_outer sim_udp sim_gtp [] ?ip))) =
      sent_action sim_xdp \<lparr>fr_ifindex = 2, fr_smac = [2, 0, 0, 0, 0, 1], fr_dmac = [2, 0, 0, 0, 0, 2]\<rparr> \<and>
    frame (snd (upf_ip_entrypoint_func sim_bpf_env sim_xdp (sim_packet (gtp_frame sim_macs sim_outer sim_udp sim_gtp [] ?ip)))) =
      [2, 0, 0, 0, 0, 2] @ [2, 0, 0, 0, 0, 1] @ [8, 0] @ ?ip"
    by (rule uplink_packet_decapsulated [where pdr = "zero_IpEntrypointPdrInfo\<lparr>ep_far_id := 1, ep_qer_id := 1\<rparr>" and far = sim_uplink_far
          and r = "\<lparr>fr_ifindex = 2, fr_smac = [2, 0, 0, 0, 0, 1], fr_dmac = [2, 0, 0, 0, 0, 2]\<rparr>", simplified fib_result.select_convs, OF _ sim_gtp_frame_ok])
       (use b len sim_plane_lookups sim_open_qer sim_route sim_xdp_ok in \<open>simp_all add: zero_IpEntrypointPdrInfo_def sim_uplink_far_def zero_FarInfo_def\<close>,
        simp_all add: sim_xdp_def)
  then show ?thesis by simp
qed

end
