(* ===== verification/Xdp_Rules.thy ===== *)
theory Xdp_Rules
  imports Xdp_Tunnels Sdf_Parser
begin

text \<open>
  How the XDP program applies the rules that the Go program wrote: filters, rate limits, and the
  QERs and URRs that a PDR refers to.
\<close>

section \<open>Filters\<close>

text \<open>What a filter of the Go program means for an IPv4 packet.\<close>

definition in_network :: "IpWMask \<Rightarrow> bytes \<Rightarrow> bool" where
  "in_network a bs = (case (wm_Ip a, wm_Mask a) of
     (Some ip, Some msk) \<Rightarrow> map2 (AND) bs msk = ip
   | _ \<Rightarrow> True)"

text \<open>
  The parser numbers protocols itself: 0 ICMP, 1 any, 2 TCP, 3 UDP, 4 ICMPv6. The IP header has the numbers of the IANA:
  1 ICMP, 6 TCP, 17 UDP.
\<close>

definition covers_protocol :: "u8 \<Rightarrow> u8 \<Rightarrow> bool" where
  "covers_protocol p proto \<longleftrightarrow> p = 1 \<or> (p, proto) \<in> {(0, 1), (2, 6), (3, 17)}"

definition filter_covers :: "SdfFilter \<Rightarrow> u8 \<Rightarrow> bytes \<Rightarrow> bytes \<Rightarrow> u16 \<Rightarrow> u16 \<Rightarrow> bool" where
  "filter_covers flt proto src dst sport dport \<longleftrightarrow>
     covers_protocol (sf_Protocol flt) proto \<and>
     in_network (sf_SrcAddress flt) src \<and> in_network (sf_DstAddress flt) dst \<and>
     LowerBound (sf_SrcPortRange flt) \<le> sport \<and> sport \<le> UpperBound (sf_SrcPortRange flt) \<and>
     LowerBound (sf_DstPortRange flt) \<le> dport \<and> dport \<le> UpperBound (sf_DstPortRange flt)"

text \<open>An address is \<open>any\<close>, or an IPv4 network.\<close>

definition any_or_ip4 :: "IpWMask \<Rightarrow> bool" where
  "any_or_ip4 a \<longleftrightarrow> wm_Ip a = None \<and> wm_Mask a = None \<or>
     (\<exists>ip msk. wm_Ip a = Some ip \<and> wm_Mask a = Some msk \<and> length ip = 4 \<and> length msk = 4)"

lemma le_AND:
  "length xs = length ys \<Longrightarrow> (le xs :: 'a::len word) AND le ys = le (map2 (AND) xs ys)"
  by (rule bit_word_eqI) (auto simp: bit_le bit_and_iff)

lemma le_inject:
  assumes "length xs = n" "length ys = n" "8 * n \<le> LENGTH('a::len)"
  shows "(le xs :: 'a word) = le ys \<longleftrightarrow> xs = ys"
proof
  assume eq: "(le xs :: 'a word) = le ys"
  show "xs = ys"
  proof (rule nth_equalityI)
    fix j assume j: "j < length xs"
    show "xs ! j = ys ! j"
    proof (rule bit_word_eqI)
      fix k assume "k < LENGTH(8)"
      then have k: "k < 8" "(8 * j + k) div 8 = j" "(8 * j + k) mod 8 = k" "8 * j + k < LENGTH('a)" using j assms by auto
      have "bit (le xs :: 'a word) (8 * j + k) = bit (le ys :: 'a word) (8 * j + k)" by (simp add: eq)
      then show "bit (xs ! j) k = bit (ys ! j) k" using j k assms by (simp add: bit_le)
    qed
  qed (use assms in simp)
qed simp

lemma Copy16Ip_low:
  "length bs = 4 \<Longrightarrow> htonl_low (Copy16Ip (Some bs)) = le bs" "htonl_low (Copy16Ip None) = 0"
proof -
  assume "length bs = 4"
  then obtain a b c d where bs: "bs = [a, b, c, d]" by (auto simp: length_Suc_conv numeral_eq_Suc)
  have "[0..<4] = [0, 1, 2, 3]" by code_simp
  then have "take 4 (Copy16Ip (Some bs)) = [d, c, b, a]" unfolding Copy16Ip_def bs by (simp add: numeral_eq_Suc)
  then show "htonl_low (Copy16Ip (Some bs)) = le bs" by (simp add: htonl_low_def be_def bs)
next
  have "take 4 (Copy16Ip None) = [0, 0, 0, 0]" by (simp add: Copy16Ip_def numeral_eq_Suc)
  then show "htonl_low (Copy16Ip None) = 0" by (simp add: htonl_low_def be_def)
qed

lemma network_test:
  assumes "any_or_ip4 a" "length bs = 4"
  shows "(le bs AND htonl_low (Copy16Ip (wm_Mask a)) = htonl_low (Copy16Ip (wm_Ip a))) = in_network a bs"
proof -
  from assms(1) consider "wm_Ip a = None" "wm_Mask a = None" |
    (net) ip msk where "wm_Ip a = Some ip" "wm_Mask a = Some msk" "length ip = 4" "length msk = 4"
    by (auto simp: any_or_ip4_def)
  then show ?thesis
  proof cases
    case net
    then show ?thesis using assms(2) le_inject [of "map2 (AND) bs msk" 4 ip, where 'a = 32]
      by (simp add: Copy16Ip_low le_AND in_network_def)
  qed (simp add: Copy16Ip_low in_network_def)
qed

text \<open>
  The addresses of a well-formed filter that is not for IPv6: \<open>any\<close>, or an IPv4 network.
\<close>

lemma filter_ok_ip4:
  "filter_ok flt \<Longrightarrow> wm_Type (sf_SrcAddress flt) \<noteq> 2 \<Longrightarrow> any_or_ip4 (sf_SrcAddress flt)"
  "filter_ok flt \<Longrightarrow> wm_Type (sf_DstAddress flt) \<noteq> 2 \<Longrightarrow> any_or_ip4 (sf_DstAddress flt)"
  unfolding filter_ok_def address_ok_def any_or_ip4_def by fastforce+

lemma protocol_test: "(p = 1 \<or> p = get_sdf_protocol proto) = covers_protocol p proto"
  by (auto simp: get_sdf_protocol_def covers_protocol_def)

text \<open>The entry that a PDR with a filter gets, beside the default rule \<open>d\<close>.\<close>

lemma combined_entry:
  assumes "CombinePdrWithSdf d pdr = Val v" "pi_SdfFilter pdr = Some flt"
  shows "ep_sdf_rules v = zero_sdf_rules
      \<lparr>sr_sdf_filter :=
         \<lparr>protocol = sf_Protocol flt,
          src_addr = \<lparr>sn_type = wm_Type (sf_SrcAddress flt), sn_ip = Copy16Ip (wm_Ip (sf_SrcAddress flt)), sn_mask = Copy16Ip (wm_Mask (sf_SrcAddress flt))\<rparr>,
          src_port = \<lparr>lower_bound = LowerBound (sf_SrcPortRange flt), upper_bound = UpperBound (sf_SrcPortRange flt)\<rparr>,
          dst_addr = \<lparr>sn_type = wm_Type (sf_DstAddress flt), sn_ip = Copy16Ip (wm_Ip (sf_DstAddress flt)), sn_mask = Copy16Ip (wm_Mask (sf_DstAddress flt))\<rparr>,
          dst_port = \<lparr>lower_bound = LowerBound (sf_DstPortRange flt), upper_bound = UpperBound (sf_DstPortRange flt)\<rparr>\<rparr>,
       sr_outer_header_removal := pi_OuterHeaderRemoval pdr, sr_far_id := pi_FarId pdr, sr_qer_id := pi_QerId pdr\<rparr>"
    and "ep_sdf_mode v = (if d = None then 1 else 2)"
    and "d = Some d' \<Longrightarrow> ep_far_id v = ep_far_id d' \<and> ep_qer_id v = ep_qer_id d' \<and> ep_outer_header_removal v = ep_outer_header_removal d'"
  using assms by (auto simp: CombinePdrWithSdf_def zero_IpEntrypointPdrInfo_def Let_def split: option.splits)

text \<open>
  C10. A filter means to the XDP program what it says. For a well-formed filter without IPv6 addresses, a PDR
  written by \<open>CombinePdrWithSdf\<close> next to a default rule, and an IPv4 packet: the rules of the PDR apply exactly
  if the protocol, both networks and both port ranges of the filter cover the packet; else the default rule
  applies, and no rule when there is none.
\<close>

theorem sdf_filter_refines:
  assumes "filter_ok flt" "wm_Type (sf_SrcAddress flt) \<noteq> 2" "wm_Type (sf_DstAddress flt) \<noteq> 2"
    and "pi_SdfFilter pdr = Some flt" "CombinePdrWithSdf d pdr = Val v"
    and "ip4 c = Some i" "i + 20 \<le> length f"
    and "(sport, dport) = (case if udp c \<noteq> None then udp c else tcp c of Some l \<Rightarrow> (be (bytes_at l 2 f), be (bytes_at (l + 2) 2 f)) | None \<Rightarrow> (0, 0))"
  shows "select_rules v (match_sdf_filter_ipv4 f c (sr_sdf_filter (ep_sdf_rules v))) =
    (if filter_covers flt (f ! (i + 9)) (bytes_at (i + 12) 4 f) (bytes_at (i + 16) 4 f) sport dport
     then Some (pi_FarId pdr, pi_QerId pdr, pi_OuterHeaderRemoval pdr)
     else map_option (\<lambda>d. (ep_far_id d, ep_qer_id d, ep_outer_header_removal d)) d)"
proof -
  have len: "length (bytes_at (i + 12) 4 f) = 4" "length (bytes_at (i + 16) 4 f) = 4"
    using assms(7) by (simp_all add: bytes_at_def)
  have ports: "packet_ports f c = (sport, dport)" using assms(8) by (auto simp: packet_ports_def split: option.splits)
  note nets = network_test [OF filter_ok_ip4(1) [OF assms(1,2)] len(1)] network_test [OF filter_ok_ip4(2) [OF assms(1,3)] len(2)]
  have "match_sdf_filter_ipv4 f c (sr_sdf_filter (ep_sdf_rules v)) =
      filter_covers flt (f ! (i + 9)) (bytes_at (i + 12) 4 f) (bytes_at (i + 16) 4 f) sport dport"
    using assms(6) ports by (simp add: match_sdf_filter_ipv4_def combined_entry(1) [OF assms(5,4)] nets filter_covers_def ports_match_def protocol_test)
  then show ?thesis
    using combined_entry [OF assms(5,4)] by (auto simp: select_rules_def split: option.splits)
qed

text \<open>The filter \<open>permit out udp from 10.60.0.0/16 to any\<close> and a packet from 10.60.0.1.\<close>

definition sim_filter :: SdfFilter where
  "sim_filter = \<lparr>sf_Protocol = 3, sf_SrcAddress = \<lparr>wm_Type = 1, wm_Ip = Some [10, 60, 0, 0], wm_Mask = Some [255, 255, 0, 0]\<rparr>,
     sf_SrcPortRange = \<lparr>LowerBound = 0, UpperBound = 65535\<rparr>, sf_DstAddress = \<lparr>wm_Type = 0, wm_Ip = None, wm_Mask = None\<rparr>,
     sf_DstPortRange = \<lparr>LowerBound = 53, UpperBound = 53\<rparr>\<rparr>"

definition sim_dns :: bytes where
  "sim_dns = [0x45, 0, 0, 28, 0, 0, 0, 0, 64, 17, 0, 0, 10, 60, 0, 1, 8, 8, 8, 8, 0x30, 0, 0, 53, 0, 8, 0, 0]"

lemma sim_filter_ok: "filter_ok sim_filter"
  by (simp add: sim_filter_def filter_ok_def address_ok_def)

theorem sdf_filter_refines_witness:
  "\<exists>v. CombinePdrWithSdf None (zero_PdrInfo\<lparr>pi_FarId := 3, pi_SdfFilter := Some sim_filter\<rparr>) = Val v \<and>
     inner_match sim_dns 0 (sr_sdf_filter (ep_sdf_rules v)) = Some True \<and>
     select_rules v (match_sdf_filter_ipv4 sim_dns ((empty_context 28)\<lparr>ip4 := Some 0, udp := Some 20\<rparr>) (sr_sdf_filter (ep_sdf_rules v))) =
       Some (3, 0, 0)"
proof -
  let ?p = "zero_PdrInfo\<lparr>pi_FarId := 3, pi_SdfFilter := Some sim_filter\<rparr>"
  let ?c = "(empty_context 28)\<lparr>ip4 := Some 0, udp := Some 20\<rparr>"
  obtain v where v: "CombinePdrWithSdf None ?p = Val v"
    by (simp add: CombinePdrWithSdf_def zero_PdrInfo_def Let_def)
  have ports: "(0x3000 :: u16, 53 :: u16) = (case if udp ?c \<noteq> None then udp ?c else tcp ?c of
      Some l \<Rightarrow> (be (bytes_at l 2 sim_dns), be (bytes_at (l + 2) 2 sim_dns)) | None \<Rightarrow> (0, 0))" by code_simp
  have covers: "filter_covers sim_filter (sim_dns ! (0 + 9)) (bytes_at (0 + 12) 4 sim_dns) (bytes_at (0 + 16) 4 sim_dns) 0x3000 53"
    by code_simp
  have "inner_match sim_dns 0 (sr_sdf_filter (ep_sdf_rules v)) = Some True"
    unfolding combined_entry(1) [OF v, of sim_filter, simplified] by code_simp
  moreover have "select_rules v (match_sdf_filter_ipv4 sim_dns ?c (sr_sdf_filter (ep_sdf_rules v))) =
      Some (pi_FarId ?p, pi_QerId ?p, pi_OuterHeaderRemoval ?p)"
    using sdf_filter_refines [OF sim_filter_ok _ _ _ v _ _ ports, of 0] covers
    by (simp add: sim_filter_def sim_dns_def empty_context_def)
  ultimately show ?thesis using v by (auto simp: zero_PdrInfo_def)
qed

text \<open>
  A filter for ICMPv6, protocol number 4 of the parser, covers no packet: the XDP program knows the
  numbers 0 to 3 only.
\<close>

theorem icmp6_filter_matches_nothing:
  "sf_Protocol flt = 4 \<Longrightarrow> pi_SdfFilter pdr = Some flt \<Longrightarrow> CombinePdrWithSdf d pdr = Val v \<Longrightarrow>
     \<not> match_sdf_filter_ipv4 f c (sr_sdf_filter (ep_sdf_rules v)) \<and> \<not> match_sdf_filter_ipv6 f c (sr_sdf_filter (ep_sdf_rules v))"
  using combined_entry(1) [of d pdr v flt]
  by (simp add: match_sdf_filter_ipv4_def match_sdf_filter_ipv6_def get_sdf_protocol_def split: option.split)

theorem icmp6_filter_matches_nothing_witness:
  "ParseProtocol ''58'' = Val 4 \<and>
   (\<exists>v. CombinePdrWithSdf None (zero_PdrInfo\<lparr>pi_SdfFilter := Some (any_filter\<lparr>sf_Protocol := 4\<rparr>)\<rparr>) = Val v \<and>
     \<not> match_sdf_filter_ipv6 (replicate 40 0) ((empty_context 40)\<lparr>ip6 := Some 0\<rparr>) (sr_sdf_filter (ep_sdf_rules v)))"
proof -
  let ?p = "zero_PdrInfo\<lparr>pi_SdfFilter := Some (any_filter\<lparr>sf_Protocol := 4\<rparr>)\<rparr>"
  obtain v where v: "CombinePdrWithSdf None ?p = Val v"
    by (simp add: CombinePdrWithSdf_def zero_PdrInfo_def Let_def)
  have "ParseProtocol ''58'' = Val 4" by code_simp
  with v icmp6_filter_matches_nothing [of "any_filter\<lparr>sf_Protocol := 4\<rparr>" ?p None v] show ?thesis by auto
qed

lemma ucast_le: "8 * length bs \<le> LENGTH('a) \<Longrightarrow> ucast (le bs :: 'a::len word) = (le bs :: 'b::len word)"
proof (rule bit_word_eqI)
  fix j assume "8 * length bs \<le> LENGTH('a)" "j < LENGTH('b)"
  moreover have "j < LENGTH('a)" if "j div 8 < length bs" "8 * length bs \<le> LENGTH('a)" using that by linarith
  ultimately show "bit (ucast (le bs :: 'a word) :: 'b word) j = bit (le bs :: 'b word) j"
    by (auto simp: bit_ucast_iff bit_le)
qed

lemma le_zeros: "le (bs @ replicate n 0) = le bs"
  by (induction bs) (induction n, simp_all)

lemma le_AND_full: "le bs AND le (replicate (length bs) 255) = (le bs :: 'a::len word)"
proof -
  have "map2 (AND) bs (replicate (length bs) 255) = bs" by (induction bs) simp_all
  then show ?thesis by (simp add: le_AND)
qed

text \<open>
  C17. A filter for one IPv6 host does not cover the packets of that host: of the address, only the last four
  bytes are compared, with the first four bytes of the address in the packet, whose other bytes have to be zero.
\<close>

theorem ipv6_filter_other_address:
  assumes "wm_Ip (sf_SrcAddress flt) = Some a" "length a = 16" "wm_Mask (sf_SrcAddress flt) = Some (replicate 16 255)"
    and "pi_SdfFilter pdr = Some flt" "CombinePdrWithSdf d pdr = Val v"
    and "ip6 c = Some i" "i + 40 \<le> length f" "match_sdf_filter_ipv6 f c (sr_sdf_filter (ep_sdf_rules v))"
  shows "bytes_at (i + 8) 16 f = drop 12 a @ replicate 12 0"
proof -
  have len: "length (bytes_at (i + 8) 16 f) = 16" using assms(7) by (simp add: bytes_at_def)
  have "Copy16Ip (Some a) = rev a" "Copy16Ip (Some (replicate 16 255)) = replicate 16 255"
    using assms(2) by (simp_all add: Copy16Ip_eq)
  then have "(le (bytes_at (i + 8) 16 f) :: 128 word) AND le (replicate 16 255) = ucast (htonl_low (rev a))"
    using assms(8) by (simp add: match_sdf_filter_ipv6_def assms(1,3,6) combined_entry(1) [OF assms(5,4)])
  moreover have "htonl_low (rev a) = le (drop 12 a)" using assms(2) by (simp add: htonl_low_def be_def rev_take)
  moreover have "ucast (le (drop 12 a) :: u32) = (le (drop 12 a @ replicate 12 0) :: 128 word)"
    using assms(2) by (simp add: ucast_le le_zeros)
  ultimately have "(le (bytes_at (i + 8) 16 f) :: 128 word) = le (drop 12 a @ replicate 12 0)"
    using le_AND_full [of "bytes_at (i + 8) 16 f", where 'a = 128] len by simp
  then show ?thesis using len assms(2) le_inject [of "bytes_at (i + 8) 16 f" 16 "drop 12 a @ replicate 12 0", where 'a = 128] by simp
qed

text \<open>A filter for 2001:db8::1, which covers a packet from 0:1::.\<close>

theorem ipv6_filter_other_address_witness:
  "let a = [0x20, 1, 0x0D, 0xB8, 0, 0, 0, 0, 0, 0, 0, 0, 0, 0, 0, 1];
       flt = any_filter\<lparr>sf_SrcAddress := \<lparr>wm_Type = 2, wm_Ip = Some a, wm_Mask = Some (replicate 16 255)\<rparr>\<rparr>;
       f = replicate 8 0 @ [0, 0, 0, 1, 0, 0, 0, 0, 0, 0, 0, 0, 0, 0, 0, 0] @ replicate 16 0
   in \<exists>v. CombinePdrWithSdf None (zero_PdrInfo\<lparr>pi_SdfFilter := Some flt\<rparr>) = Val v \<and>
        match_sdf_filter_ipv6 f ((empty_context 40)\<lparr>ip6 := Some 0\<rparr>) (sr_sdf_filter (ep_sdf_rules v)) \<and>
        bytes_at 8 16 f = drop 12 a @ replicate 12 0"
proof -
  let ?a = "[0x20, 1, 0x0D, 0xB8, 0, 0, 0, 0, 0, 0, 0, 0, 0, 0, 0, 1] :: bytes"
  let ?flt = "any_filter\<lparr>sf_SrcAddress := \<lparr>wm_Type = 2, wm_Ip = Some ?a, wm_Mask = Some (replicate 16 255)\<rparr>\<rparr>"
  let ?p = "zero_PdrInfo\<lparr>pi_SdfFilter := Some ?flt\<rparr>" and ?c = "(empty_context 40)\<lparr>ip6 := Some 0\<rparr>"
  let ?f = "replicate 8 0 @ [0, 0, 0, 1, 0, 0, 0, 0, 0, 0, 0, 0, 0, 0, 0, 0] @ replicate 16 0 :: bytes"
  obtain v where v: "CombinePdrWithSdf None ?p = Val v"
    by (simp add: CombinePdrWithSdf_def zero_PdrInfo_def Let_def)
  have m: "match_sdf_filter_ipv6 ?f ?c (sr_sdf_filter (ep_sdf_rules v))"
    unfolding combined_entry(1) [OF v, of ?flt, simplified] by code_simp
  have "bytes_at (0 + 8) 16 ?f = drop 12 ?a @ replicate 12 0"
    by (rule ipv6_filter_other_address [OF _ _ _ _ v _ _ m]) simp_all
  with v m show ?thesis by (auto simp: Let_def)
qed

section \<open>Rate limits\<close>

text \<open>
  The limiter on a sequence of packets, each with the time of its arrival and its size: the bytes that it
  lets pass.
\<close>

definition tx_time :: "u64 \<Rightarrow> u64 \<Rightarrow> u64" where
  "tx_time rate packet_size = packet_size * 8 * (1000000000 div rate)"

primrec passed_bytes :: "u64 \<Rightarrow> u64 \<Rightarrow> (u64 \<times> u64) list \<Rightarrow> nat" where
  "passed_bytes rate start [] = 0"
| "passed_bytes rate start (p # ps) =
     (case limit_rate_sliding_window (fst p) (snd p) start rate of
        (pass, start') \<Rightarrow> (if pass then unat (snd p) else 0) + passed_bytes rate start' ps)"

text \<open>The same on natural numbers, where nothing wraps around.\<close>

definition window :: nat where
  "window = 5000000"

definition limit_step :: "nat \<Rightarrow> nat \<Rightarrow> nat \<Rightarrow> bool \<times> nat" where
  "limit_step now tx start =
     (if start + tx > now then (False, start) else (True, max start (now - window) + tx))"

lemma limiter_step:
  assumes "unat now < 2 ^ 62" "unat start < 2 ^ 63" "unat packet_size < 2 ^ 16" "rate \<noteq> 0"
  shows "limit_rate_sliding_window now packet_size start rate =
    (fst (limit_step (unat now) (unat (tx_time rate packet_size)) (unat start)),
     of_nat (snd (limit_step (unat now) (unat (tx_time rate packet_size)) (unat start))))"
    and "unat (tx_time rate packet_size) < 2 ^ 49"
    and "unat (tx_time rate packet_size) = unat packet_size * (8 * (1000000000 div unat rate))"
proof -
  let ?q = "1000000000 div rate"
  have len64: "(2 :: nat) ^ LENGTH(64) = 2 ^ 64" by simp
  have q: "unat ?q \<le> 1000000000" by (simp add: unat_div div_le_dividend)
  have "unat packet_size * 8 < 2 ^ 19" using assms(3) by simp
  then have s: "unat (packet_size * 8) = unat packet_size * 8" by (simp add: unat_word_ariths)
  have "unat packet_size * 8 * unat ?q \<le> 2 ^ 19 * 1000000000"
    by (rule mult_le_mono) (use \<open>unat packet_size * 8 < 2 ^ 19\<close> q in simp_all)
  moreover have "(2 ^ 19 * 1000000000 :: nat) < 2 ^ 49" by simp
  ultimately have lt: "unat packet_size * 8 * unat ?q < 2 ^ 49" by linarith
  have "unat packet_size * 8 * unat ?q < 2 ^ 64" using lt by (rule less_trans) simp
  then have "unat packet_size * 8 * unat ?q mod 2 ^ 64 = unat packet_size * 8 * unat ?q" by (rule mod_less)
  then have tx: "unat (tx_time rate packet_size) = unat packet_size * 8 * unat ?q"
    by (simp only: tx_time_def unat_word_ariths(2) [of "packet_size * 8"] s len64)
  then show "unat (tx_time rate packet_size) = unat packet_size * (8 * (1000000000 div unat rate))"
    by (simp add: unat_div mult.assoc)
  from tx show tlt: "unat (tx_time rate packet_size) < 2 ^ 49" using lt by simp
  let ?t = "tx_time rate packet_size"
  have add: "unat (start + ?t) = unat start + unat ?t" using assms(2) tlt by (simp add: unat_word_ariths)
  have win: "unat (start + 5000000) = unat start + window" using assms(2) by (simp add: unat_word_ariths window_def)
  have mx: "max (unat start) (unat now - window) = (if unat start + window < unat now then unat now - window else unat start)"
    by auto
  have sub: "now - 5000000 + ?t = of_nat (unat now - window + unat ?t)" if "unat start + window < unat now"
    using that by (simp add: window_def of_nat_diff)
  show "limit_rate_sliding_window now packet_size start rate =
    (fst (limit_step (unat now) (unat ?t) (unat start)), of_nat (snd (limit_step (unat now) (unat ?t) (unat start))))"
  proof (cases "unat start + unat ?t > unat now")
    case True
    then have "start + ?t > now" by (simp add: word_less_nat_alt add)
    with True show ?thesis using assms(4) by (simp add: limit_rate_sliding_window_def limit_step_def Let_def tx_time_def)
  next
    case False
    then have n: "\<not> start + ?t > now" by (simp add: word_less_nat_alt add)
    show ?thesis
    proof (cases "unat start + window < unat now")
      case True
      then have "start + 5000000 < now" by (simp add: word_less_nat_alt win)
      with True n False sub show ?thesis using assms(4)
        by (simp add: limit_rate_sliding_window_def limit_step_def Let_def tx_time_def [symmetric] mx)
    next
      case False2: False
      then have "\<not> start + 5000000 < now" by (simp add: word_less_nat_alt win)
      with False2 n False show ?thesis using assms(4)
        by (simp add: limit_rate_sliding_window_def limit_step_def Let_def tx_time_def [symmetric] mx)
    qed
  qed
qed

primrec passed_nat :: "nat \<Rightarrow> (nat \<times> nat) list \<Rightarrow> nat" where
  "passed_nat start [] = 0"
| "passed_nat start (p # ps) =
     (case limit_step (fst p) (snd p) start of
        (pass, start') \<Rightarrow> (if pass then snd p else 0) + passed_nat start' ps)"

text \<open>
  The start of the window, but at least \<^const>\<open>window\<close> before the current time, moves on by the time of every
  packet that passes, and stays before the current time but for a packet longer than the window.
\<close>

lemma passed_nat_bound:
  assumes "sorted (map fst ps)" "\<And>p. p \<in> set ps \<Longrightarrow> now \<le> fst p \<and> fst p \<le> stop \<and> snd p \<le> m" "now \<le> stop"
  shows "passed_nat start ps + max start (now - window) \<le> max start (stop + (m - window))"
  using assms
proof (induction ps arbitrary: start now)
  case Nil
  then show ?case by auto
next
  case (Cons p ps)
  obtain t x where p: "p = (t, x)" by (cases p)
  have t: "now \<le> t" "t \<le> stop" "x \<le> m" using Cons.prems(2) [of p] by (simp_all add: p)
  have rest: "passed_nat start' ps + max start' (t - window) \<le> max start' (stop + (m - window))" for start'
    by (rule Cons.IH) (use Cons.prems t in \<open>auto simp: p\<close>)
  have m: "max start (now - window) \<le> max start (t - window)" using t(1) by (intro max.mono diff_le_mono) simp_all
  show ?case
  proof (cases "start + x > t")
    case True
    then have "passed_nat start (p # ps) = passed_nat start ps" by (simp add: p limit_step_def)
    then show ?thesis using rest [of start] m by linarith
  next
    case False
    let ?start = "max start (t - window) + x"
    have "start + x \<le> stop + (m - window)" "t - window + x \<le> stop + (m - window)" using False t by linarith+
    then have "?start \<le> stop + (m - window)" by (simp add: max_def)
    moreover have "max ?start (t - window) = ?start" by simp
    ultimately have "passed_nat ?start ps + ?start \<le> stop + (m - window)" using rest [of ?start] by (simp only: max_absorb2)
    moreover have "passed_nat start (p # ps) = x + passed_nat ?start ps" using False by (simp add: p limit_step_def)
    ultimately show ?thesis using m \<open>?start \<le> stop + (m - window)\<close> by linarith
  qed
qed

lemma burst_bound:
  fixes now :: nat
  assumes "passed + max start (now - w) \<le> max start (stop + (m - w))" "now \<le> stop"
  shows "passed \<le> stop - now + max w m"
proof (cases "start \<le> stop + (m - w)")
  case True
  then have "passed + (now - w) \<le> stop + (m - w)" using assms(1) by linarith
  then show ?thesis using assms(2) by linarith
qed (use assms in linarith)

lemma passed_bytes_nat:
  assumes "rate \<noteq> 0" "unat start < 2 ^ 63" "\<And>p. p \<in> set ps \<Longrightarrow> unat (fst p) < 2 ^ 62 \<and> unat (snd p) < 2 ^ 16"
  shows "passed_bytes rate start ps * (8 * (1000000000 div unat rate)) =
    passed_nat (unat start) (map (\<lambda>p. (unat (fst p), unat (tx_time rate (snd p)))) ps)"
  using assms(2,3)
proof (induction ps arbitrary: start)
  case Nil
  then show ?case by simp
next
  case (Cons p ps)
  let ?n = "unat (fst p)" and ?x = "unat (tx_time rate (snd p))"
  have b: "unat (fst p) < 2 ^ 62" "unat (snd p) < 2 ^ 16" using Cons.prems(2) [of p] by simp_all
  note step = limiter_step [OF b(1) Cons.prems(1) b(2) assms(1)]
  have "snd (limit_step ?n ?x (unat start)) < 2 ^ 63"
    using b Cons.prems(1) step(2) by (auto simp: limit_step_def max_def)
  then have "unat (of_nat (snd (limit_step ?n ?x (unat start))) :: u64) = snd (limit_step ?n ?x (unat start))"
    and "unat (of_nat (snd (limit_step ?n ?x (unat start))) :: u64) < 2 ^ 63"
    by (simp_all add: unat_of_nat)
  then show ?case using Cons.IH [of "of_nat (snd (limit_step ?n ?x (unat start)))"] Cons.prems(2)
    by (simp add: step(1,3) split_beta distrib_right)
qed

text \<open>The bound in time, with the time of a bit as the program rounds it.\<close>

lemma rate_limit_time:
  assumes "rate \<noteq> 0" "unat start < 2 ^ 63" "sorted (map fst ps)" "ps \<noteq> []"
    and "\<And>p. p \<in> set ps \<Longrightarrow> unat (fst p) < 2 ^ 62 \<and> unat (snd p) \<le> size_max" "size_max < 2 ^ 16"
  shows "passed_bytes rate start ps * 8 * (1000000000 div unat rate)
    \<le> unat (fst (last ps)) - unat (fst (hd ps)) + max 5000000 (size_max * 8 * (1000000000 div unat rate))"
proof -
  let ?m = "size_max * (8 * (1000000000 div unat rate))"
  let ?ps = "map (\<lambda>p. (unat (fst p), unat (tx_time rate (snd p)))) ps"
  let ?now = "unat (fst (hd ps))" and ?stop = "unat (fst (last ps))"
  have small: "unat (fst p) < 2 ^ 62 \<and> unat (snd p) < 2 ^ 16" if "p \<in> set ps" for p
    using assms(5) [OF that] assms(6) by simp
  have between: "fst (hd ps) \<le> fst p \<and> fst p \<le> fst (last ps)" if p: "p \<in> set ps" for p
  proof -
    obtain j where "j < length ps" "ps ! j = p" using p unfolding in_set_conv_nth by blast
    then show ?thesis using assms(3,4) by (auto simp: hd_conv_nth last_conv_nth sorted_iff_nth_mono)
  qed
  have "sorted (map fst ?ps)" using assms(3) by (simp add: sorted_iff_nth_mono word_le_nat_alt)
  moreover have "?now \<le> fst p \<and> fst p \<le> ?stop \<and> snd p \<le> ?m" if p: "p \<in> set ?ps" for p
  proof -
    obtain r where r: "r \<in> set ps" "p = (unat (fst r), unat (tx_time rate (snd r)))" using p by auto
    have "unat (tx_time rate (snd r)) = unat (snd r) * (8 * (1000000000 div unat rate))"
      using small [OF r(1)] limiter_step(3) [of 0 0 "snd r" rate] assms(1) by simp
    then show ?thesis using between [OF r(1)] assms(5) [OF r(1)] by (simp add: r(2) word_le_nat_alt mult_le_mono1)
  qed
  moreover have le: "?now \<le> ?stop" using between [of "hd ps"] assms(4) by (simp add: word_le_nat_alt)
  ultimately have "passed_nat (unat start) ?ps + max (unat start) (?now - window) \<le> max (unat start) (?stop + (?m - window))"
    by (rule passed_nat_bound)
  then have "passed_nat (unat start) ?ps \<le> ?stop - ?now + max window ?m" using le by (rule burst_bound)
  moreover have "passed_bytes rate start ps * (8 * (1000000000 div unat rate)) = passed_nat (unat start) ?ps"
    by (rule passed_bytes_nat [OF assms(1,2) small])
  ultimately show ?thesis by (simp only: mult.assoc window_def)
qed

text \<open>
  The same at the configured rate: rounding down the time of a bit raises the rate by less than the factor 2, and not at
  all when the rate divides \<open>10^9\<close>.
\<close>

lemma rounded_rate:
  fixes R passed T size_max :: nat
  assumes "0 < R" and "passed * 8 * (1000000000 div R) \<le> T + max 5000000 (size_max * 8 * (1000000000 div R))"
  shows "passed * 8 * (1000000000 div R * R) \<le> R * T + max (R * 5000000) (size_max * 8 * 1000000000)"
proof -
  let ?q = "1000000000 div R"
  have "passed * 8 * (?q * R) = passed * 8 * ?q * R" by (simp only: mult.assoc)
  also have "\<dots> \<le> (T + max 5000000 (size_max * 8 * ?q)) * R" by (rule mult_le_mono1 [OF assms(2)])
  also have "\<dots> = R * T + max (R * 5000000) (size_max * 8 * (?q * R))"
    by (simp only: add_mult_distrib nat_mult_max_left) (simp only: ac_simps)
  also have "\<dots> \<le> R * T + max (R * 5000000) (size_max * 8 * 1000000000)"
    by (intro add_left_mono max.mono mult_le_mono2 div_times_less_eq_dividend order.refl)
  finally show ?thesis .
qed

lemma half_rate:
  fixes R :: nat
  assumes "0 < R" "R \<le> 1000000000"
  shows "1000000000 \<le> 2 * (1000000000 div R * R)"
proof -
  have "1 \<le> 1000000000 div R" using div_le_mono [OF assms(2), of R] assms(1) by simp
  then have "R \<le> 1000000000 div R * R" by simp
  moreover have "1000000000 mod R < R" using assms(1) by simp
  ultimately show ?thesis using div_mult_mod_eq [of 1000000000 R] by linarith
qed

lemma unlimited_rate:
  assumes "1000000000 < unat rate" "sorted (map fst ps)" "\<And>p. p \<in> set ps \<Longrightarrow> start \<le> fst p \<and> unat (fst p) < 2 ^ 62"
  shows "passed_bytes rate start ps = (\<Sum>p \<leftarrow> ps. unat (snd p))"
  using assms(2,3)
proof (induction ps arbitrary: start)
  case (Cons p ps)
  obtain now size where p: "p = (now, size)" by (cases p)
  have "unat (1000000000 div rate) = 0" using assms(1) by (simp add: unat_div)
  then have "1000000000 div rate = 0" by (simp only: unsigned_eq_0_iff)
  then have lim: "limit_rate_sliding_window now size start rate = (True, if start + 5000000 < now then now - 5000000 else start)"
    using Cons.prems(2) [of p] assms(1) by (auto simp: limit_rate_sliding_window_def p)
  have now: "start \<le> now" "unat now < 2 ^ 62" using Cons.prems(2) [of p] by (simp_all add: p)
  then have "unat (start + 5000000) = unat start + 5000000" by (simp add: unat_word_ariths word_le_nat_alt)
  then have "(if start + 5000000 < now then now - 5000000 else start) \<le> now"
    using now(1) word_sub_le [of 5000000 now] by (auto simp: word_less_nat_alt) (simp add: word_le_nat_alt)
  then have "(if start + 5000000 < now then now - 5000000 else start) \<le> fst q \<and> unat (fst q) < 2 ^ 62" if "q \<in> set ps" for q
    using Cons.prems that by (auto simp: p intro: order.trans)
  with Cons.IH Cons.prems(1) show ?case by (simp add: p lim)
qed simp

text \<open>
  C11. The rate limit of a QER. Let packets of at most \<open>size_max\<close> bytes, below 64 kB, come in in the order of their
  times. For a rate that divides \<open>10^9\<close> bit/s, the bits that pass are at most those of the rate between the first and
  the last packet and a burst, of 5 ms at the rate or of one packet; for any other rate up to \<open>10^9\<close> bit/s at most
  twice as many, since the time of a bit is rounded down to nanoseconds; and a rate above \<open>10^9\<close> bit/s limits
  nothing, all packets pass. Bits are counted times \<open>10^9\<close>, for times in nanoseconds.
\<close>

theorem rate_limit_bound:
  assumes "rate \<noteq> 0" "unat start < 2 ^ 63" "sorted (map fst ps)" "ps \<noteq> []"
    and "\<And>p. p \<in> set ps \<Longrightarrow> unat (fst p) < 2 ^ 62 \<and> unat (snd p) \<le> size_max" "size_max < 2 ^ 16"
    and "bits = 8 * passed_bytes rate start ps"
    and "allowed = unat rate * (unat (fst (last ps)) - unat (fst (hd ps))) + max (unat rate * 5000000) (size_max * 8 * 10 ^ 9)"
  shows "(unat rate dvd 10 ^ 9 \<longrightarrow> bits * 10 ^ 9 \<le> allowed)
    \<and> (unat rate \<le> 10 ^ 9 \<longrightarrow> bits * 10 ^ 9 \<le> 2 * allowed)
    \<and> (unat rate > 10 ^ 9 \<longrightarrow> start \<le> fst (hd ps) \<longrightarrow> passed_bytes rate start ps = (\<Sum>p \<leftarrow> ps. unat (snd p)))"
proof -
  let ?b = "1000000000 div unat rate * unat rate"
  have pos: "0 < unat rate" using assms(1) by (simp add: unat_gt_0)
  have b: "bits * ?b \<le> allowed"
    using rounded_rate [OF pos rate_limit_time [OF assms(1-6)]] by (simp add: assms(7,8) mult.commute)
  have "bits * 10 ^ 9 \<le> 2 * allowed" if "unat rate \<le> 10 ^ 9"
  proof -
    have "bits * 10 ^ 9 \<le> bits * (2 * ?b)" by (rule mult_le_mono2) (use half_rate [OF pos] that in simp)
    with b show ?thesis by linarith
  qed
  moreover have "bits * 10 ^ 9 \<le> allowed" if "unat rate dvd 10 ^ 9" using that b by simp
  moreover have "passed_bytes rate start ps = (\<Sum>p \<leftarrow> ps. unat (snd p))" if "unat rate > 10 ^ 9" "start \<le> fst (hd ps)"
  proof (rule unlimited_rate)
    show "start \<le> fst p \<and> unat (fst p) < 2 ^ 62" if p: "p \<in> set ps" for p
      using assms(3-5) p \<open>start \<le> fst (hd ps)\<close> by (cases ps) (auto intro: order.trans)
  qed (use that assms(3) in simp_all)
  ultimately show ?thesis by blast
qed

text \<open>10 Mbit/s and packets of 1250 bytes, 1 ms each: of eight that come at once, five pass, which is the bound.\<close>

theorem rate_limit_bound_witness:
  "8 * passed_bytes 10000000 0 (replicate 8 (10000000000, 1250)) * 10 ^ 9 \<le> 10000000 * (5000000 :: nat) \<and>
   passed_bytes 10000000 0 (replicate 8 (10000000000, 1250)) = 5 * 1250"
proof -
  let ?ps = "replicate 8 (10000000000, 1250) :: (u64 \<times> u64) list"
  have "(10000000 :: nat) dvd 10 ^ 9" by simp
  then have "8 * passed_bytes 10000000 0 ?ps * 10 ^ 9 \<le>
      unat (10000000 :: u64) * (unat (fst (last ?ps)) - unat (fst (hd ?ps))) + max (unat (10000000 :: u64) * 5000000) (1250 * 8 * 10 ^ 9)"
    using rate_limit_bound [of 10000000 0 ?ps 1250, OF _ _ _ _ _ _ refl refl, THEN conjunct1] by simp
  moreover have "passed_bytes 10000000 0 ?ps = 5 * 1250" by code_simp
  ultimately show ?thesis by simp
qed

end
