(* ===== verification/Xdp_Plane.thy ===== *)
theory Xdp_Plane
  imports Xdp_Tunnels
begin

text \<open>
  The Go program and the XDP program on the same maps. What the XDP program writes into them is
  bounded for every frame; a step relation interleaves the operations of the forwarding plane
  controller with frames, and its invariants are facts about the running plane.
\<close>

section \<open>What a frame changes\<close>

text \<open>A QER without the two times that the rate limiter keeps in it.\<close>

definition unstarted :: "QerInfo \<Rightarrow> QerInfo" where
  "unstarted q = q\<lparr>qi_StartUL := 0, qi_StartDL := 0\<rparr>"

text \<open>
  From one state of the maps to another, only the times in the QERs and the volumes of the URRs
  in \<open>U\<close> differ.
\<close>

definition counters_only ::
  "('m, 'b, 'z) bpf_env_scheme \<Rightarrow> u32 set \<Rightarrow> ('m, 'b) BpfObjects \<Rightarrow> ('m, 'b) BpfObjects \<Rightarrow> bool" where
  "counters_only E U b b' \<longleftrightarrow>
     FarMap b' = FarMap b \<and> PdrMapTeidIp4 b' = PdrMapTeidIp4 b \<and> PdrMapDownlinkIp4 b' = PdrMapDownlinkIp4 b \<and>
     PdrMapDownlinkIp6 b' = PdrMapDownlinkIp6 b \<and> farIdTracker b' = farIdTracker b \<and>
     qerIdTracker b' = qerIdTracker b \<and> urrIdTracker b' = urrIdTracker b \<and>
     (\<forall>q. map_option unstarted (Map_Lookup (qer_ops E) (QerMap b') q) = map_option unstarted (Map_Lookup (qer_ops E) (QerMap b) q)) \<and>
     (\<forall>u. u \<notin> U \<longrightarrow> Map_Lookup (urr_ops E) (UrrMap b') u = Map_Lookup (urr_ops E) (UrrMap b) u)"

text \<open>The same for the state of the program; the counts of actions are left to the entry point.\<close>

definition packet_effect ::
  "('m, 'b, 'z) bpf_env_scheme \<Rightarrow> u32 set \<Rightarrow> ('m, 'b) xdp_state \<Rightarrow> ('m, 'b) xdp_state \<Rightarrow> bool" where
  "packet_effect E U s s' \<longleftrightarrow>
     counters_only E U (objs s) (objs s') \<and> xdp_actions (statistic s') = xdp_actions (statistic s)"

text \<open>The URRs that the PDRs in the maps refer to.\<close>

definition pdr_entries :: "('m, 'b, 'z) bpf_env_scheme \<Rightarrow> ('m, 'b) BpfObjects \<Rightarrow> IpEntrypointPdrInfo set" where
  "pdr_entries E b = ran (Map_Lookup (teid_ops E) (PdrMapTeidIp4 b)) \<union>
     ran (Map_Lookup (ip4_ops E) (PdrMapDownlinkIp4 b)) \<union> ran (Map_Lookup (ip6_ops E) (PdrMapDownlinkIp6 b))"

definition pdr_urrs :: "('m, 'b, 'z) bpf_env_scheme \<Rightarrow> ('m, 'b) BpfObjects \<Rightarrow> u32 set" where
  "pdr_urrs E b = ep_urr1_id ` pdr_entries E b \<union> ep_urr2_id ` pdr_entries E b"

lemma packet_effect_refl: "objs s' = objs s \<Longrightarrow> xdp_actions (statistic s') = xdp_actions (statistic s) \<Longrightarrow> packet_effect E U s s'"
  by (simp add: packet_effect_def counters_only_def)

lemma packet_effect_trans: "packet_effect E U s s' \<Longrightarrow> packet_effect E U s' s'' \<Longrightarrow> packet_effect E U s s''"
  by (simp add: packet_effect_def counters_only_def)

lemma packet_effect_pdrs:
  "packet_effect E U s s' \<Longrightarrow> pdr_entries E (objs s') = pdr_entries E (objs s) \<and> pdr_urrs E (objs s') = pdr_urrs E (objs s)"
  by (simp add: packet_effect_def counters_only_def pdr_entries_def pdr_urrs_def)

lemma write_lookup:
  assumes "map_ops_ok ops"
  shows "Map_Lookup ops (snd (Map_Put ops m k v)) \<in> {Map_Lookup ops m, (Map_Lookup ops m)(k \<mapsto> v)}"
    and "Map_Lookup ops (snd (Map_UpdateExist ops m k v)) \<in> {Map_Lookup ops m, (Map_Lookup ops m)(k \<mapsto> v)}"
    and "Map_Lookup ops (snd (Map_Delete ops m k)) \<in> {Map_Lookup ops m, (Map_Lookup ops m)(k := None)}"
proof -
  note laws = assms [unfolded map_ops_ok_def]
  show "Map_Lookup ops (snd (Map_Put ops m k v)) \<in> {Map_Lookup ops m, (Map_Lookup ops m)(k \<mapsto> v)}"
    using laws by (cases "Map_Put ops m k v"; cases "fst (Map_Put ops m k v)") simp_all
  show "Map_Lookup ops (snd (Map_UpdateExist ops m k v)) \<in> {Map_Lookup ops m, (Map_Lookup ops m)(k \<mapsto> v)}"
    using laws by (cases "Map_UpdateExist ops m k v"; cases "fst (Map_UpdateExist ops m k v)") simp_all
  show "Map_Lookup ops (snd (Map_Delete ops m k)) \<in> {Map_Lookup ops m, (Map_Lookup ops m)(k := None)}"
    using laws by (cases "Map_Delete ops m k"; cases "fst (Map_Delete ops m k)") simp_all
qed

lemma Put_lookup:
  assumes "map_ops_ok ops"
  shows "Map_Lookup ops (snd (Map_Put ops m k v)) j = Map_Lookup ops m j \<or>
    j = k \<and> Map_Lookup ops (snd (Map_Put ops m k v)) j = Some v"
  using write_lookup(1) [OF assms, of m k v] by (auto split: if_splits)

text \<open>
  Each step of the program keeps a \<^const>\<open>packet_effect\<close> that was reached before it; the rules chain backwards
  over a handler.
\<close>

lemma apply_qer_effect:
  assumes "map_ops_ok (qer_ops E)" "packet_effect E U r s"
  shows "packet_effect E U r (snd (apply_qer E K uplink qer_id s))"
proof (cases "Map_Lookup (qer_ops E) (QerMap (objs s)) qer_id")
  case (Some qer)
  have put: "map_option unstarted (Map_Lookup (qer_ops E) (snd (Map_Put (qer_ops E) (QerMap (objs s)) qer_id q')) q) =
      map_option unstarted (Map_Lookup (qer_ops E) (QerMap (objs s)) q)" if "unstarted q' = unstarted qer" for q q'
    using Put_lookup [OF assms(1), of "QerMap (objs s)" qer_id q' q] Some that by auto
  have "packet_effect E U s (s\<lparr>clock_reads := n, objs := (objs s)\<lparr>QerMap := snd (Map_Put (qer_ops E) (QerMap (objs s)) qer_id q')\<rparr>\<rparr>)"
    if "unstarted q' = unstarted qer" for n q'
    using put [OF that] by (simp add: packet_effect_def counters_only_def)
  moreover have "unstarted (qer\<lparr>qi_StartUL := t\<rparr>) = unstarted qer" "unstarted (qer\<lparr>qi_StartDL := t\<rparr>) = unstarted qer" for t
    by (simp_all add: unstarted_def)
  moreover have "packet_effect E U s (s\<lparr>clock_reads := n\<rparr>)" "packet_effect E U s s" for n by (simp_all add: packet_effect_refl)
  ultimately have "packet_effect E U s (snd (apply_qer E K uplink qer_id s))"
    unfolding apply_qer_def Some by (simp add: case_prod_unfold Let_def)
  with assms(2) show ?thesis by (rule packet_effect_trans)
qed (simp add: apply_qer_def assms)

lemma update_urr_effect:
  assumes "map_ops_ok (urr_ops E)" "u \<in> U" "packet_effect E U r s"
  shows "packet_effect E U r (update_urr E u x y s)"
proof (cases "Map_Lookup (urr_ops E) (UrrMap (objs s)) u")
  case (Some urr)
  have "Map_Lookup (urr_ops E) (snd (Map_Put (urr_ops E) (UrrMap (objs s)) u v)) w = Map_Lookup (urr_ops E) (UrrMap (objs s)) w"
    if "w \<notin> U" for v w
    using that assms(2) Put_lookup [OF assms(1), of "UrrMap (objs s)" u v w] by auto
  then have "packet_effect E U s (update_urr E u x y s)"
    by (simp add: update_urr_def Some packet_effect_def counters_only_def)
  with assms(3) show ?thesis by (rule packet_effect_trans)
qed (simp add: update_urr_def assms)

lemma quiet_effect:
  assumes "packet_effect E U r s"
  shows "packet_effect E U r (count_rx_packet g s)" "packet_effect E U r (count_n3_n6 h s)"
    "packet_effect E U r (s\<lparr>ctx := c\<rparr>)" "packet_effect E U r (s\<lparr>frame := f\<rparr>)" "packet_effect E U r (s\<lparr>ctx := c, frame := f\<rparr>)"
    "packet_effect E U r (snd (route_ipv4 K e i s))" "packet_effect E U r (snd (route_ipv6 K e i s))"
  using assms
  by (simp_all add: packet_effect_def count_rx_packet_def count_n3_n6_def route_ipv4_def route_ipv6_def forward_to_def
      count_route_def Let_def split: prod.split)

lemma send_effect: "packet_effect E U r s \<Longrightarrow> packet_effect E U r (snd (send_to_gtp_tunnel K a d tos qfi teid s))"
  by (auto simp: send_to_gtp_tunnel_def intro!: quiet_effect split: option.split)

section \<open>Handlers\<close>

lemma handle_n6_effect:
  assumes "map_ops_ok (qer_ops E)" "map_ops_ok (urr_ops E)" "packet_effect E U r s"
    and "\<And>p. pdr = Some p \<Longrightarrow> ep_urr1_id p \<in> U \<and> ep_urr2_id p \<in> U"
  shows "packet_effect E U r (snd (handle_n6_packet E K m pdr s))"
proof (cases pdr)
  case (Some p)
  have u: "ep_urr1_id p \<in> U" "ep_urr2_id p \<in> U" using assms(4) Some by auto
  have q: "packet_effect E U r s'" if "apply_qer E K uplink q s = (x, s')" for uplink q x s'
    using apply_qer_effect [OF assms(1,3), of K uplink q] that by simp
  show ?thesis
    using assms(3) by (auto simp: handle_n6_packet_def Some Let_def intro!: send_effect update_urr_effect assms(2) u split: option.split prod.split)
      (erule q)+
qed (simp add: handle_n6_packet_def assms)

lemma looked_up_urrs:
  assumes "packet_effect E U r s" "pdr_urrs E (objs r) \<subseteq> U"
  shows "Map_Lookup (teid_ops E) (PdrMapTeidIp4 (objs s)) t = Some p \<Longrightarrow> ep_urr1_id p \<in> U \<and> ep_urr2_id p \<in> U"
    and "Map_Lookup (ip4_ops E) (PdrMapDownlinkIp4 (objs s)) a = Some p \<Longrightarrow> ep_urr1_id p \<in> U \<and> ep_urr2_id p \<in> U"
    and "Map_Lookup (ip6_ops E) (PdrMapDownlinkIp6 (objs s)) d = Some p \<Longrightarrow> ep_urr1_id p \<in> U \<and> ep_urr2_id p \<in> U"
proof -
  have "ep_urr1_id p \<in> U \<and> ep_urr2_id p \<in> U" if "p \<in> pdr_entries E (objs s)" for p
    using that assms(2) packet_effect_pdrs [OF assms(1)] by (auto simp: pdr_urrs_def)
  then show "Map_Lookup (teid_ops E) (PdrMapTeidIp4 (objs s)) t = Some p \<Longrightarrow> ep_urr1_id p \<in> U \<and> ep_urr2_id p \<in> U"
    and "Map_Lookup (ip4_ops E) (PdrMapDownlinkIp4 (objs s)) a = Some p \<Longrightarrow> ep_urr1_id p \<in> U \<and> ep_urr2_id p \<in> U"
    and "Map_Lookup (ip6_ops E) (PdrMapDownlinkIp6 (objs s)) d = Some p \<Longrightarrow> ep_urr1_id p \<in> U \<and> ep_urr2_id p \<in> U"
    by (simp_all add: pdr_entries_def ranI)
qed

lemma handle_n6_ip_effect:
  assumes "map_ops_ok (qer_ops E)" "map_ops_ok (urr_ops E)" "pdr_urrs E (objs r) \<subseteq> U" "packet_effect E U r s"
  shows "packet_effect E U r (snd (handle_n6_packet_ipv4 E K i s))" "packet_effect E U r (snd (handle_n6_packet_ipv6 E K i s))"
  unfolding handle_n6_packet_ipv4_def handle_n6_packet_ipv6_def Let_def
  by (rule handle_n6_effect [OF assms(1,2,4)], erule looked_up_urrs [OF assms(4,3)])+

lemma finish_uplink_effect:
  assumes "map_ops_ok (qer_ops E)" "map_ops_ok (urr_ops E)" "pdr_urrs E (objs r) \<subseteq> U" "packet_effect E U r s"
  shows "packet_effect E U r (snd (finish_uplink E K s))"
  using assms(4)
  by (auto simp: finish_uplink_def intro!: handle_n6_ip_effect [OF assms(1-3)] quiet_effect split: option.split prod.split)

lemma forward_uplink_effect:
  assumes "map_ops_ok (qer_ops E)" "map_ops_ok (urr_ops E)" "pdr_urrs E (objs r) \<subseteq> U" "packet_effect E U r s"
    and "ep_urr1_id pdr \<in> U \<and> ep_urr2_id pdr \<in> U"
  shows "packet_effect E U r (snd (forward_uplink E K pdr far ohr g s))"
  using assms(4,5)
  by (auto simp: forward_uplink_def Let_def intro!: finish_uplink_effect [OF assms(1-3)] quiet_effect update_urr_effect [OF assms(2)]
      split: option.split prod.split)

lemma handle_gtp_packet_effect:
  assumes "map_ops_ok (qer_ops E)" "map_ops_ok (urr_ops E)" "pdr_urrs E (objs r) \<subseteq> U" "packet_effect E U r s"
  shows "packet_effect E U r (snd (handle_gtp_packet E K s))"
proof -
  have q: "packet_effect E U r s'" if "apply_qer E K uplink q s = (x, s')" for uplink q x s'
    using apply_qer_effect [OF assms(1,4), of K uplink q] that by simp
  then show ?thesis
    using assms(4) looked_up_urrs(1) [OF assms(4,3)]
    by (auto simp: handle_gtp_packet_def intro!: forward_uplink_effect [OF assms(1-3)] split: option.split prod.split)
qed

lemma handle_gtpu_effect:
  assumes "map_ops_ok (qer_ops E)" "map_ops_ok (urr_ops E)" "pdr_urrs E (objs r) \<subseteq> U" "packet_effect E U r s"
  shows "packet_effect E U r (snd (handle_gtpu E K s))"
  using assms(4)
  by (auto simp: handle_gtpu_def Let_def intro!: handle_gtp_packet_effect [OF assms(1-3)] quiet_effect split: option.split prod.split)

lemma handle_ip_effect:
  assumes "map_ops_ok (qer_ops E)" "map_ops_ok (urr_ops E)" "pdr_urrs E (objs r) \<subseteq> U" "packet_effect E U r s"
  shows "packet_effect E U r (snd (handle_ip4 E K s))" "packet_effect E U r (snd (handle_ip6 E K s))"
  using assms(4)
  by (auto simp: handle_ip4_def handle_ip6_def to_n6_def Let_def
      intro!: handle_gtpu_effect [OF assms(1-3)] handle_n6_ip_effect [OF assms(1-3)] quiet_effect split: prod.split)

lemma process_packet_effect:
  assumes "map_ops_ok (qer_ops E)" "map_ops_ok (urr_ops E)" "pdr_urrs E (objs r) \<subseteq> U" "packet_effect E U r s"
  shows "packet_effect E U r (snd (process_packet E K s))"
  using assms(4) by (auto simp: process_packet_def Let_def intro!: handle_ip_effect [OF assms(1-3)] quiet_effect split: prod.split)

section \<open>Properties of every frame\<close>

lemma frame_effect:
  assumes "bpf_env_ok E"
  shows "counters_only E (pdr_urrs E (objs s)) (objs s) (objs (snd (upf_ip_entrypoint_func E K s)))"
proof -
  have "packet_effect E (pdr_urrs E (objs s)) s (snd (process_packet E K (s\<lparr>ctx := empty_context 0\<rparr>)))"
    using assms by (intro process_packet_effect) (auto simp: bpf_env_ok_def intro: packet_effect_refl)
  then show ?thesis by (simp add: entrypoint_frame(3) packet_effect_def)
qed

text \<open>
  C9. Whatever frame comes in, and whatever the kernel answers, the XDP program changes nothing in the maps
  but the times of the rate limiter in the QERs and the volumes of the URRs that some PDR refers to. PDRs,
  FARs, gates, rates and identifiers are those that the Go program wrote.
\<close>

theorem frame_changes_counters_only:
  assumes "bpf_env_ok E" "b = objs s" "b' = objs (snd (upf_ip_entrypoint_func E K s))"
  shows "PdrMapTeidIp4 b' = PdrMapTeidIp4 b \<and> PdrMapDownlinkIp4 b' = PdrMapDownlinkIp4 b \<and> PdrMapDownlinkIp6 b' = PdrMapDownlinkIp6 b \<and>
    FarMap b' = FarMap b \<and> farIdTracker b' = farIdTracker b \<and> qerIdTracker b' = qerIdTracker b \<and> urrIdTracker b' = urrIdTracker b \<and>
    (\<forall>q. map_option unstarted (qer_lookup E b' q) = map_option unstarted (qer_lookup E b q)) \<and>
    {u. urr_lookup E b' u \<noteq> urr_lookup E b u} \<subseteq> pdr_urrs E b"
  using frame_effect [OF assms(1), of s K] by (auto simp: assms(2,3) counters_only_def)

theorem frame_changes_counters_only_witness:
  "FarMap (objs (snd (upf_ip_entrypoint_func sim_bpf_env sim_xdp (sim_packet sim_macs)))) = FarMap sim_plane"
  using frame_changes_counters_only [OF sim_bpf_env_ok, of sim_plane "sim_packet sim_macs" _ sim_xdp] by simp

section \<open>The plane at work\<close>

text \<open>
  The operations of the forwarding plane controller, successful or not, and frames with any state of the kernel,
  in any order. At the start the maps of the PDRs are empty.
\<close>

inductive plane_step :: "('m, 'b, 'z) bpf_env_scheme \<Rightarrow> ('m, 'b) BpfObjects \<Rightarrow> ('m, 'b) BpfObjects \<Rightarrow> bool" for E where
  put_uplink: "plane_step E b (snd (PutPdrUplink E teid p b))"
| put_downlink: "plane_step E b (snd (PutPdrDownlink E ip p b))"
| put_downlink6: "plane_step E b (snd (PutDownlinkPdrIp6 E ip p b))"
| update_uplink: "plane_step E b (snd (UpdatePdrUplink E teid p b))"
| update_downlink: "plane_step E b (snd (UpdatePdrDownlink E ip p b))"
| update_downlink6: "plane_step E b (snd (UpdateDownlinkPdrIp6 E ip p b))"
| delete_uplink: "plane_step E b (snd (DeletePdrUplink E teid b))"
| delete_downlink: "plane_step E b (snd (DeletePdrDownlink E ip b))"
| delete_downlink6: "plane_step E b (snd (DeleteDownlinkPdrIp6 E ip b))"
| new_far: "plane_step E b (snd (NewFar E far b))"
| update_far: "plane_step E b (snd (UpdateFar E i far b))"
| delete_far: "plane_step E b (snd (DeleteFar E i b))"
| new_qer: "plane_step E b (snd (NewQer E qer b))"
| update_qer: "plane_step E b (snd (UpdateQer E i qer b))"
| delete_qer: "plane_step E b (snd (DeleteQer E i b))"
| new_urr: "plane_step E b (snd (NewUrr E urr b))"
| update_urr: "plane_step E b (snd (UpdateUrr E i urr b))"
| delete_urr: "plane_step E b (snd (DeleteUrr E i b))"
| packet: "plane_step E (objs s) (objs (snd (upf_ip_entrypoint_func E K s)))"

inductive plane_reach :: "('m, 'b, 'z) bpf_env_scheme \<Rightarrow> ('m, 'b) BpfObjects \<Rightarrow> bool" for E where
  start: "pdr_entries E b = {} \<Longrightarrow> plane_reach E b"
| step: "plane_reach E b \<Longrightarrow> plane_step E b b' \<Longrightarrow> plane_reach E b'"

lemma write_ran:
  assumes "map_ops_ok ops"
  shows "ran (Map_Lookup ops (snd (Map_Put ops m k v))) \<subseteq> insert v (ran (Map_Lookup ops m))"
    and "ran (Map_Lookup ops (snd (Map_UpdateExist ops m k v))) \<subseteq> insert v (ran (Map_Lookup ops m))"
    and "ran (Map_Lookup ops (snd (Map_Delete ops m k))) \<subseteq> ran (Map_Lookup ops m)"
  using write_lookup(1,2) [OF assms, of m k v] write_lookup(3) [OF assms, of m k] by (auto simp: ran_def split: if_splits)

definition no_urrs :: "IpEntrypointPdrInfo set" where
  "no_urrs = {v. ep_urr1_id v = 0 \<and> ep_urr2_id v = 0}"

lemma stored_no_urrs: "pdrToStore ops m k pdr = Val v \<Longrightarrow> v \<in> no_urrs"
  by (erule pdrToStore_cases)
    (auto simp: no_urrs_def ToIpEntrypointPdrInfo_def CombinePdrWithSdf_def zero_IpEntrypointPdrInfo_def split: option.splits)

lemma pdr_ops_entries:
  assumes "bpf_env_ok E" "pdr_entries E b \<subseteq> no_urrs"
  shows "pdr_entries E (snd (PutPdrUplink E teid p b)) \<subseteq> no_urrs" "pdr_entries E (snd (UpdatePdrUplink E teid p b)) \<subseteq> no_urrs"
    "pdr_entries E (snd (PutPdrDownlink E ip p b)) \<subseteq> no_urrs" "pdr_entries E (snd (UpdatePdrDownlink E ip p b)) \<subseteq> no_urrs"
    "pdr_entries E (snd (PutDownlinkPdrIp6 E ip p b)) \<subseteq> no_urrs" "pdr_entries E (snd (UpdateDownlinkPdrIp6 E ip p b)) \<subseteq> no_urrs"
    "pdr_entries E (snd (DeletePdrUplink E teid b)) \<subseteq> no_urrs" "pdr_entries E (snd (DeletePdrDownlink E ip b)) \<subseteq> no_urrs"
    "pdr_entries E (snd (DeleteDownlinkPdrIp6 E ip b)) \<subseteq> no_urrs"
proof -
  have ops: "map_ops_ok (teid_ops E)" "map_ops_ok (ip4_ops E)" "map_ops_ok (ip6_ops E)" using assms(1) by (simp_all add: bpf_env_ok_def)
  note w = write_ran [OF ops(1)] write_ran [OF ops(2)] write_ran [OF ops(3)]
  note defs = pdr_entries_def case_prod_unfold
  show "pdr_entries E (snd (PutPdrUplink E teid p b)) \<subseteq> no_urrs" "pdr_entries E (snd (UpdatePdrUplink E teid p b)) \<subseteq> no_urrs"
    using assms(2) w(1,2) by (auto simp: PutPdrUplink_def UpdatePdrUplink_def defs split: res.split dest!: subsetD [OF w(1)] subsetD [OF w(2)] stored_no_urrs)
  show "pdr_entries E (snd (PutPdrDownlink E ip p b)) \<subseteq> no_urrs" "pdr_entries E (snd (UpdatePdrDownlink E ip p b)) \<subseteq> no_urrs"
    using assms(2) by (auto simp: PutPdrDownlink_def UpdatePdrDownlink_def defs split: res.split dest!: subsetD [OF w(4)] subsetD [OF w(5)] stored_no_urrs)
  show "pdr_entries E (snd (PutDownlinkPdrIp6 E ip p b)) \<subseteq> no_urrs" "pdr_entries E (snd (UpdateDownlinkPdrIp6 E ip p b)) \<subseteq> no_urrs"
    using assms(2) by (auto simp: PutDownlinkPdrIp6_def UpdateDownlinkPdrIp6_def defs split: res.split dest!: subsetD [OF w(7)] subsetD [OF w(8)] stored_no_urrs)
  show "pdr_entries E (snd (DeletePdrUplink E teid b)) \<subseteq> no_urrs" "pdr_entries E (snd (DeletePdrDownlink E ip b)) \<subseteq> no_urrs"
    "pdr_entries E (snd (DeleteDownlinkPdrIp6 E ip b)) \<subseteq> no_urrs"
    using assms(2) by (auto simp: DeletePdrUplink_def DeletePdrDownlink_def DeleteDownlinkPdrIp6_def defs
        dest!: subsetD [OF w(3)] subsetD [OF w(6)] subsetD [OF w(9)])
qed

lemma rule_ops_entries:
  "pdr_entries E (snd (NewFar E far b)) = pdr_entries E b" "pdr_entries E (snd (UpdateFar E i far b)) = pdr_entries E b"
  "pdr_entries E (snd (DeleteFar E i b)) = pdr_entries E b" "pdr_entries E (snd (NewQer E qer b)) = pdr_entries E b"
  "pdr_entries E (snd (UpdateQer E i qer b)) = pdr_entries E b" "pdr_entries E (snd (DeleteQer E i b)) = pdr_entries E b"
  "pdr_entries E (snd (NewUrr E urr b)) = pdr_entries E b" "pdr_entries E (snd (UpdateUrr E i urr b)) = pdr_entries E b"
  "pdr_entries E (snd (DeleteUrr E i b)) = pdr_entries E b"
  by (simp_all add: pdr_entries_def bpf_op_defs split: prod.split res.split option.split)

lemma packet_entries:
  "bpf_env_ok E \<Longrightarrow> pdr_entries E (objs (snd (upf_ip_entrypoint_func E K s))) = pdr_entries E (objs s)"
  using frame_effect [of E s K] by (simp add: counters_only_def pdr_entries_def)

lemma plane_no_urrs:
  assumes "bpf_env_ok E" "plane_reach E b"
  shows "pdr_entries E b \<subseteq> no_urrs"
  using assms(2)
proof induction
  case (step b b')
  from step.hyps(2) step.IH show ?case
    by cases (simp_all add: pdr_ops_entries [OF assms(1)] rule_ops_entries packet_entries [OF assms(1)])
qed simp

text \<open>
  C14. No URR is ever charged. In every state that the forwarding plane controller and the XDP program can reach,
  no frame changes the volumes of a URR other than number 0, whatever URRs the PDRs were installed with.
\<close>

theorem urrs_never_charged:
  assumes "bpf_env_ok E" "plane_reach E (objs s)" "u \<noteq> 0"
  shows "urr_lookup E (objs (snd (upf_ip_entrypoint_func E K s))) u = urr_lookup E (objs s) u"
proof -
  have "u \<notin> pdr_urrs E (objs s)" using plane_no_urrs [OF assms(1,2)] assms(3) by (auto simp: pdr_urrs_def no_urrs_def)
  then show ?thesis using frame_effect [OF assms(1), of s K] by (simp add: counters_only_def)
qed

text \<open>A session whose PDR has URR 1, and a packet of it.\<close>

definition sim_metered :: "(kmap, u32 list) BpfObjects" where
  "sim_metered = snd (PutPdrDownlink sim_bpf_env (Some [10, 60, 0, 1]) (zero_PdrInfo\<lparr>pi_FarId := 2, pi_QerId := 1, pi_Urr1Id := 1\<rparr>)
     (snd (NewUrr sim_bpf_env \<lparr>ui_UplinkVolume = 0, ui_DownlinkVolume = 0\<rparr> sim_plane)))"

lemma sim_objects_no_pdrs: "pdr_entries sim_bpf_env sim_objects = {}"
  by (simp add: pdr_entries_def sim_eval)

lemma sim_plane_reach: "plane_reach sim_bpf_env sim_plane" "plane_reach sim_bpf_env sim_metered"
  unfolding sim_metered_def sim_plane_def Let_def
  by (intro plane_reach.step [OF _ put_downlink] plane_reach.step [OF _ put_uplink] plane_reach.step [OF _ new_qer]
      plane_reach.step [OF _ new_far] plane_reach.step [OF _ new_urr] plane_reach.start sim_objects_no_pdrs)+

theorem urrs_never_charged_witness:
  "urr_lookup sim_bpf_env (objs (snd (upf_ip_entrypoint_func sim_bpf_env sim_xdp
       ((sim_packet (sim_macs @ [8, 0] @ sim_ping [8, 8, 8, 8] [10, 60, 0, 1]))\<lparr>objs := sim_metered\<rparr>)))) 1 =
     Some \<lparr>ui_UplinkVolume = 0, ui_DownlinkVolume = 0\<rparr>"
proof -
  let ?s = "(sim_packet (sim_macs @ [8, 0] @ sim_ping [8, 8, 8, 8] [10, 60, 0, 1]))\<lparr>objs := sim_metered\<rparr>"
  have "urr_lookup sim_bpf_env sim_metered 1 = Some \<lparr>ui_UplinkVolume = 0, ui_DownlinkVolume = 0\<rparr>"
    by (simp add: sim_metered_def sim_plane_def Let_def sim_eval zero_PdrInfo_def PutPdrUplink_def PutPdrDownlink_def pdrToStore_def)
  then show ?thesis using urrs_never_charged [OF sim_bpf_env_ok, of ?s 1 sim_xdp] sim_plane_reach(2) by simp
qed

section \<open>Rules that were removed or left out\<close>

text \<open>A frame with a downlink packet: IPv4, and not for a tunnel end of the UPF.\<close>

definition downlink_frame :: "xdp_env \<Rightarrow> bytes \<Rightarrow> bytes \<Rightarrow> bytes \<Rightarrow> bool" where
  "downlink_frame K e ip f \<longleftrightarrow> f = e @ [8, 0] @ ip \<and> length e = 12 \<and> length ip \<ge> 20 \<and>
     ip ! 9 \<in> {IPPROTO_ICMP, IPPROTO_TCP, IPPROTO_UDP} \<and> (ip ! 9 = IPPROTO_UDP \<longrightarrow> \<not> is_local_ip K (le (bytes_at 16 4 ip)))"

lemma downlink_entry:
  assumes "downlink_frame K e ip (frame s)"
  obtains s' where "process_packet E K (s\<lparr>ctx := empty_context 0\<rparr>) =
      handle_n6_packet E K (case Map_Lookup (ip4_ops E) (PdrMapDownlinkIp4 (objs s)) (Some (bytes_at 16 4 ip)) of None \<Rightarrow> False
        | Some p \<Rightarrow> match_sdf_filter_ipv4 (frame s') (ctx s') (sr_sdf_filter (ep_sdf_rules p)))
      (Map_Lookup (ip4_ops E) (PdrMapDownlinkIp4 (objs s)) (Some (bytes_at 16 4 ip))) s'"
    "frame s' = frame s" "objs s' = objs s"
proof -
  let ?s = "count_rx_packet (\<lambda>t. t\<lparr>RxIp4 := RxIp4 t + 1\<rparr>) (s\<lparr>ctx := (empty_context 0)\<lparr>data := 14, eth := Some 0\<rparr>\<rparr>)"
  have f: "frame s = e @ [8, 0] @ ip" "length e = 12" "length ip \<ge> 20" using assms by (simp_all add: downlink_frame_def)
  obtain s' where s': "handle_ip4 E K ?s = handle_n6_packet_ipv4 E K 14 s'" "frame s' = frame s" "objs s' = objs s"
    using handle_ip4_n6 [of ?s e ip K E] f assms by (auto simp: downlink_frame_def)
  have "bytes_at 30 4 (frame s) = bytes_at 16 4 ip" using f by (simp add: bytes_at_def)
  then show ?thesis
    using that [of s'] s' entry_ip4 [OF f, of E K] by (simp add: handle_n6_packet_ipv4_def Let_def)
qed

lemma uplink_entry:
  assumes "frame s = gtp_frame e oip ud gh x ip" "gtp_frame_ok K e oip ud gh x"
  obtains s' where "process_packet E K (s\<lparr>ctx := empty_context 0\<rparr>) = handle_gtp_packet E K s'" "frame s' = frame s" "objs s' = objs s"
    "gtp (ctx s') = Some 42" "bytes_at 46 4 (frame s') = bytes_at 4 4 gh"
proof -
  let ?s = "count_rx_packet (\<lambda>t. t\<lparr>RxIp4 := RxIp4 t + 1\<rparr>) (s\<lparr>ctx := (empty_context 0)\<lparr>data := 14, eth := Some 0\<rparr>\<rparr>)"
  have f: "frame s = e @ [8, 0] @ (oip @ ud @ gh @ x @ ip)" "length e = 12" "length (oip @ ud @ gh @ x @ ip) \<ge> 20"
    using assms by (simp_all add: gtp_frame_def gtp_frame_ok_def)
  obtain s' where "handle_ip4 E K ?s = handle_gtp_packet E K s'" "frame s' = frame s" "objs s' = objs s" "gtp (ctx s') = Some 42"
    using handle_ip4_gtp [of ?s e oip ud gh x ip K E] assms by auto
  then show ?thesis
    using that [of s'] entry_ip4 [OF f, of E K] gtp_frame_parts(8) [OF assms(2), of ip] assms(1) by simp
qed

lemma deleted_lookup:
  assumes "map_ops_ok ops" "err_res (fst (Map_Delete ops m k)) () = Val ()"
  shows "Map_Lookup ops (snd (Map_Delete ops m k)) k = None"
  using assms [unfolded map_ops_ok_def]
  by (cases "Map_Delete ops m k"; cases "fst (Map_Delete ops m k)") (simp_all add: err_res_def)

lemma put_lookup:
  assumes "map_ops_ok ops" "err_res (fst (Map_Put ops m k v)) () = Val ()"
  shows "Map_Lookup ops (snd (Map_Put ops m k v)) k = Some v"
  using assms [unfolded map_ops_ok_def]
  by (cases "Map_Put ops m k v"; cases "fst (Map_Put ops m k v)") (simp_all add: err_res_def)

text \<open>
  C12. Once the PDRs of a session are removed, its packets are not forwarded any more: those of its TEID and those
  for its address go to the kernel, as they came.
\<close>

theorem removed_pdrs_not_applied:
  assumes "bpf_env_ok E" "DeletePdrUplink E teid b = (Val (), b1)" "DeletePdrDownlink E (Some addr) b1 = (Val (), b2)" "objs s = b2"
    and "(\<exists>e oip ud gh x ip. frame s = gtp_frame e oip ud gh x ip \<and> gtp_frame_ok K e oip ud gh x \<and> be (bytes_at 4 4 gh) = teid)
      \<or> (\<exists>e ip. downlink_frame K e ip (frame s) \<and> bytes_at 16 4 ip = addr)"
  shows "fst (upf_ip_entrypoint_func E K s) = XDP_PASS \<and> frame (snd (upf_ip_entrypoint_func E K s)) = frame s"
proof -
  have ops: "map_ops_ok (teid_ops E)" "map_ops_ok (ip4_ops E)" using assms(1) by (simp_all add: bpf_env_ok_def)
  note del = DeletePdrUplink_def DeletePdrDownlink_def case_prod_unfold
  have "Map_Lookup (teid_ops E) (PdrMapTeidIp4 (snd (DeletePdrUplink E teid b))) teid = None"
    using deleted_lookup [OF ops(1), of "PdrMapTeidIp4 b" teid] arg_cong [OF assms(2), of fst] by (simp add: del)
  moreover have "PdrMapTeidIp4 (snd (DeletePdrDownlink E (Some addr) b1)) = PdrMapTeidIp4 b1" by (simp add: del)
  ultimately have none: "Map_Lookup (teid_ops E) (PdrMapTeidIp4 (objs s)) teid = None" using assms(2-4) by simp
  have "Map_Lookup (ip4_ops E) (PdrMapDownlinkIp4 (snd (DeletePdrDownlink E (Some addr) b1))) (Some addr) = None"
    using deleted_lookup [OF ops(2), of "PdrMapDownlinkIp4 b1" "Some addr"] arg_cong [OF assms(3), of fst] by (simp add: del)
  then have none4: "Map_Lookup (ip4_ops E) (PdrMapDownlinkIp4 (objs s)) (Some addr) = None" using assms(3,4) by simp
  from assms(5) show ?thesis
  proof (elim disjE exE conjE)
    fix e oip ud gh x ip
    assume f: "frame s = gtp_frame e oip ud gh x ip" "gtp_frame_ok K e oip ud gh x" and t: "be (bytes_at 4 4 gh) = teid"
    obtain s' where "process_packet E K (s\<lparr>ctx := empty_context 0\<rparr>) = handle_gtp_packet E K s'" "frame s' = frame s" "objs s' = objs s"
      "gtp (ctx s') = Some 42" "bytes_at 46 4 (frame s') = bytes_at 4 4 gh"
      by (rule uplink_entry [OF f])
    then show ?thesis using none t by (simp add: entrypoint_frame handle_gtp_packet_def)
  next
    fix e ip
    assume f: "downlink_frame K e ip (frame s)" and a: "bytes_at 16 4 ip = addr"
    show ?thesis by (rule downlink_entry [OF f, of E]) (use none4 a in \<open>simp add: entrypoint_frame handle_n6_packet_def\<close>)
  qed
qed

theorem removed_pdrs_not_applied_witness:
  "let b = snd (DeletePdrDownlink sim_bpf_env (Some [10, 60, 0, 1]) (snd (DeletePdrUplink sim_bpf_env 5 sim_plane)));
       f = gtp_frame sim_macs sim_outer sim_udp sim_gtp [] (sim_ping [10, 60, 0, 1] [8, 8, 8, 8])
   in fst (upf_ip_entrypoint_func sim_bpf_env sim_xdp ((sim_packet f)\<lparr>objs := b\<rparr>)) = XDP_PASS"
proof -
  let ?b1 = "snd (DeletePdrUplink sim_bpf_env 5 sim_plane)"
  let ?b2 = "snd (DeletePdrDownlink sim_bpf_env (Some [10, 60, 0, 1]) ?b1)"
  let ?ip = "sim_ping [10, 60, 0, 1] [8, 8, 8, 8]"
  have d: "DeletePdrUplink sim_bpf_env 5 sim_plane = (Val (), ?b1)" "DeletePdrDownlink sim_bpf_env (Some [10, 60, 0, 1]) ?b1 = (Val (), ?b2)"
    by (simp_all add: prod_eq_iff sim_plane_def Let_def DeletePdrUplink_def DeletePdrDownlink_def PutPdrUplink_def PutPdrDownlink_def
        pdrToStore_def zero_PdrInfo_def sim_eval)
  have t: "be (bytes_at 4 4 sim_gtp) = (5 :: u32)" by code_simp
  let ?s = "(sim_packet (gtp_frame sim_macs sim_outer sim_udp sim_gtp [] ?ip))\<lparr>objs := ?b2\<rparr>"
  have fr: "frame ?s = gtp_frame sim_macs sim_outer sim_udp sim_gtp [] ?ip" by simp
  have "fst (upf_ip_entrypoint_func sim_bpf_env sim_xdp ?s) = XDP_PASS \<and> frame (snd (upf_ip_entrypoint_func sim_bpf_env sim_xdp ?s)) = frame ?s"
    by (rule removed_pdrs_not_applied [OF sim_bpf_env_ok d])
       (simp, rule disjI1, intro exI conjI, rule fr, rule sim_gtp_frame_ok, rule t)
  then show ?thesis by (simp add: Let_def)
qed


text \<open>
  Two sessions: the first one gets QER 0 with a closed downlink gate, the PDR of the second one has no QER.
\<close>

definition sim_fresh :: "(kmap, u32 list) BpfObjects" where
  "sim_fresh = sim_objects\<lparr>qerIdTracker := \<lparr>bitmap = [0, 1, 2, 3], maxSize = 4\<rparr>\<rparr>"


end
