(* ===== verification/Xdp_Replies.thy ===== *)
theory Xdp_Replies
  imports Xdp_Entrypoint Inet_Checksum
begin

text \<open>
  Answers that the XDP program makes out of a request: checksums are changed by difference, and stay right.
\<close>

section \<open>An answer to a ping\<close>

lemma swap_mac_front:
  "e + 12 \<le> length m \<Longrightarrow> swap_mac e (m @ r) = swap_mac e m @ r" "e + 12 \<le> length m \<Longrightarrow> length (swap_mac e m) = length m"
  by (simp_all add: swap_mac_def bytes_at_def write_at_def)

lemma ping_answer_parts:
  assumes "prepare_icmp_echo_reply e i (m @ h @ src @ dst @ t @ ck @ rest) = (Some f', f'')"
    and "length m = i" "e + 12 \<le> i" "length h = 12" "length src = 4" "length dst = 4" "length t = 2" "length ck = 2"
  shows "f' = swap_mac e m @ h @ dst @ src @ [0, 0] @ put_le 2 (ipv4_csum_replace (le ck) (le t) 0) @ rest"
proof -
  define n where "n = swap_mac e m"
  have n: "length n = i" "swap_mac e (m @ h @ src @ dst @ t @ ck @ rest) = n @ h @ src @ dst @ t @ ck @ rest"
    using assms(2,3) swap_mac_front [of e m] by (simp_all add: n_def)
  have ip: "swap_ip i (n @ h @ src @ dst @ t @ ck @ rest) = n @ h @ dst @ src @ t @ ck @ rest"
    using n(1) assms(4-6) by (simp add: swap_ip_def bytes_at_def write_at_def)
  have w: "write_at (i + 20) [0, 0] (n @ h @ dst @ src @ t @ ck @ rest) = n @ h @ dst @ src @ [0, 0] @ ck @ rest"
    "write_at (i + 22) (put_le 2 c) (n @ h @ dst @ src @ [0, 0] @ ck @ rest) = n @ h @ dst @ src @ [0, 0] @ put_le 2 c @ rest"
    "bytes_at (i + 20) 2 (n @ h @ dst @ src @ t @ ck @ rest) = t"
    "bytes_at (i + 22) 2 (n @ h @ dst @ src @ [0, 0] @ ck @ rest) = ck" for c :: u16
    using n(1) assms(4-8) by (simp_all add: bytes_at_def write_at_def)
  show ?thesis
    using assms(1) unfolding prepare_icmp_echo_reply_def Let_def n(2) ip w by (simp add: n_def split: if_splits)
qed

text \<open>
  C16. The answer to a ping of the UPF goes back to where the request came from, with the same payload, and its
  checksums, which are changed by difference or not at all, are right if those of the request were.
\<close>

theorem ping_answer_checksums:
  assumes "prepare_icmp_echo_reply e i f = (Some f', f'')" "e + 12 \<le> i" "i + 24 \<le> length f"
  shows "bytes_at (i + 12) 8 f' = bytes_at (i + 16) 4 f @ bytes_at (i + 12) 4 f \<and> bytes_at (i + 20) 2 f' = [0, 0]
    \<and> drop (i + 24) f' = drop (i + 24) f \<and> word_sum (bytes_at i 20 f') = word_sum (bytes_at i 20 f)
    \<and> word_sum (drop (i + 20) f') mod 65535 = word_sum (drop (i + 20) f) mod 65535"
proof -
  define m h src dst t ck rest where parts: "m = take i f" "h = bytes_at i 12 f" "src = bytes_at (i + 12) 4 f" "dst = bytes_at (i + 16) 4 f"
    "t = bytes_at (i + 20) 2 f" "ck = bytes_at (i + 22) 2 f" "rest = drop (i + 24) f"
  have len: "length m = i" "length h = 12" "length src = 4" "length dst = 4" "length t = 2" "length ck = 2"
    using assms(3) by (simp_all add: parts bytes_at_def)
  have next_bytes: "drop k f = bytes_at k n f @ drop (k + n) f" for k n
    by (metis append_take_drop_id bytes_at_def drop_drop add.commute)
  have "f = m @ drop i f" by (simp add: parts)
  also have "drop i f = h @ src @ dst @ t @ ck @ rest"
    using next_bytes [of i 12] next_bytes [of "i + 12" 4] next_bytes [of "i + 16" 4] next_bytes [of "i + 20" 2] next_bytes [of "i + 22" 2]
    by (simp add: parts add.commute [of i])
  finally have f: "f = m @ h @ src @ dst @ t @ ck @ rest" .
  define c where "c = ipv4_csum_replace (le ck) (le t) 0"
  have l: "length (swap_mac e m) = i" using swap_mac_front(2) [of e m] assms(2) len(1) by simp
  have f': "f' = swap_mac e m @ h @ dst @ src @ [0, 0] @ put_le 2 c @ rest"
    using ping_answer_parts [of e i m h src dst t ck rest f' f''] assms(1,2) len f by (simp add: c_def)
  have two: "word_sum xs = unat (le xs :: u16)" if "length xs = 2" for xs
    using that by (auto simp: length_Suc_conv numeral_2_eq_2)
  have "int (unat c) mod 65535 = (int (unat (le ck :: u16)) + int (unat (le t :: u16))) mod 65535"
    using csum_replace [of "le ck" "le t" 0] by (simp add: c_def)
  then have "unat c mod 65535 = (unat (le t :: u16) + unat (le ck :: u16)) mod 65535"
    by (metis (no_types) add.commute of_nat_add of_nat_eq_iff of_nat_mod of_nat_numeral)
  then have "word_sum (drop (i + 20) f') mod 65535 = word_sum (drop (i + 20) f) mod 65535"
    using len l by (simp add: f f' word_sum_append two le_put_le2 add.assoc [symmetric] mod_add_left_eq [of "unat c", symmetric]
        mod_add_left_eq [of "_ + _" 65535 "word_sum rest"])
  moreover have "word_sum (bytes_at i 20 f') = word_sum (bytes_at i 20 f)"
    using len l by (simp add: f f' bytes_at_def word_sum_append)
  ultimately show ?thesis using len l by (simp add: f f' bytes_at_def)
qed

text \<open>A ping with identifier and number 0 whose checksum is right; so is that of the answer.\<close>

theorem ping_answer_checksums_witness:
  "let f = replicate 14 0 @ [0x45, 0, 0, 28, 0, 0, 0, 0, 64, 1, 0, 0, 10, 60, 0, 1, 10, 0, 0, 1] @ [8, 0, 0xF7, 0xFF, 0, 0, 0, 0];
       f' = the (fst (prepare_icmp_echo_reply 0 14 f))
   in word_sum (drop 34 f) mod 65535 = 0 \<and> word_sum (drop 34 f') mod 65535 = 0 \<and> bytes_at 26 8 f' = [10, 0, 0, 1, 10, 60, 0, 1]"
proof -
  let ?f = "replicate 14 0 @ [0x45, 0, 0, 28, 0, 0, 0, 0, 64, 1, 0, 0, 10, 60, 0, 1, 10, 0, 0, 1] @ [8, 0, 0xF7, 0xFF, 0, 0, 0, 0] :: bytes"
  let ?r = "prepare_icmp_echo_reply 0 14 ?f"
  have "fst ?r \<noteq> None" by code_simp
  then obtain f' f'' where r: "?r = (Some f', f'')" by (metis option.exhaust prod.collapse)
  have d: "drop 34 ?f = [8, 0, 0xF7, 0xFF, 0, 0, 0, 0]" by code_simp
  have w: "le [8, 0] = (8 :: u16)" "le [0xF7, 0xFF] = (0xFFF7 :: u16)" "le [0, 0] = (0 :: u16)" by code_simp+
  have sum: "word_sum (drop 34 ?f) = 65535" unfolding d word_sum.simps w by simp
  have "bytes_at (14 + 16) 4 ?f = [10, 0, 0, 1]" "bytes_at (14 + 12) 4 ?f = [10, 60, 0, 1]" by code_simp+
  then show ?thesis
    using ping_answer_checksums [OF r] r sum by (simp add: Let_def)
qed

end
