(* ===== verification/Session_Traffic.thy ===== *)
theory Session_Traffic
  imports Sim_Connection Xdp_Tunnels
begin

text \<open>
  From PFCP to packets: the rules that a session holds in the control plane are the rules that the XDP program
  applies to its packets.
\<close>

section \<open>A session with an uplink PDR\<close>

definition sim_establish_pdr :: "sim_ie SessionEstablishmentRequest" where
  "sim_establish_pdr = (sim_establish 7)\<lparr>seq_CreatePDR :=
     [sim_pdr 1 1 [sim_elem T_SourceInterface 0, sim_fteid \<lparr>ft_TEID = 5, ft_HasCh = False, ft_HasChID = False, ft_ChooseID = 0\<rparr>]]\<rparr>"

definition sim_carried :: "(kmap, u32 list) PfcpConnection" where
  "sim_carried = snd (HandlePfcpSessionEstablishmentRequest sim_upf_env sim_establish_pdr ''smf'' sim_c1)"

lemmas sim_pdr_eval = sim_pdr_def sim_fteid_def create_pdr_def extractPDR_def extractPDR_ids_def extractPDR_sdf_def extractPDR_fteid_def
  applyPDR_def PutPDR_def PutPdrUplink_def pdrToStore_def displayPdr_def zero_SPDRInfo_def zero_PdrInfo_def ToIpEntrypointPdrInfo_def
  getFARID_def getQERID_def getURRID_def GetURRIDs_def hasCHV4_def

lemma sim_carried: "\<exists>r. HandlePfcpSessionEstablishmentRequest sim_upf_env sim_establish_pdr ''smf'' sim_c1 = (Val r, sim_carried)"
  and sim_carried_uplink: "uplink_lookup sim_upf_env (mapOperations sim_carried) 5 = Some zero_IpEntrypointPdrInfo"
  and sim_carried_rules: "conn_rules session_fars sim_carried (''smf'', 2, 1) = Some (0, sim_far)"
    "conn_rules session_qers sim_carried (''smf'', 2, 1) = Some (0, sim_qer_info)"
  unfolding sim_carried_def HandlePfcpSessionEstablishmentRequest_def sim_establish_pdr_def
  by (simp_all add: sim_handler_eval sim_state_defs sim_loaded sim_eval Let_def fun_eq_iff sim_pdr_eval conn_rules_def
      session_far_defs session_qer_defs zero_IpEntrypointPdrInfo_def)

lemma sim_carried_reach: "conn_reach sim_upf_env (orderly sim_upf_env) sim_carried"
proof -
  obtain r where "HandlePfcpSessionEstablishmentRequest sim_upf_env sim_establish_pdr ''smf'' sim_c1 = (Val r, sim_carried)"
    using sim_carried by blast
  then show ?thesis by (rule conn_reach.step [OF sim_reach(1) established]) (simp add: NewNodeAssociation_def)
qed

section \<open>Properties\<close>

text \<open>
  C7. The rules of a session are applied to its packets. In every connection that is reached by messages whose modifications
  name only rules of their own session, before an association used up its SEIDs (\<open>orderly\<close>; a modification that
  names a rule its session lacks may overwrite the entry of another session, and is excluded): when the uplink
  entry of a TEID is without filter, removes the outer header, and names a FAR and a QER that a session holds, the FAR
  forwards without a tunnel, and the QER has an open uplink gate and no uplink rate limit, then a GTP packet with this TEID
  and an inner IPv4 packet that is no ping of the UPF itself leaves the UPF as its inner packet, byte for byte, with the Ethernet
  addresses of the routing table, whatever other sessions there are. The tables are as the controller left them.
\<close>

theorem session_uplink_traffic:
  assumes "ranges_ok E" "conn_reach E (orderly E) c" "objs s = mapOperations c"
    and "frame s = gtp_frame e oip ud gh x ip" "gtp_frame_ok K e oip ud gh x"
    and "uplink_lookup E (mapOperations c) (be (bytes_at 4 4 gh)) = Some pdr" "ep_sdf_mode pdr = 0" "ep_outer_header_removal pdr \<in> {0, 6}"
    and "conn_rules session_fars c (addr, seid, i) = Some (ep_far_id pdr, far)" "conn_rules session_qers c (addr, seid, j) = Some (ep_qer_id pdr, qer)"
    and "fi_Action far AND FAR_FORW \<noteq> 0" "fi_OuterHeaderCreation far AND OHC_GTP_U_UDP_IPv4 = 0"
    and "qi_GateStatusUL qer = 0" "qi_MaxBitrateUL qer = 0" "route_stat s \<noteq> None"
    and "length ip \<ge> 20" "guess_eth_protocol (ip ! 0) = Some ETH_P_IP"
    and "\<not> (is_local_ip K (le (bytes_at 16 4 ip)) \<and> ip ! 9 = IPPROTO_ICMP)"
    and "adjust_ok K" "\<forall>g. length g = length (frame s) \<longrightarrow> bpf_xdp_adjust_head K (int (36 + length x)) g \<noteq> None"
    and "route_of K (ip ! 1) (ip ! 9) (be (bytes_at 2 2 ip)) (bytes_at 12 4 ip) (bytes_at 16 4 ip) = (0, r)"
    and "length (fr_dmac r) = 6" "length (fr_smac r) = 6"
  shows "fst (upf_ip_entrypoint_func E K s) = sent_action K r
    \<and> frame (snd (upf_ip_entrypoint_func E K s)) = fr_dmac r @ fr_smac r @ [8, 0] @ ip"
proof -
  note rules = rules_okD [OF conn_okD(1) [OF conn_reach_ok [OF assms(2,1)]]]
  have far: "Map_Lookup (far_ops E) (FarMap (objs s)) (ep_far_id pdr) = Some far"
    using ownsD(3) [OF rules(2) assms(9)] assms(3) by simp
  have qer: "open_qer E True (ep_qer_id pdr) (objs s) qer"
    using ownsD(3) [OF rules(4) assms(10)] assms(3,13,14) by (simp add: open_qer_def)
  show ?thesis
    by (rule uplink_packet_decapsulated [OF assms(4,5) _ assms(7) _ far assms(11,12) qer assms(15-23)]) (use assms(3,6,8) in auto)
qed

theorem session_uplink_traffic_witness:
  "frame (snd (upf_ip_entrypoint_func sim_upf_env sim_xdp
       ((sim_packet (gtp_frame sim_macs sim_outer sim_udp sim_gtp [] (sim_ping [10, 60, 0, 1] [8, 8, 8, 8])))\<lparr>objs := mapOperations sim_carried\<rparr>))) =
     [2, 0, 0, 0, 0, 2, 2, 0, 0, 0, 0, 1, 8, 0] @ sim_ping [10, 60, 0, 1] [8, 8, 8, 8]"
proof -
  let ?ip = "sim_ping [10, 60, 0, 1] [8, 8, 8, 8]"
  let ?s = "(sim_packet (gtp_frame sim_macs sim_outer sim_udp sim_gtp [] ?ip))\<lparr>objs := mapOperations sim_carried\<rparr>"
  have b: "be (bytes_at 4 4 sim_gtp) = (5 :: u32)" "length ?ip = 28" "guess_eth_protocol (?ip ! 0) = Some ETH_P_IP"
    "\<not> is_local_ip sim_xdp (le (bytes_at 16 4 ?ip))" by code_simp+
  have len: "length (gtp_frame sim_macs sim_outer sim_udp sim_gtp [] ?ip) = 78" by code_simp
  have "fst (upf_ip_entrypoint_func sim_upf_env sim_xdp ?s) =
      sent_action sim_xdp \<lparr>fr_ifindex = 2, fr_smac = [2, 0, 0, 0, 0, 1], fr_dmac = [2, 0, 0, 0, 0, 2]\<rparr> \<and>
    frame (snd (upf_ip_entrypoint_func sim_upf_env sim_xdp ?s)) = [2, 0, 0, 0, 0, 2] @ [2, 0, 0, 0, 0, 1] @ [8, 0] @ ?ip"
    by (rule session_uplink_traffic [where pdr = zero_IpEntrypointPdrInfo and far = sim_far and qer = sim_qer_info and addr = "''smf''"
          and seid = 2 and i = 1 and j = 1 and r = "\<lparr>fr_ifindex = 2, fr_smac = [2, 0, 0, 0, 0, 1], fr_dmac = [2, 0, 0, 0, 0, 2]\<rparr>",
          simplified fib_result.select_convs, OF sim_ranges_ok sim_carried_reach _ _ sim_gtp_frame_ok])
       (use b len sim_carried_uplink sim_carried_rules sim_route sim_xdp_ok in \<open>simp_all add: zero_IpEntrypointPdrInfo_def sim_far_def zero_FarInfo_def
          sim_qer_info_def zero_QerInfo_def\<close>, simp_all add: sim_packet_def sim_xdp_def)
  then show ?thesis by simp
qed

end
