(* ===== verification/Spec2Isabelle.thy ===== *)
theory Spec2Isabelle
  imports Running_System Rejected_Establishment Session_Registry Malformed_Pdr Rest_Routes Main_Loop Config_Init
    Xdp_Rules Xdp_Plane Xdp_Replies Session_Traffic
begin

text \<open>
  eUPF is the user plane function of a 5G core: a Go program that speaks PFCP with session
  management functions and writes the rules it is given into eBPF maps, from which an XDP
  program in C forwards packets. This development models both programs and proves what their
  parts do, alone and together.

  \<^bold>\<open>The parts, and the theories that model them.\<close>
  \<^item> \<open>Upf_Prelude\<close>: the words, results (\<open>Val\<close>, \<open>Err\<close>, \<open>Panic\<close>), loops with early return and
    maps of Go, with the lemmas the other theories share.
  \<^item> \<open>Resource_Manager\<close> (\<open>cmd/core/service\<close>): the pools of TEIDs and UE addresses. The locale
    \<open>pool\<close> has the laws of allocation and release; both pools are interpretations.
  \<^item> \<open>Ebpf_Maps\<close>, \<open>Ebpf_Objects\<close> (\<open>cmd/ebpf/pdr.go\<close>, \<open>objects.go\<close>): identifier trackers, the FAR, QER
    and URR arrays, the PDR tables. The locale \<open>rule_table\<close> is the part of the forwarding plane
    controller that holds rules under allocated identifiers; the three arrays are interpretations.
  \<^item> \<open>Go_Net\<close>, \<open>Sdf_Parser\<close> (\<open>sdf_filter_parser.go\<close>): the parser of SDF filters over models of what it
    uses of \<open>net\<close>, \<open>strconv\<close> and \<open>regexp\<close>.
  \<^item> \<open>Pfcp_Session\<close> (\<open>session.go\<close>): sessions and their rules, three interpretations of \<open>rule_store\<close>.
  \<^item> \<open>Upf_Config\<close> (\<open>cmd/config\<close>, \<open>logger.go\<close>, \<open>config_edit.go\<close>): the configuration.
  \<^item> \<open>Pdr_Context\<close> (\<open>pdr_creation_context.go\<close>, \<open>pdr.go\<close> and the readers of
    \<open>pfcp_session_handlers.go\<close>): rules from information elements.
  \<^item> \<open>Pfcp_Connection\<close> (\<open>pfcp_connection.go\<close>, \<open>node_association.go\<close>, \<open>pfcp_handlers.go\<close>),
    \<open>Session_Handlers\<close> (\<open>pfcp_session_handlers.go\<close>), \<open>Pfcp_Dispatch\<close> (\<open>pfcp_hearbeat.go\<close>, \<open>Handle\<close>):
    the handlers of all PFCP messages, each with every branch, as functions on the connection.
  \<^item> \<open>Heartbeat\<close>: the receive loop and the goroutine of each association as one step relation; a
    send on an unbuffered channel and its receive are one step.
  \<^item> \<open>Request_Log\<close> (\<open>display_utils.go\<close>): the text that is logged for a request.
  \<^item> \<open>Fp_Stats\<close> (\<open>stats.go\<close>, \<open>metrics.go\<close>), \<open>Rest_Api\<close>, \<open>Rest_Uplink\<close> and \<open>Rest_Routes\<close> (\<open>cmd/api/rest\<close>: handlers,
    the handlers of uplink PDRs, which mix up two layouts, and the routes), \<open>Gtp_Path\<close>
    (\<open>gtp_path_manager.go\<close>), \<open>Config_Init\<close> (\<open>config.go\<close>: flags, environment and file), \<open>Startup\<close> (\<open>main.go\<close>,
    \<open>startup.go\<close>, loading of \<open>objects.go\<close>), \<open>Main_Loop\<close> (the end of \<open>main\<close>, \<open>utils.go\<close>).
  \<^item> \<open>Xdp_Packet\<close> (\<open>cmd/ebpf/xdp/utils\<close>), \<open>Xdp_Entrypoint\<close> (\<open>n3n6_entrypoint.c\<close>, \<open>sdf_filter.h\<close>, \<open>qer.h\<close>, \<open>urr.h\<close>,
    \<open>routing.h\<close>): the XDP program as a function on the bytes of a frame, its context and the maps; these are
    the same \<open>BpfObjects\<close> that the Go program writes. Header pointers are offsets, and the helpers of the
    kernel are the record \<open>xdp_env\<close>.

  \<^bold>\<open>What is proved.\<close> \<open>Rule_Ownership\<close>, \<open>Session_Deletion\<close>, \<open>Session_Modification\<close>,
  \<open>Association_Lifecycle\<close> and \<open>Session_Accounting\<close> carry the invariant of the connection
  (\<open>conn_ok\<close>: each rule identifier has one owner, is not free, and its table entry is what the session
  holds) through every handler, and account for the identifiers of a session from its establishment
  to its deletion; this theory has the properties that follow. \<open>Rejected_Establishment\<close> shows what
  requests cost that fail half way: there is no rollback. \<open>Session_Registry\<close> shows that the
  connection refines an abstract registry of associations and sessions. \<open>Heartbeat_Properties\<close> has
  the invariant of the schedulers, the liveness of the failure report and the deadlock of the
  receive loop; \<open>Running_System\<close> carries \<open>conn_ok\<close> through every interleaving of the receive loop,
  the schedulers and the deletions they ask for. \<open>Request_Log\<close> shows that the handlers' model of
  printing, which has only the read that can panic, ends as the whole printing does, and when it panics; \<open>Malformed_Pdr\<close>
  shows how one datagram ends the program by it. \<open>Startup\<close> composes configuration, loading and connection.
  \<open>Inet_Checksum\<close> has the arithmetic of checksums. \<open>Xdp_Tunnels\<close> says byte for byte what becomes of uplink and downlink
  packets, with the headers of a tunnel as the specifications have them (\<open>gtpu_tunnel\<close>); \<open>Session_Traffic\<close> joins
  this with the invariant of the connection: packets are treated as the rules of their session
  say. \<open>Xdp_Rules\<close> shows that the filters written by the Go program are applied as they are meant (for
  IPv4) and what rate limits hold; \<open>Xdp_Plane\<close> bounds what a frame can change in the maps, and interleaves
  the controller with frames in a step relation; \<open>Xdp_Replies\<close> has the checksums of answers. The theories of the
  components have the properties of each: capacity, uniqueness and round trips of the pools, effects
  of the table operations, totality of the parser and its agreement with the regular expression,
  panics of the readers and when they happen, deltas and metrics, REST queries, echo sequence numbers.
  Some theorems state what the code does where it is not what it means to do.

  \<^bold>\<open>Conventions.\<close> An operation on shared state is \<open>'s \<Rightarrow> 'a res \<times> 's\<close>, and gives the changed state also
  with an error. Third-party code is a field of an environment record: \<open>rm_env\<close> (address generator),
  extended by \<open>bpf_env\<close> (kernel maps, bitmaps), extended by \<open>upf_env\<close> (information elements, clock,
  order of \<open>range\<close>), and \<open>pfcp_io\<close>, \<open>prom\<close>, \<open>gtp_net\<close>, \<open>loader\<close>, \<open>host\<close>, \<open>log_env\<close>, \<open>viper\<close>, \<open>xdp_env\<close>; predicates such as
  \<open>bpf_env_ok\<close>, \<open>ranges_ok\<close>, \<open>loader_ok\<close>, \<open>viper_ok\<close>, \<open>adjust_ok\<close>, \<open>csum_ok\<close>, \<open>prom_counts\<close> state what its documentation promises. \<open>Sim_Connection\<close> and the
  definitions named \<open>sim_\<dots>\<close> are concrete environments that keep these promises; the
  witnesses run the model in them. Integers keep the width of the source and wrap around.

  \<^bold>\<open>Termination.\<close> All definitions are total functions; no fuel is used. The one loop of the source that may not
  end, over TEIDs, is a \<open>while_option\<close>, and it is proved when it ends and when it does not.

  \<^bold>\<open>Assumptions of the steps.\<close> \<open>conn_step\<close>, \<open>conn_reach\<close> and \<open>run_reach\<close> have a predicate on messages as an argument,
  which a step must meet. The theorems on the connection, its tables and the running system use \<open>orderly\<close>: an
  establishment comes before the counter of SEIDs of its association wraps, and a modification updates and removes rules
  that its session has. The handlers check neither. \<open>update_unknown_far_hits_id_0\<close> shows that the invariant breaks without
  the second. The theorems on the registry use only the first (\<open>seids_left\<close>), those on heartbeats (\<open>sys_reach\<close>) none.

  \<^bold>\<open>Not modelled.\<close> The XDP program as built with \<open>ENABLE_LOG\<close> or \<open>ENABLE_ROUTE_CACHE\<close>, frames on several CPUs at
  once, and the programs \<open>n3_entrypoint.c\<close>, \<open>n6_entrypoint.c\<close>, \<open>zero_entrypoint.c\<close> and \<open>upf_program.c\<close>, which pass
  every packet or are not built; other log output than that of requests; decoding of the configuration into
  its structure (viper); matching of paths and JSON (gin); what happens to the memory after a Go structure
  when a handler of uplink PDRs has a longer map value written over it; changes of the configuration while
  the receive loop runs; the mutexes, whose sections are single steps here.
\<close>

section \<open>Lemmas on requests\<close>

lemma conn_rules_other:
  assumes "(a', q') \<noteq> (addr, seid)"
  shows "conn_rules g (put_session addr seid s c) (a', q', i) = conn_rules g c (a', q', i)"
  using assms by (auto simp: put_session_def conn_rules_def split: option.splits)

lemma modification_others:
  assumes h: "HandlePfcpSessionModificationRequest E req addr c = (r, c')" and p: "(a', q') \<noteq> (addr, smq_SEID req)"
  shows "conn_rules g c' (a', q', i) = conn_rules g c (a', q', i)"
proof -
  have k: "conn_rules g (count_rx E t k d) = conn_rules g d" "conn_rules g (leave_ctx x d) = conn_rules g d" for t k x d
    by (rule conn_rules_cong, simp)+
  have "conn_rules g (snd (HandlePfcpSessionModificationRequest E req addr c)) (a', q', i) = conn_rules g c (a', q', i)"
    unfolding HandlePfcpSessionModificationRequest_def Let_def
    by (simp add: k conn_rules_other [OF p] split: option.split res.split prod.split)
  with h show ?thesis by simp
qed

lemma owns_at:
  "owns free lookup n tab \<Longrightarrow> \<forall>i g v. tab (a, q, i) = Some (g, v) \<longrightarrow> tab (a, q, i) = Some (g, v) \<and> g \<notin> free \<and> lookup g = Some v"
  unfolding owns_def by blast

lemma sim_sessions_rules:
  "session_fars (sim_session l r g) 1 = Some (g, sim_far)" "session_qers (sim_session l r g) 1 = Some (g, sim_qer_info)"
  "session_urrs (sim_session l r g) 1 = Some (g, zero_UrrInfo)"
  by (simp_all add: session_far_defs session_qer_defs session_urr_defs sim_session_def)

lemma sim_c3_rules:
  "conn_rules session_fars sim_c3 (''smf'', 2, 1) = Some (0, sim_far)"
  "conn_rules session_fars sim_c3 (''smf'', 3, 1) = Some (1, sim_far)"
  "conn_rules session_qers sim_c3 (''smf'', 3, 1) = Some (1, sim_qer_info)"
  by (simp_all add: conn_rules_def sim_assoc_def sim_sessions_rules)

text \<open>A second setup is accepted and keeps the association with its sessions.\<close>

lemma setup_again_keeps_sessions:
  assumes "asq_NodeID req = Some n" "ie_NodeID E n = Some i" "asq_RecoveryTimeStamp req = Some t" "ie_RecoveryTimeStamp E (Some t) = Val v"
    and "NodeAssociations c addr = Some a"
  shows "\<exists>m. HandlePfcpAssociationSetupRequest E req addr c =
    (Val (Some m, None), count_rx E MsgTypeAssociationSetupRequest CauseRequestAccepted c) \<and> NewCause CauseRequestAccepted \<in> set (ies_of m)"
  using assms by (simp add: HandlePfcpAssociationSetupRequest_def saveAssociation_def Let_def)

section \<open>Properties of the connection\<close>

text \<open>
  C1. In every connection that is reached by messages whose modifications update and remove only rules of their own
  session, before an association used up its SEIDs (\<open>orderly\<close>): every FAR, QER and URR identifier that a
  session holds belongs to that session alone, is not in the free set, and the table of
  the forwarding plane has there the parameters that the session has. The handlers accept other modifications too, and
  one of them breaks this: it acts on identifier 0 (\<open>update_unknown_far_hits_id_0\<close>).
\<close>

theorem rules_have_one_owner:
  assumes "ranges_ok E" and "conn_reach E (orderly E) c"
  shows "owns (far_free E (mapOperations c)) (far_lookup E (mapOperations c)) (maxSize (farIdTracker (mapOperations c)))
           (conn_rules session_fars c)
       \<and> owns (qer_free E (mapOperations c)) (qer_lookup E (mapOperations c)) (maxSize (qerIdTracker (mapOperations c)))
           (conn_rules session_qers c)
       \<and> owns (urr_free E (mapOperations c)) (urr_lookup E (mapOperations c)) (maxSize (urrIdTracker (mapOperations c)))
           (conn_rules session_urrs c)"
  using rules_okD [OF conn_okD(1) [OF conn_reach_ok [OF assms(2,1)]]] by blast

theorem rules_have_one_owner_witness:
  "conn_rules session_fars sim_c3 (''smf'', 3, 1) = Some (1, sim_far) \<and> 1 \<notin> far_free sim_upf_env (mapOperations sim_c3) \<and>
   far_lookup sim_upf_env (mapOperations sim_c3) 1 = Some sim_far"
  using ownsD(2,3) [OF rules_have_one_owner [OF sim_ranges_ok sim_reach(3), THEN conjunct1] sim_c3_rules(2)]
    sim_c3_rules(2) by (intro conjI)

text \<open>
  C3. In a connection reached by orderly messages: an accepted establishment stores the new session, with the SEID of the control plane
  and a local SEID that no session of the association had, and names that SEID in the
  response; all other associations and sessions stay as they are.
\<close>

theorem establishment_registers_session:
  assumes "ranges_ok E" "conn_reach E (orderly E) c" and "NodeAssociations c addr = Some a" "NextSessionID a \<noteq> - 1"
    and "HandlePfcpSessionEstablishmentRequest E req addr c = (r, c')" "accepted r"
  shows "\<exists>s m. r = Val (Some m, None) \<and> NewFSEID (LocalSEID s) (cloneIP (nodeAddrV4 c)) None \<in> set (ies_of m) \<and>
     validateRequest E (seq_NodeID req) (seq_CPFSEID req) = Val (RemoteSEID s) \<and> Sessions a (LocalSEID s) = None \<and>
     NodeAssociations c' = (NodeAssociations c)(addr \<mapsto>
        a\<lparr>NextSessionID := LocalSEID s, Sessions := (Sessions a)(LocalSEID s \<mapsto> s)\<rparr>)"
proof -
  from establishment_accepted [OF conn_reach_ok [OF assms(2,1)] assms(3-6)]
  obtain s m where "r = Val (Some m, None)" "NewFSEID (NextSessionID a + 1) (cloneIP (nodeAddrV4 c)) None \<in> set (ies_of m)"
     "validateRequest E (seq_NodeID req) (seq_CPFSEID req) = Val (RemoteSEID s)" "LocalSEID s = NextSessionID a + 1"
     "Sessions a (NextSessionID a + 1) = None"
     "NodeAssociations c' = (NodeAssociations c)(addr \<mapsto>
        a\<lparr>NextSessionID := NextSessionID a + 1, Sessions := (Sessions a)(NextSessionID a + 1 \<mapsto> s)\<rparr>)" by blast
  then show ?thesis by (intro exI [of _ s] exI [of _ m]) simp
qed

theorem establishment_registers_session_witness:
  "\<exists>s. NodeAssociations sim_c2 = [''smf'' \<mapsto> (NewNodeAssociation ''smf'' ''smf'')\<lparr>NextSessionID := LocalSEID s,
     Sessions := [LocalSEID s \<mapsto> s]\<rparr>]"
proof -
  let ?h = "HandlePfcpSessionEstablishmentRequest sim_upf_env (sim_establish 7) ''smf'' sim_c1"
  have h: "?h = (fst ?h, sim_c2)" by (simp add: sim_c2_def)
  show ?thesis
    using establishment_registers_session [OF sim_ranges_ok sim_reach(1) _ _ h sim_c2_accepted] by (auto simp: NewNodeAssociation_def)
qed

text \<open>
  C4. In a connection reached by orderly messages: an accepted deletion removes the session and nothing else from the associations, and
  the identifiers that become free are exactly those of the FARs, QERs and URRs of that
  session.
\<close>

theorem deletion_returns_identifiers:
  assumes "ranges_ok E" "conn_reach E (orderly E) c" and "NodeAssociations c addr = Some a" "Sessions a (sdq_SEID req) = Some s"
    and "HandlePfcpSessionDeletionRequest E req addr c = (r, c')" "accepted r"
  shows "NodeAssociations c' = (NodeAssociations c)(addr \<mapsto> a\<lparr>Sessions := (Sessions a)(sdq_SEID req := None)\<rparr>)
       \<and> far_free E (mapOperations c') = far_free E (mapOperations c) \<union> sfar_GlobalId ` ran (FARs s)
       \<and> qer_free E (mapOperations c') = qer_free E (mapOperations c) \<union> sqer_GlobalId ` ran (QERs s)
       \<and> urr_free E (mapOperations c') = urr_free E (mapOperations c) \<union> surr_GlobalId ` ran (URRs s)"
  using deletion_effect(2) [OF assms(1) conn_reach_ok [OF assms(2,1)] assms(3-5)] assms(6)
  by (auto simp: accepted_def)

theorem deletion_returns_identifiers_witness:
  "let c' = snd (HandlePfcpSessionDeletionRequest sim_upf_env \<lparr>sdq_Sequence = 9, sdq_SEID = 2\<rparr> ''smf'' sim_c2)
   in far_free sim_upf_env (mapOperations c') = {0, 1, 2, 3}"
proof -
  let ?q = "\<lparr>sdq_Sequence = 9, sdq_SEID = 2\<rparr>"
  let ?h = "HandlePfcpSessionDeletionRequest sim_upf_env ?q ''smf'' sim_c2"
  have acc: "accepted (fst ?h)" by (rule sim_deletion_accepted)
  have "far_free sim_upf_env (mapOperations (snd ?h)) =
      far_free sim_upf_env (mapOperations sim_c2) \<union> sfar_GlobalId ` ran (FARs (sim_session 2 7 0))"
    using deletion_returns_identifiers [OF sim_ranges_ok sim_reach(2), where req = ?q and addr = "''smf''" and r = "fst ?h"
        and c' = "snd ?h"] acc by (simp add: sim_assoc_def)
  then show ?thesis by (simp add: sim_state_defs tracker_free_def Let_def insert_commute)
qed

text \<open>
  C5. In a connection reached by orderly messages: establishing a session and deleting it again gives back every identifier: when the
  request names each rule once, the free sets of FARs, QERs and URRs are what they were.
\<close>

theorem establish_delete_roundtrip:
  assumes "ranges_ok E" "conn_reach E (orderly E) c" and "NodeAssociations c addr = Some a" "NextSessionID a \<noteq> - 1" "names_once E req"
    and "HandlePfcpSessionEstablishmentRequest E req addr c = (r, c')" "accepted r"
    and "HandlePfcpSessionDeletionRequest E \<lparr>sdq_Sequence = n, sdq_SEID = NextSessionID a + 1\<rparr> addr c' = (r', c'')" "accepted r'"
  shows "far_free E (mapOperations c'') = far_free E (mapOperations c)
       \<and> qer_free E (mapOperations c'') = qer_free E (mapOperations c)
       \<and> urr_free E (mapOperations c'') = urr_free E (mapOperations c)
       \<and> NodeAssociations c'' = (NodeAssociations c)(addr \<mapsto> a\<lparr>NextSessionID := NextSessionID a + 1\<rparr>)"
proof -
  note ok = conn_reach_ok [OF assms(2,1)]
  obtain s where s: "Sessions a (NextSessionID a + 1) = None"
     "NodeAssociations c' = (NodeAssociations c)(addr \<mapsto>
        a\<lparr>NextSessionID := NextSessionID a + 1, Sessions := (Sessions a)(NextSessionID a + 1 \<mapsto> s)\<rparr>)"
     "far_free E (mapOperations c') \<union> sfar_GlobalId ` ran (FARs s) = far_free E (mapOperations c)"
     "qer_free E (mapOperations c') \<union> sqer_GlobalId ` ran (QERs s) = qer_free E (mapOperations c)"
     "urr_free E (mapOperations c') \<union> surr_GlobalId ` ran (URRs s) = urr_free E (mapOperations c)"
    using establishment_accepted [OF ok assms(3,4,6,7)] assms(5) by blast
  have ok': "conn_ok E c'" using establish_ok [OF ok, of addr req] assms(3,4,6) by simp
  from deletion_effect(2) [OF assms(1) ok' _ _ assms(8)] assms(9) s show ?thesis
    by (auto simp: accepted_def fun_upd_idem)
qed

theorem establish_delete_roundtrip_witness:
  "let c'' = snd (HandlePfcpSessionDeletionRequest sim_upf_env \<lparr>sdq_Sequence = 9, sdq_SEID = 2\<rparr> ''smf'' sim_c2)
   in far_free sim_upf_env (mapOperations c'') = far_free sim_upf_env sim_loaded"
proof -
  let ?h = "HandlePfcpSessionEstablishmentRequest sim_upf_env (sim_establish 7) ''smf'' sim_c1"
  let ?d = "HandlePfcpSessionDeletionRequest sim_upf_env \<lparr>sdq_Sequence = 9, sdq_SEID = 2\<rparr> ''smf'' sim_c2"
  have h: "?h = (fst ?h, sim_c2)" by (simp add: sim_c2_def)
  have "names_once sim_upf_env (sim_establish 7)" by (simp add: names_once_def sim_establish_def)
  then show ?thesis
    using establish_delete_roundtrip [OF sim_ranges_ok sim_reach(1) _ _ _ h sim_c2_accepted, where n = 9 and a = "NewNodeAssociation ''smf'' ''smf''" and r' = "fst ?d" and c'' = "snd ?d"]
      sim_deletion_accepted [of 9] by (simp add: NewNodeAssociation_def Let_def)
qed

text \<open>
  C6. A modification that updates and removes only rules that the session has, in a connection that was reached by
  such modifications and any other messages, before an association used up its SEIDs (\<open>orderly\<close>), touches that
  session only: every FAR, QER and URR of another session is still held by it, is not
  free, and has in its table the parameters that it had. A modification of unknown rules before, of any session, may
  have freed an identifier in use, and is excluded.
\<close>

theorem modification_isolated:
  assumes "ranges_ok E" "conn_reach E (orderly E) c"
    and "NodeAssociations c addr = Some a" "Sessions a (smq_SEID req) = Some s" "known_rules E s req"
    and "HandlePfcpSessionModificationRequest E req addr c = (r, c')" and "(addr', seid') \<noteq> (addr, smq_SEID req)"
  shows "(\<forall>i g f. conn_rules session_fars c (addr', seid', i) = Some (g, f) \<longrightarrow>
             conn_rules session_fars c' (addr', seid', i) = Some (g, f) \<and> g \<notin> far_free E (mapOperations c') \<and>
             far_lookup E (mapOperations c') g = Some f)
       \<and> (\<forall>i g q. conn_rules session_qers c (addr', seid', i) = Some (g, q) \<longrightarrow>
             conn_rules session_qers c' (addr', seid', i) = Some (g, q) \<and> g \<notin> qer_free E (mapOperations c') \<and>
             qer_lookup E (mapOperations c') g = Some q)
       \<and> (\<forall>i g u. conn_rules session_urrs c (addr', seid', i) = Some (g, u) \<longrightarrow>
             conn_rules session_urrs c' (addr', seid', i) = Some (g, u) \<and> g \<notin> urr_free E (mapOperations c') \<and>
             urr_lookup E (mapOperations c') g = Some u)"
proof -
  have "conn_ok E (snd (HandlePfcpSessionModificationRequest E req addr c))"
    by (rule modification_ok [OF conn_reach_ok [OF assms(2,1)]]) (use assms(3-5) in simp)
  then have "conn_ok E c'" by (simp add: assms(6))
  note o = rules_okD(2,4,6) [OF conn_okD(1) [OF this]]
  have k: "conn_rules g c (addr', seid', i) = conn_rules g c' (addr', seid', i)" for g :: "Session \<Rightarrow> u32 \<rightharpoonup> 'x" and i
    by (rule modification_others [OF assms(6,7), symmetric])
  show ?thesis unfolding k by (intro conjI owns_at [OF o(1)] owns_at [OF o(2)] owns_at [OF o(3)])
qed

theorem modification_isolated_witness:
  "let req = \<lparr>smq_Sequence = 4, smq_SEID = 2, smq_CPFSEID = None, smq_CreatePDR = [], smq_CreateFAR = [], smq_CreateQER = [],
        smq_CreateURR = [], smq_UpdatePDR = [], smq_UpdateFAR = [], smq_UpdateQER = [sim_qer 1 50], smq_UpdateURR = [],
        smq_RemovePDR = [], smq_RemoveFAR = [sim_elem (T_other 1) 1], smq_RemoveQER = [], smq_RemoveURR = []\<rparr>;
       c' = snd (HandlePfcpSessionModificationRequest sim_upf_env req ''smf'' sim_c3)
   in far_lookup sim_upf_env (mapOperations c') 1 = Some sim_far \<and> qer_lookup sim_upf_env (mapOperations c') 1 = Some sim_qer_info"
proof -
  let ?req = "\<lparr>smq_Sequence = 4, smq_SEID = 2, smq_CPFSEID = None, smq_CreatePDR = [], smq_CreateFAR = [], smq_CreateQER = [],
        smq_CreateURR = [], smq_UpdatePDR = [], smq_UpdateFAR = [], smq_UpdateQER = [sim_qer 1 50], smq_UpdateURR = [],
        smq_RemovePDR = [], smq_RemoveFAR = [sim_elem (T_other 1) 1], smq_RemoveQER = [], smq_RemoveURR = []\<rparr>"
  let ?h = "HandlePfcpSessionModificationRequest sim_upf_env ?req ''smf'' sim_c3"
  have known: "known_rules sim_upf_env (sim_session 2 7 0) ?req"
    by (simp add: known_rules_def sim_session_def sim_qer_def sim_elem_def is_pdr_def or_zero_def)
  have s: "NodeAssociations sim_c3 ''smf'' = Some (sim_assoc 3 [2 \<mapsto> sim_session 2 7 0, 3 \<mapsto> sim_session 3 2 1])"
    "Sessions (sim_assoc 3 [2 \<mapsto> sim_session 2 7 0, 3 \<mapsto> sim_session 3 2 1]) (smq_SEID ?req) = Some (sim_session 2 7 0)"
    by (simp_all add: sim_assoc_def)
  have h: "?h = (fst ?h, snd ?h)" by simp
  have other: "(''smf'', 3 :: u64) \<noteq> (''smf'', smq_SEID ?req)" by simp
  from modification_isolated [OF sim_ranges_ok sim_reach(3) s known h other] sim_c3_rules show ?thesis
    unfolding Let_def by blast
qed

text \<open>
  C18. A request for a session that the UPF does not have, or from a node without an
  association, is answered with the cause that says so and changes the error counter only;
  an establishment without node identifier or F-SEID likewise.
\<close>

theorem rejected_requests:
  "(seq_NodeID req = None \<or> seq_CPFSEID req = None \<longrightarrow>
      HandlePfcpSessionEstablishmentRequest E req addr c =
        (Val (Some (NewSessionEstablishmentResponse 0 0 0 (seq_Sequence req) 0
            [newIeNodeID (nodeId c), NewCause CauseMandatoryIEMissing]), None),
         count_rx E MsgTypeSessionEstablishmentRequest CauseMandatoryIEMissing c))
 \<and> (validateRequest E (seq_NodeID req) (seq_CPFSEID req) = Val n \<and> NodeAssociations c addr = None \<longrightarrow>
      HandlePfcpSessionEstablishmentRequest E req addr c =
        (Val (Some (NewSessionEstablishmentResponse 0 0 0 (seq_Sequence req) 0
            [newIeNodeID (nodeId c), NewCause CauseNoEstablishedPFCPAssociation]), None),
         count_rx E MsgTypeSessionEstablishmentRequest CauseNoEstablishedPFCPAssociation c))
 \<and> (NodeAssociations c addr = None \<longrightarrow>
      HandlePfcpSessionModificationRequest E mreq addr c =
        (Val (Some (NewSessionModificationResponse 0 0 (smq_SEID mreq) (smq_Sequence mreq) 0
            [NewCause CauseNoEstablishedPFCPAssociation]), None),
         count_rx E MsgTypeSessionModificationRequest CauseNoEstablishedPFCPAssociation c)
    \<and> HandlePfcpSessionDeletionRequest E dreq addr c =
        (Val (Some (NewSessionDeletionResponse 0 0 0 (sdq_Sequence dreq) 0
            [NewCause CauseNoEstablishedPFCPAssociation]), None),
         count_rx E MsgTypeSessionDeletionRequest CauseNoEstablishedPFCPAssociation c))
 \<and> (NodeAssociations c addr = Some a \<and> Sessions a (smq_SEID mreq) = None \<and> Sessions a (sdq_SEID dreq) = None \<longrightarrow>
      HandlePfcpSessionModificationRequest E mreq addr c =
        (Val (Some (NewSessionModificationResponse 0 0 0 (smq_Sequence mreq) 0 [NewCause CauseSessionContextNotFound]), None),
         count_rx E MsgTypeSessionModificationRequest CauseSessionContextNotFound c)
    \<and> HandlePfcpSessionDeletionRequest E dreq addr c =
        (Val (Some (NewSessionDeletionResponse 0 0 0 (sdq_Sequence dreq) 0 [NewCause CauseSessionContextNotFound]), None),
         count_rx E MsgTypeSessionDeletionRequest CauseSessionContextNotFound c))"
proof -
  have "validateRequest E (seq_NodeID req) (seq_CPFSEID req) = Err ErrMandatoryIeMissing"
    if "seq_NodeID req = None \<or> seq_CPFSEID req = None"
    using that by (auto simp: validateRequest_def split: option.split)
  then show ?thesis
    by (simp add: HandlePfcpSessionEstablishmentRequest_def HandlePfcpSessionModificationRequest_def
        HandlePfcpSessionDeletionRequest_def convertErrorToIeCause_def Let_def)
qed

theorem rejected_requests_witness:
  "HandlePfcpSessionDeletionRequest sim_upf_env \<lparr>sdq_Sequence = 9, sdq_SEID = 5\<rparr> ''smf'' sim_c2 =
     (Val (Some (NewSessionDeletionResponse 0 0 0 9 0 [NewCause CauseSessionContextNotFound]), None),
      count_rx sim_upf_env MsgTypeSessionDeletionRequest CauseSessionContextNotFound sim_c2)"
proof -
  define mreq :: "sim_ie SessionModificationRequest" where "mreq = \<lparr>smq_Sequence = 4, smq_SEID = 5, smq_CPFSEID = None,
    smq_CreatePDR = [], smq_CreateFAR = [], smq_CreateQER = [], smq_CreateURR = [], smq_UpdatePDR = [], smq_UpdateFAR = [],
    smq_UpdateQER = [], smq_UpdateURR = [], smq_RemovePDR = [], smq_RemoveFAR = [], smq_RemoveQER = [], smq_RemoveURR = []\<rparr>"
  show ?thesis
    using rejected_requests [where E = sim_upf_env and mreq = mreq and dreq = "\<lparr>sdq_Sequence = 9, sdq_SEID = 5\<rparr>" and addr = "''smf''"
        and c = sim_c2 and a = "sim_assoc 2 [2 \<mapsto> sim_session 2 7 0]"] by (simp add: sim_assoc_def mreq_def)
qed

text \<open>
  C19. The deletion of an association, which an expired heartbeat starts, ends, removes the
  association and returns the FAR and QER identifiers of all its sessions. It returns none
  of their URR identifiers.
\<close>

theorem DeleteAssociation_effect:
  assumes "ranges_ok E" "conn_reach E (orderly E) c" and "NodeAssociations c addr = Some a"
    and "conn_ResourceManager c = Some rm" "rm_FTEIDM rm \<noteq> None"
  shows "\<exists>c'. DeleteAssociation E addr c = (Val (), c')
    \<and> NodeAssociations c' = (NodeAssociations c)(addr := None)
    \<and> far_free E (mapOperations c') = far_free E (mapOperations c) \<union> (\<Union>s \<in> ran (Sessions a). sfar_GlobalId ` ran (FARs s))
    \<and> qer_free E (mapOperations c') = qer_free E (mapOperations c) \<union> (\<Union>s \<in> ran (Sessions a). sqer_GlobalId ` ran (QERs s))
    \<and> urr_free E (mapOperations c') = urr_free E (mapOperations c)"
proof -
  obtain r c' where d: "DeleteAssociation E addr c = (r, c')" by fastforce
  note e = deleteAssociation_effect(2,3) [OF assms(1) conn_reach_ok [OF assms(2,1)] assms(3) d]
  from assms(4,5) have "has_pool (conn_ResourceManager c)" by (simp add: has_pool_def)
  with e(2) have r: "r = Val ()" by blast
  show ?thesis using e(1) [OF r] d r by (intro exI [of _ c']) simp
qed

theorem DeleteAssociation_effect_witness:
  "\<exists>c'. DeleteAssociation sim_upf_env ''smf'' sim_c2 = (Val (), c') \<and> NodeAssociations c' = Map.empty \<and>
     far_free sim_upf_env (mapOperations c') = {0, 1, 2, 3} \<and> urr_free sim_upf_env (mapOperations c') = {1, 2, 3}"
  using DeleteAssociation_effect [OF sim_ranges_ok sim_reach(2), where addr = "''smf''" and rm = sim_rm
      and a = "sim_assoc 2 [2 \<mapsto> sim_session 2 7 0]"]
  by (simp add: sim_state_defs sim_rm_def tracker_free_def insert_commute) blast

text \<open>
  C27. An update of a FAR that the session does not have is not refused: the entry of global
  identifier 0 gets the new parameters, whichever session that identifier belongs to.
\<close>

theorem update_unknown_far_hits_id_0:
  assumes "far_ok E (rc_mapOperations h)" "0 < maxSize (farIdTracker (rc_mapOperations h))"
    and "ie_FARID E far = Some i" "FARs (pc_Session h) i = None" "composeFarInfo E far zero_FarInfo = Val f"
  shows "\<exists>h'. update_far E far h = (Val (), h') \<and> far_lookup E (rc_mapOperations h') 0 = Some f"
proof -
  have z: "Session_GetFar i (pc_Session h) = zero_SFarInfo" using assms(4) by (simp add: Session_GetFar_def map_get_def)
  obtain b where "UpdateFar E 0 f (rc_mapOperations h) = (Val (), b)" "far_lookup E b = (far_lookup E (rc_mapOperations h))(0 \<mapsto> f)"
    using far.update_ok [OF assms(1,2), of f] by blast
  with assms(3,5) z show ?thesis
    by (simp add: update_far_def lift_res_def or_err_def on_session_def on_tables_def bind_op_def Let_def zero_SFarInfo_def)
qed

theorem update_unknown_far_hits_id_0_witness:
  "conn_rules session_fars sim_c3 (''smf'', 2, 1) = Some (0, sim_far) \<and>
   (\<exists>h'. update_far sim_upf_env (sim_elem T_CreateFAR 8) (handler_ctx (sim_session 3 2 1) sim_c3) = (Val (), h') \<and>
      far_lookup sim_upf_env (rc_mapOperations h') 0 = Some sim_far)"
proof -
  let ?h = "handler_ctx (sim_session 3 2 1) sim_c3"
  have "far_ok sim_upf_env (mapOperations sim_c3)"
    using rules_okD(1) [OF conn_okD(1) [OF conn_reach_ok [OF sim_reach(3) sim_ranges_ok]]] .
  then have ok: "far_ok sim_upf_env (rc_mapOperations ?h)" by simp
  have far: "composeFarInfo sim_upf_env (sim_elem T_CreateFAR 8) zero_FarInfo = Val sim_far"
    by (simp add: composeFarInfo_def sim_elem_def index_slice_def composeFar_header_def findIEindex_def
        GetTransportLevelMarking_def sim_far_def zero_FarInfo_def)
  show ?thesis
    using update_unknown_far_hits_id_0 [OF ok _ _ _ far] sim_c3_rules(1)
    by (simp add: sim_tables_def sim_session_def sim_elem_def is_pdr_def)
qed

text \<open>
  C28. TEIDs are allocated under the SEID of the control plane but released, at the end of an
  accepted deletion, under the local SEID: the TEIDs of a session whose remote SEID is
  equal to the local SEID of the deleted one become free although that session lives on.
\<close>

theorem deletion_releases_foreign_teids:
  assumes "rangeTEIDs_ok E" and "NodeAssociations c addr = Some a" "Sessions a (sdq_SEID req) = Some s"
    and "RemoteSEID s \<noteq> sdq_SEID req"
    and "conn_ResourceManager c = Some rm" "rm_FTEIDM rm = Some f" "fteid_finite f" "busyTEID f (sdq_SEID req) p = Some t"
    and "HandlePfcpSessionDeletionRequest E req addr c = (r, c')" "accepted r"
  shows "\<exists>rm' f'. conn_ResourceManager c' = Some rm' \<and> rm_FTEIDM rm' = Some f' \<and> t \<in> set (freeTEIDs f') \<and>
     busyTEID f' (sdq_SEID req) p = None"
  by (rule deletion_releases_by_local_seid [OF assms])

theorem deletion_releases_foreign_teids_witness:
  "let f = \<lparr>freeTEIDs = [2, 3], busyTEIDs = Some [2 \<mapsto> [1 \<mapsto> 1]]\<rparr>;
       c = sim_c2\<lparr>conn_ResourceManager := Some \<lparr>rm_IPAM = None, rm_FTEIDM = Some f\<rparr>\<rparr>;
       c' = snd (HandlePfcpSessionDeletionRequest sim_upf_env \<lparr>sdq_Sequence = 9, sdq_SEID = 2\<rparr> ''smf'' c)
   in \<exists>rm' f'. conn_ResourceManager c' = Some rm' \<and> rm_FTEIDM rm' = Some f' \<and> 1 \<in> set (freeTEIDs f')"
proof -
  let ?f = "\<lparr>freeTEIDs = [2, 3], busyTEIDs = Some [2 \<mapsto> [1 \<mapsto> 1]]\<rparr> :: FTEIDM"
  let ?c = "sim_c2\<lparr>conn_ResourceManager := Some \<lparr>rm_IPAM = None, rm_FTEIDM = Some ?f\<rparr>\<rparr>"
  let ?q = "\<lparr>sdq_Sequence = 9, sdq_SEID = 2\<rparr>"
  let ?h = "HandlePfcpSessionDeletionRequest sim_upf_env ?q ''smf'' ?c"
  have acc: "accepted (fst ?h)"
    unfolding HandlePfcpSessionDeletionRequest_def accepted_def
    by (simp add: sim_delete_eval sim_handler_eval sim_state_defs sim_eval Let_def)
  have fin: "fteid_finite ?f" "busyTEID ?f 2 1 = Some 1" by (auto simp: fteid_finite_def busyTEID_def)
  have s: "Sessions (sim_assoc 2 [2 \<mapsto> sim_session 2 7 0]) (sdq_SEID ?q) = Some (sim_session 2 7 0)"
    "RemoteSEID (sim_session 2 7 0) \<noteq> sdq_SEID ?q" by (simp_all add: sim_assoc_def sim_session_def)
  have "\<exists>rm' f'. conn_ResourceManager (snd ?h) = Some rm' \<and> rm_FTEIDM rm' = Some f' \<and> 1 \<in> set (freeTEIDs f') \<and>
     busyTEID f' (sdq_SEID ?q) 1 = None"
    by (rule deletion_releases_foreign_teids [OF sim_upf_env_ok(2) _ s _ _ fin(1) _ _ acc, where rm = "\<lparr>rm_IPAM = None, rm_FTEIDM = Some ?f\<rparr>"])
       (simp_all add: fin(2))
  then show ?thesis unfolding Let_def by blast
qed

end
